(* ===== verification/Prelude.thy ===== *)
theory Prelude
  imports Main "HOL-Library.AList"
begin

text \<open>
  Shared vocabulary of the development: the collections of simplification rules the component
  theories fill, the result type of an operation that may throw, association lists as the file
  tree keeps them (an update keeps the position of an existing entry and appends a new one), and
  a stable sort by a comparison function, as \<open>Array.prototype.sort\<close> performs it.
\<close>

named_theorems store_simps \<open>field equations of the store operations\<close>
named_theorems fault_simps \<open>when a check reports a fault\<close>

section \<open>Results\<close>

text \<open>An operation on a state \<open>'s\<close> that returns \<open>'a\<close> or throws \<open>'e\<close>; what was written before
  the throw stays written, so the state is returned on both branches.\<close>

type_synonym ('e, 'a, 's) outcome = "('e + 'a) \<times> 's"

definition is_ok :: "'e + 'a \<Rightarrow> bool" where
  "is_ok r = (case r of Inl _ \<Rightarrow> False | Inr _ \<Rightarrow> True)"

lemma is_ok_simps [simp]: "is_ok (Inr x)" "\<not> is_ok (Inl e)"
  by (simp_all add: is_ok_def)

lemma is_ok_iff: "is_ok r \<longleftrightarrow> (\<exists>x. r = Inr x)"
  by (cases r) simp_all

definition bind_res :: "'e + 'a \<Rightarrow> ('a \<Rightarrow> 'e + 'b) \<Rightarrow> 'e + 'b" where
  "bind_res r f = (case r of Inl e \<Rightarrow> Inl e | Inr x \<Rightarrow> f x)"

lemma bind_res_simps [simp]: "bind_res (Inl e) f = Inl e" "bind_res (Inr x) f = f x"
  by (simp_all add: bind_res_def)

lemma bind_res_Inr_iff: "bind_res r f = Inr y \<longleftrightarrow> (\<exists>x. r = Inr x \<and> f x = Inr y)"
  by (cases r) simp_all

text \<open>\<open>xs.map(f)\<close> where \<open>f\<close> may throw: the first throw ends the walk.\<close>

fun map_res :: "('a \<Rightarrow> 'e + 'b) \<Rightarrow> 'a list \<Rightarrow> 'e + 'b list" where
  "map_res f [] = Inr []"
| "map_res f (x # xs) =
     (case f x of Inl e \<Rightarrow> Inl e
      | Inr y \<Rightarrow> (case map_res f xs of Inl e \<Rightarrow> Inl e | Inr ys \<Rightarrow> Inr (y # ys)))"

lemma map_res_all_ok:
  "(\<And>x. x \<in> set xs \<Longrightarrow> f x = Inr (g x)) \<Longrightarrow> map_res f xs = Inr (map g xs)"
  by (induction xs) auto

lemma map_res_Inr_set:
  "map_res f xs = Inr ys \<Longrightarrow> y \<in> set ys \<Longrightarrow> \<exists>x\<in>set xs. f x = Inr y"
  by (induction xs arbitrary: ys) (auto split: sum.splits)

lemma map_res_cong [fundef_cong]:
  "xs = ys \<Longrightarrow> (\<And>x. x \<in> set ys \<Longrightarrow> f x = g x) \<Longrightarrow> map_res f xs = map_res g ys"
  by (induction ys arbitrary: xs) (auto split: sum.splits)

text \<open>A loop over a list whose body is an operation: state and result thread through it.\<close>

fun fold_op :: "('a \<Rightarrow> 's \<Rightarrow> ('e, unit, 's) outcome) \<Rightarrow> 'a list \<Rightarrow> 's \<Rightarrow> ('e, unit, 's) outcome" where
  "fold_op f [] s = (Inr (), s)"
| "fold_op f (x # xs) s =
     (case f x s of (Inl e, s') \<Rightarrow> (Inl e, s') | (Inr _, s') \<Rightarrow> fold_op f xs s')"

lemma fold_op_preserves:
  assumes "\<And>x s. x \<in> set xs \<Longrightarrow> P s \<Longrightarrow> P (snd (f x s))" and "P s"
  shows "P (snd (fold_op f xs s))"
  using assms
proof (induction xs arbitrary: s)
  case (Cons x xs)
  obtain r s' where fx: "f x s = (r, s')" by (cases "f x s")
  with Cons.prems(1) [of x s] Cons.prems(2) have "P s'" by simp
  with Cons.IH [of s'] Cons.prems(1) fx show ?case
    by (cases r) auto
qed simp

section \<open>Association lists\<close>

abbreviation has :: "('k \<times> 'v) list \<Rightarrow> 'k \<Rightarrow> bool" where
  "has al k \<equiv> map_of al k \<noteq> None"

abbreviation keys :: "('k \<times> 'v) list \<Rightarrow> 'k list" where
  "keys al \<equiv> map fst al"

lemma map_of_update [simp]: "map_of (AList.update k v al) = (map_of al)(k \<mapsto> v)"
  by (rule update_conv')

lemma has_iff_keys: "has al k \<longleftrightarrow> k \<in> set (keys al)"
  by (simp add: map_of_eq_None_iff)

lemma keys_update: "keys (AList.update k v al) = (if k \<in> set (keys al) then keys al else keys al @ [k])"
  by (induction al) auto

lemma update_same: "map_of al k = Some v \<Longrightarrow> AList.update k v al = al"
  by (induction al) (auto split: if_splits)

lemma distinct_keys_update: "distinct (keys al) \<Longrightarrow> distinct (keys (AList.update k v al))"
  by (simp add: keys_update)

lemma set_update_distinct:
  "distinct (keys al) \<Longrightarrow> set (AList.update k v al) = {kv \<in> set al. fst kv \<noteq> k} \<union> {(k, v)}"
  by (induction al) (auto simp: image_iff)

lemma map_of_distinct_in: "distinct (keys al) \<Longrightarrow> (k, v) \<in> set al \<longleftrightarrow> map_of al k = Some v"
  by (simp add: map_of_eq_Some_iff)

section \<open>Stable sort by a comparison function\<close>

fun insert_cmp :: "('a \<Rightarrow> 'a \<Rightarrow> int) \<Rightarrow> 'a \<Rightarrow> 'a list \<Rightarrow> 'a list" where
  "insert_cmp c x [] = [x]"
| "insert_cmp c x (y # ys) = (if c x y \<le> 0 then x # y # ys else y # insert_cmp c x ys)"

fun sort_cmp :: "('a \<Rightarrow> 'a \<Rightarrow> int) \<Rightarrow> 'a list \<Rightarrow> 'a list" where
  "sort_cmp c [] = []"
| "sort_cmp c (x # xs) = insert_cmp c x (sort_cmp c xs)"

lemma set_insert_cmp [simp]: "set (insert_cmp c x xs) = insert x (set xs)"
  by (induction xs) auto

lemma set_sort_cmp [simp]: "set (sort_cmp c xs) = set xs"
  by (induction xs) auto

lemma length_insert_cmp [simp]: "length (insert_cmp c x xs) = Suc (length xs)"
  by (induction xs) auto

lemma length_sort_cmp [simp]: "length (sort_cmp c xs) = length xs"
  by (induction xs) auto

lemma sort_cmp_Nil_iff [simp]: "sort_cmp c xs = [] \<longleftrightarrow> xs = []"
  using length_sort_cmp [of c xs] by fastforce

lemma distinct_insert_cmp [simp]: "distinct (insert_cmp c x xs) \<longleftrightarrow> x \<notin> set xs \<and> distinct xs"
  by (induction xs) auto

lemma distinct_sort_cmp [simp]: "distinct (sort_cmp c xs) = distinct xs"
  by (induction xs) auto

section \<open>Lists\<close>

lemma concat_map_Nil_iff: "concat (map f xs) = [] \<longleftrightarrow> (\<forall>x\<in>set xs. f x = [])"
  by (induction xs) auto

lemma find_Some_set: "find P xs = Some x \<Longrightarrow> x \<in> set xs \<and> P x"
  by (induction xs) (auto split: if_splits)

end
