(* ===== verification/Js.thy ===== *)
theory Js
  imports Prelude
begin

text \<open>
  The part of the JavaScript language and its standard library the components use.

  A JavaScript string is held as the bytes of its UTF-8 encoding (a \<open>string\<close> of HOL, so
  \<open>Buffer.from(s, 'utf8')\<close> is the list itself); what the language counts and compares, UTF-16 code
  units, is \<open>utf16\<close>. Lone surrogates, which have no UTF-8 form, are outside the model.
  A JSON value is a \<open>json\<close>: objects are lists of named members in insertion order, integers and
  fractional numbers (\<open>JFloat n d\<close> is the non-integer \<open>n / d\<close>) are two constructors because the code tells them apart by
  \<open>Number.isInteger\<close>.
\<close>

section \<open>Strings\<close>

abbreviation byte_of :: "char \<Rightarrow> nat" where
  "byte_of c \<equiv> of_char c"

function utf16 :: "string \<Rightarrow> nat list" where
  "utf16 [] = []"
| "utf16 (b # bs) =
     (let n = byte_of b; u = (\<lambda>i. byte_of (bs ! i) mod 64) in
      if n < 128 then n # utf16 bs
      else if n < 224 then
        (if length bs < 1 then [65533] else (n mod 32 * 64 + u 0) # utf16 (drop 1 bs))
      else if n < 240 then
        (if length bs < 2 then [65533]
         else (n mod 16 * 4096 + u 0 * 64 + u 1) # utf16 (drop 2 bs))
      else
        (if length bs < 3 then [65533]
         else (let cp = n mod 8 * 262144 + u 0 * 4096 + u 1 * 64 + u 2 - 65536
               in (55296 + cp div 1024) # (56320 + cp mod 1024) # utf16 (drop 3 bs))))"
  by pat_completeness auto
termination
  by (relation "measure length") auto

declare utf16.simps(2) [simp del]

definition ascii :: "string \<Rightarrow> bool" where
  "ascii s \<longleftrightarrow> list_all (\<lambda>c. byte_of c < 128) s"

lemma ascii_simps [simp]:
  "ascii []" "ascii (c # s) \<longleftrightarrow> byte_of c < 128 \<and> ascii s"
  "ascii (s @ t) \<longleftrightarrow> ascii s \<and> ascii t"
  by (simp_all add: ascii_def)

lemma utf16_ascii_step: "byte_of c < 128 \<Longrightarrow> utf16 (c # s) = byte_of c # utf16 s"
  by (simp add: utf16.simps(2))

lemma utf16_ascii: "ascii s \<Longrightarrow> utf16 s = map byte_of s"
  by (induction s) (simp_all add: utf16_ascii_step)

text \<open>\<open>s.length\<close>, \<open>s <= t\<close>, \<open>s.startsWith(t)\<close>, \<open>s.endsWith(t)\<close>, \<open>s.js_includes(t)\<close>.\<close>

definition js_length :: "string \<Rightarrow> nat" where
  "js_length s = length (utf16 s)"

lemma js_length_ascii [simp]: "ascii s \<Longrightarrow> js_length s = length s"
  by (simp add: js_length_def utf16_ascii)

fun units_le :: "nat list \<Rightarrow> nat list \<Rightarrow> bool" where
  "units_le [] ys = True"
| "units_le (x # xs) [] = False"
| "units_le (x # xs) (y # ys) = (x < y \<or> x = y \<and> units_le xs ys)"

definition js_le :: "string \<Rightarrow> string \<Rightarrow> bool" where
  "js_le s t = units_le (utf16 s) (utf16 t)"

lemma units_le_refl [simp]: "units_le xs xs"
  by (induction xs) auto

lemma units_le_trans: "units_le xs ys \<Longrightarrow> units_le ys zs \<Longrightarrow> units_le xs zs"
proof (induction xs ys arbitrary: zs rule: units_le.induct)
  case (3 x xs y ys)
  then show ?case by (cases zs) auto
qed auto

lemma units_le_linear: "units_le xs ys \<or> units_le ys xs"
  by (induction xs ys rule: units_le.induct) auto

lemma units_le_antisym: "units_le xs ys \<Longrightarrow> units_le ys xs \<Longrightarrow> xs = ys"
proof (induction xs ys rule: units_le.induct)
  case (1 ys)
  then show ?case by (cases ys) auto
qed auto

lemma js_le_refl [simp]: "js_le s s"
  by (simp add: js_le_def)

lemma js_le_trans: "js_le s t \<Longrightarrow> js_le t u \<Longrightarrow> js_le s u"
  unfolding js_le_def by (rule units_le_trans)

lemma js_le_linear: "js_le s t \<or> js_le t s"
  unfolding js_le_def by (rule units_le_linear)

fun starts_with :: "'a list \<Rightarrow> 'a list \<Rightarrow> bool" where
  "starts_with [] s = True"
| "starts_with (c # p) [] = False"
| "starts_with (c # p) (d # s) = (c = d \<and> starts_with p s)"

lemma starts_with_iff: "starts_with p s \<longleftrightarrow> (\<exists>t. s = p @ t)"
  by (induction p s rule: starts_with.induct) auto

definition ends_with :: "'a list \<Rightarrow> 'a list \<Rightarrow> bool" where
  "ends_with p s = starts_with (rev p) (rev s)"

lemma ends_with_iff: "ends_with p s \<longleftrightarrow> (\<exists>t. s = t @ p)"
proof
  assume "ends_with p s"
  then obtain t where "rev s = rev p @ t"
    by (auto simp: ends_with_def starts_with_iff)
  then have "s = rev t @ p" by (metis rev_append rev_rev_ident)
  then show "\<exists>t. s = t @ p" ..
qed (auto simp: ends_with_def starts_with_iff)

fun js_includes :: "'a list \<Rightarrow> 'a list \<Rightarrow> bool" where
  "js_includes p [] = (p = [])"
| "js_includes p (c # s) = (starts_with p (c # s) \<or> js_includes p s)"

lemma includes_iff: "js_includes p s \<longleftrightarrow> (\<exists>a b. s = a @ p @ b)"
proof (induction s)
  case Nil
  then show ?case by auto
next
  case (Cons c s)
  show ?case
  proof
    assume "js_includes p (c # s)"
    then show "\<exists>a b. c # s = a @ p @ b"
      using Cons by (fastforce simp: starts_with_iff intro: exI [of _ "[]"] exI [of _ "c # _"])
  next
    assume "\<exists>a b. c # s = a @ p @ b"
    then obtain a b where *: "c # s = a @ p @ b" by blast
    show "js_includes p (c # s)"
    proof (cases a)
      case Nil
      with * have "starts_with p (c # s)" by (auto simp: starts_with_iff)
      then show ?thesis by simp
    next
      case (Cons d a')
      with * have "s = a' @ p @ b" by simp
      with Cons.IH show ?thesis by auto
    qed
  qed
qed

text \<open>\<open>s.trim()\<close>, on code units: the white space and line terminators of the language.\<close>

definition js_space :: "nat \<Rightarrow> bool" where
  "js_space u \<longleftrightarrow> (9 \<le> u \<and> u \<le> 13) \<or> u = 32 \<or> u = 160 \<or> u = 5760 \<or> (8192 \<le> u \<and> u \<le> 8202)
     \<or> u = 8232 \<or> u = 8233 \<or> u = 8239 \<or> u = 8287 \<or> u = 12288 \<or> u = 65279"

definition trim_units :: "string \<Rightarrow> nat list" where
  "trim_units s = rev (dropWhile js_space (rev (dropWhile js_space (utf16 s))))"

section \<open>Numbers as text\<close>

definition digit_char :: "nat \<Rightarrow> char" where
  "digit_char d = char_of (48 + d)"

fun show_nat :: "nat \<Rightarrow> string" where
  "show_nat n = (if n < 10 then [digit_char n] else show_nat (n div 10) @ [digit_char (n mod 10)])"

declare show_nat.simps [simp del]

definition show_int :: "int \<Rightarrow> string" where
  "show_int i = (if i < 0 then CHR ''-'' # show_nat (nat (- i)) else show_nat (nat i))"

fun read_nat :: "string \<Rightarrow> nat \<Rightarrow> nat" where
  "read_nat [] acc = acc"
| "read_nat (c # s) acc = read_nat s (10 * acc + (byte_of c - 48))"

lemma read_nat_append: "read_nat (s @ t) acc = read_nat t (read_nat s acc)"
  by (induction s arbitrary: acc) auto

lemma byte_of_digit [simp]: "d < 10 \<Longrightarrow> byte_of (digit_char d) = 48 + d"
  by (simp add: digit_char_def)

lemma read_show_nat [simp]: "read_nat (show_nat n) 0 = n"
proof (induction n rule: show_nat.induct)
  case (1 n)
  then show ?case
    by (subst show_nat.simps) (auto simp: read_nat_append)
qed

lemma show_nat_inject [simp]: "show_nat m = show_nat n \<longleftrightarrow> m = n"
  by (metis read_show_nat)

lemma show_nat_digits: "c \<in> set (show_nat n) \<Longrightarrow> 48 \<le> byte_of c \<and> byte_of c < 58"
proof (induction n rule: show_nat.induct)
  case (1 n)
  then show ?case
    by (subst (asm) (2) show_nat.simps) (auto split: if_splits)
qed

lemma show_nat_not_Nil [simp]: "show_nat n \<noteq> []"
  by (subst show_nat.simps) simp

lemma show_int_not_Nil [simp]: "show_int i \<noteq> []"
  by (simp add: show_int_def)

lemma show_nat_no_minus: "CHR ''-'' \<notin> set (show_nat n)"
proof
  assume "CHR ''-'' \<in> set (show_nat n)"
  then have "48 \<le> byte_of (CHR ''-'')" by (blast dest: show_nat_digits)
  then show False by simp
qed

lemma show_int_inject [simp]: "show_int i = show_int j \<longleftrightarrow> i = j"
proof
  assume *: "show_int i = show_int j"
  have neq: "CHR ''-'' # s \<noteq> show_nat n" for s n
    using show_nat_no_minus [of n] by (metis list.set_intros(1))
  from * show "i = j"
    by (auto simp: show_int_def neq neq [symmetric] split: if_splits)
qed simp

section \<open>JSON values\<close>

datatype json =
    JNull
  | JBool bool
  | JInt int
  | JFloat int nat
  | JStr string
  | JArr "json list"
  | JObj "(string \<times> json) list"

type_synonym members = "(string \<times> json) list"

text \<open>\<open>{ ...o, ...p }\<close> on members: a repeated name keeps its place and takes the later value.\<close>

definition spread :: "members \<Rightarrow> members \<Rightarrow> members" where
  "spread o1 o2 = fold (\<lambda>(k, v). AList.update k v) o2 o1"

lemma spread_Nil [simp]: "spread o1 [] = o1"
  by (simp add: spread_def)

lemma spread_Cons [simp]: "spread o1 ((k, v) # o2) = spread (AList.update k v o1) o2"
  by (simp add: spread_def)

lemma map_of_spread: "distinct (keys o2) \<Longrightarrow> map_of (spread o1 o2) = map_of o1 ++ map_of o2"
proof (induction o2 arbitrary: o1)
  case (Cons kv o2)
  obtain k v where kv: "kv = (k, v)" by (cases kv)
  with Cons have "k \<notin> dom (map_of o2)"
    by (auto simp: dom_map_of_conv_image_fst)
  with Cons kv show ?case
    by (auto simp: map_add_def fun_eq_iff split: option.splits)
qed simp

lemma distinct_keys_spread: "distinct (keys o1) \<Longrightarrow> distinct (keys (spread o1 o2))"
  by (induction o2 arbitrary: o1) (auto simp: distinct_keys_update)

text \<open>Truthiness of a value that may be undefined.\<close>

fun truthy :: "json option \<Rightarrow> bool" where
  "truthy None = False"
| "truthy (Some JNull) = False"
| "truthy (Some (JBool b)) = b"
| "truthy (Some (JInt i)) = (i \<noteq> 0)"
| "truthy (Some (JFloat n d)) = (n \<noteq> 0)"
| "truthy (Some (JStr s)) = (s \<noteq> [])"
| "truthy (Some (JArr _)) = True"
| "truthy (Some (JObj _)) = True"

section \<open>Text lists\<close>

text \<open>\<open>xs.join(sep)\<close>.\<close>

fun join :: "string \<Rightarrow> string list \<Rightarrow> string" where
  "join sep [] = []"
| "join sep [x] = x"
| "join sep (x # y # ys) = x @ sep @ join sep (y # ys)"

text \<open>A digest is 64 lower-case hexadecimal digits.\<close>

definition hex_lower :: "char \<Rightarrow> bool" where
  "hex_lower c \<longleftrightarrow> (48 \<le> byte_of c \<and> byte_of c \<le> 57) \<or> (97 \<le> byte_of c \<and> byte_of c \<le> 102)"

definition digests :: "(string \<Rightarrow> string) \<Rightarrow> bool" where
  "digests h \<longleftrightarrow> (\<forall>s. length (h s) = 64 \<and> list_all hex_lower (h s))"

end
