(* ===== verification/Faults.thy ===== *)
theory Faults
  imports Js
begin

text \<open>
  The fault shape every command reports (\<open>stream/faults.ts\<close>, \<open>lib/faults.ts\<close>) and the ways an
  operation of the program can throw. A fault is kept by its code and its subject; its
  \<open>problem\<close> and its \<open>fix\<close> are prose for a person, which nothing in the program branches on, and
  are given by the platform where the program writes them down. The platform is also what the
  components take from outside the language.
\<close>

datatype fault = Fault (code: string) (subject: string)

datatype exn =
    Stream_Fault "fault list"        \<comment> \<open>\<open>StreamFault\<close>, \<open>stream/store.ts\<close>\<close>
  | Runtime_Fault int "fault list"   \<comment> \<open>\<open>RuntimeFault\<close> with its exit code, \<open>runtime/faults.ts\<close>\<close>
  | Program_Fault fault              \<comment> \<open>\<open>ProgramFault\<close>, \<open>harness/program\<close>\<close>
  | Tool_Fault "fault list"          \<comment> \<open>\<open>ToolFault\<close>, \<open>tools/lib/fault.ts\<close>\<close>
  | Type_Error                       \<comment> \<open>a property read of null or undefined\<close>
  | Io_Error                         \<comment> \<open>a file that is not there\<close>
  | Error string                     \<comment> \<open>any other \<open>Error\<close>, by its message or name\<close>

definition codes :: "fault list \<Rightarrow> string list" where
  "codes fs = map code fs"

lemma codes_simps [simp]:
  "codes [] = []" "codes (f # fs) = code f # codes fs" "codes (fs @ gs) = codes fs @ codes gs"
  "codes fs = [] \<longleftrightarrow> fs = []"
  by (simp_all add: codes_def)

section \<open>The platform\<close>

text \<open>The hash function of \<open>node:crypto\<close>, \<open>Date.parse\<close> (whose accepted formats the language leaves
  to the implementation; \<open>None\<close> is NaN), \<open>Date.prototype.toISOString\<close>, locale collation, the
  text of a number that is no integer, and the prose of a fault.\<close>

record platform =
  sha256_hex :: "string \<Rightarrow> string"
  date_parse :: "string \<Rightarrow> int option"
  to_iso :: "int \<Rightarrow> string"
  locale_compare :: "string \<Rightarrow> string \<Rightarrow> int"
  number_text :: "int \<Rightarrow> nat \<Rightarrow> string"
  problem_text :: "fault \<Rightarrow> string"
  fix_text :: "fault \<Rightarrow> string"

definition fault_json :: "platform \<Rightarrow> fault \<Rightarrow> json" where
  "fault_json p f = JObj
     [(''code'', JStr (code f)), (''subject'', JStr (subject f)),
      (''problem'', JStr (problem_text p f)), (''fix'', JStr (fix_text p f))]"

end
