(* ===== verification/Encode.thy ===== *)
theory Encode
  imports Faults
begin

text \<open>
  Path derivation (\<open>stream/encode.ts\<close>). An identifier is chosen by whoever sent the message, so it
  is refused when it is shaped like an escape (\<open>component_faults\<close>) and encoded byte by byte
  otherwise (\<open>encode_component\<close>). The lemmas: the encoding uses only letters, digits, \<open>_\<close>, \<open>-\<close> and
  \<open>~\<close>; it is at most 200 bytes; \<open>decode_component\<close> inverts it wherever it did not hash; two
  identifiers with one encoding are equal unless both were hashed; and a path resolved under the
  store stays under it.
\<close>

section \<open>Refusal\<close>

definition max_encoded :: nat where "max_encoded = 200"
definition max_raw :: nat where "max_raw = 1024"

definition is_safe_byte :: "nat \<Rightarrow> bool" where
  "is_safe_byte b \<longleftrightarrow> (65 \<le> b \<and> b \<le> 90) \<or> (97 \<le> b \<and> b \<le> 122) \<or> (48 \<le> b \<and> b \<le> 57) \<or> b = 95 \<or> b = 45"

definition control_byte :: "char \<Rightarrow> bool" where
  "control_byte c \<longleftrightarrow> byte_of c < 32 \<or> byte_of c = 127"

text \<open>\<open>raw\<close> is \<open>unknown\<close> in the source; \<open>None\<close> stands for every value that is not a string.\<close>

definition component_faults :: "string \<Rightarrow> string option \<Rightarrow> fault list" where
  "component_faults subj raw =
     (case raw of
        None \<Rightarrow> [Fault ''IDENTIFIER_EMPTY'' subj]
      | Some s \<Rightarrow>
          if s = [] then [Fault ''IDENTIFIER_EMPTY'' subj]
          else
            (if CHR ''/'' \<in> set s \<or> CHR 0x5C \<in> set s then [Fault ''IDENTIFIER_HAS_SEPARATOR'' subj] else [])
          @ (if s = ''.'' \<or> js_includes ''..'' s then [Fault ''IDENTIFIER_HAS_DOT_SEGMENT'' subj] else [])
          @ (if list_ex control_byte s then [Fault ''IDENTIFIER_HAS_CONTROL_BYTE'' subj] else [])
          @ (if js_length s > max_raw then [Fault ''IDENTIFIER_TOO_LONG'' subj] else []))"

section \<open>Encoding\<close>

definition hex_upper :: "nat \<Rightarrow> char" where
  "hex_upper d = char_of (if d < 10 then 48 + d else 55 + d)"

definition encode_byte :: "char \<Rightarrow> string" where
  "encode_byte c =
     (let b = byte_of c in
      if is_safe_byte b then [char_of b] else [CHR 0x7E, hex_upper (b div 16), hex_upper (b mod 16)])"

definition encode_bytes :: "string \<Rightarrow> string" where
  "encode_bytes raw = concat (map encode_byte raw)"

definition encode_component :: "platform \<Rightarrow> string \<Rightarrow> string" where
  "encode_component p raw =
     (let encoded = encode_bytes raw in
      if length encoded > max_encoded then CHR 0x7E # CHR ''h'' # sha256_hex p raw else encoded)"

section \<open>Decoding\<close>

definition hex_value :: "nat \<Rightarrow> nat option" where
  "hex_value u =
     (if 48 \<le> u \<and> u \<le> 57 then Some (u - 48)
      else if 65 \<le> u \<and> u \<le> 70 then Some (u - 55)
      else if 97 \<le> u \<and> u \<le> 102 then Some (u - 87) else None)"

text \<open>\<open>parseInt(s, 16)\<close>: leading white space, a sign and a \<open>0x\<close> are skipped, digits are read up to
  the first other unit, and no digit at all is NaN (\<open>None\<close>).\<close>

fun hex_digits :: "nat list \<Rightarrow> int option \<Rightarrow> int option" where
  "hex_digits [] acc = acc"
| "hex_digits (u # us) acc =
     (case hex_value u of
        None \<Rightarrow> acc
      | Some d \<Rightarrow> hex_digits us (Some (16 * (case acc of None \<Rightarrow> 0 | Some a \<Rightarrow> a) + int d)))"

definition strip_0x :: "nat list \<Rightarrow> nat list" where
  "strip_0x us = (case us of a # b # r \<Rightarrow> if a = 48 \<and> (b = 120 \<or> b = 88) then r else us | _ \<Rightarrow> us)"

definition parse_int16 :: "nat list \<Rightarrow> int option" where
  "parse_int16 us =
     (case dropWhile js_space us of
        [] \<Rightarrow> None
      | u # r \<Rightarrow>
          if u = 45 then map_option uminus (hex_digits (strip_0x r) None)
          else if u = 43 then hex_digits (strip_0x r) None
          else hex_digits (strip_0x (u # r)) None)"

text \<open>\<open>Buffer.from([n])\<close> keeps a number modulo 256, and NaN as 0.\<close>

definition to_byte :: "int option \<Rightarrow> char" where
  "to_byte v = (case v of None \<Rightarrow> char_of (0::nat) | Some i \<Rightarrow> char_of (nat (i mod 256)))"

function decode_units :: "nat list \<Rightarrow> string" where
  "decode_units [] = []"
| "decode_units (u # us) =
     (if u = 126 then to_byte (parse_int16 (take 2 us)) # decode_units (drop 2 us)
      else to_byte (Some (int u)) # decode_units us)"
  by pat_completeness auto
termination
  by (relation "measure length") auto

definition decode_component :: "string \<Rightarrow> exn + string" where
  "decode_component encoded =
     (if starts_with ''~h'' encoded then Inl (Error ''hashed'') else Inr (decode_units (utf16 encoded)))"

section \<open>Paths under the store\<close>

text \<open>An absolute path is its list of segments. \<open>path.resolve\<close> starts over at an argument that is
  itself absolute, drops empty and \<open>.\<close> segments, and lets \<open>..\<close> take the last segment away.\<close>

fun split_on :: "char \<Rightarrow> string \<Rightarrow> string list" where
  "split_on d [] = [[]]"
| "split_on d (c # s) =
     (if c = d then [] # split_on d s
      else (case split_on d s of [] \<Rightarrow> [[c]] | w # ws \<Rightarrow> (c # w) # ws))"

definition push_segment :: "string list \<Rightarrow> string \<Rightarrow> string list" where
  "push_segment acc seg =
     (if seg = [] \<or> seg = ''.'' then acc else if seg = ''..'' then butlast acc else acc @ [seg])"

definition resolve_one :: "string list \<Rightarrow> string \<Rightarrow> string list" where
  "resolve_one acc arg =
     foldl push_segment (if starts_with ''/'' arg then [] else acc) (split_on (CHR ''/'') arg)"

definition path_resolve :: "string list \<Rightarrow> string list \<Rightarrow> string list" where
  "path_resolve root args = foldl resolve_one root args"

definition path_text :: "string list \<Rightarrow> string" where
  "path_text segs = (if segs = [] then ''/'' else concat (map ((#) (CHR ''/'')) segs))"

definition resolve_under_store :: "string list \<Rightarrow> string list \<Rightarrow> exn + string list" where
  "resolve_under_store root components =
     (let resolved = path_resolve root components in
      if path_text resolved \<noteq> path_text root \<and> \<not> starts_with (path_text root @ ''/'') (path_text resolved)
      then Inl (Error ''outside the store'') else Inr resolved)"


section \<open>The alphabet of an encoded component\<close>

definition safe_char :: "char \<Rightarrow> bool" where
  "safe_char c \<longleftrightarrow> is_safe_byte (byte_of c) \<or> c = CHR 0x7E"

lemma byte_of_hex_upper: "d < 16 \<Longrightarrow> byte_of (hex_upper d) = (if d < 10 then 48 + d else 55 + d)"
  by (simp add: hex_upper_def)

lemma byte_div_mod_bounds [simp]: "byte_of c div 16 < 16" "byte_of c mod 16 < 16"
  using nat_of_char_less_256 [of c] by linarith+

lemma safe_char_hex_upper [simp]: "d < 16 \<Longrightarrow> safe_char (hex_upper d)"
  by (auto simp: safe_char_def is_safe_byte_def byte_of_hex_upper)

lemma safe_char_tilde [simp]: "safe_char (CHR 0x7E)"
  by (simp add: safe_char_def)

lemma encode_byte_safe: "x \<in> set (encode_byte c) \<Longrightarrow> safe_char x"
  by (auto simp: encode_byte_def Let_def safe_char_def [of c] split: if_splits)

lemma encode_bytes_simps [simp]:
  "encode_bytes [] = []" "encode_bytes (c # s) = encode_byte c @ encode_bytes s"
  by (simp_all add: encode_bytes_def)

lemma encode_byte_not_Nil [simp]: "encode_byte c \<noteq> []"
  by (simp add: encode_byte_def Let_def)

lemma encode_bytes_Nil_iff [simp]: "encode_bytes s = [] \<longleftrightarrow> s = []"
  by (cases s) simp_all

lemma encode_bytes_safe: "x \<in> set (encode_bytes s) \<Longrightarrow> safe_char x"
  by (induction s) (auto dest: encode_byte_safe)

lemma hex_lower_safe: "hex_lower c \<Longrightarrow> safe_char c"
  by (auto simp: hex_lower_def safe_char_def is_safe_byte_def)

lemma encode_component_safe:
  assumes "digests (sha256_hex p)" and "x \<in> set (encode_component p raw)"
  shows "safe_char x"
proof -
  have "list_all hex_lower (sha256_hex p raw)"
    using assms(1) by (simp add: digests_def)
  then have "c \<in> set (sha256_hex p raw) \<Longrightarrow> safe_char c" for c
    by (auto simp: list_all_iff intro: hex_lower_safe)
  moreover have "safe_char (CHR ''h'')"
    by (simp add: safe_char_def is_safe_byte_def)
  ultimately show ?thesis
    using assms(2)
    by (auto simp: encode_component_def Let_def dest: encode_bytes_safe split: if_splits)
qed

lemma safe_char_not_special [simp]:
  "\<not> safe_char (CHR ''.'')" "\<not> safe_char (CHR ''/'')" "\<not> safe_char (CHR 0x5C)"
  by (simp_all add: safe_char_def is_safe_byte_def)

lemma encode_component_length:
  "digests (sha256_hex p) \<Longrightarrow> length (encode_component p raw) \<le> max_encoded"
  by (auto simp: encode_component_def Let_def digests_def max_encoded_def)

lemma encode_component_Nil_iff [simp]: "encode_component p raw = [] \<longleftrightarrow> raw = []"
  by (auto simp: encode_component_def Let_def max_encoded_def)

text \<open>A component no path resolution treats specially.\<close>

definition plain_segment :: "string \<Rightarrow> bool" where
  "plain_segment s \<longleftrightarrow> s \<noteq> [] \<and> CHR ''/'' \<notin> set s \<and> s \<noteq> ''.'' \<and> s \<noteq> ''..''"

lemma encode_component_plain:
  assumes "digests (sha256_hex p)" and "raw \<noteq> []"
  shows "plain_segment (encode_component p raw)"
proof -
  have "x \<in> set (encode_component p raw) \<Longrightarrow> safe_char x" for x
    by (rule encode_component_safe [OF assms(1)])
  then have "CHR ''/'' \<notin> set (encode_component p raw)" "CHR ''.'' \<notin> set (encode_component p raw)"
    by fastforce+
  with assms(2) show ?thesis by (auto simp: plain_segment_def)
qed

section \<open>Decoding inverts encoding\<close>

lemma hex_value_hex_upper [simp]: "d < 16 \<Longrightarrow> hex_value (byte_of (hex_upper d)) = Some d"
  by (auto simp: hex_value_def byte_of_hex_upper)

lemma hex_upper_plain:
  assumes "d < 16"
  shows "\<not> js_space (byte_of (hex_upper d))" "byte_of (hex_upper d) \<notin> {45, 43, 120, 88, 104}"
  using assms by (auto simp: js_space_def byte_of_hex_upper)

lemma parse_int16_hex_upper:
  assumes "h < 16" "l < 16"
  shows "parse_int16 [byte_of (hex_upper h), byte_of (hex_upper l)] = Some (int (16 * h + l))"
  using assms hex_upper_plain [of h] hex_upper_plain [of l]
  by (simp add: parse_int16_def strip_0x_def)

lemma to_byte_of_byte [simp]: "to_byte (Some (int (byte_of c))) = c"
proof -
  have "byte_of c < 256" by (rule nat_of_char_less_256)
  then show ?thesis by (simp add: to_byte_def nat_mod_as_int [symmetric])
qed

lemma hex_upper_ascii [simp]: "d < 16 \<Longrightarrow> byte_of (hex_upper d) < 128"
  by (simp add: byte_of_hex_upper)

lemma encode_byte_ascii [simp]: "ascii (encode_byte c)"
  using nat_of_char_less_256 [of c]
  by (auto simp: encode_byte_def Let_def is_safe_byte_def)

lemma encode_bytes_ascii [simp]: "ascii (encode_bytes s)"
  by (induction s) auto

lemma decode_units_encode_byte:
  "decode_units (map byte_of (encode_byte c) @ us) = c # decode_units us"
proof (cases "is_safe_byte (byte_of c)")
  case True
  then have "byte_of c \<noteq> 126" by (auto simp: is_safe_byte_def)
  with True show ?thesis by (simp add: encode_byte_def)
next
  case False
  have "int (16 * (byte_of c div 16) + byte_of c mod 16) = int (byte_of c)"
    by simp
  with False show ?thesis
    by (simp add: encode_byte_def Let_def parse_int16_hex_upper del: of_nat_add of_nat_mult)
qed

lemma decode_units_encode_bytes: "decode_units (map byte_of (encode_bytes s)) = s"
  by (induction s) (simp_all add: decode_units_encode_byte)

lemma encode_bytes_not_hashed: "\<not> starts_with ''~h'' (encode_bytes s)"
proof (cases s)
  case (Cons c t)
  have "hex_upper (byte_of c div 16) \<noteq> CHR ''h''"
    using hex_upper_plain(2) [of "byte_of c div 16"] by auto
  moreover have "is_safe_byte (byte_of c) \<Longrightarrow> c \<noteq> CHR ''~''"
    by (auto simp: is_safe_byte_def)
  ultimately show ?thesis
    using Cons by (auto simp: encode_byte_def Let_def)
qed simp

definition hashed :: "string \<Rightarrow> bool" where
  "hashed raw \<longleftrightarrow> length (encode_bytes raw) > max_encoded"

lemma encode_component_cases:
  "encode_component p raw = (if hashed raw then ''~h'' @ sha256_hex p raw else encode_bytes raw)"
  by (simp add: encode_component_def hashed_def Let_def)

lemma decode_encode: "\<not> hashed raw \<Longrightarrow> decode_component (encode_component p raw) = Inr raw"
  by (simp add: decode_component_def encode_component_cases encode_bytes_not_hashed utf16_ascii
      decode_units_encode_bytes)

lemma encode_bytes_inject [simp]: "encode_bytes a = encode_bytes b \<longleftrightarrow> a = b"
  by (metis decode_units_encode_bytes)

lemma encode_component_inject:
  assumes "encode_component p a = encode_component p b"
  shows "a = b \<or> hashed a \<and> hashed b \<and> sha256_hex p a = sha256_hex p b"
proof -
  have neq: "''~h'' @ x \<noteq> encode_bytes b" for x b
    using encode_bytes_not_hashed [of b] by (metis starts_with_iff)
  show ?thesis
    using assms neq [of "sha256_hex p a" b] neq [of "sha256_hex p b" a]
    by (auto simp: encode_component_cases split: if_splits)
qed

section \<open>A resolved path stays under the store\<close>

lemma split_on_plain: "d \<notin> set s \<Longrightarrow> split_on d s = [s]"
  by (induction s) auto

lemma split_on_append_sep: "d \<notin> set x \<Longrightarrow> split_on d (x @ d # s) = x # split_on d s"
  by (induction x) auto

lemma length_split_on: "length (split_on d s) = Suc (count_list s d)"
  by (induction s) (auto split: list.splits)

lemma split_on_no_delim: "w \<in> set (split_on d s) \<Longrightarrow> d \<notin> set w"
  by (induction s arbitrary: w) (auto split: if_splits list.splits)

lemma resolve_one_plain: "plain_segment s \<Longrightarrow> resolve_one acc s = acc @ [s]"
  by (cases s) (auto simp: resolve_one_def plain_segment_def split_on_plain push_segment_def)

lemma path_resolve_plain:
  "list_all plain_segment comps \<Longrightarrow> path_resolve root comps = root @ comps"
  by (induction comps arbitrary: root) (auto simp: path_resolve_def resolve_one_plain)

definition no_slash :: "string list \<Rightarrow> bool" where
  "no_slash segs \<longleftrightarrow> list_all (\<lambda>s. CHR ''/'' \<notin> set s \<and> s \<noteq> []) segs"

lemma no_slash_simps [simp]:
  "no_slash []" "no_slash (s # ss) \<longleftrightarrow> CHR ''/'' \<notin> set s \<and> s \<noteq> [] \<and> no_slash ss"
  "no_slash (xs @ ys) \<longleftrightarrow> no_slash xs \<and> no_slash ys"
  by (auto simp: no_slash_def)

lemma no_slash_butlast: "no_slash xs \<Longrightarrow> no_slash (butlast xs)"
  by (auto simp: no_slash_def list_all_iff dest: in_set_butlastD)

lemma no_slash_foldl_push:
  "no_slash acc \<Longrightarrow> (\<And>w. w \<in> set ws \<Longrightarrow> CHR ''/'' \<notin> set w) \<Longrightarrow> no_slash (foldl push_segment acc ws)"
  by (induction ws arbitrary: acc) (auto simp: push_segment_def no_slash_butlast)

lemma no_slash_path_resolve: "no_slash root \<Longrightarrow> no_slash (path_resolve root comps)"
proof (induction comps arbitrary: root)
  case (Cons c comps)
  have "no_slash (resolve_one root c)"
    using Cons.prems unfolding resolve_one_def
    by (intro no_slash_foldl_push) (auto dest: split_on_no_delim)
  with Cons.IH show ?case by (simp add: path_resolve_def)
qed (simp add: path_resolve_def)

lemma path_text_Cons: "segs \<noteq> [] \<Longrightarrow> path_text (s # segs) = CHR ''/'' # s @ path_text segs"
  by (simp add: path_text_def)

text \<open>The text of a path determines its segments, also as a prefix.\<close>

lemma slash_prefix:
  assumes "a @ CHR ''/'' # x = b @ CHR ''/'' # y" "CHR ''/'' \<notin> set a" "CHR ''/'' \<notin> set b"
  shows "a = b \<and> x = y"
  using assms
proof (induction a arbitrary: b)
  case Nil
  then show ?case by (cases b) auto
next
  case (Cons c a)
  then show ?case by (cases b) auto
qed

abbreviation seg_text :: "string list \<Rightarrow> string" where
  "seg_text segs \<equiv> concat (map ((#) (CHR ''/'')) segs)"

lemma seg_text_prefix:
  "no_slash xs \<Longrightarrow> no_slash ys \<Longrightarrow> seg_text ys = seg_text xs @ CHR ''/'' # t \<Longrightarrow> \<exists>zs. ys = xs @ zs"
proof (induction xs arbitrary: ys)
  case (Cons x xs)
  from Cons.prems obtain y ys' where ys: "ys = y # ys'" by (cases ys) auto
  obtain u where u: "seg_text xs @ CHR ''/'' # t = CHR ''/'' # u"
    by (cases xs) auto
  have eq: "y @ seg_text ys' = x @ seg_text xs @ CHR ''/'' # t"
    using Cons.prems(3) ys by simp
  have "\<exists>v. seg_text ys' = CHR ''/'' # v"
  proof (cases ys')
    case Nil
    with eq u have "CHR ''/'' \<in> set y" by simp
    with Cons.prems(2) ys show ?thesis by simp
  qed simp
  then obtain v where v: "seg_text ys' = CHR ''/'' # v" by blast
  have "y = x \<and> v = u"
    using slash_prefix [of y v x u] eq u v Cons.prems(1,2) ys by simp
  with Cons.IH [of ys'] Cons.prems(1,2) ys u v show ?case by auto
qed simp

lemma seg_text_inject:
  assumes "no_slash xs" "no_slash ys" "seg_text xs = seg_text ys"
  shows "xs = ys"
proof -
  have "seg_text (ys @ [''x'']) = seg_text xs @ CHR ''/'' # ''x''"
       "seg_text (xs @ [''x'']) = seg_text ys @ CHR ''/'' # ''x''"
    using assms(3) by simp_all
  then have "\<exists>zs. ys @ [''x''] = xs @ zs" "\<exists>zs. xs @ [''x''] = ys @ zs"
    using seg_text_prefix [of xs "ys @ [''x'']"] seg_text_prefix [of ys "xs @ [''x'']"] assms(1,2)
    by simp_all
  then obtain zs ws where z: "ys @ [''x''] = xs @ zs" and w: "xs @ [''x''] = ys @ ws" by blast
  from z have a: "length ys + 1 = length xs + length zs" by (metis length_append length_append_singleton Suc_eq_plus1)
  from w have b: "length xs + 1 = length ys + length ws" by (metis length_append length_append_singleton Suc_eq_plus1)
  show ?thesis
  proof (cases "length xs = length ys")
    case True
    with z show ?thesis by simp
  next
    case False
    then consider "zs = []" | "ws = []" using a b by (cases zs; cases ws) auto
    then show ?thesis
    proof cases
      case 1
      with z have "seg_text xs = seg_text ys @ ''/x''" by auto
      with assms(3) show ?thesis by simp
    next
      case 2
      with w have "seg_text ys = seg_text xs @ ''/x''" by auto
      with assms(3) show ?thesis by simp
    qed
  qed
qed

lemma path_text_inject: "no_slash xs \<Longrightarrow> no_slash ys \<Longrightarrow> path_text xs = path_text ys \<Longrightarrow> xs = ys"
proof -
  assume a: "no_slash xs" "no_slash ys" "path_text xs = path_text ys"
  have "path_text zs = ''/'' \<Longrightarrow> no_slash zs \<Longrightarrow> zs = []" for zs
    by (cases zs) (auto simp: path_text_def)
  with a have "xs = [] \<longleftrightarrow> ys = []" by (metis path_text_def)
  with a have "seg_text xs = seg_text ys" by (simp add: path_text_def split: if_splits)
  with a show "xs = ys" by (intro seg_text_inject)
qed

lemma resolve_under_store_contained:
  assumes "no_slash root" "resolve_under_store root comps = Inr r"
  shows "\<exists>rest. r = root @ rest"
proof -
  have r: "r = path_resolve root comps"
    and ok: "path_text r = path_text root \<or> starts_with (path_text root @ ''/'') (path_text r)"
    using assms(2) by (auto simp: resolve_under_store_def Let_def split: if_splits)
  have ns: "no_slash r" using no_slash_path_resolve [OF assms(1)] r by simp
  from ok show ?thesis
  proof
    assume "path_text r = path_text root"
    with ns assms(1) show ?thesis by (metis append_Nil2 path_text_inject)
  next
    assume "starts_with (path_text root @ ''/'') (path_text r)"
    then obtain t where t: "path_text r = path_text root @ CHR ''/'' # t"
      by (auto simp: starts_with_iff)
    show ?thesis
    proof (cases "root = []")
      case False
      with t have "r \<noteq> []" by (auto simp: path_text_def split: if_splits) (cases root; auto)
      with t False have "seg_text r = seg_text root @ CHR ''/'' # t" by (simp add: path_text_def)
      then show ?thesis using seg_text_prefix [OF assms(1) ns] by blast
    qed simp
  qed
qed

lemma resolve_under_store_plain:
  assumes "root \<noteq> []" "list_all plain_segment comps"
  shows "resolve_under_store root comps = Inr (root @ comps)"
  using assms
  by (cases comps) (auto simp: resolve_under_store_def path_resolve_plain path_text_def starts_with_iff)

end
