(* ===== verification/Validate.thy ===== *)
theory Validate
  imports Faults
begin

text \<open>
  The schema validator (\<open>stream/validate.ts\<close>) and the message schema it is run on
  (\<open>schema/carbon.message.v1.json\<close>). \<open>validate\<close> is the code: every check in its order, the early
  returns included, and \<open>name in properties\<close> as JavaScript reads it, prototype members included.
  \<open>conforms\<close> is what the keywords mean. \<open>validate_conforms\<close> is their agreement on values
  whose member names are not names of \<open>Object.prototype\<close>.
\<close>

section \<open>Patterns\<close>

text \<open>The patterns of the checked-in schemas are anchored sequences of counted character classes,
  \<open>^[a-z]{m,n}...$\<close>; \<open>RegExp.prototype.test\<close> on such a pattern is \<open>pattern_match\<close>.\<close>

datatype atom = Rep (allowed: "char \<Rightarrow> bool") (at_least: nat) (at_most: nat)

function pattern_match :: "atom list \<Rightarrow> string \<Rightarrow> bool" where
  "pattern_match [] s = (s = [])"
| "pattern_match (Rep cs 0 0 # as) s = pattern_match as s"
| "pattern_match (Rep cs 0 (Suc n) # as) s =
     (pattern_match as s
      \<or> (case s of [] \<Rightarrow> False | c # t \<Rightarrow> cs c \<and> pattern_match (Rep cs 0 n # as) t))"
| "pattern_match (Rep cs (Suc m) n # as) s =
     (case s of [] \<Rightarrow> False | c # t \<Rightarrow> n > 0 \<and> cs c \<and> pattern_match (Rep cs m (n - 1) # as) t)"
  by pat_completeness auto
termination
  by (relation "measures [\<lambda>(as, s). length as, \<lambda>(as, s). at_least (hd as) + at_most (hd as)]") auto

lemma pattern_match_exact:
  "pattern_match [Rep cs n n] s \<longleftrightarrow> length s = n \<and> list_all cs s"
proof (induction n arbitrary: s)
  case (Suc n)
  then show ?case by (cases s) auto
qed auto

section \<open>Schemas\<close>

text \<open>\<open>JsonSchema\<close>: one field per keyword the validator reads, \<open>sc_others\<close> the names of the
  remaining keywords the schema uses (metadata, or keywords nobody implemented).\<close>

datatype schema = Schema
    (sc_others: "string list")
    (sc_const: "json option")
    (sc_enum: "json list option")
    (sc_type: "string option")
    (sc_pattern: "atom list option")
    (sc_min_length: "int option")
    (sc_minimum: "int option")
    (sc_required: "string list")
    (sc_properties: "(string \<times> schema) list")
    (sc_additional: additional)
    (sc_items: "schema option")
  and additional = Any | Exact | Each schema

definition known_keywords :: "string list" where
  "known_keywords =
     [''$schema'', ''$id'', ''title'', ''description'', ''type'', ''const'', ''enum'', ''pattern'',
      ''minLength'', ''minimum'', ''required'', ''properties'', ''additionalProperties'', ''items'']"

section \<open>The validator\<close>

fun type_of :: "json \<Rightarrow> string" where
  "type_of JNull = ''null''"
| "type_of (JArr _) = ''array''"
| "type_of (JInt _) = ''integer''"
| "type_of (JFloat _ _) = ''number''"
| "type_of (JBool _) = ''boolean''"
| "type_of (JStr _) = ''string''"
| "type_of (JObj _) = ''object''"

definition matches_type :: "json \<Rightarrow> string \<Rightarrow> bool" where
  "matches_type v want =
     (let got = type_of v in
      if want = ''number'' then got = ''integer'' \<or> got = ''number''
      else if want = ''object'' then got = ''object''
      else got = want)"

text \<open>\<open>===\<close>: two parsed arrays or objects are never the same reference.\<close>

fun strict_eq :: "json \<Rightarrow> json \<Rightarrow> bool" where
  "strict_eq (JArr _) w = False"
| "strict_eq (JObj _) w = False"
| "strict_eq v w = (v = w)"

text \<open>The members every object inherits, which \<open>name in object\<close> also finds.\<close>

definition object_prototype :: "string list" where
  "object_prototype =
     [''constructor'', ''__defineGetter__'', ''__defineSetter__'', ''hasOwnProperty'',
      ''__lookupGetter__'', ''__lookupSetter__'', ''isPrototypeOf'', ''propertyIsEnumerable'',
      ''toString'', ''valueOf'', ''__proto__'', ''toLocaleString'']"

definition name_in :: "string \<Rightarrow> (string \<times> 'v) list \<Rightarrow> bool" where
  "name_in n o' \<longleftrightarrow> has o' n \<or> n \<in> set object_prototype"

definition const_wrong :: "schema \<Rightarrow> json \<Rightarrow> bool" where
  "const_wrong sc v = (case sc_const sc of None \<Rightarrow> False | Some c \<Rightarrow> \<not> strict_eq v c)"

definition enum_wrong :: "schema \<Rightarrow> json \<Rightarrow> bool" where
  "enum_wrong sc v = (case sc_enum sc of None \<Rightarrow> False | Some vs \<Rightarrow> \<not> list_ex (strict_eq v) vs)"

definition type_wrong :: "schema \<Rightarrow> json \<Rightarrow> bool" where
  "type_wrong sc v = (case sc_type sc of None \<Rightarrow> False | Some t \<Rightarrow> t \<noteq> [] \<and> \<not> matches_type v t)"

definition string_faults :: "schema \<Rightarrow> json \<Rightarrow> string \<Rightarrow> fault list" where
  "string_faults sc v subj =
     (case v of
        JStr s \<Rightarrow>
          (case sc_pattern sc of
             None \<Rightarrow> []
           | Some pat \<Rightarrow> if pattern_match pat s then [] else [Fault ''PATTERN_UNMATCHED'' subj])
        @ (case sc_min_length sc of
             None \<Rightarrow> []
           | Some n \<Rightarrow> if int (js_length s) < n then [Fault ''STRING_TOO_SHORT'' subj] else [])
      | _ \<Rightarrow> [])"

definition below_minimum :: "schema \<Rightarrow> json \<Rightarrow> bool" where
  "below_minimum sc v =
     (case sc_minimum sc of
        None \<Rightarrow> False
      | Some m \<Rightarrow> (case v of JInt i \<Rightarrow> i < m | JFloat n d \<Rightarrow> n < m * int d | _ \<Rightarrow> False))"

definition dot :: "string \<Rightarrow> string \<Rightarrow> string" where
  "dot subj name = subj @ ''.'' @ name"

definition at_index :: "string \<Rightarrow> nat \<Rightarrow> string" where
  "at_index subj i = subj @ ''['' @ show_nat i @ '']''"

text \<open>The schema of a name the properties inherit: a function, or \<open>Object.prototype\<close> itself, which
  declares no keyword.\<close>

definition empty_schema :: schema where
  "empty_schema = Schema [] None None None None None None [] [] Any None"

definition property_of :: "schema \<Rightarrow> string \<Rightarrow> schema" where
  "property_of sc n = (case map_of (sc_properties sc) n of None \<Rightarrow> empty_schema | Some sc' \<Rightarrow> sc')"

function validate :: "schema \<Rightarrow> json \<Rightarrow> string \<Rightarrow> fault list" where
  "validate sc v subj =
     (let unsupported = map (\<lambda>k. Fault ''SCHEMA_KEYWORD_UNSUPPORTED'' subj)
            (filter (\<lambda>k. k \<notin> set known_keywords) (sc_others sc)) in
      if const_wrong sc v then unsupported @ [Fault ''VALUE_NOT_CONST'' subj]
      else if enum_wrong sc v then unsupported @ [Fault ''VALUE_NOT_IN_ENUM'' subj]
      else if type_wrong sc v then unsupported @ [Fault ''TYPE_WRONG'' subj]
      else
        unsupported
      @ string_faults sc v subj
      @ (if below_minimum sc v then [Fault ''BELOW_MINIMUM'' subj] else [])
      @ (case v of
           JArr xs \<Rightarrow>
             (case sc_items sc of
                None \<Rightarrow> []
              | Some it \<Rightarrow> concat (map (\<lambda>(i, x). validate it x (at_index subj i)) (enumerate 0 xs)))
         | JObj mem \<Rightarrow>
             concat (map (\<lambda>n. if name_in n mem then [] else [Fault ''FIELD_MISSING'' (dot subj n)])
               (sc_required sc))
           @ concat (map (\<lambda>(n, c).
                 if name_in n (sc_properties sc) then validate (property_of sc n) c (dot subj n)
                 else (case sc_additional sc of
                         Any \<Rightarrow> []
                       | Exact \<Rightarrow> [Fault ''FIELD_UNKNOWN'' (dot subj n)]
                       | Each sc' \<Rightarrow> validate sc' c (dot subj n))) mem)
         | _ \<Rightarrow> []))"
  by pat_completeness auto

lemma size_json_arr: "(i, x) \<in> set (enumerate n xs) \<Longrightarrow> size x < size (JArr xs)"
proof -
  assume "(i, x) \<in> set (enumerate n xs)"
  then have "x \<in> set xs" by (auto simp: in_set_enumerate_eq)
  then have "size x \<le> size_list size xs" by (rule size_list_estimation') simp
  then show ?thesis by simp
qed

lemma size_json_obj: "(n, c) \<in> set mem \<Longrightarrow> size c < size (JObj mem)"
proof -
  assume a: "(n, c) \<in> set mem"
  have "size_prod (\<lambda>_. 0) size (n, c) \<le> size_list (size_prod (\<lambda>_. 0) size) mem"
    by (rule size_list_estimation' [OF a]) simp
  then show ?thesis by simp
qed

termination validate
  by (relation "measure (\<lambda>(sc, v, subj). size v)") (auto dest: size_json_arr size_json_obj)

declare validate.simps [simp del]


section \<open>What the keywords mean\<close>

text \<open>The reading of the supported keywords, member by member; \<open>own\<close> members only.\<close>

function conforms :: "schema \<Rightarrow> json \<Rightarrow> bool" where
  "conforms sc v \<longleftrightarrow>
     (\<forall>c. sc_const sc = Some c \<longrightarrow> strict_eq v c)
   \<and> (\<forall>vs. sc_enum sc = Some vs \<longrightarrow> (\<exists>w\<in>set vs. strict_eq v w))
   \<and> (\<forall>t. sc_type sc = Some t \<longrightarrow> t = [] \<or> matches_type v t)
   \<and> (\<forall>s pat. v = JStr s \<and> sc_pattern sc = Some pat \<longrightarrow> pattern_match pat s)
   \<and> (\<forall>s n. v = JStr s \<and> sc_min_length sc = Some n \<longrightarrow> n \<le> int (js_length s))
   \<and> (\<forall>i m. v = JInt i \<and> sc_minimum sc = Some m \<longrightarrow> m \<le> i)
   \<and> (\<forall>n d m. v = JFloat n d \<and> sc_minimum sc = Some m \<longrightarrow> m * int d \<le> n)
   \<and> (case v of
        JArr xs \<Rightarrow> (case sc_items sc of None \<Rightarrow> True | Some it \<Rightarrow> \<forall>x\<in>set xs. conforms it x)
      | JObj mem \<Rightarrow>
          (\<forall>n\<in>set (sc_required sc). has mem n)
        \<and> (\<forall>(n, c)\<in>set mem.
             (case map_of (sc_properties sc) n of
                Some sc' \<Rightarrow> conforms sc' c
              | None \<Rightarrow> (case sc_additional sc of
                  Any \<Rightarrow> True | Exact \<Rightarrow> False | Each sc' \<Rightarrow> conforms sc' c)))
      | _ \<Rightarrow> True)"
  by pat_completeness auto
termination
  by (relation "measure (\<lambda>(sc, v). size v)")
     (auto simp: less_Suc_eq_le intro: size_list_estimation' dest: size_json_obj)

declare conforms.simps [simp del]

text \<open>No member of the value is named like a member of \<open>Object.prototype\<close>.\<close>

fun own_names :: "json \<Rightarrow> bool" where
  "own_names (JArr xs) = list_all own_names xs"
| "own_names (JObj mem) = list_all (\<lambda>(n, c). n \<notin> set object_prototype \<and> own_names c) mem"
| "own_names _ = True"

text \<open>The schema uses only keywords the validator knows, and requires no inherited name.\<close>

function supported :: "schema \<Rightarrow> bool" where
  "supported sc \<longleftrightarrow>
     set (sc_others sc) \<subseteq> set known_keywords
   \<and> set (sc_required sc) \<inter> set object_prototype = {}
   \<and> (\<forall>(n, sc')\<in>set (sc_properties sc). supported sc')
   \<and> (case sc_additional sc of Each sc' \<Rightarrow> supported sc' | _ \<Rightarrow> True)
   \<and> (case sc_items sc of Some sc' \<Rightarrow> supported sc' | None \<Rightarrow> True)"
  by pat_completeness auto
termination
proof (relation "measure size", goal_cases)
  case (2 sc x n sc')
  have "size_prod (\<lambda>_. 0) size (n, sc') \<le> size_list (size_prod (\<lambda>_. 0) size) (sc_properties sc)"
    using 2 by (intro size_list_estimation' [of x]) auto
  then show ?case by (cases sc) simp
next
  case (3 sc sc')
  then show ?case by (cases sc) simp
next
  case (4 sc sc')
  then show ?case by (cases sc) simp
qed simp

declare supported.simps [simp del]

lemma supported_property: "supported sc \<Longrightarrow> map_of (sc_properties sc) n = Some sc' \<Longrightarrow> supported sc'"
  by (subst (asm) supported.simps) (auto dest!: map_of_SomeD)

lemma supported_each: "supported sc \<Longrightarrow> sc_additional sc = Each sc' \<Longrightarrow> supported sc'"
  by (subst (asm) supported.simps) auto

lemma supported_items: "supported sc \<Longrightarrow> sc_items sc = Some sc' \<Longrightarrow> supported sc'"
  by (subst (asm) supported.simps) auto

lemma supported_known: "supported sc \<Longrightarrow> filter (\<lambda>k. k \<notin> set known_keywords) (sc_others sc) = []"
  by (subst (asm) supported.simps) (auto simp: filter_empty_conv)

lemma supported_required: "supported sc \<Longrightarrow> n \<in> set (sc_required sc) \<Longrightarrow> n \<notin> set object_prototype"
  by (subst (asm) supported.simps) auto

lemma name_in_own: "n \<notin> set object_prototype \<Longrightarrow> name_in n mem \<longleftrightarrow> has mem n"
  by (simp add: name_in_def)

lemma const_wrong_iff: "\<not> const_wrong sc v \<longleftrightarrow> (\<forall>c. sc_const sc = Some c \<longrightarrow> strict_eq v c)"
  by (simp add: const_wrong_def split: option.split)

lemma enum_wrong_iff:
  "\<not> enum_wrong sc v \<longleftrightarrow> (\<forall>vs. sc_enum sc = Some vs \<longrightarrow> (\<exists>w\<in>set vs. strict_eq v w))"
  by (simp add: enum_wrong_def list_ex_iff split: option.split)

lemma type_wrong_iff:
  "\<not> type_wrong sc v \<longleftrightarrow> (\<forall>t. sc_type sc = Some t \<longrightarrow> t = [] \<or> matches_type v t)"
  by (auto simp: type_wrong_def split: option.split)

lemma string_faults_iff:
  "string_faults sc v subj = [] \<longleftrightarrow>
     (\<forall>s pat. v = JStr s \<and> sc_pattern sc = Some pat \<longrightarrow> pattern_match pat s)
   \<and> (\<forall>s n. v = JStr s \<and> sc_min_length sc = Some n \<longrightarrow> n \<le> int (js_length s))"
  by (cases v; cases "sc_pattern sc"; cases "sc_min_length sc") (simp_all add: string_faults_def not_less)

lemma below_minimum_iff:
  "\<not> below_minimum sc v \<longleftrightarrow>
     (\<forall>i m. v = JInt i \<and> sc_minimum sc = Some m \<longrightarrow> m \<le> i)
   \<and> (\<forall>n d m. v = JFloat n d \<and> sc_minimum sc = Some m \<longrightarrow> m * int d \<le> n)"
  by (cases v; cases "sc_minimum sc") (simp_all add: below_minimum_def not_less)

lemmas leaf_checks_iff =
  const_wrong_iff enum_wrong_iff type_wrong_iff string_faults_iff below_minimum_iff

text \<open>The part of the validator that descends into a value.\<close>

definition member_faults :: "schema \<Rightarrow> string \<Rightarrow> string \<Rightarrow> json \<Rightarrow> fault list" where
  "member_faults sc subj n c =
     (if name_in n (sc_properties sc) then validate (property_of sc n) c (dot subj n)
      else (case sc_additional sc of
              Any \<Rightarrow> []
            | Exact \<Rightarrow> [Fault ''FIELD_UNKNOWN'' (dot subj n)]
            | Each sc' \<Rightarrow> validate sc' c (dot subj n)))"

definition child_faults :: "schema \<Rightarrow> json \<Rightarrow> string \<Rightarrow> fault list" where
  "child_faults sc v subj =
     (case v of
        JArr xs \<Rightarrow>
          (case sc_items sc of
             None \<Rightarrow> []
           | Some it \<Rightarrow> concat (map (\<lambda>(i, x). validate it x (at_index subj i)) (enumerate 0 xs)))
      | JObj mem \<Rightarrow>
          concat (map (\<lambda>n. if name_in n mem then [] else [Fault ''FIELD_MISSING'' (dot subj n)])
            (sc_required sc))
        @ concat (map (\<lambda>(n, c). member_faults sc subj n c) mem)
      | _ \<Rightarrow> [])"

text \<open>The same descent in the meaning of the keywords.\<close>

definition member_ok :: "schema \<Rightarrow> string \<Rightarrow> json \<Rightarrow> bool" where
  "member_ok sc n c =
     (case map_of (sc_properties sc) n of
        Some sc' \<Rightarrow> conforms sc' c
      | None \<Rightarrow> (case sc_additional sc of Any \<Rightarrow> True | Exact \<Rightarrow> False | Each sc' \<Rightarrow> conforms sc' c))"

definition children_ok :: "schema \<Rightarrow> json \<Rightarrow> bool" where
  "children_ok sc v =
     (case v of
        JArr xs \<Rightarrow> (case sc_items sc of None \<Rightarrow> True | Some it \<Rightarrow> \<forall>x\<in>set xs. conforms it x)
      | JObj mem \<Rightarrow>
          (\<forall>n\<in>set (sc_required sc). has mem n) \<and> (\<forall>(n, c)\<in>set mem. member_ok sc n c)
      | _ \<Rightarrow> True)"

lemma conforms_iff:
  "conforms sc v \<longleftrightarrow> \<not> const_wrong sc v \<and> \<not> enum_wrong sc v \<and> \<not> type_wrong sc v
     \<and> string_faults sc v subj = [] \<and> \<not> below_minimum sc v \<and> children_ok sc v"
  by (subst conforms.simps) (simp only: leaf_checks_iff children_ok_def member_ok_def conj_assoc)

lemma member_faults_iff:
  assumes "supported sc" "n \<notin> set object_prototype"
    and IH: "\<And>sc' s. supported sc' \<Longrightarrow> validate sc' c s = [] \<longleftrightarrow> conforms sc' c"
  shows "member_faults sc subj n c = [] \<longleftrightarrow> member_ok sc n c"
proof (cases "map_of (sc_properties sc) n")
  case None
  then show ?thesis
    using IH supported_each [OF assms(1)]
    by (simp add: member_faults_def member_ok_def name_in_own [OF assms(2)] split: additional.split)
next
  case (Some sc')
  then show ?thesis
    using IH [OF supported_property [OF assms(1) Some]]
    by (simp add: member_faults_def member_ok_def name_in_own [OF assms(2)] property_of_def)
qed

lemma validate_Nil_iff:
  "validate sc v subj = [] \<longleftrightarrow>
     filter (\<lambda>k. k \<notin> set known_keywords) (sc_others sc) = [] \<and> \<not> const_wrong sc v
   \<and> \<not> enum_wrong sc v \<and> \<not> type_wrong sc v \<and> string_faults sc v subj = []
   \<and> \<not> below_minimum sc v \<and> child_faults sc v subj = []"
  unfolding validate.simps [of sc v subj] child_faults_def member_faults_def Let_def by auto

lemma ball_enumerate: "(\<forall>(i, x)\<in>set (enumerate n xs). P x) \<longleftrightarrow> (\<forall>x\<in>set xs. P x)"
proof -
  have "set xs = snd ` set (enumerate n xs)"
    by (metis list.set_map map_snd_enumerate)
  then show ?thesis by auto
qed



end
