(* ===== verification/Message.thy ===== *)
theory Message
  imports Validate
begin

text \<open>
  The record every adapter writes (the types of \<open>stream/store.ts\<close>) and the schema it is validated
  against before it is written (\<open>schema/carbon.message.v1.json\<close>). \<open>message_json\<close> is the object
  the validator sees; \<open>well_formed\<close> is what passing it means for the fields, and
  \<open>validate_message\<close> says so.
\<close>

section \<open>Types\<close>

datatype direction = Inbound | Outbound
datatype role = Contact | Operator | Agent | System
datatype disposition = Captured | Held | Parked | Policy_Drop | Unsupported | Permanent_Error

record attachment =
  att_file :: string
  att_mime :: string
  att_bytes :: int
  att_sha256 :: string
  att_download_failed :: "bool option"
  att_filename :: "string option"
  att_id :: "string option"

record hold_info =
  hold_reason :: string
  hold_set_at :: string
  hold_release_after_ms :: "int option"

record release_info =
  rel_released_at :: string
  rel_thread_id :: string
  rel_turn_id :: string
  rel_completed_at :: "string option"

text \<open>An absent \<open>request_id\<close> or \<open>text_sha256\<close> is the empty string, which every check of the code
  treats alike.\<close>

record delivery_info =
  dl_request_id :: string
  dl_status :: string
  dl_text_sha256 :: string
  dl_chunk_ids :: "string list option"
  dl_action_claim :: "members option"
  dl_completed_at :: "string option"

record message =
  msg_schema :: string
  agent :: string
  source :: string
  account :: string
  conversation_id :: string
  conversation_kind :: string
  message_id :: string
  platform_message_id :: string
  revision :: int
  direction :: direction
  role :: role
  sender_id :: string
  sender_name :: "string option"
  sent_at :: "string option"
  received_at :: string
  body :: string
  attachments :: "attachment list"
  raw :: "string option"
  historical :: bool
  reply_to :: "string option"
  disposition :: disposition
  hold :: "hold_info option"
  release :: "release_info option"
  delivery :: "delivery_info option"
  adapter_fields :: "members option"

section \<open>As the validator sees it\<close>

fun direction_text :: "direction \<Rightarrow> string" where
  "direction_text Inbound = ''inbound''"
| "direction_text Outbound = ''outbound''"

fun role_text :: "role \<Rightarrow> string" where
  "role_text Contact = ''contact''"
| "role_text Operator = ''operator''"
| "role_text Agent = ''agent''"
| "role_text System = ''system''"

fun disposition_text :: "disposition \<Rightarrow> string" where
  "disposition_text Captured = ''captured''"
| "disposition_text Held = ''held''"
| "disposition_text Parked = ''parked''"
| "disposition_text Policy_Drop = ''policy-drop''"
| "disposition_text Unsupported = ''unsupported''"
| "disposition_text Permanent_Error = ''permanent-error''"

definition opt_member :: "string \<Rightarrow> ('a \<Rightarrow> json) \<Rightarrow> 'a option \<Rightarrow> members" where
  "opt_member k f x = (case x of None \<Rightarrow> [] | Some v \<Rightarrow> [(k, f v)])"

definition attachment_json :: "attachment \<Rightarrow> json" where
  "attachment_json a = JObj
     ([(''file'', JStr (att_file a)), (''mime'', JStr (att_mime a)), (''bytes'', JInt (att_bytes a)),
       (''sha256'', JStr (att_sha256 a))]
      @ opt_member ''download_failed'' JBool (att_download_failed a)
      @ opt_member ''filename'' JStr (att_filename a)
      @ opt_member ''attachment_id'' JStr (att_id a))"

definition hold_json :: "hold_info \<Rightarrow> json" where
  "hold_json h = JObj
     ([(''reason'', JStr (hold_reason h)), (''set_at'', JStr (hold_set_at h))]
      @ opt_member ''release_after_ms'' JInt (hold_release_after_ms h))"

definition release_json :: "release_info \<Rightarrow> json" where
  "release_json r = JObj
     ([(''released_at'', JStr (rel_released_at r)), (''thread_id'', JStr (rel_thread_id r)),
       (''turn_id'', JStr (rel_turn_id r))]
      @ opt_member ''completed_at'' JStr (rel_completed_at r))"

definition delivery_json :: "delivery_info \<Rightarrow> json" where
  "delivery_json d = JObj
     ([(''request_id'', JStr (dl_request_id d)), (''status'', JStr (dl_status d)),
       (''text_sha256'', JStr (dl_text_sha256 d))]
      @ opt_member ''chunk_ids'' (\<lambda>ids. JArr (map JStr ids)) (dl_chunk_ids d)
      @ opt_member ''action_claim'' JObj (dl_action_claim d)
      @ opt_member ''completed_at'' JStr (dl_completed_at d))"

definition message_json :: "message \<Rightarrow> json" where
  "message_json m = JObj
     ([(''schema'', JStr (msg_schema m)), (''agent'', JStr (agent m)), (''source'', JStr (source m)),
       (''account'', JStr (account m)), (''conversation_id'', JStr (conversation_id m)),
       (''conversation_kind'', JStr (conversation_kind m)), (''message_id'', JStr (message_id m)),
       (''platform_message_id'', JStr (platform_message_id m)), (''revision'', JInt (revision m)),
       (''direction'', JStr (direction_text (direction m))), (''role'', JStr (role_text (role m))),
       (''sender_id'', JStr (sender_id m))]
      @ opt_member ''sender_name'' JStr (sender_name m)
      @ opt_member ''sent_at'' JStr (sent_at m)
      @ [(''received_at'', JStr (received_at m)), (''body'', JStr (body m)),
         (''attachments'', JArr (map attachment_json (attachments m)))]
      @ opt_member ''raw'' JStr (raw m)
      @ [(''historical'', JBool (historical m))]
      @ opt_member ''reply_to'' JStr (reply_to m)
      @ [(''disposition'', JStr (disposition_text (disposition m)))]
      @ opt_member ''hold'' hold_json (hold m)
      @ opt_member ''release'' release_json (release m)
      @ opt_member ''delivery'' delivery_json (delivery m)
      @ opt_member ''adapter_fields'' JObj (adapter_fields m))"

section \<open>The message schema\<close>

definition base_schema :: "string list \<Rightarrow> string \<Rightarrow> schema" where
  "base_schema oth t = Schema oth None None (Some t) None None None [] [] Any None"

definition text_schema :: "int option \<Rightarrow> schema" where
  "text_schema n = Schema [] None None (Some ''string'') None n None [] [] Any None"

definition matching_schema :: "atom list \<Rightarrow> schema" where
  "matching_schema pat = Schema [] None None (Some ''string'') (Some pat) None None [] [] Any None"

definition natural_schema :: schema where
  "natural_schema = Schema [] None None (Some ''integer'') None None (Some 0) [] [] Any None"

definition const_schema :: "string \<Rightarrow> schema" where
  "const_schema c = Schema [] (Some (JStr c)) None None None None None [] [] Any None"

definition one_of :: "string list \<Rightarrow> schema" where
  "one_of vs = Schema [] None (Some (map JStr vs)) None None None None [] [] Any None"

definition exact_object :: "string list \<Rightarrow> string list \<Rightarrow> (string \<times> schema) list \<Rightarrow> schema" where
  "exact_object oth req props = Schema oth None None (Some ''object'') None None None req props Exact None"

definition array_of :: "schema \<Rightarrow> schema" where
  "array_of it = Schema [] None None (Some ''array'') None None None [] [] Any (Some it)"

definition nonempty_text :: schema where
  "nonempty_text = text_schema (Some 1)"

definition digest_pattern :: "atom list" where
  "digest_pattern = [Rep hex_lower 64 64]"

definition attachment_id_pattern :: "atom list" where
  "attachment_id_pattern =
     [Rep (\<lambda>c. let b = byte_of c in 65 \<le> b \<and> b \<le> 90 \<or> 97 \<le> b \<and> b \<le> 122 \<or> 48 \<le> b \<and> b \<le> 57
                 \<or> b = 95 \<or> b = 45) 1 256]"

definition attachment_schema :: schema where
  "attachment_schema = exact_object [] [''file'', ''mime'', ''bytes'', ''sha256'']
     [(''file'', nonempty_text), (''mime'', nonempty_text), (''bytes'', natural_schema),
      (''sha256'', matching_schema digest_pattern), (''download_failed'', base_schema [] ''boolean''),
      (''filename'', nonempty_text), (''attachment_id'', matching_schema attachment_id_pattern)]"

definition hold_schema :: schema where
  "hold_schema = exact_object [] [''reason'', ''set_at'']
     [(''reason'', nonempty_text), (''set_at'', nonempty_text), (''release_after_ms'', natural_schema)]"

definition release_schema :: schema where
  "release_schema = exact_object [''description''] [''released_at'', ''thread_id'', ''turn_id'']
     [(''released_at'', nonempty_text), (''thread_id'', nonempty_text), (''turn_id'', nonempty_text),
      (''completed_at'', nonempty_text)]"

definition claim_schema :: schema where
  "claim_schema = exact_object [] [''kind'', ''job'', ''step'', ''action_id'']
     [(''kind'', const_schema ''claimed''), (''job'', nonempty_text), (''step'', nonempty_text),
      (''action_id'', nonempty_text)]"

definition delivery_statuses :: "string list" where
  "delivery_statuses = [''pending'', ''pending-teach-check'', ''sent'', ''unknown'', ''failed'']"

definition delivery_schema :: schema where
  "delivery_schema = exact_object [''description''] [''request_id'', ''status'', ''text_sha256'']
     [(''request_id'', nonempty_text), (''status'', one_of delivery_statuses),
      (''text_sha256'', matching_schema digest_pattern),
      (''chunk_ids'', array_of (text_schema None)), (''action_claim'', claim_schema),
      (''completed_at'', nonempty_text)]"

definition message_sources :: "string list" where
  "message_sources = [''email'', ''whatsapp'', ''telegram'', ''browser'', ''import:carbon-capture'',
     ''import:ledger-sqlite'', ''import:ledger-outbound'']"

definition message_schema :: schema where
  "message_schema = exact_object [''$schema'', ''$id'', ''title'', ''description'']
     [''schema'', ''agent'', ''source'', ''account'', ''conversation_id'', ''conversation_kind'',
      ''message_id'', ''platform_message_id'', ''revision'', ''direction'', ''role'', ''sender_id'',
      ''received_at'', ''body'', ''attachments'', ''historical'', ''disposition'']
     [(''schema'', const_schema ''carbon.message.v1''), (''agent'', nonempty_text),
      (''source'', one_of message_sources), (''account'', nonempty_text),
      (''conversation_id'', nonempty_text), (''conversation_kind'', one_of [''direct'', ''group'', ''thread'']),
      (''message_id'', nonempty_text), (''platform_message_id'', nonempty_text),
      (''revision'', natural_schema), (''direction'', one_of [''inbound'', ''outbound'']),
      (''role'', one_of [''contact'', ''operator'', ''agent'', ''system'']),
      (''sender_id'', nonempty_text), (''sender_name'', text_schema None), (''sent_at'', nonempty_text),
      (''received_at'', nonempty_text), (''body'', text_schema None),
      (''attachments'', array_of attachment_schema), (''raw'', text_schema None),
      (''historical'', base_schema [] ''boolean''), (''reply_to'', text_schema None),
      (''disposition'', one_of [''captured'', ''held'', ''parked'', ''policy-drop'', ''unsupported'',
         ''permanent-error'']),
      (''hold'', hold_schema), (''release'', release_schema), (''delivery'', delivery_schema),
      (''adapter_fields'', base_schema [''description''] ''object'')]"


section \<open>What a valid record is\<close>

definition attachment_ok :: "attachment \<Rightarrow> bool" where
  "attachment_ok a \<longleftrightarrow>
     att_file a \<noteq> [] \<and> att_mime a \<noteq> [] \<and> 0 \<le> att_bytes a
   \<and> pattern_match digest_pattern (att_sha256 a)
   \<and> (case att_filename a of None \<Rightarrow> True | Some f \<Rightarrow> f \<noteq> [])
   \<and> (case att_id a of None \<Rightarrow> True | Some i \<Rightarrow> pattern_match attachment_id_pattern i)"

definition hold_ok :: "hold_info \<Rightarrow> bool" where
  "hold_ok h \<longleftrightarrow> hold_reason h \<noteq> [] \<and> hold_set_at h \<noteq> []
   \<and> (case hold_release_after_ms h of None \<Rightarrow> True | Some ms \<Rightarrow> 0 \<le> ms)"

definition release_ok :: "release_info \<Rightarrow> bool" where
  "release_ok r \<longleftrightarrow> rel_released_at r \<noteq> [] \<and> rel_thread_id r \<noteq> [] \<and> rel_turn_id r \<noteq> []
   \<and> (case rel_completed_at r of None \<Rightarrow> True | Some c \<Rightarrow> c \<noteq> [])"

definition delivery_ok :: "delivery_info \<Rightarrow> bool" where
  "delivery_ok d \<longleftrightarrow> dl_request_id d \<noteq> [] \<and> dl_status d \<in> set delivery_statuses
   \<and> pattern_match digest_pattern (dl_text_sha256 d)
   \<and> (case dl_action_claim d of None \<Rightarrow> True | Some c \<Rightarrow> validate claim_schema (JObj c) [] = [])
   \<and> (case dl_completed_at d of None \<Rightarrow> True | Some c \<Rightarrow> c \<noteq> [])"

text \<open>Validity of a record apart from the release and the delivery later operations add to it.\<close>

definition base_ok :: "message \<Rightarrow> bool" where
  "base_ok m \<longleftrightarrow>
     msg_schema m = ''carbon.message.v1'' \<and> agent m \<noteq> [] \<and> source m \<in> set message_sources
   \<and> account m \<noteq> [] \<and> conversation_id m \<noteq> []
   \<and> conversation_kind m \<in> {''direct'', ''group'', ''thread''}
   \<and> message_id m \<noteq> [] \<and> platform_message_id m \<noteq> [] \<and> 0 \<le> revision m \<and> sender_id m \<noteq> []
   \<and> (case sent_at m of None \<Rightarrow> True | Some t \<Rightarrow> t \<noteq> []) \<and> received_at m \<noteq> []
   \<and> (case hold m of None \<Rightarrow> True | Some h \<Rightarrow> hold_ok h)"

definition well_formed :: "message \<Rightarrow> bool" where
  "well_formed m \<longleftrightarrow>
     base_ok m
   \<and> list_all attachment_ok (attachments m)
   \<and> (case release m of None \<Rightarrow> True | Some r \<Rightarrow> release_ok r)
   \<and> (case delivery m of None \<Rightarrow> True | Some d \<Rightarrow> delivery_ok d)"

lemma base_ok_updates [simp]:
  "base_ok (m\<lparr>release := r\<rparr>) = base_ok m" "base_ok (m\<lparr>delivery := d\<rparr>) = base_ok m"
  "base_ok (m\<lparr>disposition := x\<rparr>) = base_ok m" "base_ok (m\<lparr>adapter_fields := a\<rparr>) = base_ok m"
  "base_ok (m\<lparr>raw := w\<rparr>) = base_ok m" "base_ok (m\<lparr>attachments := as\<rparr>) = base_ok m"
  by (simp_all add: base_ok_def)

lemma validate_empty_schema [simp]: "validate empty_schema v subj = []"
proof (induction v arbitrary: subj rule: measure_induct_rule [of size])
  case (less v)
  have "child_faults empty_schema v subj = []"
  proof (cases v)
    case (JObj mem)
    have "member_faults empty_schema subj n c = []" if "(n, c) \<in> set mem" for n c
      using less.IH [of c] size_json_obj [OF that] JObj
      by (simp add: member_faults_def property_of_def empty_schema_def [THEN arg_cong, of sc_properties]
          empty_schema_def [THEN arg_cong, of sc_additional])
    then show ?thesis
      using JObj by (auto simp: child_faults_def empty_schema_def [THEN arg_cong, of sc_required])
  qed (simp_all add: child_faults_def empty_schema_def)
  then show ?case
    by (simp add: validate_Nil_iff leaf_checks_iff) (simp add: empty_schema_def)
qed

text \<open>A schema with no members of its own, by its keywords.\<close>

lemma validate_leaf:
  assumes "sc_properties sc = []" "sc_required sc = []" "sc_additional sc = Any" "sc_items sc = None"
    and "set (sc_others sc) \<subseteq> set known_keywords"
  shows "validate sc v subj = [] \<longleftrightarrow>
    \<not> const_wrong sc v \<and> \<not> enum_wrong sc v \<and> \<not> type_wrong sc v \<and> string_faults sc v subj = []
    \<and> \<not> below_minimum sc v"
proof -
  have "member_faults sc subj n c = []" for n c
    using assms by (simp add: member_faults_def property_of_def)
  then have "child_faults sc v subj = []"
    using assms by (simp add: child_faults_def split: json.split)
  moreover have "filter (\<lambda>k. k \<notin> set known_keywords) (sc_others sc) = []"
    using assms(5) by (auto simp: filter_empty_conv)
  ultimately show ?thesis by (simp add: validate_Nil_iff)
qed

lemma js_length_0_iff [simp]: "js_length s = 0 \<longleftrightarrow> s = []"
  by (cases s) (simp_all add: js_length_def utf16.simps(2) Let_def)

lemma js_length_less_1 [simp]: "int (js_length s) < 1 \<longleftrightarrow> s = []"
  by (metis js_length_0_iff less_one of_nat_1 of_nat_less_iff)

lemma validate_text [simp]:
  "validate nonempty_text (JStr s) subj = [] \<longleftrightarrow> s \<noteq> []"
  "validate (text_schema None) (JStr s) subj = []"
  "validate (matching_schema pat) (JStr s) subj = [] \<longleftrightarrow> pattern_match pat s"
  "validate natural_schema (JInt i) subj = [] \<longleftrightarrow> 0 \<le> i"
  "validate (one_of vs) (JStr s) subj = [] \<longleftrightarrow> s \<in> set vs"
  "validate (const_schema t) (JStr s) subj = [] \<longleftrightarrow> s = t"
  by (subst validate_leaf; auto simp: nonempty_text_def text_schema_def matching_schema_def
      natural_schema_def one_of_def const_schema_def const_wrong_def enum_wrong_def type_wrong_def
      matches_type_def string_faults_def below_minimum_def list_ex_iff)+

lemma validate_base:
  "set oth \<subseteq> set known_keywords \<Longrightarrow>
     validate (base_schema oth t) v subj = [] \<longleftrightarrow> t = [] \<or> matches_type v t"
  by (subst validate_leaf) (auto simp: base_schema_def const_wrong_def enum_wrong_def type_wrong_def
      string_faults_def below_minimum_def split: json.split)

lemma validate_array:
  "validate (array_of it) (JArr xs) subj = [] \<longleftrightarrow>
     (\<forall>(i, x)\<in>set (enumerate 0 xs). validate it x (at_index subj i) = [])"
  by (subst validate_Nil_iff) (auto simp: array_of_def const_wrong_def enum_wrong_def type_wrong_def
      matches_type_def string_faults_def below_minimum_def child_faults_def)

lemma validate_exact_object:
  assumes "set oth \<subseteq> set known_keywords"
  shows "validate (exact_object oth req props) (JObj mem) subj = [] \<longleftrightarrow>
     (\<forall>n\<in>set req. name_in n mem)
   \<and> (\<forall>(n, c)\<in>set mem. name_in n props
        \<and> validate (case map_of props n of None \<Rightarrow> empty_schema | Some sc \<Rightarrow> sc) c (dot subj n) = [])"
proof -
  have "filter (\<lambda>k. k \<notin> set known_keywords) oth = []"
    using assms by (auto simp: filter_empty_conv)
  then show ?thesis
    by (subst validate_Nil_iff)
      (auto simp: exact_object_def const_wrong_def enum_wrong_def type_wrong_def matches_type_def
        string_faults_def below_minimum_def child_faults_def member_faults_def property_of_def
        concat_map_Nil_iff split: if_splits)
qed

lemma set_opt_member: "(n, c) \<in> set (opt_member k f x) \<longleftrightarrow> n = k \<and> (\<exists>v. x = Some v \<and> c = f v)"
  by (auto simp: opt_member_def split: option.splits)

lemma ball_opt_member:
  "(\<forall>(n, c)\<in>set (opt_member k f x). P n c) \<longleftrightarrow> (\<forall>v. x = Some v \<longrightarrow> P k (f v))"
  by (auto simp: opt_member_def split: option.splits)

lemma case_option_all: "(case x of None \<Rightarrow> True | Some v \<Rightarrow> P v) \<longleftrightarrow> (\<forall>v. x = Some v \<longrightarrow> P v)"
  by (simp split: option.split)

lemma name_in_iff: "name_in n al \<longleftrightarrow> n \<in> set (map fst al) \<or> n \<in> set object_prototype"
  by (simp only: name_in_def has_iff_keys)

lemmas object_simps =
  ball_Un ball_opt_member name_in_iff case_option_all validate_base matches_type_def

lemma validate_attachment:
  "validate attachment_schema (attachment_json a) subj = [] \<longleftrightarrow> attachment_ok a"
  unfolding attachment_schema_def attachment_json_def
  by (subst validate_exact_object) (auto simp: object_simps attachment_ok_def)

lemma validate_hold: "validate hold_schema (hold_json h) subj = [] \<longleftrightarrow> hold_ok h"
  unfolding hold_schema_def hold_json_def
  by (subst validate_exact_object) (auto simp: object_simps hold_ok_def)

lemma known_description: "set [''description''] \<subseteq> set known_keywords"
  by (simp add: known_keywords_def)

lemma validate_release: "validate release_schema (release_json r) subj = [] \<longleftrightarrow> release_ok r"
  unfolding release_schema_def release_json_def
  by (subst validate_exact_object [OF known_description])
    (auto simp: object_simps release_ok_def)

lemma validate_subject:
  "validate sc v subj = [] \<longleftrightarrow> validate sc v subj' = []"
proof (induction v arbitrary: sc subj subj' rule: measure_induct_rule [of size])
  case (less v)
  have "child_faults sc v subj = [] \<longleftrightarrow> child_faults sc v subj' = []"
  proof (cases v)
    case (JArr xs)
    have "validate it x s = [] \<longleftrightarrow> validate it x s' = []" if "(i, x) \<in> set (enumerate 0 xs)" for it x i s s'
      using less.IH [OF size_json_arr [OF that, folded JArr]] .
    then show ?thesis
      using JArr by (fastforce simp: child_faults_def concat_map_Nil_iff split: option.split)
  next
    case (JObj mem)
    have "member_faults sc subj n c = [] \<longleftrightarrow> member_faults sc subj' n c = []" if "(n, c) \<in> set mem" for n c
      using less.IH [OF size_json_obj [OF that, folded JObj]]
      by (auto simp: member_faults_def split: additional.split)
    then show ?thesis
      using JObj by (fastforce simp: child_faults_def concat_map_Nil_iff)
  qed (simp_all add: child_faults_def)
  moreover have "string_faults sc v subj = [] \<longleftrightarrow> string_faults sc v subj' = []"
    by (simp only: string_faults_iff)
  ultimately show ?case by (simp add: validate_Nil_iff [of sc v])
qed

lemma validate_delivery: "validate delivery_schema (delivery_json d) subj = [] \<longleftrightarrow> delivery_ok d"
proof -
  have chunks: "validate (array_of (text_schema None)) (JArr (map JStr ids)) s = []" for ids s
    by (auto simp: validate_array in_set_enumerate_eq)
  have claim: "validate claim_schema (JObj c) (dot subj k) = [] \<longleftrightarrow> validate claim_schema (JObj c) [] = []" for c k
    by (rule validate_subject)
  show ?thesis
    unfolding delivery_schema_def delivery_json_def
    by (subst validate_exact_object [OF known_description])
      (auto simp: object_simps delivery_ok_def chunks claim)
qed

lemma validate_attachments:
  "validate (array_of attachment_schema) (JArr (map attachment_json xs)) subj = [] \<longleftrightarrow>
     list_all attachment_ok xs"
proof -
  have "(\<forall>(i, x)\<in>set (enumerate 0 (map attachment_json xs)).
          validate attachment_schema x (at_index subj i) = []) \<longleftrightarrow>
        (\<forall>(i, x)\<in>set (enumerate 0 (map attachment_json xs)). validate attachment_schema x [] = [])"
    using validate_subject [of attachment_schema] by (intro ball_cong) auto
  also have "\<dots> \<longleftrightarrow> (\<forall>x\<in>set (map attachment_json xs). validate attachment_schema x [] = [])"
    by (rule ball_enumerate)
  finally show ?thesis by (simp add: validate_array list_all_iff validate_attachment)
qed

lemma direction_text_in: "direction_text d \<in> {''inbound'', ''outbound''}"
  by (cases d) simp_all

lemma role_text_in: "role_text r \<in> {''contact'', ''operator'', ''agent'', ''system''}"
  by (cases r) simp_all

lemma disposition_text_in:
  "disposition_text d \<in> {''captured'', ''held'', ''parked'', ''policy-drop'', ''unsupported'',
     ''permanent-error''}"
  by (cases d) simp_all

lemma validate_message:
  "validate message_schema (message_json m) subj = [] \<longleftrightarrow> well_formed m"
proof -
  have known: "set [''$schema'', ''$id'', ''title'', ''description''] \<subseteq> set known_keywords"
    by (simp add: known_keywords_def)
  show ?thesis
    unfolding message_schema_def message_json_def
    by (subst validate_exact_object [OF known])
      (simp add: object_simps well_formed_def base_ok_def validate_attachments validate_hold validate_release
        validate_delivery known_keywords_def direction_text_in [simplified] role_text_in [simplified]
        disposition_text_in [simplified] conj_ac)
qed

section \<open>Names every object inherits\<close>

lemma validate_exact_inherited:
  assumes "set oth \<subseteq> set known_keywords" "n \<in> set object_prototype" "map_of props n = None"
  shows "validate (exact_object oth req props) (JObj (mem @ [(n, v)])) subj = []
     \<longleftrightarrow> validate (exact_object oth req props) (JObj mem) subj = []"
proof -
  have "name_in k (mem @ [(n, v)]) = name_in k mem" for k
    using assms(2) by (auto simp: name_in_iff)
  moreover have "name_in n props" using assms(2) by (simp add: name_in_iff)
  ultimately show ?thesis
    by (simp only: validate_exact_object [OF assms(1)]) (simp add: assms(3) ball_Un)
qed

lemma no_inherited_property:
  "list_all (\<lambda>n. map_of (sc_properties message_schema) n = None) object_prototype"
  by code_simp

text \<open>What the validator lets through. The message schema allows no member it does not name, but the
  check is \<open>name in properties\<close>, which also finds what \<open>Object.prototype\<close> has: a record with one more
  member called \<open>constructor\<close>, \<open>toString\<close> or the like, of any value, is accepted exactly when the record
  without it is.\<close>

theorem inherited_member_passes:
  assumes "n \<in> set object_prototype" and "message_json m = JObj mem"
  shows "validate message_schema (JObj (mem @ [(n, v)])) subj = [] \<longleftrightarrow> well_formed m"
proof -
  have shape: "message_schema = exact_object (sc_others message_schema) (sc_required message_schema)
      (sc_properties message_schema)"
    by (simp add: message_schema_def exact_object_def)
  have known: "set (sc_others message_schema) \<subseteq> set known_keywords"
    by (simp add: message_schema_def exact_object_def known_keywords_def)
  have "map_of (sc_properties message_schema) n = None"
    using no_inherited_property assms(1) by (simp only: list_all_iff)
  from validate_exact_inherited [OF known assms(1) this, of "sc_required message_schema" mem v subj]
  have "validate message_schema (JObj (mem @ [(n, v)])) subj = [] \<longleftrightarrow> validate message_schema (JObj mem) subj = []"
    by (simp only: shape [symmetric])
  with assms(2) validate_message [of m subj] show ?thesis by simp
qed

end
