(* ===== verification/Store.thy ===== *)
theory Store
  imports Encode Message
begin

text \<open>
  The store library (\<open>stream/store.ts\<close>): the file tree of one agent as a state, and every operation
  of class \<open>Store\<close> as a function on it. A directory is an association list in directory order; a
  file written by temp, fsync, rename is one update. An operation that throws returns the state it
  left. The lemmas here are the field equations of the operations; the invariants are in
  \<open>Store_Inv\<close> and the reply fence in \<open>Reply_Fence\<close>.
\<close>

section \<open>State\<close>

record cursor_state =
  cur_message :: "string option"
  cur_revision :: "string option"

record reply_request =
  req_request_id :: string
  req_status :: string
  req_conversation_id :: string
  req_message_id :: string
  req_revision :: int
  req_chunk_ids :: "string list"

record index_line =
  ix_seq :: int
  ix_message_id :: string
  ix_revision :: int
  ix_conversation_id :: string
  ix_source :: string
  ix_direction :: direction
  ix_historical :: bool
  ix_first_seen_at :: string
  ix_file :: string

text \<open>The rebuildable projection of browser notifications kept beside the files, and the
  notifications sent to its listeners, oldest first.\<close>

record browser_update =
  bu_conversation_id :: string
  bu_message_id :: string
  bu_revision :: int
  bu_seq :: int
  bu_cursor :: "int option"

datatype change_kind = Capture_Change | State_Change

record browser_event =
  be_kind :: change_kind
  be_conversation_id :: string
  be_direction :: direction
  be_message_id :: string
  be_revision :: int

type_synonym file_key = "string \<times> string"

record store =
  captures :: "(file_key \<times> message) list"
  raw_files :: "(file_key \<times> string) list"
  attachment_files :: "((string \<times> string \<times> string) \<times> string) list"
  index_lines :: "index_line list"
  cursor_files :: "(string \<times> cursor_state) list"
  thread_files :: "(string \<times> members) list"
  request_files :: "(string \<times> reply_request) list"
  teaching_files :: "(string \<times> json option) list"
  seq_value :: int
  clock :: int
  browser_version :: nat
  browser_evidence_versions :: "(string \<times> (int \<times> string \<times> int)) list"
  browser_updates :: "((string \<times> string \<times> int) \<times> browser_update) list"
  browser_events :: "browser_event list"

text \<open>\<open>Store.open\<close> on a directory that is not there.\<close>

definition store_open :: "int \<Rightarrow> store" where
  "store_open now = \<lparr>captures = [], raw_files = [], attachment_files = [], index_lines = [],
     cursor_files = [], thread_files = [], request_files = [], teaching_files = [], seq_value = 0,
     clock = now, browser_version = 0, browser_evidence_versions = [], browser_updates = [],
     browser_events = []\<rparr>"

type_synonym 'a store_op = "store \<Rightarrow> (exn, 'a, store) outcome"

definition merges :: "string \<Rightarrow> bool" where
  "merges src = starts_with ''import:'' src"

definition store_next_seq :: "store \<Rightarrow> int \<times> store" where
  "store_next_seq s = (let n = seq_value s + 1 in (n, s\<lparr>seq_value := n\<rparr>))"

section \<open>Paths\<close>

definition record_file_name :: "string \<Rightarrow> int \<Rightarrow> string" where
  "record_file_name encoded revn =
     (if revn = 0 then encoded @ ''.json'' else encoded @ ''.'' @ show_int revn @ ''.json'')"

record record_paths =
  rp_dir :: string
  rp_stem :: string

definition store_paths :: "platform \<Rightarrow> string \<Rightarrow> string \<Rightarrow> int \<Rightarrow> exn + record_paths" where
  "store_paths p cid mid revn =
     (let faults = component_faults ''conversation_id'' (Some cid)
                 @ component_faults ''message_id'' (Some mid) in
      if faults \<noteq> [] then Inl (Stream_Fault faults)
      else
        (let conv = encode_component p cid; msg = encode_component p mid in
         Inr \<lparr>rp_dir = conv, rp_stem = (if revn = 0 then msg else msg @ ''.'' @ show_int revn)\<rparr>))"

definition record_key :: "record_paths \<Rightarrow> file_key" where
  "record_key pl = (rp_dir pl, rp_stem pl @ ''.json'')"

definition raw_key :: "record_paths \<Rightarrow> file_key" where
  "raw_key pl = (rp_dir pl, rp_stem pl @ ''.raw'')"

definition relative_path :: "file_key \<Rightarrow> string" where
  "relative_path k = ''captures/'' @ fst k @ ''/'' @ snd k"

definition message_paths :: "platform \<Rightarrow> message \<Rightarrow> exn + record_paths" where
  "message_paths p m = store_paths p (conversation_id m) (message_id m) (revision m)"

section \<open>Browser notifications\<close>

definition fields_of :: "message \<Rightarrow> members" where
  "fields_of m = (case adapter_fields m of None \<Rightarrow> [] | Some fs \<Rightarrow> fs)"

text \<open>\<open>Number(x)\<close>, \<open>None\<close> for NaN; objects, arrays and non-blank text are not read further.\<close>

fun to_number :: "json \<Rightarrow> int option" where
  "to_number JNull = Some 0"
| "to_number (JBool b) = Some (if b then 1 else 0)"
| "to_number (JInt i) = Some i"
| "to_number (JStr t) = (if trim_units t = [] then Some 0 else None)"
| "to_number _ = None"

definition store_publish :: "message \<Rightarrow> change_kind \<Rightarrow> int option \<Rightarrow> store \<Rightarrow> store" where
  "store_publish m kind capture_seq s =
     (if source m \<noteq> ''browser'' then s
      else
        (let conv = conversation_id m; mid = message_id m; revn = revision m;
             s1 = (if kind = Capture_Change \<and> truthy (map_of (fields_of m) ''evidence_change'')
                   then s\<lparr>browser_evidence_versions := AList.update conv
                       ((case map_of (browser_evidence_versions s) conv of
                           None \<Rightarrow> 0 | Some (v, _) \<Rightarrow> v) + 1, mid, revn)
                       (browser_evidence_versions s)\<rparr>
                   else s);
             identity = (conv, mid, revn);
             n = (case capture_seq of
                    Some c \<Rightarrow> c
                  | None \<Rightarrow> (case map_of (browser_updates s1) identity of None \<Rightarrow> 0 | Some u \<Rightarrow> bu_seq u));
             event_seq = (case map_of (fields_of m) ''browser_event_seq'' of
                            None \<Rightarrow> Some 0 | Some v \<Rightarrow> to_number v);
             cursor = map_option (max n) event_seq
         in s1\<lparr>browser_updates := AList.update identity
                 \<lparr>bu_conversation_id = conv, bu_message_id = mid, bu_revision = revn, bu_seq = n,
                  bu_cursor = cursor\<rparr> (browser_updates s1),
               browser_version := browser_version s1 + 1,
               browser_events := browser_events s1 @
                 [\<lparr>be_kind = kind, be_conversation_id = conv, be_direction = direction m,
                   be_message_id = mid, be_revision = revn\<rparr>]\<rparr>))"

text \<open>The stamp a change of a browser record carries:
  \<open>{ ...(adapter_fields ?? {}), ...extra, browser_event_seq: this.nextSeq() }\<close>.\<close>

definition browser_stamp :: "members \<Rightarrow> message \<Rightarrow> store \<Rightarrow> message \<times> store" where
  "browser_stamp extra m s =
     (if source m = ''browser'' then
        (let (n, s1) = store_next_seq s in
         (m\<lparr>adapter_fields := Some (spread (fields_of m) (extra @ [(''browser_event_seq'', JInt n)]))\<rparr>, s1))
      else (m, s))"

section \<open>Writes shared by the operations\<close>

definition write_record :: "file_key \<Rightarrow> message \<Rightarrow> store \<Rightarrow> store" where
  "write_record k m s = s\<lparr>captures := AList.update k m (captures s)\<rparr>"

definition store_append_index :: "platform \<Rightarrow> message \<Rightarrow> int \<Rightarrow> file_key \<Rightarrow> store \<Rightarrow> store" where
  "store_append_index p m n k s = s\<lparr>index_lines := index_lines s @
     [\<lparr>ix_seq = n, ix_message_id = message_id m, ix_revision = revision m,
       ix_conversation_id = conversation_id m, ix_source = source m, ix_direction = direction m,
       ix_historical = historical m, ix_first_seen_at = to_iso p (clock s),
       ix_file = relative_path k\<rparr>]\<rparr>"

text \<open>\<open>JSON.parse(fs.readFileSync(places.record))\<close>: the record as it is on disk, its place unchecked.\<close>

definition on_disk :: "file_key \<Rightarrow> store \<Rightarrow> exn + message" where
  "on_disk k s = (case map_of (captures s) k of None \<Rightarrow> Inl Io_Error | Some m \<Rightarrow> Inr m)"

section \<open>Cursors\<close>

definition store_cursor_file :: "platform \<Rightarrow> string \<Rightarrow> exn + string" where
  "store_cursor_file p cid =
     (let faults = component_faults ''conversation_id'' (Some cid) in
      if faults \<noteq> [] then Inl (Stream_Fault faults) else Inr (encode_component p cid @ ''.json''))"

definition store_cursors :: "platform \<Rightarrow> string \<Rightarrow> store \<Rightarrow> exn + cursor_state" where
  "store_cursors p cid s =
     bind_res (store_cursor_file p cid) (\<lambda>file.
       Inr (case map_of (cursor_files s) file of
              None \<Rightarrow> \<lparr>cur_message = None, cur_revision = None\<rparr> | Some c \<Rightarrow> c))"

definition cursor_at :: "string \<Rightarrow> cursor_state \<Rightarrow> string option" where
  "cursor_at kind c = (if kind = ''message'' then cur_message c else cur_revision c)"

definition set_cursor :: "string \<Rightarrow> string \<Rightarrow> cursor_state \<Rightarrow> cursor_state" where
  "set_cursor kind pos c =
     (if kind = ''message'' then c\<lparr>cur_message := Some pos\<rparr> else c\<lparr>cur_revision := Some pos\<rparr>)"

definition store_advance_cursor :: "platform \<Rightarrow> string \<Rightarrow> string \<Rightarrow> string \<Rightarrow> cursor_state store_op" where
  "store_advance_cursor p cid kind pos s =
     (if kind \<noteq> ''message'' \<and> kind \<noteq> ''revision'' then
        (Inl (Stream_Fault [Fault ''CURSOR_KIND_UNKNOWN'' kind]), s)
      else
        (case store_cursors p cid s of
           Inl e \<Rightarrow> (Inl e, s)
         | Inr current \<Rightarrow>
             if (case cursor_at kind current of None \<Rightarrow> False | Some at' \<Rightarrow> js_le pos at')
             then (Inr current, s)
             else (let nxt = set_cursor kind pos current in
                   (Inr nxt, s\<lparr>cursor_files := AList.update (encode_component p cid @ ''.json'') nxt
                                 (cursor_files s)\<rparr>))))"

section \<open>Capture\<close>

record capture_options =
  opt_raw :: "string option"
  opt_cursor :: "(string \<times> string) option"
  opt_disposition :: "disposition option"

record capture_result =
  cr_file :: file_key
  cr_seq :: int
  cr_merged :: bool
  cr_record :: message

definition no_options :: capture_options where
  "no_options = \<lparr>opt_raw = None, opt_cursor = None, opt_disposition = None\<rparr>"

text \<open>Attachments are a union by digest: the first of a digest stays, later ones are dropped.\<close>

fun merge_attachments :: "attachment list \<Rightarrow> string list \<Rightarrow> attachment list \<Rightarrow> attachment list" where
  "merge_attachments have seen [] = have"
| "merge_attachments have seen (a # rest) =
     (if att_sha256 a \<in> set seen then merge_attachments have seen rest
      else merge_attachments (have @ [a]) (att_sha256 a # seen) rest)"

definition merge_records :: "message \<Rightarrow> message \<Rightarrow> message" where
  "merge_records existing incoming = existing\<lparr>attachments :=
     merge_attachments (attachments existing) (map att_sha256 (attachments existing))
       (attachments incoming)\<rparr>"

definition store_set_disposition :: "platform \<Rightarrow> message \<Rightarrow> disposition \<Rightarrow> message store_op" where
  "store_set_disposition p m d s =
     (case message_paths p m of
        Inl e \<Rightarrow> (Inl e, s)
      | Inr pl \<Rightarrow>
          (case on_disk (record_key pl) s of
             Inl e \<Rightarrow> (Inl e, s)
           | Inr disk \<Rightarrow>
               (let (written, s1) = browser_stamp [] disk s;
                    written' = written\<lparr>disposition := d\<rparr>;
                    s2 = write_record (record_key pl) written' s1
                in (Inr written', store_publish written' State_Change None s2))))"

definition append_raw :: "record_paths \<Rightarrow> string option \<Rightarrow> message \<Rightarrow> store \<Rightarrow> message \<times> store" where
  "append_raw pl text m s =
     (case text of
        None \<Rightarrow> (m, s)
      | Some t \<Rightarrow>
          (let line = (if ends_with [CHR 0x0A] t then t else t @ [CHR 0x0A]);
               before = (case map_of (raw_files s) (raw_key pl) of None \<Rightarrow> [] | Some b \<Rightarrow> b)
           in (m\<lparr>raw := Some (relative_path (raw_key pl))\<rparr>,
               s\<lparr>raw_files := AList.update (raw_key pl) (before @ line) (raw_files s)\<rparr>)))"

text \<open>The part of \<open>capture\<close> between the raw append and the end of its \<open>try\<close>: the record is merged
  into the one on disk or written fresh with its index line, then given the requested disposition.\<close>

definition capture_place :: "platform \<Rightarrow> file_key \<Rightarrow> int \<Rightarrow> message \<Rightarrow> (message \<times> bool) store_op" where
  "capture_place p key n m s =
     (case map_of (captures s) key of
        Some existing \<Rightarrow>
          if source existing \<noteq> source m \<and> \<not> merges (source m)
          then (Inl (Stream_Fault [Fault ''MESSAGE_ID_CLAIMED'' (message_id m)]), s)
          else (let written = merge_records existing m in
                (Inr (written, True), if written \<noteq> existing then write_record key written s else s))
      | None \<Rightarrow> (Inr (m, False), store_append_index p m n key (write_record key m s)))"

definition capture_dispose :: "platform \<Rightarrow> capture_options \<Rightarrow> message \<Rightarrow> message store_op" where
  "capture_dispose p opts written s =
     (case opt_disposition opts of
        None \<Rightarrow> (Inr written, s)
      | Some d \<Rightarrow> if d \<noteq> disposition written then store_set_disposition p written d s
                  else (Inr written, s))"

definition capture_record ::
  "platform \<Rightarrow> record_paths \<Rightarrow> int \<Rightarrow> capture_options \<Rightarrow> message \<Rightarrow> capture_result store_op" where
  "capture_record p pl n opts m s =
     (case capture_place p (record_key pl) n m s of
        (Inl e, s1) \<Rightarrow> (Inl e, s1)
      | (Inr (written, merged), s1) \<Rightarrow>
          (case capture_dispose p opts written s1 of
             (Inl e, s2) \<Rightarrow> (Inl e, s2)
           | (Inr final, s2) \<Rightarrow>
               (Inr \<lparr>cr_file = record_key pl, cr_seq = n, cr_merged = merged, cr_record = final\<rparr>,
                if merged then s2 else store_publish final Capture_Change (Some n) s2)))"

definition capture_finally ::
  "platform \<Rightarrow> message \<Rightarrow> capture_options \<Rightarrow> (exn, capture_result, store) outcome
     \<Rightarrow> (exn, capture_result, store) outcome" where
  "capture_finally p m opts out =
     (case opt_cursor opts of
        None \<Rightarrow> out
      | Some (kind, pos) \<Rightarrow>
          (case store_advance_cursor p (conversation_id m) kind pos (snd out) of
             (Inl e, s) \<Rightarrow> (Inl e, s)
           | (Inr _, s) \<Rightarrow> (fst out, s)))"

definition store_capture :: "platform \<Rightarrow> message \<Rightarrow> capture_options \<Rightarrow> capture_result store_op" where
  "store_capture p m opts s =
     (let faults = validate message_schema (message_json m) ''$'' in
      if faults \<noteq> [] then (Inl (Stream_Fault faults), s)
      else
        (case message_paths p m of
           Inl e \<Rightarrow> (Inl e, s)
         | Inr pl \<Rightarrow>
             (let (n, s1) = store_next_seq s;
                  (m', s2) = append_raw pl (opt_raw opts) m s1
              in capture_finally p m opts (capture_record p pl n opts m' s2))))"

section \<open>Parking and annotating\<close>

definition store_park :: "platform \<Rightarrow> message \<Rightarrow> string \<Rightarrow> capture_options \<Rightarrow> capture_result store_op" where
  "store_park p m reason opts =
     store_capture p (m\<lparr>disposition := Parked,
       adapter_fields := Some (spread (fields_of m) [(''park_reason'', JStr reason)])\<rparr>) opts"

definition fault_line :: "platform \<Rightarrow> fault \<Rightarrow> string" where
  "fault_line p f = code f @ '' '' @ subject f @ '': '' @ problem_text p f"

definition store_park_failed ::
  "platform \<Rightarrow> message \<Rightarrow> fault list \<Rightarrow> string option \<Rightarrow> message store_op" where
  "store_park_failed p m faults reason s =
     (case message_paths p m of
        Inl e \<Rightarrow> (Inl e, s)
      | Inr pl \<Rightarrow>
          (case on_disk (record_key pl) s of
             Inl e \<Rightarrow> (Inl e, s)
           | Inr disk \<Rightarrow>
               (let noted = [(''park_reason'', JStr (case reason of
                               Some r \<Rightarrow> r | None \<Rightarrow> join ''; '' (map (fault_line p) faults))),
                             (''park_faults'', JArr (map (fault_json p) faults))];
                    (seqs, s1) = (if source disk = ''browser''
                                  then (let (n, s') = store_next_seq s in
                                        ([(''browser_event_seq'', JInt n)], s'))
                                  else ([], s));
                    written = disk\<lparr>disposition := Parked,
                      adapter_fields := Some (spread (fields_of disk) (noted @ seqs))\<rparr>;
                    s2 = write_record (record_key pl) written s1
                in (Inr written, store_publish written State_Change None s2))))"

definition store_annotate :: "platform \<Rightarrow> message \<Rightarrow> members \<Rightarrow> message store_op" where
  "store_annotate p m noted s =
     (case message_paths p m of
        Inl e \<Rightarrow> (Inl e, s)
      | Inr pl \<Rightarrow>
          (case on_disk (record_key pl) s of
             Inl e \<Rightarrow> (Inl e, s)
           | Inr disk \<Rightarrow>
               (let (seqs, s1) = (if source disk = ''browser''
                                  then (let (n, s') = store_next_seq s in
                                        ([(''browser_event_seq'', JInt n)], s'))
                                  else ([], s));
                    written = disk\<lparr>adapter_fields := Some (spread (fields_of disk) (noted @ seqs))\<rparr>;
                    s2 = write_record (record_key pl) written s1
                in (Inr written, store_publish written State_Change None s2))))"

section \<open>Attachments\<close>

definition store_put_attachment ::
  "platform \<Rightarrow> string \<Rightarrow> string \<Rightarrow> int \<Rightarrow> string \<Rightarrow> string option \<Rightarrow> string option \<Rightarrow> attachment store_op" where
  "store_put_attachment p cid mid revn bytes mime filename s =
     (case store_paths p cid mid revn of
        Inl e \<Rightarrow> (Inl e, s)
      | Inr pl \<Rightarrow>
          (let digest = sha256_hex p bytes;
               dir = rp_stem pl @ ''.attachments'';
               key = (rp_dir pl, dir, digest);
               s1 = (if has (attachment_files s) key then s
                     else s\<lparr>attachment_files := AList.update key bytes (attachment_files s)\<rparr>)
           in (Inr \<lparr>att_file = relative_path (rp_dir pl, dir @ ''/'' @ digest),
                    att_mime = (case mime of None \<Rightarrow> ''application/octet-stream'' | Some t \<Rightarrow> t),
                    att_bytes = int (length bytes), att_sha256 = digest, att_download_failed = None,
                    att_filename = (case filename of None \<Rightarrow> None | Some f \<Rightarrow> if f = [] then None else Some f),
                    att_id = None\<rparr>, s1)))"

section \<open>Reads\<close>

definition store_read_at :: "platform \<Rightarrow> file_key \<Rightarrow> store \<Rightarrow> exn + message" where
  "store_read_at p k s =
     bind_res (on_disk k s) (\<lambda>m.
       bind_res (message_paths p m) (\<lambda>pl.
         if k \<noteq> record_key pl then Inl (Stream_Fault [Fault ''RECORD_MISPLACED'' (relative_path k)])
         else Inr m))"

definition store_read :: "platform \<Rightarrow> string \<Rightarrow> string \<Rightarrow> int \<Rightarrow> store \<Rightarrow> exn + message option" where
  "store_read p cid mid revn s =
     bind_res (store_paths p cid mid revn) (\<lambda>pl.
       if \<not> has (captures s) (record_key pl) then Inr None
       else bind_res (store_read_at p (record_key pl) s) (\<lambda>m. Inr (Some m)))"

definition visible :: "string \<Rightarrow> bool" where
  "visible name \<longleftrightarrow> \<not> starts_with ''.'' name"

definition record_name :: "string \<Rightarrow> bool" where
  "record_name name \<longleftrightarrow> ends_with ''.json'' name \<and> visible name"

definition store_conversations :: "store \<Rightarrow> string list" where
  "store_conversations s = filter visible (remdups (map fst (keys (captures s))
     @ map fst (keys (raw_files s)) @ map fst (keys (attachment_files s))))"

definition keys_in :: "string \<Rightarrow> store \<Rightarrow> file_key list" where
  "keys_in conv s = filter (\<lambda>(d, f). d = conv \<and> record_name f) (keys (captures s))"

definition store_rebuild :: "platform \<Rightarrow> store \<Rightarrow> exn + message list" where
  "store_rebuild p s =
     map_res (\<lambda>k. store_read_at p k s) (concat (map (\<lambda>c. keys_in c s) (store_conversations s)))"

definition store_records_in :: "platform \<Rightarrow> string \<Rightarrow> store \<Rightarrow> exn + message list" where
  "store_records_in p cid s =
     (let faults = component_faults ''conversation_id'' (Some cid) in
      if faults \<noteq> [] then Inl (Stream_Fault faults)
      else map_res (\<lambda>k. store_read_at p k s) (keys_in (encode_component p cid) s))"

section \<open>Holds and release\<close>

datatype hold_end = Ends_At int | Never_Ends

fun held_until_from :: "platform \<Rightarrow> message list \<Rightarrow> hold_end option \<Rightarrow> hold_end option" where
  "held_until_from p [] until = until"
| "held_until_from p (m # ms) until =
     (case hold m of
        None \<Rightarrow> held_until_from p ms until
      | Some h \<Rightarrow>
          (case date_parse p (hold_set_at h) of
             None \<Rightarrow> held_until_from p ms until
           | Some set_at \<Rightarrow>
               (case hold_release_after_ms h of
                  None \<Rightarrow> Some Never_Ends
                | Some after \<Rightarrow>
                    held_until_from p ms
                      (Some (Ends_At (max (case until of Some (Ends_At u) \<Rightarrow> u | _ \<Rightarrow> 0)
                         (set_at + after)))))))"

definition store_held_until :: "platform \<Rightarrow> string \<Rightarrow> store \<Rightarrow> exn + hold_end option" where
  "store_held_until p cid s =
     bind_res (store_records_in p cid s) (\<lambda>ms. Inr (held_until_from p ms None))"

definition store_is_held :: "platform \<Rightarrow> string \<Rightarrow> int \<Rightarrow> store \<Rightarrow> exn + bool" where
  "store_is_held p cid now s =
     bind_res (store_held_until p cid s) (\<lambda>until.
       Inr (case until of None \<Rightarrow> False | Some Never_Ends \<Rightarrow> True | Some (Ends_At u) \<Rightarrow> now < u))"

definition store_release ::
  "platform \<Rightarrow> message \<Rightarrow> string \<Rightarrow> string \<Rightarrow> string \<Rightarrow> int \<Rightarrow> bool \<Rightarrow> message store_op" where
  "store_release p m released_at thread_id turn_id now hold_applies s =
     (case (if hold_applies then store_is_held p (conversation_id m) now s else Inr False) of
        Inl e \<Rightarrow> (Inl e, s)
      | Inr held \<Rightarrow>
          (case message_paths p m of
             Inl e \<Rightarrow> (Inl e, s)
           | Inr pl \<Rightarrow>
               (let faults =
                      (if historical m then [Fault ''HISTORICAL_NEVER_RELEASES'' (message_id m)] else [])
                    @ (if disposition m = Parked then [Fault ''PARKED_NEVER_RELEASES'' (message_id m)] else [])
                    @ (if held then [Fault ''CONVERSATION_HELD'' (conversation_id m)] else [])
                    @ (if \<not> has (captures s) (record_key pl)
                       then [Fault ''CAPTURE_BEFORE_RELEASE'' (message_id m)] else [])
                in if faults \<noteq> [] then (Inl (Stream_Fault faults), s)
                   else
                     (case store_read_at p (record_key pl) s of
                        Inl e \<Rightarrow> (Inl e, s)
                      | Inr disk \<Rightarrow>
                          (let (stamped, s1) = browser_stamp [] disk s;
                               written = stamped\<lparr>release := Some
                                 \<lparr>rel_released_at = released_at, rel_thread_id = thread_id,
                                  rel_turn_id = turn_id, rel_completed_at = None\<rparr>\<rparr>;
                               s2 = write_record (record_key pl) written s1
                           in (Inr written, store_publish written State_Change None s2))))))"

text \<open>Spreading an absent release leaves only \<open>completed_at\<close>; its other members are then empty.\<close>

definition complete_release_info :: "release_info option \<Rightarrow> string \<Rightarrow> release_info" where
  "complete_release_info r at' =
     (case r of
        None \<Rightarrow> \<lparr>rel_released_at = [], rel_thread_id = [], rel_turn_id = [], rel_completed_at = Some at'\<rparr>
      | Some r' \<Rightarrow> r'\<lparr>rel_completed_at := Some at'\<rparr>)"

definition store_complete_release :: "platform \<Rightarrow> message \<Rightarrow> string \<Rightarrow> message store_op" where
  "store_complete_release p m completed_at s =
     (case message_paths p m of
        Inl e \<Rightarrow> (Inl e, s)
      | Inr pl \<Rightarrow>
          (case store_read_at p (record_key pl) s of
             Inl e \<Rightarrow> (Inl e, s)
           | Inr disk \<Rightarrow>
               (let (stamped, s1) = browser_stamp [(''model_effect'', JStr ''completed'')] disk s;
                    written = stamped\<lparr>release := Some (complete_release_info (release disk) completed_at)\<rparr>;
                    s2 = write_record (record_key pl) written s1
                in (Inr written, store_publish written State_Change None s2))))"

section \<open>Outbound\<close>

definition store_request_file :: "platform \<Rightarrow> string \<Rightarrow> exn + string" where
  "store_request_file p rid =
     (let faults = component_faults ''request_id'' (Some rid) in
      if faults \<noteq> [] then Inl (Stream_Fault faults) else Inr (encode_component p rid @ ''.json''))"

definition store_read_request :: "platform \<Rightarrow> string \<Rightarrow> store \<Rightarrow> exn + reply_request option" where
  "store_read_request p rid s =
     bind_res (store_request_file p rid) (\<lambda>file. Inr (map_of (request_files s) file))"

datatype reply_outcome =
    Fenced_Sent (sent_chunks: "string list") (sent_message: string)
  | Written (written_record: message) (written_file: file_key)

definition reply_faults :: "message \<Rightarrow> string \<Rightarrow> message list \<Rightarrow> fault list" where
  "reply_faults m status records =
     (if status \<noteq> ''pending'' \<and> status \<noteq> ''pending-teach-check''
      then [Fault ''REPLY_STATUS_UNWRITABLE'' status] else [])
   @ (if direction m \<noteq> Outbound then [Fault ''REPLY_NOT_OUTBOUND'' (message_id m)] else [])
   @ (if (case delivery m of None \<Rightarrow> True | Some d \<Rightarrow> dl_request_id d = [])
      then [Fault ''REPLY_WITHOUT_REQUEST_ID'' (message_id m)] else [])
   @ (let owned = filter (\<lambda>r. direction r = Inbound) records in
      if owned = [] then [Fault ''CONVERSATION_NOT_OWNED'' (conversation_id m)]
      else if \<not> list_ex (\<lambda>r. account r = account m) owned then [Fault ''REPLY_ACCOUNT_MISMATCH'' (account m)]
      else [])"

definition fence_fault :: "reply_request option \<Rightarrow> string \<Rightarrow> fault option" where
  "fence_fault existing rid =
     (case existing of
        None \<Rightarrow> None
      | Some q \<Rightarrow>
          if req_status q = ''pending'' \<or> req_status q = ''pending-teach-check''
          then Some (Fault ''REQUEST_ALREADY_PENDING'' rid)
          else if req_status q = ''unknown'' then Some (Fault ''DELIVERY_UNKNOWN_NEVER_RETRIED'' rid)
          else None)"

definition reply_write :: "platform \<Rightarrow> message \<Rightarrow> delivery_info \<Rightarrow> string \<Rightarrow> reply_outcome store_op" where
  "reply_write p m dl status s =
     (case store_capture p (m\<lparr>delivery := Some (dl\<lparr>dl_status := status\<rparr>)\<rparr>) no_options s of
        (Inl e, s1) \<Rightarrow> (Inl e, s1)
      | (Inr res, s1) \<Rightarrow>
          (case store_request_file p (dl_request_id dl) of
             Inl e \<Rightarrow> (Inl e, s1)
           | Inr file \<Rightarrow>
               (Inr (Written (cr_record res) (cr_file res)),
                s1\<lparr>request_files := AList.update file
                  \<lparr>req_request_id = dl_request_id dl, req_status = status,
                   req_conversation_id = conversation_id m, req_message_id = message_id m,
                   req_revision = revision m, req_chunk_ids = []\<rparr> (request_files s1)\<rparr>)))"

definition store_reply :: "platform \<Rightarrow> message \<Rightarrow> string \<Rightarrow> reply_outcome store_op" where
  "store_reply p m status s =
     (case store_records_in p (conversation_id m) s of
        Inl e \<Rightarrow> (Inl e, s)
      | Inr records \<Rightarrow>
          if reply_faults m status records \<noteq> []
          then (Inl (Stream_Fault (reply_faults m status records)), s)
          else
            (case delivery m of
               None \<Rightarrow> (Inl Type_Error, s)
             | Some dl \<Rightarrow>
                 (case store_read_request p (dl_request_id dl) s of
                    Inl e \<Rightarrow> (Inl e, s)
                  | Inr existing \<Rightarrow>
                      (case existing of
                         Some q \<Rightarrow>
                           if req_status q = ''sent''
                           then (Inr (Fenced_Sent (req_chunk_ids q) (req_message_id q)), s)
                           else
                             (case fence_fault existing (dl_request_id dl) of
                                Some f \<Rightarrow> (Inl (Stream_Fault [f]), s)
                              | None \<Rightarrow> reply_write p m dl status s)
                       | None \<Rightarrow> reply_write p m dl status s))))"

definition settle_delivery_info ::
  "delivery_info option \<Rightarrow> string \<Rightarrow> string list option \<Rightarrow> string option \<Rightarrow> delivery_info" where
  "settle_delivery_info d status chunks completed =
     (let d0 = (case d of
                  None \<Rightarrow> \<lparr>dl_request_id = [], dl_status = [], dl_text_sha256 = [], dl_chunk_ids = None,
                           dl_action_claim = None, dl_completed_at = None\<rparr>
                | Some d' \<Rightarrow> d')
      in d0\<lparr>dl_status := status,
            dl_chunk_ids := (case chunks of None \<Rightarrow> dl_chunk_ids d0 | Some c \<Rightarrow> Some c),
            dl_completed_at := (case completed of None \<Rightarrow> dl_completed_at d0 | Some c \<Rightarrow> Some c)\<rparr>)"

definition store_settle_delivery ::
  "platform \<Rightarrow> string \<Rightarrow> string \<Rightarrow> string list option \<Rightarrow> string option \<Rightarrow> message store_op" where
  "store_settle_delivery p rid status chunks completed s =
     (case store_read_request p rid s of
        Inl e \<Rightarrow> (Inl e, s)
      | Inr None \<Rightarrow> (Inl (Stream_Fault [Fault ''REQUEST_UNKNOWN'' rid]), s)
      | Inr (Some q) \<Rightarrow>
          (case store_read p (req_conversation_id q) (req_message_id q) (req_revision q) s of
             Inl e \<Rightarrow> (Inl e, s)
           | Inr None \<Rightarrow> (Inl Type_Error, s)
           | Inr (Some m) \<Rightarrow>
               (case (message_paths p m, store_request_file p rid) of
                  (Inr pl, Inr file) \<Rightarrow>
                    (let (stamped, s1) = browser_stamp [] m s;
                         settled = stamped\<lparr>delivery :=
                           Some (settle_delivery_info (delivery m) status chunks completed)\<rparr>;
                         s2 = write_record (record_key pl) settled s1;
                         s3 = s2\<lparr>request_files := AList.update file
                           (q\<lparr>req_status := status,
                              req_chunk_ids := (case chunks of None \<Rightarrow> req_chunk_ids q | Some c \<Rightarrow> c)\<rparr>)
                           (request_files s2)\<rparr>
                     in (Inr settled, store_publish settled State_Change None s3))
                | (Inl e, _) \<Rightarrow> (Inl e, s)
                | (_, Inl e) \<Rightarrow> (Inl e, s))))"

definition store_release_held_reply :: "platform \<Rightarrow> string \<Rightarrow> message store_op" where
  "store_release_held_reply p rid s =
     (case store_read_request p rid s of
        Inl e \<Rightarrow> (Inl e, s)
      | Inr existing \<Rightarrow>
          if (case existing of None \<Rightarrow> True | Some q \<Rightarrow> req_status q \<noteq> ''pending-teach-check'')
          then (Inl (Stream_Fault [Fault ''REPLY_NOT_HELD'' rid]), s)
          else store_settle_delivery p rid ''pending'' None None s)"

definition store_mark_sent :: "platform \<Rightarrow> string \<Rightarrow> string list \<Rightarrow> message store_op" where
  "store_mark_sent p rid chunks s =
     store_settle_delivery p rid ''sent'' (Some chunks) (Some (to_iso p (clock s))) s"

definition store_mark_unknown :: "platform \<Rightarrow> string \<Rightarrow> message store_op" where
  "store_mark_unknown p rid s =
     store_settle_delivery p rid ''unknown'' None (Some (to_iso p (clock s))) s"

definition store_mark_failed :: "platform \<Rightarrow> string \<Rightarrow> message store_op" where
  "store_mark_failed p rid s =
     store_settle_delivery p rid ''failed'' None (Some (to_iso p (clock s))) s"

section \<open>Threads\<close>

definition store_thread_file :: "platform \<Rightarrow> string \<Rightarrow> exn + string" where
  "store_thread_file p unit_id =
     (let faults = component_faults ''unit_id'' (Some unit_id) in
      if faults \<noteq> [] then Inl (Stream_Fault faults) else Inr (encode_component p unit_id @ ''.json''))"

definition store_write_thread :: "platform \<Rightarrow> string \<Rightarrow> members \<Rightarrow> unit store_op" where
  "store_write_thread p unit_id dat s =
     (case store_thread_file p unit_id of
        Inl e \<Rightarrow> (Inl e, s)
      | Inr file \<Rightarrow>
          (Inr (), s\<lparr>thread_files := AList.update file (spread [(''unit_id'', JStr unit_id)] dat)
                      (thread_files s)\<rparr>))"

definition store_read_thread :: "platform \<Rightarrow> string \<Rightarrow> store \<Rightarrow> exn + members option" where
  "store_read_thread p unit_id s =
     bind_res (store_thread_file p unit_id) (\<lambda>file. Inr (map_of (thread_files s) file))"

end
