(* ===== verification/Sample.thy ===== *)
theory Sample
  imports Store
begin

text \<open>
  Concrete inputs at which the properties are applied: a platform whose hash is a constant digest
  and whose dates are decimal milliseconds, and a valid record.
\<close>

definition sample_platform :: platform where
  "sample_platform = \<lparr>sha256_hex = (\<lambda>s. replicate 64 (CHR ''0'')), date_parse = (\<lambda>s. Some (int (read_nat s 0))),
     to_iso = (\<lambda>t. CHR ''t'' # show_int t), locale_compare = (\<lambda>a b. if a = b then 0 else if js_le a b then -1 else 1),
     number_text = (\<lambda>n d. show_int n @ ''/'' @ show_nat d), problem_text = (\<lambda>f. ''problem''), fix_text = (\<lambda>f. ''fix'')\<rparr>"

definition sample_message :: "string \<Rightarrow> string \<Rightarrow> direction \<Rightarrow> message" where
  "sample_message cid mid dir = \<lparr>msg_schema = ''carbon.message.v1'', agent = ''sales'', source = ''email'',
     account = ''primary'', conversation_id = cid, conversation_kind = ''direct'', message_id = mid,
     platform_message_id = mid, revision = 0, direction = dir, role = Contact, sender_id = ''alice'',
     sender_name = None, sent_at = None, received_at = ''100'', body = ''hello'', attachments = [],
     raw = None, historical = False, reply_to = None, disposition = Captured, hold = None,
     release = None, delivery = None, adapter_fields = None\<rparr>"

definition sample_delivery :: "string \<Rightarrow> delivery_info" where
  "sample_delivery rid = \<lparr>dl_request_id = rid, dl_status = ''pending'', dl_text_sha256 = replicate 64 (CHR ''0''),
     dl_chunk_ids = None, dl_action_claim = None, dl_completed_at = None\<rparr>"

lemma sample_well_formed [simp]:
  "cid \<noteq> [] \<Longrightarrow> mid \<noteq> [] \<Longrightarrow> well_formed (sample_message cid mid dir)"
  by (simp add: sample_message_def well_formed_def base_ok_def message_sources_def)

lemma sample_fields [simp]:
  "conversation_id (sample_message cid mid dir) = cid" "message_id (sample_message cid mid dir) = mid"
  "revision (sample_message cid mid dir) = 0" "direction (sample_message cid mid dir) = dir"
  "source (sample_message cid mid dir) = ''email''" "attachments (sample_message cid mid dir) = []"
  "historical (sample_message cid mid dir) = False" "disposition (sample_message cid mid dir) = Captured"
  "hold (sample_message cid mid dir) = None" "account (sample_message cid mid dir) = ''primary''"
  "release (sample_message cid mid dir) = None" "delivery (sample_message cid mid dir) = None"
  by (simp_all add: sample_message_def)

lemma sample_paths [simp]:
  "message_paths sample_platform (sample_message ''c'' ''m'' dir) = Inr \<lparr>rp_dir = ''c'', rp_stem = ''m''\<rparr>"
  "message_paths sample_platform (sample_message ''c'' ''r'' dir) = Inr \<lparr>rp_dir = ''c'', rp_stem = ''r''\<rparr>"
  unfolding message_paths_def sample_fields by code_simp+

text \<open>A store that owns the conversation: one inbound record is captured; and a reply to it.\<close>

definition owned_store :: store where
  "owned_store = (store_open 0)\<lparr>captures := [((''c'', ''m.json''), sample_message ''c'' ''m'' Inbound)],
     seq_value := 1\<rparr>"

definition sample_reply :: message where
  "sample_reply = (sample_message ''c'' ''r'' Outbound)\<lparr>delivery := Some (sample_delivery ''q'')\<rparr>"

lemma sample_reply_fields [simp]:
  "conversation_id sample_reply = ''c''" "message_id sample_reply = ''r''" "revision sample_reply = 0"
  "delivery sample_reply = Some (sample_delivery ''q'')" "source sample_reply = ''email''"
  "direction sample_reply = Outbound"
  by (simp_all add: sample_reply_def)

lemma sample_delivery_fields [simp]:
  "dl_request_id (sample_delivery rid) = rid" "dl_status (sample_delivery rid) = ''pending''"
  "sample_delivery rid\<lparr>dl_status := ''pending''\<rparr> = sample_delivery rid"
  "sample_reply\<lparr>delivery := Some (sample_delivery ''q'')\<rparr> = sample_reply"
  by (simp_all add: sample_delivery_def sample_reply_def)

lemma sample_reply_paths [simp]:
  "message_paths sample_platform sample_reply = Inr \<lparr>rp_dir = ''c'', rp_stem = ''r''\<rparr>"
  using sample_paths(2) [of Outbound] by (simp add: message_paths_def)

lemma sample_digest: "pattern_match digest_pattern (replicate 64 (CHR ''0''))"
  by code_simp

lemma sample_delivery_ok [simp]: "rid \<noteq> [] \<Longrightarrow> delivery_ok (sample_delivery rid)"
  using sample_digest by (simp add: delivery_ok_def sample_delivery_def delivery_statuses_def)

lemma sample_reply_well_formed [simp]: "well_formed sample_reply"
  using sample_well_formed [of "''c''" "''r''" Outbound] sample_delivery_ok [of "''q''"]
  by (simp add: sample_reply_def well_formed_def)

lemma owned_store_captures [simp]:
  "captures owned_store = [((''c'', ''m.json''), sample_message ''c'' ''m'' Inbound)]"
  "request_files owned_store = []" "seq_value owned_store = 1"
  by (simp_all add: owned_store_def store_open_def)

lemma sample_records [simp]:
  "store_records_in sample_platform ''c'' owned_store = Inr [sample_message ''c'' ''m'' Inbound]"
  by code_simp

lemma sample_request [simp]:
  "store_read_request sample_platform ''q'' s = Inr (map_of (request_files s) ''q.json'')"
  "store_request_file sample_platform ''q'' = Inr ''q.json''"
proof -
  have "component_faults ''request_id'' (Some ''q'') = []" "encode_component sample_platform ''q'' = ''q''"
    by code_simp+
  then show "store_read_request sample_platform ''q'' s = Inr (map_of (request_files s) ''q.json'')"
    "store_request_file sample_platform ''q'' = Inr ''q.json''"
    by (simp_all add: store_read_request_def store_request_file_def)
qed

theorem inherited_member_passes_witness:
  "\<exists>mem. message_json (sample_message ''c'' ''m'' Inbound) = JObj mem
     \<and> validate message_schema (JObj (mem @ [(''toString'', JNull)])) ''$'' = []"
proof -
  obtain mem where "message_json (sample_message ''c'' ''m'' Inbound) = JObj mem" by (simp add: message_json_def)
  with inherited_member_passes [of "''toString''" "sample_message ''c'' ''m'' Inbound" mem JNull "''$''"]
  show ?thesis by (simp add: object_prototype_def)
qed

end
