(* ===== verification/Store_Inv.thy ===== *)
theory Store_Inv
  imports Store
begin

text \<open>
  What no operation of the store undoes. \<open>atomic_write\<close> is one rename, append or change of memory
  the library makes; \<open>evolves\<close> is any number of them, so it also covers the states a crash in the
  middle of an operation leaves. Every operation of \<open>Store\<close> evolves the state, and what holds of
  \<open>evolves\<close> (records keep their place, their identity and their content; cursors and ordinals
  never move back; the index grows in order) holds of all of them.
\<close>

section \<open>What a write keeps of a record\<close>

text \<open>The fields no operation changes once a record is captured.\<close>

definition core_of :: "message \<Rightarrow> message" where
  "core_of m = m\<lparr>attachments := [], disposition := Captured, release := None, delivery := None,
     adapter_fields := None\<rparr>"

definition kept :: "message \<Rightarrow> message \<Rightarrow> bool" where
  "kept m m' \<longleftrightarrow> core_of m = core_of m' \<and> (\<exists>more. attachments m' = attachments m @ more)"

lemma kept_refl [simp]: "kept m m"
  by (simp add: kept_def)

lemma kept_trans: "kept a b \<Longrightarrow> kept b c \<Longrightarrow> kept a c"
  by (auto simp: kept_def)

lemma core_of_eqD:
  assumes "core_of m = core_of m'"
  shows "conversation_id m' = conversation_id m" "message_id m' = message_id m"
    "revision m' = revision m" "body m' = body m" "received_at m' = received_at m"
    "sender_id m' = sender_id m" "source m' = source m" "direction m' = direction m"
    "historical m' = historical m" "account m' = account m" "hold m' = hold m" "role m' = role m"
proof -
  have "f (core_of m') = f (core_of m)" for f :: "message \<Rightarrow> 'b" using assms by simp
  from this [of conversation_id] this [of message_id] this [of revision] this [of body]
    this [of received_at] this [of sender_id] this [of source] this [of direction]
    this [of historical] this [of account] this [of hold] this [of role]
  show "conversation_id m' = conversation_id m" "message_id m' = message_id m"
    "revision m' = revision m" "body m' = body m" "received_at m' = received_at m"
    "sender_id m' = sender_id m" "source m' = source m" "direction m' = direction m"
    "historical m' = historical m" "account m' = account m" "hold m' = hold m" "role m' = role m"
    by (simp_all add: core_of_def)
qed


text \<open>A record that was valid when it was captured: what is added later apart.\<close>

definition sound :: "message \<Rightarrow> bool" where
  "sound m \<longleftrightarrow> base_ok m \<and> list_all attachment_ok (attachments m)"

lemma well_formed_sound: "well_formed m \<Longrightarrow> sound m"
  by (simp add: sound_def well_formed_def)

lemma sound_updates [simp]:
  "sound (m\<lparr>release := r\<rparr>) = sound m" "sound (m\<lparr>delivery := d\<rparr>) = sound m"
  "sound (m\<lparr>disposition := x\<rparr>) = sound m" "sound (m\<lparr>adapter_fields := a\<rparr>) = sound m"
  "sound (m\<lparr>raw := w\<rparr>) = sound m"
  by (simp_all add: sound_def)

lemma core_of_updates [simp]:
  "core_of (m\<lparr>release := r\<rparr>) = core_of m" "core_of (m\<lparr>delivery := d\<rparr>) = core_of m"
  "core_of (m\<lparr>disposition := x\<rparr>) = core_of m" "core_of (m\<lparr>adapter_fields := a\<rparr>) = core_of m"
  "core_of (m\<lparr>attachments := as\<rparr>) = core_of m"
  by (simp_all add: core_of_def)

lemma kept_updates [simp]:
  "kept m (m'\<lparr>release := r\<rparr>) = kept m m'" "kept m (m'\<lparr>delivery := d\<rparr>) = kept m m'"
  "kept m (m'\<lparr>disposition := x\<rparr>) = kept m m'" "kept m (m'\<lparr>adapter_fields := a\<rparr>) = kept m m'"
  unfolding kept_def core_of_updates by simp_all

lemma message_paths_kept: "kept m m' \<Longrightarrow> message_paths p m' = message_paths p m"
  unfolding kept_def message_paths_def using core_of_eqD(1-3) [of m m'] by simp

section \<open>One write\<close>

fun position_le :: "string option \<Rightarrow> string option \<Rightarrow> bool" where
  "position_le None w = True"
| "position_le (Some v) None = False"
| "position_le (Some v) (Some w) = js_le v w"

lemma position_le_refl [simp]: "position_le v v"
  by (cases v) simp_all

lemma position_le_trans: "position_le u v \<Longrightarrow> position_le v w \<Longrightarrow> position_le u w"
  by (cases u; cases v; cases w) (auto intro: js_le_trans)

definition cursor_le :: "cursor_state \<Rightarrow> cursor_state \<Rightarrow> bool" where
  "cursor_le c c' \<longleftrightarrow>
     position_le (cur_message c) (cur_message c') \<and> position_le (cur_revision c) (cur_revision c')"

lemma cursor_le_refl [simp]: "cursor_le c c"
  by (simp add: cursor_le_def)

lemma cursor_le_trans: "cursor_le a b \<Longrightarrow> cursor_le b c \<Longrightarrow> cursor_le a c"
  unfolding cursor_le_def by (blast intro: position_le_trans)

text \<open>What differs is in memory only: the clock and the browser projection.\<close>

definition same_files :: "store \<Rightarrow> store \<Rightarrow> bool" where
  "same_files s s' \<longleftrightarrow>
     captures s' = captures s \<and> raw_files s' = raw_files s \<and> attachment_files s' = attachment_files s
   \<and> index_lines s' = index_lines s \<and> cursor_files s' = cursor_files s
   \<and> thread_files s' = thread_files s \<and> request_files s' = request_files s
   \<and> teaching_files s' = teaching_files s \<and> seq_value s' = seq_value s"

inductive atomic_write :: "platform \<Rightarrow> store \<Rightarrow> store \<Rightarrow> bool" for p where
  New_Record: "message_paths p m = Inr pl \<Longrightarrow> \<not> has (captures s) (record_key pl) \<Longrightarrow> sound m \<Longrightarrow>
     atomic_write p s (write_record (record_key pl) m s)"
| Record_Update: "map_of (captures s) k = Some m \<Longrightarrow> kept m m' \<Longrightarrow> (sound m \<Longrightarrow> sound m') \<Longrightarrow>
     atomic_write p s (write_record k m' s)"
| Raw_Append: "atomic_write p s (s\<lparr>raw_files := AList.update k
     ((case map_of (raw_files s) k of None \<Rightarrow> [] | Some b \<Rightarrow> b) @ line) (raw_files s)\<rparr>)"
| Attachment_Put: "\<not> has (attachment_files s) k \<Longrightarrow>
     atomic_write p s (s\<lparr>attachment_files := AList.update k bytes (attachment_files s)\<rparr>)"
| Index_Append: "has (captures s) k \<Longrightarrow> n = seq_value s \<Longrightarrow> (\<forall>l\<in>set (index_lines s). ix_seq l < n) \<Longrightarrow>
     atomic_write p s (store_append_index p m n k s)"
| Next_Seq: "atomic_write p s (s\<lparr>seq_value := seq_value s + 1\<rparr>)"
| Cursor_Forward: "(\<forall>c. map_of (cursor_files s) f = Some c \<longrightarrow> cursor_le c c') \<Longrightarrow>
     atomic_write p s (s\<lparr>cursor_files := AList.update f c' (cursor_files s)\<rparr>)"
| Request_Write: "atomic_write p s (s\<lparr>request_files := AList.update f q (request_files s)\<rparr>)"
| Thread_Write: "atomic_write p s (s\<lparr>thread_files := AList.update f t (thread_files s)\<rparr>)"
| Teaching_Write: "atomic_write p s (s\<lparr>teaching_files := AList.update f j (teaching_files s)\<rparr>)"
| In_Memory: "same_files s s' \<Longrightarrow> atomic_write p s s'"

abbreviation evolves :: "platform \<Rightarrow> store \<Rightarrow> store \<Rightarrow> bool" where
  "evolves p \<equiv> (atomic_write p)\<^sup>*\<^sup>*"

section \<open>What every write keeps\<close>

text \<open>Each record is at the path its own identity derives, and was valid when it was written.\<close>

definition placed :: "platform \<Rightarrow> store \<Rightarrow> bool" where
  "placed p s \<longleftrightarrow> distinct (keys (captures s))
     \<and> (\<forall>(k, m)\<in>set (captures s). sound m \<and> (\<exists>pl. message_paths p m = Inr pl \<and> k = record_key pl))"

text \<open>The index: ordinals strictly rise, none is past the counter, and each line names a record
  that is on disk.\<close>

definition indexed :: "store \<Rightarrow> index_line \<Rightarrow> bool" where
  "indexed s l \<longleftrightarrow> (\<exists>k. has (captures s) k \<and> ix_file l = relative_path k)"

definition index_sound :: "store \<Rightarrow> bool" where
  "index_sound s \<longleftrightarrow> sorted_wrt (<) (map ix_seq (index_lines s))
     \<and> (\<forall>l\<in>set (index_lines s). ix_seq l \<le> seq_value s \<and> indexed s l)"

text \<open>Nothing on disk is lost: records keep their core, raw files and the index are only appended
  to, an attachment keeps its bytes, cursors and the counter do not move back.\<close>

definition grows :: "store \<Rightarrow> store \<Rightarrow> bool" where
  "grows s s' \<longleftrightarrow>
     (\<forall>k m. map_of (captures s) k = Some m \<longrightarrow> (\<exists>m'. map_of (captures s') k = Some m' \<and> kept m m'))
   \<and> (\<forall>k b. map_of (raw_files s) k = Some b \<longrightarrow> (\<exists>more. map_of (raw_files s') k = Some (b @ more)))
   \<and> (\<forall>k b. map_of (attachment_files s) k = Some b \<longrightarrow> map_of (attachment_files s') k = Some b)
   \<and> (\<exists>more. index_lines s' = index_lines s @ more)
   \<and> (\<forall>f c. map_of (cursor_files s) f = Some c
         \<longrightarrow> (\<exists>c'. map_of (cursor_files s') f = Some c' \<and> cursor_le c c'))
   \<and> seq_value s \<le> seq_value s'"

inductive_cases atomic_writeE: "atomic_write p s s'"

lemma atomic_placed:
  assumes "atomic_write p s s'" and "placed p s" shows "placed p s'"
  using assms
proof (cases rule: atomic_write.cases)
  case (New_Record m pl)
  with assms(2) show ?thesis
    by (auto simp: placed_def write_record_def set_update_distinct distinct_keys_update)
next
  case (Record_Update k m m')
  then have "(k, m) \<in> set (captures s)" by (simp add: map_of_SomeD)
  with assms(2) Record_Update message_paths_kept [of m m' p] show ?thesis
    by (fastforce simp: placed_def write_record_def set_update_distinct distinct_keys_update)
qed (auto simp: placed_def store_append_index_def same_files_def)

lemma index_sound_more_records:
  assumes "index_sound s" and "index_lines s' = index_lines s" and "seq_value s' = seq_value s"
    and "\<And>k. has (captures s) k \<Longrightarrow> has (captures s') k"
  shows "index_sound s'"
  using assms unfolding index_sound_def indexed_def by metis

lemma atomic_index_sound:
  assumes "atomic_write p s s'" and "index_sound s" shows "index_sound s'"
  using assms
proof (cases rule: atomic_write.cases)
  case (New_Record m pl)
  then show ?thesis
    using index_sound_more_records [OF assms(2), of s'] by (simp add: write_record_def)
next
  case (Record_Update k m m')
  then show ?thesis
    using index_sound_more_records [OF assms(2), of s'] by (simp add: write_record_def)
next
  case (Index_Append k n m)
  let ?l = "last (index_lines s')"
  have "ix_file ?l = relative_path k" using Index_Append by (simp add: store_append_index_def)
  then have "indexed s ?l" using Index_Append unfolding indexed_def by blast
  moreover have "indexed s' l = indexed s l" for l
    using Index_Append by (simp add: indexed_def store_append_index_def)
  ultimately show ?thesis
    using assms(2) Index_Append by (simp add: index_sound_def store_append_index_def sorted_wrt_append)
next
  case Next_Seq
  with assms(2) show ?thesis by (auto simp: index_sound_def indexed_def)
qed (auto simp: index_sound_def indexed_def same_files_def)

lemma grows_refl [simp]: "grows s s"
  unfolding grows_def using append_Nil2 by fastforce

lemma grows_trans:
  assumes "grows a b" "grows b c" shows "grows a c"
proof -
  have "\<exists>m''. map_of (captures c) k = Some m'' \<and> kept m m''" if "map_of (captures a) k = Some m" for k m
    using assms that unfolding grows_def by (meson kept_trans)
  moreover have "\<exists>more. map_of (raw_files c) k = Some (b' @ more)" if "map_of (raw_files a) k = Some b'" for k b'
    using assms that unfolding grows_def by (metis append.assoc)
  moreover have "\<exists>c''. map_of (cursor_files c) f = Some c'' \<and> cursor_le c' c''"
    if "map_of (cursor_files a) f = Some c'" for f c'
    using assms that unfolding grows_def by (meson cursor_le_trans)
  moreover have "\<exists>more. index_lines c = index_lines a @ more"
    using assms unfolding grows_def by (metis append.assoc)
  ultimately show ?thesis
    using assms unfolding grows_def by auto
qed

lemma atomic_grows: "atomic_write p s s' \<Longrightarrow> grows s s'"
proof (induction rule: atomic_write.induct)
  case (Cursor_Forward s f c')
  then show ?case by (fastforce simp: grows_def)
qed (auto simp: grows_def write_record_def store_append_index_def same_files_def)

lemma evolves_placed: "evolves p s s' \<Longrightarrow> placed p s \<Longrightarrow> placed p s'"
  by (induction rule: rtranclp_induct) (auto intro: atomic_placed)

lemma evolves_index_sound: "evolves p s s' \<Longrightarrow> index_sound s \<Longrightarrow> index_sound s'"
  by (induction rule: rtranclp_induct) (auto intro: atomic_index_sound)

lemma evolves_grows: "evolves p s s' \<Longrightarrow> grows s s'"
  by (induction rule: rtranclp_induct) (auto intro: grows_trans atomic_grows)

section \<open>Every operation is a sequence of such writes\<close>

text \<open>What holds of the state between operations.\<close>

definition store_ok :: "platform \<Rightarrow> store \<Rightarrow> bool" where
  "store_ok p s \<longleftrightarrow> placed p s \<and> index_sound s"

lemma store_open_ok: "store_ok p (store_open now)"
  by (simp add: store_ok_def placed_def index_sound_def store_open_def)

lemma evolves_ok: "evolves p s s' \<Longrightarrow> store_ok p s \<Longrightarrow> store_ok p s'"
  by (simp add: store_ok_def evolves_placed evolves_index_sound)

lemma same_files_publish: "same_files s (store_publish m kind c s)"
  by (simp add: same_files_def store_publish_def Let_def)

lemma same_files_evolves: "same_files s s' \<Longrightarrow> evolves p s s'"
  by (simp add: atomic_write.In_Memory r_into_rtranclp)

lemma ev_then: "evolves p s s1 \<Longrightarrow> atomic_write p s1 s2 \<Longrightarrow> evolves p s s2"
  by (rule rtranclp.rtrancl_into_rtrancl)

lemma ev_publish: "evolves p s s' \<Longrightarrow> evolves p s (store_publish m kind c s')"
  by (erule ev_then) (rule atomic_write.In_Memory [OF same_files_publish])

lemma ev_next_seq: "store_next_seq s = (n, s1) \<Longrightarrow> evolves p s s1"
  using atomic_write.Next_Seq by (fastforce simp: store_next_seq_def Let_def)

lemma kept_fields [simp]: "kept m (m\<lparr>adapter_fields := a\<rparr>)"
  by simp

lemma browser_stamp_keeps:
  assumes "browser_stamp ex m s = (m', s1)"
  shows "evolves p s s1" "captures s1 = captures s" "kept m m'" "sound m' = sound m"
    "request_files s1 = request_files s" "conversation_id m' = conversation_id m"
    "message_id m' = message_id m" "revision m' = revision m" "delivery m' = delivery m"
  using assms atomic_write.Next_Seq [of p s]
  by (auto simp: browser_stamp_def store_next_seq_def Let_def split: if_splits)

text \<open>The way an operation changes a record it read: stamp, change, write, publish.\<close>

lemma ev_restate:
  assumes "map_of (captures s) k = Some disk" and "evolves p s s1" and "captures s1 = captures s"
    and "kept disk w" and "sound disk \<Longrightarrow> sound w"
  shows "evolves p s (store_publish w kind c (write_record k w s1))"
  using assms by (intro ev_publish ev_then [OF assms(2)]) (auto intro: atomic_write.Record_Update)

lemma on_disk_Inr [simp]: "on_disk k s = Inr m \<longleftrightarrow> map_of (captures s) k = Some m"
  by (simp add: on_disk_def split: option.split)

lemma ev_set_disposition: "evolves p s (snd (store_set_disposition p m d s))"
proof -
  { fix pl disk w s1
    assume "map_of (captures s) (record_key pl) = Some disk" "browser_stamp [] disk s = (w, s1)"
    with browser_stamp_keeps [OF this(2)]
    have "evolves p s (store_publish (w\<lparr>disposition := d\<rparr>) State_Change None
            (write_record (record_key pl) (w\<lparr>disposition := d\<rparr>) s1))"
      by (intro ev_restate) auto }
  then show ?thesis
    by (auto simp: store_set_disposition_def Let_def on_disk_Inr split: sum.splits prod.splits)
qed

lemma ev_advance_cursor: "evolves p s (snd (store_advance_cursor p cid kind pos s))"
proof -
  { fix c assume c: "store_cursors p cid s = Inr c"
      and ahead: "\<not> (case cursor_at kind c of None \<Rightarrow> False | Some at' \<Rightarrow> js_le pos at')"
    then have was: "(case map_of (cursor_files s) (encode_component p cid @ ''.json'') of
        None \<Rightarrow> \<lparr>cur_message = None, cur_revision = None\<rparr> | Some c \<Rightarrow> c) = c"
      by (auto simp: store_cursors_def store_cursor_file_def Let_def bind_res_def
          split: sum.splits if_splits)
    have "cursor_le c (set_cursor kind pos c)"
      using ahead js_le_linear [of pos "the (cursor_at kind c)"]
      by (cases "cursor_at kind c") (auto simp: cursor_le_def set_cursor_def cursor_at_def)
    with was have "evolves p s (s\<lparr>cursor_files := AList.update (encode_component p cid @ ''.json'')
        (set_cursor kind pos c) (cursor_files s)\<rparr>)"
      by (intro r_into_rtranclp atomic_write.Cursor_Forward) (auto split: option.splits) }
  then show ?thesis
    by (auto simp: store_advance_cursor_def Let_def split: sum.split)
qed

lemma merge_attachments_more: "\<exists>more. merge_attachments xs seen ys = xs @ more \<and> set more \<subseteq> set ys"
proof (induction xs seen ys rule: merge_attachments.induct)
  case (2 xs seen a rest)
  then show ?case by (cases "att_sha256 a \<in> set seen") fastforce+
qed simp

lemma kept_merge: "kept existing (merge_records existing incoming)"
  using merge_attachments_more [of "attachments existing" _ "attachments incoming"]
  by (fastforce simp: kept_def merge_records_def)

lemma sound_merge:
  assumes "sound existing" "sound incoming" shows "sound (merge_records existing incoming)"
proof -
  obtain more where "merge_attachments (attachments existing) (map att_sha256 (attachments existing))
      (attachments incoming) = attachments existing @ more" "set more \<subseteq> set (attachments incoming)"
    using merge_attachments_more by blast
  with assms show ?thesis
    by (auto simp: sound_def merge_records_def list_all_iff)
qed

lemma ev_append_raw:
  assumes "append_raw pl text m s = (m', s1)"
  shows "evolves p s s1" "sound m' = sound m" "captures s1 = captures s"
    "index_lines s1 = index_lines s" "seq_value s1 = seq_value s"
    "message_paths p m' = message_paths p m"
  using assms atomic_write.Raw_Append [of p s "raw_key pl"]
  by (auto simp: append_raw_def Let_def message_paths_def split: option.splits)

lemma ev_fresh_record:
  assumes "message_paths p m = Inr pl" "\<not> has (captures s) (record_key pl)" "sound m"
    "n = seq_value s" "\<forall>l\<in>set (index_lines s). ix_seq l < n"
  shows "evolves p s (store_append_index p m n (record_key pl) (write_record (record_key pl) m s))"
proof -
  have "evolves p s (write_record (record_key pl) m s)"
    using assms(1-3) by (blast intro: atomic_write.New_Record)
  then show ?thesis
    by (rule ev_then) (rule atomic_write.Index_Append; use assms(4,5) in \<open>simp add: write_record_def\<close>)
qed

lemma ev_capture_place:
  assumes pl: "message_paths p m = Inr pl" and m: "sound m"
    and n: "n = seq_value s" "\<forall>l\<in>set (index_lines s). ix_seq l < n"
  shows "evolves p s (snd (capture_place p (record_key pl) n m s))"
proof (cases "map_of (captures s) (record_key pl)")
  case None
  with ev_fresh_record [OF pl _ m n] show ?thesis by (simp add: capture_place_def)
next
  case (Some existing)
  have "evolves p s (write_record (record_key pl) (merge_records existing m) s)"
    using atomic_write.Record_Update [OF Some kept_merge sound_merge] m by blast
  with Some show ?thesis by (simp add: capture_place_def Let_def)
qed

lemma ev_capture_dispose: "evolves p s (snd (capture_dispose p opts m s))"
  by (simp add: capture_dispose_def ev_set_disposition split: option.split)

lemma ev_capture_record:
  assumes "message_paths p m = Inr pl" "sound m" "n = seq_value s" "\<forall>l\<in>set (index_lines s). ix_seq l < n"
  shows "evolves p s (snd (capture_record p pl n opts m s))"
proof -
  obtain r s1 where place: "capture_place p (record_key pl) n m s = (r, s1)" by fastforce
  have s1: "evolves p s s1" using ev_capture_place [OF assms] place by simp
  have "evolves p s s2" if "capture_dispose p opts written s1 = (r', s2)" for written r' s2
    using rtranclp_trans [OF s1 ev_capture_dispose [of p s1 opts written]] that by simp
  with s1 show ?thesis
    by (auto simp: capture_record_def place intro: ev_publish split: sum.split prod.split)
qed

lemma ev_capture_finally:
  assumes "evolves p s (snd out)" shows "evolves p s (snd (capture_finally p m opts out))"
proof -
  have "evolves p s (snd (store_advance_cursor p cid kind pos (snd out)))" for cid kind pos
    using rtranclp_trans [OF assms ev_advance_cursor] .
  then show ?thesis
    using assms by (auto simp: capture_finally_def split: option.split prod.split sum.split)
      (metis snd_conv)+
qed

theorem ev_capture:
  assumes "store_ok p s" shows "evolves p s (snd (store_capture p m opts s))"
proof (cases "validate message_schema (message_json m) ''$'' = []")
  case True
  then have m: "sound m" by (simp add: validate_message well_formed_sound)
  show ?thesis
  proof (cases "message_paths p m")
    case (Inr pl)
    obtain m' s2 where raw: "append_raw pl (opt_raw opts) m (s\<lparr>seq_value := seq_value s + 1\<rparr>) = (m', s2)"
      by fastforce
    note keeps = ev_append_raw [OF raw]
    have "evolves p s (s\<lparr>seq_value := seq_value s + 1\<rparr>)" by (blast intro: atomic_write.Next_Seq)
    then have s2: "evolves p s s2" using keeps(1) by (rule rtranclp_trans)
    have "\<forall>l\<in>set (index_lines s). ix_seq l < seq_value s + 1"
      using assms by (auto simp: store_ok_def index_sound_def)
    with keeps m Inr have "evolves p s2 (snd (capture_record p pl (seq_value s + 1) opts m' s2))"
      by (intro ev_capture_record) simp_all
    with s2 have "evolves p s (snd (capture_record p pl (seq_value s + 1) opts m' s2))"
      by (rule rtranclp_trans)
    then show ?thesis
      using True Inr raw by (simp add: store_capture_def store_next_seq_def Let_def ev_capture_finally)
  qed (use True in \<open>simp add: store_capture_def\<close>)
qed (simp add: store_capture_def)

theorem ev_park: "store_ok p s \<Longrightarrow> evolves p s (snd (store_park p m reason opts s))"
  by (simp add: store_park_def ev_capture)

text \<open>\<open>parkFailed\<close> and \<open>annotate\<close> stamp the record with the members they were given.\<close>

lemma ev_stamped_fields:
  assumes "map_of (captures s) k = Some disk" and "(seqs, s1) = (if source disk = ''browser''
      then (let (n, s') = store_next_seq s in ([(''browser_event_seq'', JInt n)], s')) else ([], s))"
    and "kept disk w" "sound w = sound disk"
  shows "evolves p s (store_publish w State_Change None (write_record k w s1))"
  using assms by (intro ev_restate [OF assms(1)])
    (auto simp: store_next_seq_def Let_def intro: atomic_write.Next_Seq split: if_splits)

theorem ev_park_failed: "evolves p s (snd (store_park_failed p m faults reason s))"
  by (auto simp: store_park_failed_def Let_def split: sum.split prod.split intro!: ev_stamped_fields)

theorem ev_annotate: "evolves p s (snd (store_annotate p m noted s))"
  by (auto simp: store_annotate_def Let_def split: sum.split prod.split intro!: ev_stamped_fields)

theorem ev_put_attachment:
  "evolves p s (snd (store_put_attachment p cid mid revn bytes mime filename s))"
  by (auto simp: store_put_attachment_def Let_def split: sum.split intro: atomic_write.Attachment_Put)

lemma store_read_atD:
  "store_read_at p k s = Inr m \<Longrightarrow> map_of (captures s) k = Some m \<and> (\<exists>pl. message_paths p m = Inr pl \<and> k = record_key pl)"
  by (auto simp: store_read_at_def bind_res_Inr_iff split: if_splits)

lemma ev_stamped:
  assumes "map_of (captures s) k = Some disk" "browser_stamp ex disk s = (st, s1)" "kept st w" "sound w = sound st"
  shows "evolves p s (store_publish w kind c (write_record k w s1))"
  using browser_stamp_keeps [OF assms(2)] assms by (intro ev_restate [OF assms(1)]) (auto intro: kept_trans)

theorem ev_release: "evolves p s (snd (store_release p m rat tid turn now holds s))"
  by (auto simp: store_release_def Let_def split: sum.split prod.split
      dest!: store_read_atD intro!: ev_stamped)

theorem ev_complete_release: "evolves p s (snd (store_complete_release p m cat s))"
  by (auto simp: store_complete_release_def Let_def split: sum.split prod.split
      dest!: store_read_atD intro!: ev_stamped)

theorem ev_write_thread: "evolves p s (snd (store_write_thread p unit_id dat s))"
  by (auto simp: store_write_thread_def split: sum.split intro: atomic_write.Thread_Write)

lemma ev_reply_write: 
  assumes "store_ok p s" shows "evolves p s (snd (reply_write p m dl status s))"
proof -
  obtain r s1 where cap: "store_capture p (m\<lparr>delivery := Some (dl\<lparr>dl_status := status\<rparr>)\<rparr>) no_options s = (r, s1)"
    by fastforce
  with ev_capture [OF assms] have s1: "evolves p s s1" by (metis snd_conv)
  then have "evolves p s (s1\<lparr>request_files := AList.update f q (request_files s1)\<rparr>)" for f q
    by (rule ev_then) (rule atomic_write.Request_Write)
  with s1 show ?thesis by (simp add: reply_write_def cap split: sum.split)
qed

theorem ev_reply: "store_ok p s \<Longrightarrow> evolves p s (snd (store_reply p m status s))"
  by (auto simp: store_reply_def ev_reply_write split: sum.split option.split)

lemma record_key_inject [simp]: "record_key a = record_key b \<longleftrightarrow> a = b"
  by (cases a; cases b) (auto simp: record_key_def)

lemma store_read_Some:
  assumes "store_read p cid mid revn s = Inr (Some m)"
  obtains pl where "message_paths p m = Inr pl" "map_of (captures s) (record_key pl) = Some m"
    "store_paths p cid mid revn = Inr pl"
  using assms by (auto simp: store_read_def bind_res_Inr_iff split: if_splits dest!: store_read_atD)

lemma ev_settle_write:
  assumes "message_paths p m = Inr pl" "map_of (captures s) (record_key pl) = Some m"
    and stamp: "browser_stamp [] m s = (st, s1)"
  shows "evolves p s (store_publish (st\<lparr>delivery := d\<rparr>) State_Change None
     ((write_record (record_key pl) (st\<lparr>delivery := d\<rparr>) s1)\<lparr>request_files := AList.update f q (request_files s1)\<rparr>))"
proof -
  note keeps = browser_stamp_keeps [OF stamp]
  have "atomic_write p s1 (write_record (record_key pl) (st\<lparr>delivery := d\<rparr>) s1)"
    using assms(2) keeps by (intro atomic_write.Record_Update [of _ _ m]) simp_all
  with keeps(1) have "evolves p s (write_record (record_key pl) (st\<lparr>delivery := d\<rparr>) s1)"
    by (rule ev_then)
  from ev_publish [OF ev_then [OF this atomic_write.Request_Write]] show ?thesis
    by (simp add: write_record_def)
qed

theorem ev_settle_delivery: "evolves p s (snd (store_settle_delivery p rid status chunks completed s))"
proof (cases "store_read_request p rid s")
  case (Inr q')
  show ?thesis
  proof (cases q')
    case q: (Some q)
    show ?thesis
    proof (cases "\<exists>m. store_read p (req_conversation_id q) (req_message_id q) (req_revision q) s = Inr (Some m)")
      case True
      then obtain m where m: "store_read p (req_conversation_id q) (req_message_id q) (req_revision q) s = Inr (Some m)" ..
      then obtain pl where pl: "message_paths p m = Inr pl" "map_of (captures s) (record_key pl) = Some m"
        by (rule store_read_Some)
      obtain st s1 where "browser_stamp [] m s = (st, s1)" by fastforce
      with ev_settle_write [OF pl this] Inr q m pl show ?thesis
        by (simp add: store_settle_delivery_def Let_def write_record_def split: sum.split)
    next
      case False
      with Inr q show ?thesis
        by (auto simp: store_settle_delivery_def split: sum.split option.split)
    qed
  qed (use Inr in \<open>simp add: store_settle_delivery_def\<close>)
qed (simp add: store_settle_delivery_def)

theorem ev_release_held_reply: "evolves p s (snd (store_release_held_reply p rid s))"
  by (auto simp: store_release_held_reply_def ev_settle_delivery split: sum.split)

theorem ev_marks:
  "evolves p s (snd (store_mark_sent p rid chunks s))"
  "evolves p s (snd (store_mark_unknown p rid s))"
  "evolves p s (snd (store_mark_failed p rid s))"
  by (simp_all add: store_mark_sent_def store_mark_unknown_def store_mark_failed_def ev_settle_delivery)

section \<open>The contract of a store operation\<close>

text \<open>An operation on any state with a store in it. The store operations are its first instances;
  the runtime composes them.\<close>

locale store_operation =
  fixes p :: platform and view :: "'s \<Rightarrow> store" and run :: "'s \<Rightarrow> (exn, 'a, 's) outcome"
  assumes run_evolves: "store_ok p (view s) \<Longrightarrow> evolves p (view s) (view (snd (run s)))"
begin

lemma run_ok: "store_ok p (view s) \<Longrightarrow> store_ok p (view (snd (run s)))"
  using evolves_ok run_evolves by blast

lemma run_grows: "store_ok p (view s) \<Longrightarrow> grows (view s) (view (snd (run s)))"
  using evolves_grows run_evolves by blast

lemma run_keeps_record:
  assumes "store_ok p (view s)" "map_of (captures (view s)) k = Some m"
  obtains m' where "map_of (captures (view (snd (run s)))) k = Some m'" "kept m m'"
  using run_grows [OF assms(1)] assms(2) unfolding grows_def by blast

end

text \<open>A family of operations, one per element of a list the caller walks.\<close>

locale store_family =
  fixes p :: platform and view :: "'s \<Rightarrow> store" and each :: "'c \<Rightarrow> 's \<Rightarrow> (exn, unit, 's) outcome"
  assumes each_evolves: "store_ok p (view s) \<Longrightarrow> evolves p (view s) (view (snd (each c s)))"
begin

lemma walk_evolves:
  "store_ok p (view s) \<Longrightarrow> evolves p (view s) (view (snd (fold_op each cs s)))"
proof (induction cs arbitrary: s)
  case (Cons c cs)
  obtain r s' where one: "each c s = (r, s')" by fastforce
  with each_evolves [OF Cons.prems, of c] have s': "evolves p (view s) (view s')" by simp
  show ?case
  proof (cases r)
    case (Inr u)
    have "evolves p (view s') (view (snd (fold_op each cs s')))"
      by (rule Cons.IH) (rule evolves_ok [OF s' Cons.prems])
    with s' one Inr show ?thesis by (simp add: rtranclp_trans)
  qed (use one s' in simp)
qed simp

end

sublocale store_family \<subseteq> walk: store_operation p view "fold_op each cs" for cs
  by unfold_locales (rule walk_evolves)

interpretation capture: store_operation p "\<lambda>s. s" "store_capture p m opts"
  by unfold_locales (rule ev_capture)

interpretation park: store_operation p "\<lambda>s. s" "store_park p m reason opts"
  by unfold_locales (rule ev_park)

interpretation park_failed: store_operation p "\<lambda>s. s" "store_park_failed p m faults why"
  by unfold_locales (rule ev_park_failed)

interpretation annotate: store_operation p "\<lambda>s. s" "store_annotate p m noted"
  by unfold_locales (rule ev_annotate)

interpretation put_attachment: store_operation p "\<lambda>s. s" "store_put_attachment p cid mid revn bytes mime name"
  by unfold_locales (rule ev_put_attachment)

interpretation advance: store_operation p "\<lambda>s. s" "store_advance_cursor p cid kind pos"
  by unfold_locales (rule ev_advance_cursor)

interpretation released: store_operation p "\<lambda>s. s" "store_release p m rat tid turn now holds"
  by unfold_locales (rule ev_release)

interpretation completed: store_operation p "\<lambda>s. s" "store_complete_release p m cat"
  by unfold_locales (rule ev_complete_release)

interpretation replied: store_operation p "\<lambda>s. s" "store_reply p m status"
  by unfold_locales (rule ev_reply)

interpretation settled: store_operation p "\<lambda>s. s" "store_settle_delivery p rid status chunks done_at"
  by unfold_locales (rule ev_settle_delivery)

interpretation unheld: store_operation p "\<lambda>s. s" "store_release_held_reply p rid"
  by unfold_locales (rule ev_release_held_reply)

interpretation thread: store_operation p "\<lambda>s. s" "store_write_thread p unit_id dat"
  by unfold_locales (rule ev_write_thread)

end
