(* ===== verification/Store_Props.thy ===== *)
theory Store_Props
  imports Store_Inv Sample
begin

text \<open>
  The store as its callers see it: the states its operations reach, and what each operation does
  on each of its branches.
\<close>

section \<open>Reachable states\<close>

text \<open>Every call of the store that writes, with its arguments.\<close>

datatype store_call =
    Call_Capture message capture_options
  | Call_Park message string capture_options
  | Call_Park_Failed message "fault list" "string option"
  | Call_Annotate message members
  | Call_Set_Disposition message disposition
  | Call_Put_Attachment string string int string "string option" "string option"
  | Call_Advance_Cursor string string string
  | Call_Release message string string string int bool
  | Call_Complete_Release message string
  | Call_Reply message string
  | Call_Release_Held_Reply string
  | Call_Mark_Sent string "string list"
  | Call_Mark_Unknown string
  | Call_Mark_Failed string
  | Call_Write_Thread string members

fun run_call :: "platform \<Rightarrow> store_call \<Rightarrow> store \<Rightarrow> store" where
  "run_call p (Call_Capture m opts) s = snd (store_capture p m opts s)"
| "run_call p (Call_Park m why opts) s = snd (store_park p m why opts s)"
| "run_call p (Call_Park_Failed m fs why) s = snd (store_park_failed p m fs why s)"
| "run_call p (Call_Annotate m ms) s = snd (store_annotate p m ms s)"
| "run_call p (Call_Set_Disposition m d) s = snd (store_set_disposition p m d s)"
| "run_call p (Call_Put_Attachment cid mid r b t n) s = snd (store_put_attachment p cid mid r b t n s)"
| "run_call p (Call_Advance_Cursor cid kind pos) s = snd (store_advance_cursor p cid kind pos s)"
| "run_call p (Call_Release m a t u now h) s = snd (store_release p m a t u now h s)"
| "run_call p (Call_Complete_Release m a) s = snd (store_complete_release p m a s)"
| "run_call p (Call_Reply m st) s = snd (store_reply p m st s)"
| "run_call p (Call_Release_Held_Reply rid) s = snd (store_release_held_reply p rid s)"
| "run_call p (Call_Mark_Sent rid ids) s = snd (store_mark_sent p rid ids s)"
| "run_call p (Call_Mark_Unknown rid) s = snd (store_mark_unknown p rid s)"
| "run_call p (Call_Mark_Failed rid) s = snd (store_mark_failed p rid s)"
| "run_call p (Call_Write_Thread u ms) s = snd (store_write_thread p u ms s)"

text \<open>\<open>Store.open\<close> on a directory that is there: the files stay, the browser projection starts over.\<close>

definition store_reopen :: "int \<Rightarrow> store \<Rightarrow> store" where
  "store_reopen now s = s\<lparr>clock := now, browser_version := 0, browser_evidence_versions := [],
     browser_updates := [], browser_events := []\<rparr>"

inductive reachable :: "platform \<Rightarrow> store \<Rightarrow> bool" for p where
  Opened: "reachable p (store_open now)"
| Called: "reachable p s \<Longrightarrow> reachable p (run_call p c s)"
| Later: "reachable p s \<Longrightarrow> reachable p (s\<lparr>clock := now\<rparr>)"
| Reopened: "reachable p s \<Longrightarrow> reachable p (store_reopen now s)"

lemma run_call_evolves: "store_ok p s \<Longrightarrow> evolves p s (run_call p c s)"
  by (cases c) (simp_all add: ev_capture ev_park ev_park_failed ev_annotate ev_set_disposition
      ev_put_attachment ev_advance_cursor ev_release ev_complete_release ev_reply
      ev_release_held_reply ev_marks ev_write_thread)

lemma same_files_ok: "same_files s s' \<Longrightarrow> store_ok p s \<Longrightarrow> store_ok p s'"
  by (rule evolves_ok [OF same_files_evolves])

lemma reachable_ok: "reachable p s \<Longrightarrow> store_ok p s"
proof (induction rule: reachable.induct)
  case (Opened now)
  show ?case by (rule store_open_ok)
next
  case (Called s c)
  then show ?case by (blast intro: evolves_ok run_call_evolves)
next
  case (Later s now)
  have "same_files s (s\<lparr>clock := now\<rparr>)" by (simp add: same_files_def)
  with Later.IH show ?case by (rule same_files_ok [rotated])
next
  case (Reopened s now)
  have "same_files s (store_reopen now s)" by (simp add: same_files_def store_reopen_def)
  with Reopened.IH show ?case by (rule same_files_ok [rotated])
qed

lemma placed_readable:
  assumes "placed p s" and "map_of (captures s) k = Some m"
  shows "sound m" "store_read p (conversation_id m) (message_id m) (revision m) s = Inr (Some m)"
    "store_read_at p k s = Inr m"
proof -
  from assms obtain pl where pl: "sound m" "message_paths p m = Inr pl" "k = record_key pl"
    using map_of_SomeD [OF assms(2)] by (fastforce simp: placed_def)
  then show "sound m" "store_read p (conversation_id m) (message_id m) (revision m) s = Inr (Some m)"
    "store_read_at p k s = Inr m"
    using assms(2) by (simp_all add: store_read_def store_read_at_def message_paths_def on_disk_def)
qed

text \<open>C1. In every state the store's calls reach, each record on disk is the one its own identity
  reads back, it was valid when captured, and reading all of them never meets a misplaced file.\<close>

theorem reachable_readable:
  assumes "reachable p s" and "map_of (captures s) k = Some m"
  shows "sound m \<and> store_read p (conversation_id m) (message_id m) (revision m) s = Inr (Some m)
    \<and> is_ok (store_rebuild p s)"
proof -
  have placed: "placed p s" using reachable_ok [OF assms(1)] by (simp add: store_ok_def)
  have "store_read_at p k' s = Inr (the (map_of (captures s) k'))" if "k' \<in> set (keys (captures s))" for k'
    using that placed_readable(3) [OF placed] has_iff_keys [of "captures s" k'] by auto
  then have "is_ok (store_rebuild p s)"
    unfolding store_rebuild_def
    by (subst map_res_all_ok [where g = "\<lambda>k'. the (map_of (captures s) k')"]) (auto simp: keys_in_def)
  with placed_readable [OF placed assms(2)] show ?thesis by simp
qed

section \<open>Capture\<close>

text \<open>What \<open>capture\<close> does with a valid record and no options: an equation per branch.\<close>

lemma capture_new:
  assumes "well_formed m" "message_paths p m = Inr pl" "map_of (captures s) (record_key pl) = None"
  shows "store_capture p m no_options s =
    (Inr \<lparr>cr_file = record_key pl, cr_seq = seq_value s + 1, cr_merged = False, cr_record = m\<rparr>,
     store_publish m Capture_Change (Some (seq_value s + 1))
       (store_append_index p m (seq_value s + 1) (record_key pl)
         (write_record (record_key pl) m (s\<lparr>seq_value := seq_value s + 1\<rparr>))))"
  using assms by (simp add: store_capture_def validate_message capture_finally_def no_options_def
      store_next_seq_def append_raw_def capture_record_def capture_place_def capture_dispose_def Let_def)

lemma capture_known:
  assumes "well_formed m" "message_paths p m = Inr pl" "map_of (captures s) (record_key pl) = Some e"
    and "source e = source m \<or> merges (source m)"
  shows "store_capture p m no_options s =
    (Inr \<lparr>cr_file = record_key pl, cr_seq = seq_value s + 1, cr_merged = True, cr_record = merge_records e m\<rparr>,
     s\<lparr>seq_value := seq_value s + 1, captures := AList.update (record_key pl) (merge_records e m) (captures s)\<rparr>)"
  using assms update_same [of "captures s" "record_key pl" e]
  by (auto simp: store_capture_def validate_message capture_finally_def no_options_def write_record_def
      store_next_seq_def append_raw_def capture_record_def capture_place_def capture_dispose_def Let_def)

lemma publish_files [simp]:
  "captures (store_publish m kind c s) = captures s" "index_lines (store_publish m kind c s) = index_lines s"
  "raw_files (store_publish m kind c s) = raw_files s" "cursor_files (store_publish m kind c s) = cursor_files s"
  "attachment_files (store_publish m kind c s) = attachment_files s"
  "request_files (store_publish m kind c s) = request_files s" "seq_value (store_publish m kind c s) = seq_value s"
  "thread_files (store_publish m kind c s) = thread_files s"
  "teaching_files (store_publish m kind c s) = teaching_files s" "clock (store_publish m kind c s) = clock s"
  by (simp_all add: store_publish_def Let_def)

lemma write_files [simp]:
  "captures (write_record k m s) = AList.update k m (captures s)"
  "index_lines (write_record k m s) = index_lines s" "request_files (write_record k m s) = request_files s"
  "cursor_files (write_record k m s) = cursor_files s" "seq_value (write_record k m s) = seq_value s"
  "clock (write_record k m s) = clock s" "teaching_files (write_record k m s) = teaching_files s"
  "raw_files (write_record k m s) = raw_files s"
  by (simp_all add: write_record_def)

lemma append_index_files [simp]:
  "captures (store_append_index p m n k s) = captures s" "cursor_files (store_append_index p m n k s) = cursor_files s"
  "request_files (store_append_index p m n k s) = request_files s" "seq_value (store_append_index p m n k s) = seq_value s"
  "teaching_files (store_append_index p m n k s) = teaching_files s" "raw_files (store_append_index p m n k s) = raw_files s"
  "length (index_lines (store_append_index p m n k s)) = Suc (length (index_lines s))"
  by (simp_all add: store_append_index_def)

theorem reachable_readable_witness:
  "store_read sample_platform ''c'' ''m'' 0 (run_call sample_platform
     (Call_Capture (sample_message ''c'' ''m'' Inbound) no_options) (store_open 0))
   = Inr (Some (sample_message ''c'' ''m'' Inbound))"
proof -
  let ?m = "sample_message ''c'' ''m'' Inbound"
  let ?s = "run_call sample_platform (Call_Capture ?m no_options) (store_open 0)"
  have "reachable sample_platform ?s" by (intro reachable.intros)
  moreover have "map_of (captures ?s) (''c'', ''m.json'') = Some ?m"
    by (simp add: capture_new store_open_def record_key_def)
  ultimately show ?thesis using reachable_readable [of sample_platform ?s] by fastforce
qed

text \<open>C4. Whatever calls follow, no captured record is lost: it stays at its file with its first body,
  times and sender, its attachments only grow; raw files and the index are only appended to; cursors
  and the ordinal counter do not move back.\<close>

theorem calls_never_lose:
  assumes "reachable p s"
  shows "grows s (foldl (\<lambda>s c. run_call p c s) s cs)"
  using assms
proof (induction cs arbitrary: s)
  case (Cons c cs)
  have "grows s (run_call p c s)"
    by (rule evolves_grows [OF run_call_evolves [OF reachable_ok [OF Cons.prems]]])
  with Cons.IH [OF reachable.Called [OF Cons.prems]] show ?case by (simp add: grows_trans)
qed simp

theorem calls_never_lose_witness:
  "grows (store_open 5) (run_call sample_platform (Call_Mark_Sent ''r'' []) (store_open 5))"
  using calls_never_lose [OF reachable.Opened, where cs = "[Call_Mark_Sent ''r'' []]"] by simp

text \<open>The index of a reachable store: ordinals strictly increase from line to line, the counter is
  at least the last of them, and every line names a record that is on disk.\<close>

theorem reachable_index:
  assumes "reachable p s"
  shows "sorted_wrt (<) (map ix_seq (index_lines s))
    \<and> (\<forall>l\<in>set (index_lines s). ix_seq l \<le> seq_value s
         \<and> (\<exists>k. has (captures s) k \<and> ix_file l = relative_path k))"
  using reachable_ok [OF assms] unfolding store_ok_def index_sound_def indexed_def by blast

theorem reachable_index_witness:
  "sorted_wrt (<) (map ix_seq (index_lines (run_call sample_platform
     (Call_Capture (sample_message ''c'' ''m'' Inbound) no_options) (store_open 0))))"
  using reachable_index [OF reachable.Called [OF reachable.Opened]] by blast

text \<open>Capturing a valid record whose identity is not on disk returns it unmerged, makes it what
  \<open>read\<close> finds, and appends exactly one index line, with the next ordinal.\<close>

theorem capture_then_read:
  assumes "well_formed m" "message_paths p m = Inr pl" "map_of (captures s) (record_key pl) = None"
  shows "\<exists>r s'. store_capture p m no_options s = (Inr r, s') \<and> \<not> cr_merged r \<and> cr_record r = m
    \<and> store_read p (conversation_id m) (message_id m) (revision m) s' = Inr (Some m)
    \<and> (\<exists>l. index_lines s' = index_lines s @ [l] \<and> ix_seq l = seq_value s + 1
         \<and> ix_message_id l = message_id m \<and> ix_file l = relative_path (record_key pl))"
  using assms capture_new [OF assms]
  by (simp add: store_read_def store_read_at_def message_paths_def on_disk_def)
     (simp add: store_append_index_def)

theorem capture_then_read_witness:
  "\<exists>r s'. store_capture sample_platform (sample_message ''c'' ''m'' Inbound) no_options (store_open 0) = (Inr r, s')
    \<and> cr_record r = sample_message ''c'' ''m'' Inbound"
  using capture_then_read [of "sample_message ''c'' ''m'' Inbound" sample_platform
      "\<lparr>rp_dir = ''c'', rp_stem = ''m''\<rparr>" "store_open 0"]
  by (auto simp: store_open_def)

text \<open>The attachments of a merge: the digests are the union, and only new digests are added.\<close>

lemma merge_attachments_digests:
  "att_sha256 ` set (merge_attachments xs seen ys)
     = att_sha256 ` set xs \<union> (att_sha256 ` set ys - set seen)"
proof (induction xs seen ys rule: merge_attachments.induct)
  case (2 xs seen a rest)
  then show ?case by (cases "att_sha256 a \<in> set seen") auto
qed simp

lemma merge_attachments_distinct:
  "distinct (map att_sha256 xs) \<Longrightarrow> set seen = att_sha256 ` set xs \<Longrightarrow>
     distinct (map att_sha256 (merge_attachments xs seen ys))"
  by (induction xs seen ys rule: merge_attachments.induct) auto

lemma merge_attachments_absorb:
  "att_sha256 ` set ys \<subseteq> set seen \<Longrightarrow> merge_attachments xs seen ys = xs"
  by (induction xs seen ys rule: merge_attachments.induct) auto

lemma merge_digests:
  "att_sha256 ` set (attachments (merge_records e m)) = att_sha256 ` (set (attachments e) \<union> set (attachments m))"
  by (auto simp: merge_records_def merge_attachments_digests)

lemma merge_again [simp]: "merge_records (merge_records e m) m = merge_records e m"
proof -
  have "merge_attachments (attachments (merge_records e m)) (map att_sha256 (attachments (merge_records e m)))
      (attachments m) = attachments (merge_records e m)"
    using merge_digests [of e m] by (intro merge_attachments_absorb) auto
  then show ?thesis by (simp add: merge_records_def)
qed

text \<open>The first capture of an identity wins. A later capture of the same identity by the same
  adapter (or by an import) leaves body, times, sender and disposition as first written; it only adds
  the attachments whose digests are new, each once, and appends no index line.\<close>

theorem capture_first_write_wins:
  assumes "well_formed m" "message_paths p m = Inr pl" "map_of (captures s) (record_key pl) = Some e"
    and "source e = source m \<or> merges (source m)"
  shows "\<exists>r s'. store_capture p m no_options s = (Inr r, s') \<and> cr_merged r
    \<and> map_of (captures s') (record_key pl) = Some (cr_record r)
    \<and> cr_record r = e\<lparr>attachments := attachments (cr_record r)\<rparr>
    \<and> att_sha256 ` set (attachments (cr_record r)) = att_sha256 ` (set (attachments e) \<union> set (attachments m))
    \<and> (\<exists>more. attachments (cr_record r) = attachments e @ more)
    \<and> (distinct (map att_sha256 (attachments e)) \<longrightarrow> distinct (map att_sha256 (attachments (cr_record r))))
    \<and> index_lines s' = index_lines s"
proof -
  have "\<exists>more. attachments (merge_records e m) = attachments e @ more"
    using merge_attachments_more by (fastforce simp: merge_records_def)
  moreover have "distinct (map att_sha256 (attachments e))
      \<Longrightarrow> distinct (map att_sha256 (attachments (merge_records e m)))"
    by (simp add: merge_records_def merge_attachments_distinct)
  moreover have "merge_records e m = e\<lparr>attachments := attachments (merge_records e m)\<rparr>"
    by (simp add: merge_records_def)
  ultimately show ?thesis
    using merge_digests [of e m] by (simp add: capture_known [OF assms])
qed

definition sample_attachment :: "string \<Rightarrow> attachment" where
  "sample_attachment digest = \<lparr>att_file = ''f'', att_mime = ''text/plain'', att_bytes = 1, att_sha256 = digest,
     att_download_failed = None, att_filename = None, att_id = None\<rparr>"

theorem capture_first_write_wins_witness:
  "cr_merged (the_elem {r. \<exists>s'. store_capture sample_platform (sample_message ''c'' ''m'' Inbound) no_options
     ((store_open 0)\<lparr>captures := [((''c'', ''m.json''), (sample_message ''c'' ''m'' Inbound)\<lparr>body := ''first''\<rparr>)]\<rparr>)
       = (Inr r, s')})"
proof -
  let ?e = "(sample_message ''c'' ''m'' Inbound)\<lparr>body := ''first''\<rparr>"
  obtain r s' where "store_capture sample_platform (sample_message ''c'' ''m'' Inbound) no_options
     ((store_open 0)\<lparr>captures := [((''c'', ''m.json''), ?e)]\<rparr>) = (Inr r, s')" "cr_merged r"
    using capture_first_write_wins [of "sample_message ''c'' ''m'' Inbound" sample_platform
      "\<lparr>rp_dir = ''c'', rp_stem = ''m''\<rparr>" "(store_open 0)\<lparr>captures := [((''c'', ''m.json''), ?e)]\<rparr>" ?e]
    by (auto simp: record_key_def)
  then show ?thesis by simp
qed

text \<open>Running an import (or a poll) again changes no record and no index line: the files a capture
  of the same record twice leaves are those of capturing it once, the ordinal counter apart.\<close>

theorem capture_again_changes_nothing:
  assumes "well_formed m" "message_paths p m = Inr pl"
    and "case map_of (captures s) (record_key pl) of None \<Rightarrow> True | Some e \<Rightarrow> source e = source m \<or> merges (source m)"
  defines "once \<equiv> snd (store_capture p m no_options s)"
  shows "captures (snd (store_capture p m no_options once)) = captures once
    \<and> index_lines (snd (store_capture p m no_options once)) = index_lines once"
proof (cases "map_of (captures s) (record_key pl)")
  case None
  then have once: "map_of (captures once) (record_key pl) = Some m"
    by (simp add: once_def capture_new [OF assms(1,2)])
  have "merge_records m m = m"
    by (simp add: merge_records_def merge_attachments_absorb)
  with capture_known [OF assms(1,2) once] once show ?thesis by (simp add: update_same)
next
  case (Some e)
  with assms(3) have src: "source e = source m \<or> merges (source m)" by simp
  from capture_known [OF assms(1,2) Some src]
  have once: "map_of (captures once) (record_key pl) = Some (merge_records e m)" by (simp add: once_def)
  have "source (merge_records e m) = source m \<or> merges (source m)" using src by (simp add: merge_records_def)
  from capture_known [OF assms(1,2) once this] once show ?thesis by (simp add: update_same)
qed

theorem capture_again_changes_nothing_witness:
  "captures (snd (store_capture sample_platform (sample_message ''c'' ''m'' Inbound) no_options
     (snd (store_capture sample_platform (sample_message ''c'' ''m'' Inbound) no_options (store_open 0)))))
   = captures (snd (store_capture sample_platform (sample_message ''c'' ''m'' Inbound) no_options (store_open 0)))"
  using capture_again_changes_nothing [of "sample_message ''c'' ''m'' Inbound" sample_platform
      "\<lparr>rp_dir = ''c'', rp_stem = ''m''\<rparr>" "store_open 0"]
  by (simp add: store_open_def)

section \<open>Cursors\<close>

lemma cursors_after_update:
  assumes "component_faults ''conversation_id'' (Some cid) = []"
  shows "store_cursors p cid (s\<lparr>cursor_files := AList.update (encode_component p cid @ ''.json'') c fs\<rparr>) = Inr c"
  using assms by (simp add: store_cursors_def store_cursor_file_def)

lemma advance_reaches:
  assumes cid: "component_faults ''conversation_id'' (Some cid) = []" and kind: "kind \<in> {''message'', ''revision''}"
  obtains c s' v where "store_advance_cursor p cid kind pos s = (Inr c, s')" "store_cursors p cid s' = Inr c"
    "cursor_at kind c = Some v" "js_le pos v"
proof (cases "store_cursors p cid s")
  case (Inl e)
  with cid show ?thesis by (simp add: store_cursors_def store_cursor_file_def)
next
  case (Inr c)
  show ?thesis
  proof (cases "\<exists>v. cursor_at kind c = Some v \<and> js_le pos v")
    case True
    with Inr kind that [of c s] show ?thesis by (auto simp: store_advance_cursor_def)
  next
    case False
    let ?c = "set_cursor kind pos c"
    have "cursor_at kind ?c = Some pos" using kind by (auto simp: set_cursor_def cursor_at_def)
    moreover have "\<not> (case cursor_at kind c of None \<Rightarrow> False | Some at' \<Rightarrow> js_le pos at')"
      using False by (auto split: option.split)
    ultimately show ?thesis
      using Inr kind that [of ?c _ pos] cursors_after_update [OF cid]
      by (auto simp: store_advance_cursor_def Let_def)
  qed
qed

lemma message_pathsD:
  "message_paths p m = Inr pl \<Longrightarrow> component_faults ''conversation_id'' (Some (conversation_id m)) = []
     \<and> rp_dir pl = encode_component p (conversation_id m)"
  by (auto simp: message_paths_def store_paths_def Let_def split: if_splits)

text \<open>A capture that carries a cursor advances it on every way out: whether the record was written,
  merged, or refused because another adapter owns its identity, the cursor of the conversation is at
  the position or past it afterwards.\<close>

theorem capture_advances_cursor:
  assumes "well_formed m" "message_paths p m = Inr pl"
    and "opt_cursor opts = Some (kind, pos)" "kind \<in> {''message'', ''revision''}"
  shows "\<exists>c v. store_cursors p (conversation_id m) (snd (store_capture p m opts s)) = Inr c
    \<and> cursor_at kind c = Some v \<and> js_le pos v"
proof -
  obtain m' s2 where raw: "append_raw pl (opt_raw opts) m (s\<lparr>seq_value := seq_value s + 1\<rparr>) = (m', s2)"
    by fastforce
  obtain r s3 where body: "capture_record p pl (seq_value s + 1) opts m' s2 = (r, s3)" by fastforce
  obtain c s' v where "store_advance_cursor p (conversation_id m) kind pos s3 = (Inr c, s')"
    "store_cursors p (conversation_id m) s' = Inr c" "cursor_at kind c = Some v" "js_le pos v"
    using advance_reaches message_pathsD [OF assms(2)] assms(4) by blast
  with raw body assms show ?thesis
    by (simp add: store_capture_def validate_message store_next_seq_def Let_def capture_finally_def)
qed

theorem capture_advances_cursor_witness:
  "\<exists>c v. store_cursors sample_platform ''c'' (snd (store_capture sample_platform (sample_message ''c'' ''m'' Inbound)
       (no_options\<lparr>opt_cursor := Some (''message'', ''7'')\<rparr>) (store_open 0))) = Inr c
     \<and> cursor_at ''message'' c = Some v \<and> js_le ''7'' v"
  using capture_advances_cursor [of "sample_message ''c'' ''m'' Inbound" sample_platform
      "\<lparr>rp_dir = ''c'', rp_stem = ''m''\<rparr>" "no_options\<lparr>opt_cursor := Some (''message'', ''7'')\<rparr>" "''message''" "''7''"]
  by simp

text \<open>Two live adapters cannot write one identity: capturing a record whose identity another adapter
  wrote throws \<open>MESSAGE_ID_CLAIMED\<close>, and no record, index line or raw file changes.\<close>

theorem capture_of_claimed_identity:
  assumes "well_formed m" "message_paths p m = Inr pl" "map_of (captures s) (record_key pl) = Some e"
    and "source e \<noteq> source m" "\<not> merges (source m)" and "opt_raw opts = None" and "opt_cursor opts = None"
  shows "\<exists>s'. store_capture p m opts s = (Inl (Stream_Fault [Fault ''MESSAGE_ID_CLAIMED'' (message_id m)]), s')
    \<and> captures s' = captures s \<and> index_lines s' = index_lines s \<and> raw_files s' = raw_files s"
  using assms by (simp add: store_capture_def validate_message capture_finally_def
      store_next_seq_def append_raw_def capture_record_def capture_place_def Let_def)

theorem capture_of_claimed_identity_witness:
  "\<exists>s'. store_capture sample_platform (sample_message ''c'' ''m'' Inbound) no_options
     ((store_open 0)\<lparr>captures := [((''c'', ''m.json''), (sample_message ''c'' ''m'' Inbound)\<lparr>source := ''telegram''\<rparr>)]\<rparr>)
   = (Inl (Stream_Fault [Fault ''MESSAGE_ID_CLAIMED'' ''m'']), s')"
  using capture_of_claimed_identity [of "sample_message ''c'' ''m'' Inbound" sample_platform
      "\<lparr>rp_dir = ''c'', rp_stem = ''m''\<rparr>" "(store_open 0)\<lparr>captures := [((''c'', ''m.json''), (sample_message ''c'' ''m'' Inbound)\<lparr>source := ''telegram''\<rparr>)]\<rparr>"
      "(sample_message ''c'' ''m'' Inbound)\<lparr>source := ''telegram''\<rparr>" no_options]
  by (auto simp: record_key_def merges_def no_options_def)

section \<open>Releases and holds\<close>

lemma browser_stamp_plain [simp]: "source m \<noteq> ''browser'' \<Longrightarrow> browser_stamp ex m s = (m, s)"
  by (simp add: browser_stamp_def)

text \<open>What \<open>release\<close> refuses. A historical, a parked or an uncaptured record is never released, nor
  is one of a held conversation when the hold applies: the call throws and the store is unchanged. On
  every other record of a well-placed store it writes the release and returns the record.\<close>

theorem release_branches:
  assumes "placed p s" "message_paths p m = Inr pl"
    and "(if hold_applies then store_is_held p (conversation_id m) now s else Inr False) = Inr held"
  shows "if historical m \<or> disposition m = Parked \<or> held \<or> \<not> has (captures s) (record_key pl)
         then (\<exists>fs. store_release p m rat tid turn now hold_applies s = (Inl (Stream_Fault fs), s) \<and> fs \<noteq> [])
         else (\<exists>w s'. store_release p m rat tid turn now hold_applies s = (Inr w, s')
           \<and> map_of (captures s') (record_key pl) = Some w
           \<and> release w = Some \<lparr>rel_released_at = rat, rel_thread_id = tid, rel_turn_id = turn, rel_completed_at = None\<rparr>
           \<and> (\<forall>k. k \<noteq> record_key pl \<longrightarrow> map_of (captures s') k = map_of (captures s) k))"
proof (cases "historical m \<or> disposition m = Parked \<or> held \<or> \<not> has (captures s) (record_key pl)")
  case True
  then show ?thesis using assms by (auto simp: store_release_def)
next
  case False
  then obtain d where d: "map_of (captures s) (record_key pl) = Some d" by auto
  note read = placed_readable(3) [OF assms(1) d]
  obtain st s1 where stamp: "browser_stamp [] d s = (st, s1)" by fastforce
  have "captures s1 = captures s" using browser_stamp_keeps(2) [OF stamp] .
  with False assms d read stamp show ?thesis by (auto simp: store_release_def Let_def)
qed

theorem release_branches_witness:
  "\<exists>fs. store_release sample_platform (sample_message ''c'' ''m'' Inbound) ''1'' ''t'' ''u'' 0 False (store_open 0)
     = (Inl (Stream_Fault fs), store_open 0) \<and> fs \<noteq> []"
proof -
  have "placed sample_platform (store_open 0)" using store_open_ok by (simp add: store_ok_def)
  from release_branches [OF this, of "sample_message ''c'' ''m'' Inbound" "\<lparr>rp_dir = ''c'', rp_stem = ''m''\<rparr>"
      False 0 False "''1''" "''t''" "''u''"]
  show ?thesis by (simp add: store_open_def)
qed

text \<open>The times until which the hold markers among some records hold: none of them parses to a number
  without a limit after which it ends.\<close>

definition hold_times :: "platform \<Rightarrow> message list \<Rightarrow> int list" where
  "hold_times p ms = concat (map (\<lambda>m. case hold m of None \<Rightarrow> []
     | Some h \<Rightarrow> (case date_parse p (hold_set_at h) of None \<Rightarrow> []
        | Some t \<Rightarrow> (case hold_release_after_ms h of None \<Rightarrow> [] | Some a \<Rightarrow> [t + a]))) ms)"

definition held_for_good :: "platform \<Rightarrow> message \<Rightarrow> bool" where
  "held_for_good p m \<longleftrightarrow> (case hold m of None \<Rightarrow> False
     | Some h \<Rightarrow> date_parse p (hold_set_at h) \<noteq> None \<and> hold_release_after_ms h = None)"

lemma held_until_times:
  "(case until of Some Never_Ends \<Rightarrow> False | _ \<Rightarrow> True) \<Longrightarrow> held_until_from p ms until =
     (if list_ex (held_for_good p) ms then Some Never_Ends
      else (case (until, hold_times p ms) of
              (_, []) \<Rightarrow> until
            | (u, t # ts) \<Rightarrow> Some (Ends_At (fold max (t # ts) (case u of Some (Ends_At x) \<Rightarrow> x | _ \<Rightarrow> 0)))))"
proof (induction ms arbitrary: until)
  case (Cons m ms)
  show ?case
  proof (cases "hold m")
    case None
    with Cons show ?thesis by (simp add: hold_times_def held_for_good_def)
  next
    case (Some h)
    show ?thesis
    proof (cases "date_parse p (hold_set_at h)")
      case None
      with Some Cons show ?thesis by (simp add: hold_times_def held_for_good_def)
    next
      case t: (Some t)
      show ?thesis
      proof (cases "hold_release_after_ms h")
        case None
        with Some t show ?thesis by (simp add: held_for_good_def)
      next
        case (Some a)
        let ?u = "case until of Some (Ends_At x) \<Rightarrow> x | _ \<Rightarrow> 0"
        have "held_until_from p (m # ms) until = held_until_from p ms (Some (Ends_At (max ?u (t + a))))"
          using \<open>hold m = Some h\<close> t Some by simp
        also have "hold_times p (m # ms) = (t + a) # hold_times p ms"
          using \<open>hold m = Some h\<close> t Some by (simp add: hold_times_def)
        moreover have "\<not> held_for_good p m" using \<open>hold m = Some h\<close> t Some by (simp add: held_for_good_def)
        ultimately show ?thesis
          using Cons.IH [of "Some (Ends_At (max ?u (t + a)))"]
          by (auto simp: max.commute split: list.split)
      qed
    qed
  qed
qed (simp add: hold_times_def split: option.split)

text \<open>Until when a conversation is held. A marker without a limit holds for good; otherwise the
  conversation is held to the latest end any marker gives, however the records are ordered (never
  before the epoch); a marker whose time does not parse holds nothing, and with no marker there is no hold.\<close>

theorem held_until_latest:
  "held_until_from p ms None =
     (if list_ex (held_for_good p) ms then Some Never_Ends
      else if hold_times p ms = [] then None
      else Some (Ends_At (Max (insert 0 (set (hold_times p ms))))))"
proof -
  have latest: "fold max ts (x :: int) = Max (insert x (set ts))" for ts x
    using Max.set_eq_fold [of x ts] by simp
  have "fold max ts (max t (0 :: int)) = Max (insert 0 (set (t # ts)))" for t ts
    using latest [of "t # ts" 0] by simp
  then show ?thesis
    by (simp add: held_until_times split: list.split)
qed

end
