(* ===== verification/Reply_Fence.thy ===== *)
theory Reply_Fence
  imports Store_Props
begin

text \<open>
  The request id as a fence against sending a reply twice (\<open>reply\<close>, \<open>settleDelivery\<close>,
  \<open>releaseHeldReply\<close> of \<open>stream/store.ts\<close>): what each branch of \<open>reply\<close> does, that no later
  call but a settlement of the same request moves a request that is sent, pending, held or unknown,
  and what a retry after a failed send really leaves.
\<close>

section \<open>The branches of a reply\<close>

lemma reply_by_request:
  assumes "store_records_in p (conversation_id m) s = Inr records" "reply_faults m status records = []"
    and "delivery m = Some dl" "store_read_request p (dl_request_id dl) s = Inr req"
  shows "store_reply p m status s =
    (case req of
       None \<Rightarrow> reply_write p m dl status s
     | Some q \<Rightarrow>
         if req_status q = ''sent'' then (Inr (Fenced_Sent (req_chunk_ids q) (req_message_id q)), s)
         else if req_status q = ''pending'' \<or> req_status q = ''pending-teach-check''
         then (Inl (Stream_Fault [Fault ''REQUEST_ALREADY_PENDING'' (dl_request_id dl)]), s)
         else if req_status q = ''unknown''
         then (Inl (Stream_Fault [Fault ''DELIVERY_UNKNOWN_NEVER_RETRIED'' (dl_request_id dl)]), s)
         else reply_write p m dl status s)"
  using assms by (auto simp: store_reply_def fence_fault_def split: option.split)

definition fenced_status :: "string \<Rightarrow> bool" where
  "fenced_status st \<longleftrightarrow> st \<in> {''sent'', ''pending'', ''pending-teach-check'', ''unknown''}"

lemma fenced_unchanged:
  assumes "delivery m = Some dl" "store_read_request p (dl_request_id dl) s = Inr (Some q)"
    and "fenced_status (req_status q)"
  shows "snd (store_reply p m status s) = s"
  using assms by (auto simp: store_reply_def fence_fault_def fenced_status_def split: sum.split)

text \<open>C2. The fence. Once a request is on file as sent, pending, held for the teach check or unknown, no
  reply under its id writes anything, whatever record it carries: the store stays as it was, and the
  call returns the ids already sent or throws. In particular it never returns a written reply.\<close>

theorem fenced_reply_writes_nothing:
  assumes "delivery m = Some dl" "store_read_request p (dl_request_id dl) s = Inr (Some q)"
    and "fenced_status (req_status q)"
  shows "snd (store_reply p m status s) = s
    \<and> (\<forall>rec file. fst (store_reply p m status s) \<noteq> Inr (Written rec file))
    \<and> (is_ok (fst (store_reply p m status s)) \<longrightarrow>
         req_status q = ''sent'' \<and> fst (store_reply p m status s) = Inr (Fenced_Sent (req_chunk_ids q) (req_message_id q)))"
  using assms by (auto simp: store_reply_def fence_fault_def fenced_status_def is_ok_def split: sum.split)

definition fence_store :: store where
  "fence_store = (store_open 0)\<lparr>request_files := [(''q.json'', \<lparr>req_request_id = ''q'', req_status = ''unknown'',
     req_conversation_id = ''c'', req_message_id = ''r'', req_revision = 0, req_chunk_ids = []\<rparr>)]\<rparr>"

theorem fenced_reply_writes_nothing_witness:
  "snd (store_reply sample_platform ((sample_message ''c'' ''r'' Outbound)\<lparr>delivery := Some (sample_delivery ''q'')\<rparr>)
     ''pending'' fence_store) = fence_store"
  using fenced_reply_writes_nothing [of "(sample_message ''c'' ''r'' Outbound)\<lparr>delivery := Some (sample_delivery ''q'')\<rparr>"
      "sample_delivery ''q''" sample_platform fence_store _ "''pending''"]
  by (simp add: fenced_status_def fence_store_def)

text \<open>The request files after a capture are those before it.\<close>

lemma requests_stamp [simp]: "request_files (snd (browser_stamp ex m s)) = request_files s"
  by (simp add: browser_stamp_def store_next_seq_def Let_def)

lemma requests_set_disposition [simp]:
  "request_files (snd (store_set_disposition p m d s)) = request_files s"
  by (simp add: store_set_disposition_def Let_def split_beta split: sum.split)

lemma requests_advance [simp]: "request_files (snd (store_advance_cursor p cid kind pos s)) = request_files s"
  by (simp add: store_advance_cursor_def Let_def split: sum.split)

lemma requests_capture_finally [simp]:
  "request_files (snd (capture_finally p m opts out)) = request_files (snd out)"
  by (simp add: capture_finally_def split_beta split: option.split sum.split)

lemma requests_capture_place [simp]: "request_files (snd (capture_place p key n m s)) = request_files s"
  by (simp add: capture_place_def Let_def store_append_index_def split: option.split)

lemma requests_capture_dispose [simp]: "request_files (snd (capture_dispose p opts m s)) = request_files s"
  by (simp add: capture_dispose_def split: option.split)

lemma requests_capture_record [simp]: "request_files (snd (capture_record p pl n opts m s)) = request_files s"
  by (simp add: capture_record_def split_beta split: sum.split)

lemma requests_append_raw [simp]: "request_files (snd (append_raw pl t m s)) = request_files s"
  by (simp add: append_raw_def Let_def split: option.split)

lemma requests_capture [simp]: "request_files (snd (store_capture p m opts s)) = request_files s"
  by (simp add: store_capture_def store_next_seq_def Let_def split_beta split: sum.split)

text \<open>A reply that was written fences its own request id: it is on file at the status it was
  written at, and replying again under that id writes nothing.\<close>

theorem written_reply_is_fenced:
  assumes "delivery m = Some dl" "store_reply p m status s = (Inr (Written rec file), s')"
  shows "\<exists>q. store_read_request p (dl_request_id dl) s' = Inr (Some q) \<and> req_status q = status
    \<and> req_message_id q = message_id m
    \<and> (\<forall>m' st. delivery m' = Some dl \<longrightarrow> snd (store_reply p m' st s') = s')"
proof -
  have w: "reply_write p m dl status s = (Inr (Written rec file), s')" and st: "status \<in> {''pending'', ''pending-teach-check''}"
    using assms by (auto simp: store_reply_def reply_faults_def fence_fault_def
        split: sum.splits option.splits if_splits)
  have "\<exists>q. store_read_request p (dl_request_id dl) s' = Inr (Some q) \<and> req_status q = status
      \<and> req_message_id q = message_id m"
    using w by (auto simp: reply_write_def store_read_request_def bind_res_def split: prod.splits sum.splits)
  moreover from this st have "snd (store_reply p m' st' s') = s'" if "delivery m' = Some dl" for m' st'
    using fenced_unchanged [OF that] by (auto simp: fenced_status_def)
  ultimately show ?thesis by blast
qed

text \<open>A reply on an owned conversation whose request is not fenced, to a record that is not on disk.\<close>

lemma reply_new:
  assumes "store_records_in p (conversation_id m) s = Inr records" "reply_faults m status records = []"
    and "delivery m = Some dl" "store_read_request p (dl_request_id dl) s = Inr req"
    and "\<And>q. req = Some q \<Longrightarrow> \<not> fenced_status (req_status q)"
  shows "store_reply p m status s = reply_write p m dl status s"
  using assms by (auto simp: reply_by_request fenced_status_def split: option.split)

lemma sample_reply_faults [simp]:
  "reply_faults sample_reply ''pending'' [sample_message ''c'' ''m'' Inbound] = []"
  by code_simp

lemma sample_written:
  "\<exists>s'. store_reply sample_platform sample_reply ''pending'' owned_store
     = (Inr (Written sample_reply (''c'', ''r.json'')), s')"
  using capture_new [OF sample_reply_well_formed sample_reply_paths, of owned_store]
    reply_new [of sample_platform sample_reply owned_store "[sample_message ''c'' ''m'' Inbound]" "''pending''"
        "sample_delivery ''q''" None]
  by (simp add: reply_write_def record_key_def)

theorem written_reply_is_fenced_witness:
  "\<exists>s'. snd (store_reply sample_platform sample_reply ''pending'' s') = s'
     \<and> s' = snd (store_reply sample_platform sample_reply ''pending'' owned_store)"
  using written_reply_is_fenced [of sample_reply "sample_delivery ''q''" sample_platform "''pending''" owned_store]
    sample_written by fastforce

section \<open>The fence over any calls\<close>

text \<open>The calls that settle a request's delivery, by the file of the request.\<close>

fun settles :: "platform \<Rightarrow> string \<Rightarrow> store_call \<Rightarrow> bool" where
  "settles p file (Call_Mark_Sent rid ids) = (store_request_file p rid = Inr file)"
| "settles p file (Call_Mark_Unknown rid) = (store_request_file p rid = Inr file)"
| "settles p file (Call_Mark_Failed rid) = (store_request_file p rid = Inr file)"
| "settles p file (Call_Release_Held_Reply rid) = (store_request_file p rid = Inr file)"
| "settles p file c = False"

lemma requests_settle_other:
  assumes "store_request_file p rid \<noteq> Inr file"
  shows "map_of (request_files (snd (store_settle_delivery p rid st ch co s))) file = map_of (request_files s) file"
  using assms
  by (simp add: store_settle_delivery_def Let_def split_beta split: sum.split option.split)

lemma requests_reply_write:
  assumes "store_request_file p (dl_request_id dl) \<noteq> Inr file"
  shows "map_of (request_files (snd (reply_write p m dl st s))) file = map_of (request_files s) file"
  using assms by (simp add: reply_write_def split_beta split: sum.split)

lemma requests_reply_fenced:
  assumes "map_of (request_files s) file = Some q" "fenced_status (req_status q)"
  shows "map_of (request_files (snd (store_reply p m st s))) file = Some q"
proof (cases "delivery m")
  case None
  then show ?thesis using assms(1) by (simp add: store_reply_def split: sum.split)
next
  case (Some dl)
  show ?thesis
  proof (cases "store_request_file p (dl_request_id dl) = Inr file")
    case True
    then have "store_read_request p (dl_request_id dl) s = Inr (Some q)"
      using assms(1) by (simp add: store_read_request_def)
    with fenced_unchanged [OF Some] assms show ?thesis by simp
  next
    case False
    with Some requests_reply_write [OF False] assms(1) show ?thesis
      by (simp add: store_reply_def split: sum.split option.split)
  qed
qed

lemma requests_park: "request_files (snd (store_park p m w o1 s)) = request_files s"
  by (simp add: store_park_def)

lemma requests_park_failed: "request_files (snd (store_park_failed p m fs w s)) = request_files s"
  by (simp add: store_park_failed_def store_next_seq_def Let_def split_beta split: sum.split)

lemma requests_annotate: "request_files (snd (store_annotate p m ms s)) = request_files s"
  by (simp add: store_annotate_def store_next_seq_def Let_def split_beta split: sum.split)

lemma requests_put: "request_files (snd (store_put_attachment p c m r b t n s)) = request_files s"
  by (simp add: store_put_attachment_def Let_def split: sum.split)

lemma requests_release: "request_files (snd (store_release p m a t u now h s)) = request_files s"
  by (simp add: store_release_def Let_def split_beta split: sum.split)

lemma requests_complete: "request_files (snd (store_complete_release p m a s)) = request_files s"
  by (simp add: store_complete_release_def Let_def split_beta split: sum.split)

lemma requests_thread: "request_files (snd (store_write_thread p u ms s)) = request_files s"
  by (simp add: store_write_thread_def split: sum.split)

lemma requests_release_held:
  "store_request_file p rid \<noteq> Inr file \<Longrightarrow>
     map_of (request_files (snd (store_release_held_reply p rid s))) file = map_of (request_files s) file"
  by (simp add: store_release_held_reply_def requests_settle_other split: sum.split)

text \<open>C3. The fence holds through every sequence of calls: a request that is sent, pending, held or
  unknown keeps exactly that state until a settlement of its own request, whatever is captured,
  released, replied or written meanwhile.\<close>

theorem fence_stays:
  assumes "map_of (request_files s) file = Some q" "fenced_status (req_status q)"
    and "\<forall>c\<in>set cs. \<not> settles p file c"
  shows "map_of (request_files (foldl (\<lambda>s c. run_call p c s) s cs)) file = Some q"
  using assms
proof (induction cs arbitrary: s)
  case (Cons c cs)
  have "map_of (request_files (run_call p c s)) file = Some q"
    using Cons.prems requests_reply_fenced [OF Cons.prems(1,2)]
    by (cases c) (simp_all add: requests_settle_other store_mark_sent_def store_mark_unknown_def
        store_mark_failed_def requests_park requests_park_failed requests_annotate requests_put
        requests_release requests_complete requests_thread requests_release_held)
  with Cons show ?case by simp
qed simp

theorem fence_stays_witness:
  "map_of (request_files (run_call sample_platform (Call_Reply sample_reply ''pending'') fence_store)) ''q.json''
    = map_of (request_files fence_store) ''q.json''"
  using fence_stays [of fence_store "''q.json''" _ "[Call_Reply sample_reply ''pending'']" sample_platform]
  by (simp add: fence_store_def fenced_status_def)

section \<open>Settling a delivery\<close>

text \<open>A settlement is written on both files: afterwards the request file and the outbound record
  that \<open>read\<close> returns carry the same status, the ids the channel gave, and the record's identity, body
  and request id are those it had.\<close>

theorem settlement_agrees:
  assumes "store_read_request p rid s = Inr (Some q)"
    and "store_read p (req_conversation_id q) (req_message_id q) (req_revision q) s = Inr (Some m)"
    and "delivery m = Some dl"
  shows "\<exists>w dl' q' s'. store_settle_delivery p rid st chunks done_at s = (Inr w, s')
    \<and> store_read_request p rid s' = Inr (Some q') \<and> req_status q' = st
    \<and> req_message_id q' = req_message_id q \<and> (\<forall>ids. chunks = Some ids \<longrightarrow> req_chunk_ids q' = ids)
    \<and> store_read p (req_conversation_id q) (req_message_id q) (req_revision q) s' = Inr (Some w)
    \<and> delivery w = Some dl' \<and> dl_status dl' = st \<and> dl_request_id dl' = dl_request_id dl
    \<and> (\<forall>ids. chunks = Some ids \<longrightarrow> dl_chunk_ids dl' = Some ids) \<and> core_of w = core_of m"
proof -
  from assms(2) obtain pl where pl: "message_paths p m = Inr pl" "map_of (captures s) (record_key pl) = Some m"
    "store_paths p (req_conversation_id q) (req_message_id q) (req_revision q) = Inr pl"
    by (rule store_read_Some)
  from assms(1) obtain rf where rfile: "store_request_file p rid = Inr rf" "map_of (request_files s) rf = Some q"
    by (auto simp: store_read_request_def bind_res_Inr_iff)
  obtain stamped s1 where stamp: "browser_stamp [] m s = (stamped, s1)" by fastforce
  note keeps = browser_stamp_keeps [OF stamp]
  let ?w = "stamped\<lparr>delivery := Some (settle_delivery_info (delivery m) st chunks done_at)\<rparr>"
  have paths: "message_paths p ?w = Inr pl" using pl(1) keeps by (simp add: message_paths_def)
  have core: "core_of ?w = core_of m" using keeps(3) by (simp add: kept_def)
  show ?thesis
    using assms pl rfile stamp keeps paths core
    by (simp add: store_settle_delivery_def Let_def store_read_request_def store_read_def store_read_at_def
        on_disk_def settle_delivery_info_def split: option.split)
qed

text \<open>Only a reply held for the teach check is let go: \<open>releaseHeldReply\<close> on any other request, or
  on none, throws \<open>REPLY_NOT_HELD\<close> and writes nothing.\<close>

theorem only_held_replies_are_let_go:
  assumes "store_read_request p rid s = Inr req"
    and "\<forall>q. req = Some q \<longrightarrow> req_status q \<noteq> ''pending-teach-check''"
  shows "store_release_held_reply p rid s = (Inl (Stream_Fault [Fault ''REPLY_NOT_HELD'' rid]), s)"
  using assms by (auto simp: store_release_held_reply_def split: option.split)

theorem only_held_replies_are_let_go_witness:
  "store_release_held_reply sample_platform ''q'' fence_store
     = (Inl (Stream_Fault [Fault ''REPLY_NOT_HELD'' ''q'']), fence_store)"
  using only_held_replies_are_let_go [of sample_platform "''q''" fence_store]
  by (simp add: fence_store_def)

section \<open>A retry after a failed send\<close>

text \<open>What a retry under a failed request really does. The comment on \<open>reply\<close> allows it as a retry
  of something that did not arrive, but the record of the failed reply is still on disk under the same
  message id, so the capture merges: the call returns a written reply, the request file says pending,
  and the record on disk keeps its \<open>failed\<close> status and its first text, so a pass that sends pending
  records never sends it.\<close>

theorem retry_after_failure_stays_failed:
  assumes "store_records_in p (conversation_id m) s = Inr records" "reply_faults m ''pending'' records = []"
    and "delivery m = Some dl" "store_read_request p (dl_request_id dl) s = Inr (Some q)" "req_status q = ''failed''"
    and "well_formed m" "message_paths p m = Inr pl"
    and "map_of (captures s) (record_key pl) = Some e" "source e = source m"
    and "delivery e = Some dle" "dl_status dle = ''failed''"
  shows "\<exists>w s' q'. store_reply p m ''pending'' s = (Inr (Written w (record_key pl)), s')
    \<and> store_read_request p (dl_request_id dl) s' = Inr (Some q') \<and> req_status q' = ''pending''
    \<and> map_of (captures s') (record_key pl) = Some w
    \<and> map_option dl_status (delivery w) = Some ''failed'' \<and> body w = body e"
proof -
  let ?m = "m\<lparr>delivery := Some (dl\<lparr>dl_status := ''pending''\<rparr>)\<rparr>"
  have wf: "well_formed ?m"
    using assms(3,6) by (simp add: well_formed_def delivery_ok_def delivery_statuses_def)
  have paths: "message_paths p ?m = Inr pl" using assms(7) by (simp add: message_paths_def)
  have "store_reply p m ''pending'' s = reply_write p m dl ''pending'' s"
    by (rule reply_new [OF assms(1-4)]) (use assms(5) in \<open>simp add: fenced_status_def\<close>)
  moreover obtain rf where "store_request_file p (dl_request_id dl) = Inr rf"
    using assms(4) by (auto simp: store_read_request_def bind_res_Inr_iff)
  ultimately show ?thesis
    using capture_known [OF wf paths assms(8)] assms(9-11)
    by (simp add: reply_write_def store_read_request_def merge_records_def)
qed

definition failed_store :: store where
  "failed_store = owned_store\<lparr>captures := captures owned_store @
       [((''c'', ''r.json''), sample_reply\<lparr>delivery := Some (sample_delivery ''q''\<lparr>dl_status := ''failed''\<rparr>)\<rparr>)],
     request_files := [(''q.json'', \<lparr>req_request_id = ''q'', req_status = ''failed'', req_conversation_id = ''c'',
       req_message_id = ''r'', req_revision = 0, req_chunk_ids = []\<rparr>)]\<rparr>"

lemma failed_store_records:
  "store_records_in sample_platform ''c'' failed_store = Inr
     [sample_message ''c'' ''m'' Inbound, sample_reply\<lparr>delivery := Some (sample_delivery ''q''\<lparr>dl_status := ''failed''\<rparr>)\<rparr>]"
  by code_simp

lemma failed_store_faults:
  "reply_faults sample_reply ''pending''
     [sample_message ''c'' ''m'' Inbound, sample_reply\<lparr>delivery := Some (sample_delivery ''q''\<lparr>dl_status := ''failed''\<rparr>)\<rparr>] = []"
  by code_simp

theorem retry_after_failure_stays_failed_witness:
  "\<exists>w s'. store_reply sample_platform sample_reply ''pending'' failed_store = (Inr (Written w (''c'', ''r.json'')), s')
    \<and> map_option dl_status (delivery w) = Some ''failed''"
proof -
  have "map_of (captures failed_store) (record_key \<lparr>rp_dir = ''c'', rp_stem = ''r''\<rparr>)
      = Some (sample_reply\<lparr>delivery := Some (sample_delivery ''q''\<lparr>dl_status := ''failed''\<rparr>)\<rparr>)"
    "map_of (request_files failed_store) ''q.json'' = Some \<lparr>req_request_id = ''q'', req_status = ''failed'', req_conversation_id = ''c'',
       req_message_id = ''r'', req_revision = 0, req_chunk_ids = []\<rparr>"
    by (simp_all add: failed_store_def record_key_def)
  then show ?thesis
    using failed_store_records failed_store_faults retry_after_failure_stays_failed [of sample_platform sample_reply failed_store _ "sample_delivery ''q''" _
      "\<lparr>rp_dir = ''c'', rp_stem = ''r''\<rparr>"]
    by (fastforce simp: record_key_def)
qed

lemma failed_store_read:
  "store_read sample_platform ''c'' ''r'' 0 failed_store
     = Inr (Some (sample_reply\<lparr>delivery := Some (sample_delivery ''q''\<lparr>dl_status := ''failed''\<rparr>)\<rparr>))"
  by code_simp

theorem settlement_agrees_witness:
  "\<exists>w s'. store_settle_delivery sample_platform ''q'' ''sent'' (Some [''7'']) None failed_store = (Inr w, s')
    \<and> store_read sample_platform ''c'' ''r'' 0 s' = Inr (Some w)"
  using settlement_agrees [of sample_platform "''q''" failed_store
      "\<lparr>req_request_id = ''q'', req_status = ''failed'', req_conversation_id = ''c'',
       req_message_id = ''r'', req_revision = 0, req_chunk_ids = []\<rparr>" _ _ "''sent''" "Some [''7'']" None]
    failed_store_read
  by (fastforce simp: failed_store_def)

end
