(* ===== verification/Record_Files.thy ===== *)
theory Record_Files
  imports Store_Props
begin

text \<open>
  From identities to files: a derived path is a plain name directly under its directory, two
  identities never share a file unless the hash collides, an identifier is recovered from its name
  unless it was hashed, and a file written under one short identifier is the one read back under it.
\<close>

section \<open>One component\<close>

text \<open>The encoding of an identifier that may become a path component is a plain file name of at most
  200 safe bytes, and unless it had to be hashed it decodes to the identifier.\<close>

theorem component_round_trip:
  assumes "component_faults subj (Some idt) = []" and "digests (sha256_hex p)"
  shows "plain_segment (encode_component p idt) \<and> length (encode_component p idt) \<le> max_encoded
    \<and> list_all safe_char (encode_component p idt)
    \<and> (\<not> hashed idt \<longrightarrow> decode_component (encode_component p idt) = Inr idt)"
proof -
  have "idt \<noteq> []" using assms(1) by (auto simp: component_faults_def)
  then show ?thesis
    using encode_component_safe [OF assms(2)]
    by (simp add: encode_component_plain [OF assms(2)] encode_component_length [OF assms(2)] decode_encode list_all_iff)
qed

lemma sample_digests: "digests (sha256_hex sample_platform)"
  by (simp add: digests_def sample_platform_def hex_lower_def list_all_iff)

theorem component_round_trip_witness:
  "decode_component (encode_component sample_platform ''a b'') = Inr ''a b''"
proof -
  have "component_faults ''s'' (Some ''a b'') = []" "\<not> hashed ''a b''" by code_simp+
  with component_round_trip [of "''s''" "''a b''" sample_platform] sample_digests show ?thesis by blast
qed

section \<open>Records\<close>

lemma message_paths_Inr:
  "message_paths p m = Inr pl \<longleftrightarrow>
     component_faults ''conversation_id'' (Some (conversation_id m)) = []
   \<and> component_faults ''message_id'' (Some (message_id m)) = []
   \<and> pl = \<lparr>rp_dir = encode_component p (conversation_id m),
           rp_stem = (if revision m = 0 then encode_component p (message_id m)
                      else encode_component p (message_id m) @ ''.'' @ show_int (revision m))\<rparr>"
  by (auto simp: message_paths_def store_paths_def Let_def)

lemma show_int_plain: "0 \<le> i \<Longrightarrow> CHR ''.'' \<notin> set (show_int i) \<and> CHR ''/'' \<notin> set (show_int i)"
  using show_nat_digits by (fastforce simp: show_int_def)

text \<open>A record's file lies two plain names under \<open>captures\<close>: whatever the identifiers are, resolving
  the derived path under the store gives the store's directory followed by exactly those names.\<close>

theorem record_file_in_place:
  assumes "message_paths p m = Inr pl" "digests (sha256_hex p)" "0 \<le> revision m" "home \<noteq> []"
  shows "resolve_under_store home [''captures'', fst (record_key pl), snd (record_key pl)]
    = Inr (home @ [''captures'', fst (record_key pl), snd (record_key pl)])"
proof -
  have ids: "conversation_id m \<noteq> []" "message_id m \<noteq> []"
    using assms(1) by (auto simp: message_paths_Inr component_faults_def)
  have "plain_segment (rp_dir pl)"
    using assms(1,2) encode_component_plain [OF _ ids(1)] by (simp add: message_paths_Inr)
  moreover have "plain_segment (rp_stem pl @ ''.json'')"
    using assms(1) encode_component_plain [OF assms(2) ids(2)] show_int_plain [OF assms(3)]
    by (auto simp: message_paths_Inr plain_segment_def)
  moreover have "plain_segment ''captures''" by (simp add: plain_segment_def)
  ultimately show ?thesis
    by (intro resolve_under_store_plain [OF assms(4)]) (simp add: record_key_def)
qed

theorem record_file_in_place_witness:
  "resolve_under_store [''srv''] [''captures'', ''c'', ''m.json''] = Inr [''srv'', ''captures'', ''c'', ''m.json'']"
  using record_file_in_place [OF sample_paths(1) sample_digests, of Inbound "[''srv'']"]
  by (simp add: record_key_def)

text \<open>The dot that separates a revision cannot come from an encoded identifier.\<close>

lemma stem_inject:
  assumes "CHR ''.'' \<notin> set a" "CHR ''.'' \<notin> set b"
    and "(if i = 0 then a else a @ ''.'' @ show_int i) = (if j = 0 then b else b @ ''.'' @ show_int j)"
  shows "a = b \<and> i = j"
  using assms by (auto simp: append_eq_append_conv2 split: if_splits) (auto simp: Cons_eq_append_conv append_eq_Cons_conv)

text \<open>Two identifiers are one, or the hash collides on two that are too long to be encoded.\<close>

definition same_or_collide :: "platform \<Rightarrow> string \<Rightarrow> string \<Rightarrow> bool" where
  "same_or_collide p x y \<longleftrightarrow> x = y \<or> hashed x \<and> hashed y \<and> sha256_hex p x = sha256_hex p y"

text \<open>Two records with one file are one identity: same conversation, same message, same revision,
  unless the hash gives two identifiers of more than 200 encoded bytes one digest.\<close>

theorem one_file_one_identity:
  assumes "message_paths p a = Inr pa" "message_paths p b = Inr pb" "record_key pa = record_key pb"
    and "digests (sha256_hex p)"
  shows "same_or_collide p (conversation_id a) (conversation_id b)
    \<and> same_or_collide p (message_id a) (message_id b) \<and> revision a = revision b"
proof -
  have nodot: "CHR ''.'' \<notin> set (encode_component p x)" for x
    using encode_component_safe [OF assms(4)] by fastforce
  have "pa = pb" using assms(3) by simp
  with assms(1,2) have dirs: "encode_component p (conversation_id a) = encode_component p (conversation_id b)"
    and stems: "(if revision a = 0 then encode_component p (message_id a)
        else encode_component p (message_id a) @ ''.'' @ show_int (revision a))
      = (if revision b = 0 then encode_component p (message_id b)
        else encode_component p (message_id b) @ ''.'' @ show_int (revision b))"
    by (auto simp only: message_paths_Inr record_paths.simps)
  from stem_inject [OF nodot nodot stems] encode_component_inject [OF dirs] show ?thesis
    using encode_component_inject [of p "message_id a" "message_id b"] by (auto simp: same_or_collide_def)
qed

theorem one_file_one_identity_witness:
  "same_or_collide sample_platform ''c'' ''c'' \<and> same_or_collide sample_platform ''m'' ''m''"
  using one_file_one_identity [OF sample_paths(1) sample_paths(1) refl sample_digests] by fastforce

section \<open>Files named by one identifier\<close>

text \<open>What the store needs of a naming: short identifiers get distinct plain names.\<close>

locale naming =
  fixes name_of :: "string \<Rightarrow> string" and usable :: "string \<Rightarrow> bool"
  assumes distinct_names: "usable a \<Longrightarrow> usable b \<Longrightarrow> name_of a = name_of b \<Longrightarrow> a = b"
    and plain_names: "usable a \<Longrightarrow> plain_segment (name_of a)"
begin

lemma file_after_write:
  assumes "usable a" "usable b"
  shows "map_of (AList.update (name_of a @ ext) v fs) (name_of b @ ext)
    = (if a = b then Some v else map_of fs (name_of b @ ext))"
  using assms distinct_names by auto

lemma in_directory:
  assumes "usable a" "home \<noteq> []" "plain_segment dir"
  shows "resolve_under_store home [dir, name_of a] = Inr (home @ [dir, name_of a])"
  using assms plain_names by (intro resolve_under_store_plain) simp_all

end

interpretation short_ids: naming "encode_component p" "\<lambda>a. a \<noteq> [] \<and> \<not> hashed a"
proof
  fix a b assume "a \<noteq> [] \<and> \<not> hashed a" "b \<noteq> [] \<and> \<not> hashed b" "encode_component p a = encode_component p b"
  then show "a = b" using encode_component_inject by blast
next
  fix a assume a: "a \<noteq> [] \<and> \<not> hashed a"
  then have "x \<in> set (encode_component p a) \<Longrightarrow> safe_char x" for x
    by (simp add: encode_component_cases encode_bytes_safe)
  then have "CHR ''/'' \<notin> set (encode_component p a)" "CHR ''.'' \<notin> set (encode_component p a)"
    by fastforce+
  with a show "plain_segment (encode_component p a)" by (auto simp: plain_segment_def)
qed

text \<open>A thread written for a unit is the one read back for it, and the threads of other units are
  untouched.\<close>

theorem thread_written_thread_read:
  assumes "component_faults ''unit_id'' (Some u) = []" "component_faults ''unit_id'' (Some u') = []"
    and "\<not> hashed u" "\<not> hashed u'"
  shows "\<exists>s'. store_write_thread p u dat s = (Inr (), s')
    \<and> store_read_thread p u' s' = (if u' = u then Inr (Some (spread [(''unit_id'', JStr u)] dat)) else store_read_thread p u' s)"
proof -
  have "u \<noteq> []" "u' \<noteq> []" using assms(1,2) by (auto simp: component_faults_def)
  then show ?thesis
    using assms short_ids.file_after_write [of u u' p]
    by (auto simp: store_write_thread_def store_read_thread_def store_thread_file_def)
qed

theorem thread_written_thread_read_witness:
  "store_read_thread sample_platform ''u'' (snd (store_write_thread sample_platform ''u'' [(''thread_id'', JStr ''t'')] (store_open 0)))
    = Inr (Some [(''unit_id'', JStr ''u''), (''thread_id'', JStr ''t'')])"
proof -
  have "component_faults ''unit_id'' (Some ''u'') = []" "\<not> hashed ''u''" by code_simp+
  with thread_written_thread_read [of "''u''" "''u''" sample_platform "[(''thread_id'', JStr ''t'')]" "store_open 0"]
  show ?thesis by auto
qed

end
