(* ===== verification/Teachings.thy ===== *)
theory Teachings
  imports Store
begin

text \<open>
  What a client taught its agent (\<open>stream/teachings.ts\<close>): the schema of a teaching record, the
  reader and its four groups, the one writer, and the operations \<open>remember\<close>, \<open>raiseChange\<close> and
  \<open>forget\<close>, each with its checks in the order of the source. A file of the directory is its parsed
  JSON, \<open>None\<close> where it does not parse. The properties are in \<open>Teachings_Props\<close>.
\<close>

section \<open>The schema of a teaching\<close>

definition digit :: "char \<Rightarrow> bool" where
  "digit c \<longleftrightarrow> 48 \<le> byte_of c \<and> byte_of c \<le> 57"

definition letter :: "char \<Rightarrow> atom" where
  "letter c = Rep (\<lambda>x. x = c) 1 1"

definition teaching_id_pattern :: "atom list" where
  "teaching_id_pattern = map letter ''teach-''
     @ [Rep digit 8 8, letter (CHR ''T''), Rep digit 6 6, letter (CHR ''Z''), letter (CHR ''-''), Rep hex_lower 8 8]"

definition teaching_schema :: schema where
  "teaching_schema = Schema [''$schema'', ''$id'', ''title'', ''description''] None None (Some ''object'')
     None None None
     [''schema'', ''id'', ''kind'', ''agent'', ''text'', ''conversation_id'', ''source_message_id'',
      ''taught_by'', ''taught_at'', ''status'']
     [(''schema'', const_schema ''carbon.teaching.v1''), (''id'', matching_schema teaching_id_pattern),
      (''kind'', one_of [''instruction'', ''change-request'']), (''agent'', nonempty_text),
      (''text'', nonempty_text), (''conversation_id'', nonempty_text), (''source_message_id'', nonempty_text),
      (''taught_by'', exact_object [''description''] [''sender_id'', ''role'']
         [(''sender_id'', nonempty_text), (''sender_name'', text_schema None),
          (''role'', one_of [''contact'', ''operator'', ''agent'', ''system''])]),
      (''taught_at'', nonempty_text), (''release_id'', nonempty_text),
      (''status'', one_of [''active'', ''forgotten'', ''open'', ''closed'']),
      (''failed_question'', Schema [''description''] None
         (Some [JInt 1, JInt 2, JInt 3, JInt 4, JStr ''size'']) None None None None [] [] Any None),
      (''forgotten'', exact_object [''description''] [''at'', ''source_message_id'']
         [(''at'', nonempty_text), (''source_message_id'', nonempty_text)]),
      (''reviewed'', exact_object [''description''] [''at'', ''by''] [(''at'', nonempty_text), (''by'', nonempty_text)]),
      (''closed'', exact_object [''description''] [''at'', ''issue'', ''by'']
         [(''at'', nonempty_text), (''issue'', nonempty_text), (''by'', nonempty_text)])] Any None"

section \<open>Text of a value\<close>

text \<open>\<open>String(x)\<close>.\<close>

fun js_string :: "platform \<Rightarrow> json \<Rightarrow> string" where
  "js_string p JNull = ''null''"
| "js_string p (JBool b) = (if b then ''true'' else ''false'')"
| "js_string p (JInt i) = show_int i"
| "js_string p (JFloat n d) = number_text p n d"
| "js_string p (JStr t) = t"
| "js_string p (JArr xs) = join '','' (map (\<lambda>x. case x of JNull \<Rightarrow> [] | _ \<Rightarrow> js_string p x) xs)"
| "js_string p (JObj _) = ''[object Object]''"

definition string_of :: "platform \<Rightarrow> json option \<Rightarrow> string" where
  "string_of p x = (case x of None \<Rightarrow> ''undefined'' | Some v \<Rightarrow> js_string p v)"

section \<open>Identifiers\<close>

definition fraction_tail :: "string \<Rightarrow> bool" where
  "fraction_tail t \<longleftrightarrow> t \<noteq> [] \<and> last t = CHR ''Z'' \<and> butlast t \<noteq> [] \<and> list_all digit (butlast t)"

fun strip_fraction :: "string \<Rightarrow> string" where
  "strip_fraction [] = []"
| "strip_fraction (c # t) = (if c = CHR ''.'' \<and> fraction_tail t then ''Z'' else c # strip_fraction t)"

definition teaching_id :: "platform \<Rightarrow> string \<Rightarrow> int \<Rightarrow> string" where
  "teaching_id p src at' = ''teach-''
     @ strip_fraction (filter (\<lambda>c. c \<noteq> CHR ''-'' \<and> c \<noteq> CHR '':'') (to_iso p at')) @ ''-'' @ take 8 (sha256_hex p src)"

definition teaching_file :: "string \<Rightarrow> string" where
  "teaching_file idt = idt @ ''.json''"

fun free_id :: "platform \<Rightarrow> store \<Rightarrow> string \<Rightarrow> int \<Rightarrow> nat \<Rightarrow> exn + string" where
  "free_id p s src ms 0 = Inl (Stream_Fault [Fault ''TEACHING_ID_UNAVAILABLE'' src])"
| "free_id p s src ms (Suc n) =
     (let idt = teaching_id p src ms in
      if \<not> has (teaching_files s) (teaching_file idt) then Inr idt else free_id p s src (ms + 1000) n)"

section \<open>Reading\<close>

definition unit_order :: "string \<Rightarrow> string \<Rightarrow> int" where
  "unit_order a b = (if js_le a b then (if a = b then 0 else -1) else 1)"

text \<open>What one name of the directory contributes: nothing, a record, or a fault.\<close>

definition entry_members :: "json \<Rightarrow> members" where
  "entry_members j = (case j of JObj ms \<Rightarrow> ms | _ \<Rightarrow> [])"

definition read_entry :: "string \<Rightarrow> json option option \<Rightarrow> members option" where
  "read_entry name j =
     (if ends_with ''.json'' name \<and> visible name then
        (case j of
           Some (Some v) \<Rightarrow>
             if map_of (entry_members v) ''id'' = Some (JStr (take (length name - 5) name))
             then Some (entry_members v) else None
         | _ \<Rightarrow> None)
      else None)"

definition entry_faults :: "string \<Rightarrow> json option option \<Rightarrow> fault list" where
  "entry_faults name j =
     (if ends_with ''.json'' name \<and> visible name then
        (case j of
           Some (Some v) \<Rightarrow> (case read_entry name j of None \<Rightarrow> [Fault ''TEACHING_MISPLACED'' (''teachings/'' @ name)] | _ \<Rightarrow> [])
         | _ \<Rightarrow> [Fault ''TEACHING_UNREADABLE'' (''teachings/'' @ name)])
      else [])"

definition read_teachings :: "store \<Rightarrow> members list \<times> fault list" where
  "read_teachings s =
     (let names = sort_cmp unit_order (keys (teaching_files s)) in
      (List.map_filter (\<lambda>n. read_entry n (map_of (teaching_files s) n)) names,
       concat (map (\<lambda>n. entry_faults n (map_of (teaching_files s) n)) names)))"

record teaching_list =
  tl_records :: "members list"
  tl_active :: "members list"
  tl_forgotten :: "members list"
  tl_open :: "members list"
  tl_closed :: "members list"
  tl_unreadable :: "fault list"

definition by_time :: "platform \<Rightarrow> members \<Rightarrow> members \<Rightarrow> int" where
  "by_time p a b =
     (let c = locale_compare p (string_of p (map_of a ''taught_at'')) (string_of p (map_of b ''taught_at'')) in
      if c \<noteq> 0 then c
      else locale_compare p (string_of p (map_of a ''id'')) (string_of p (map_of b ''id'')))"

definition in_group :: "string \<Rightarrow> string \<Rightarrow> members \<Rightarrow> bool" where
  "in_group kind status r \<longleftrightarrow> map_of r ''kind'' = Some (JStr kind) \<and> map_of r ''status'' = Some (JStr status)"

definition list_teachings :: "platform \<Rightarrow> store \<Rightarrow> teaching_list" where
  "list_teachings p s =
     (let (records, unreadable) = read_teachings s;
          group = (\<lambda>kind status. sort_cmp (by_time p) (filter (in_group kind status) records))
      in \<lparr>tl_records = sort_cmp (by_time p) records,
          tl_active = group ''instruction'' ''active'', tl_forgotten = group ''instruction'' ''forgotten'',
          tl_open = group ''change-request'' ''open'', tl_closed = group ''change-request'' ''closed'',
          tl_unreadable = unreadable\<rparr>)"

definition teachings_under_release :: "platform \<Rightarrow> store \<Rightarrow> string option \<Rightarrow> members list" where
  "teachings_under_release p s rel =
     (case rel of
        None \<Rightarrow> []
      | Some r \<Rightarrow> if r = [] then []
                  else filter (\<lambda>m. map_of m ''release_id'' = Some (JStr r)) (tl_records (list_teachings p s)))"

section \<open>The capture that taught it\<close>

text \<open>\<open>None\<close> is an argument that is not a string.\<close>

definition cited_capture ::
  "platform \<Rightarrow> store \<Rightarrow> string option \<Rightarrow> string option \<Rightarrow> exn + (fault list \<times> message option)" where
  "cited_capture p s cid src =
     (case component_faults ''conversation_id'' cid @ component_faults ''source_message_id'' src of
        f # fs \<Rightarrow> Inr (f # fs, None)
      | [] \<Rightarrow>
          (case (cid, src) of
             (Some c, Some m) \<Rightarrow>
               (case store_records_in p c s of
                  Inl (Stream_Fault fs) \<Rightarrow> Inr (fs, None)
                | Inl e \<Rightarrow> Inl e
                | Inr held \<Rightarrow>
                    (case sort_cmp (\<lambda>a b. revision a - revision b)
                            (filter (\<lambda>r. message_id r = m \<and> direction r = Inbound) held) of
                       [] \<Rightarrow> Inr ([Fault ''TEACHING_SOURCE_NOT_A_CAPTURE'' m], None)
                     | c' # _ \<Rightarrow> Inr ([], Some c')))
           | _ \<Rightarrow> Inr ([], None)))"

text \<open>\<open>max_chars\<close> and \<open>max_active\<close> are \<open>None\<close> where the argument is no integer.\<close>

definition teaching_text_faults :: "string option \<Rightarrow> int option \<Rightarrow> fault list" where
  "teaching_text_faults t max_chars =
     (if (case max_chars of None \<Rightarrow> True | Some n \<Rightarrow> n < 1)
      then [Fault ''TEACHING_MAX_CHARS_UNGIVEN'' ''max_chars''] else [])
   @ (case t of
        None \<Rightarrow> [Fault ''TEACHING_TEXT_EMPTY'' ''text'']
      | Some x \<Rightarrow>
          if trim_units x = [] then [Fault ''TEACHING_TEXT_EMPTY'' ''text'']
          else (case max_chars of
                  None \<Rightarrow> []
                | Some n \<Rightarrow> if int (js_length x) > n then [Fault ''TEACHING_TEXT_TOO_LONG'' ''text''] else []))"

definition agent_faults :: "string option \<Rightarrow> message option \<Rightarrow> fault list" where
  "agent_faults ag cap =
     (case ag of
        None \<Rightarrow> [Fault ''TEACHING_AGENT_UNGIVEN'' ''agent'']
      | Some a \<Rightarrow>
          if a = [] then [Fault ''TEACHING_AGENT_UNGIVEN'' ''agent'']
          else (case cap of
                  None \<Rightarrow> []
                | Some c \<Rightarrow> if agent c \<noteq> a then [Fault ''TEACHING_AGENT_MISMATCH'' a] else []))"

definition taught_by :: "message \<Rightarrow> json" where
  "taught_by c = JObj
     ([(''sender_id'', JStr (sender_id c)), (''role'', JStr (role_text (role c)))]
      @ (case sender_name c of None \<Rightarrow> [] | Some n \<Rightarrow> if n = [] then [] else [(''sender_name'', JStr n)]))"

section \<open>Writing\<close>

definition in_schema_order :: "members \<Rightarrow> members" where
  "in_schema_order r =
     (let declared = keys (sc_properties teaching_schema) in
      List.map_filter (\<lambda>k. map_option (\<lambda>v. (k, v)) (map_of r k)) declared
      @ filter (\<lambda>(k, v). k \<notin> set declared) r)"

definition statuses_of :: "string \<Rightarrow> string list" where
  "statuses_of kind = (if kind = ''instruction'' then [''active'', ''forgotten''] else [''open'', ''closed''])"

definition kind_faults :: "platform \<Rightarrow> members \<Rightarrow> fault list" where
  "kind_faults p r =
     (let kind = map_of r ''kind''; status = map_of r ''status'' in
      if kind \<noteq> Some (JStr ''instruction'') \<and> kind \<noteq> Some (JStr ''change-request'')
      then [Fault ''TEACHING_KIND_UNKNOWN'' (string_of p kind)]
      else if (\<forall>st \<in> set (statuses_of (string_of p kind)). status \<noteq> Some (JStr st))
      then [Fault ''TEACHING_STATUS_NOT_FOR_KIND'' (string_of p status)] else [])"

record written_teaching =
  wt_id :: string
  wt_record :: members

definition write_teaching :: "platform \<Rightarrow> members \<Rightarrow> written_teaching store_op" where
  "write_teaching p r s =
     (let faults = kind_faults p r @ validate teaching_schema (JObj r) ''$'' in
      if faults \<noteq> [] then (Inl (Stream_Fault faults), s)
      else
        (let idt = string_of p (map_of r ''id''); ordered = in_schema_order r;
             s1 = s\<lparr>teaching_files := AList.update (teaching_file idt) (Some (JObj ordered)) (teaching_files s)\<rparr>
         in if map_of ordered ''id'' \<noteq> map_of r ''id''
            then (Inl (Stream_Fault [Fault ''TEACHING_READBACK_DISAGREES'' (''teachings/'' @ teaching_file idt)]), s1)
            else (Inr \<lparr>wt_id = idt, wt_record = ordered\<rparr>, s1)))"

definition teaching_base ::
  "platform \<Rightarrow> store \<Rightarrow> string \<Rightarrow> string \<Rightarrow> string \<Rightarrow> string \<Rightarrow> message \<Rightarrow> string \<Rightarrow> string option \<Rightarrow> exn + members" where
  "teaching_base p s ag t cid src cap now rel =
     (case date_parse p now of
        None \<Rightarrow> Inl (Error ''RangeError'')
      | Some ms \<Rightarrow>
          bind_res (free_id p s src ms 120) (\<lambda>idt.
            Inr ([(''schema'', JStr ''carbon.teaching.v1''), (''id'', JStr idt), (''agent'', JStr ag),
                  (''text'', JStr t), (''conversation_id'', JStr cid), (''source_message_id'', JStr src),
                  (''taught_by'', taught_by cap), (''taught_at'', JStr now)]
                 @ (case rel of None \<Rightarrow> [] | Some r \<Rightarrow> if r = [] then [] else [(''release_id'', JStr r)]))))"

record taught =
  t_id :: string
  t_record :: members
  t_active :: "nat option"
  t_already :: bool

definition the_same :: "string option \<Rightarrow> string option \<Rightarrow> members \<Rightarrow> bool" where
  "the_same src t r \<longleftrightarrow> map_of r ''source_message_id'' = map_option JStr src \<and> map_of r ''text'' = map_option JStr t"

text \<open>The write at the end of \<open>remember\<close> and \<open>raiseChange\<close>, reached when every argument was given.\<close>

definition write_taught ::
  "platform \<Rightarrow> string option \<Rightarrow> string option \<Rightarrow> string option \<Rightarrow> string option \<Rightarrow> message option \<Rightarrow> string
     \<Rightarrow> string option \<Rightarrow> members \<Rightarrow> written_teaching store_op" where
  "write_taught p ag t cid src cap now rel added s =
     (case (ag, t, cid, src, cap) of
        (Some ag', Some t', Some cid', Some src', Some cap') \<Rightarrow>
          (case teaching_base p s ag' t' cid' src' cap' now rel of
             Inl e \<Rightarrow> (Inl e, s)
           | Inr b \<Rightarrow> write_teaching p (b @ added) s)
      | _ \<Rightarrow> (Inl Type_Error, s))"

definition already_taught :: "platform \<Rightarrow> members \<Rightarrow> nat option \<Rightarrow> taught" where
  "already_taught p r n = \<lparr>t_id = string_of p (map_of r ''id''), t_record = r, t_active = n, t_already = True\<rparr>"

definition newly_taught ::
  "nat option \<Rightarrow> (exn, written_teaching, store) outcome \<Rightarrow> (exn, taught, store) outcome" where
  "newly_taught n out =
     (case out of
        (Inl e, s) \<Rightarrow> (Inl e, s)
      | (Inr w, s) \<Rightarrow> (Inr \<lparr>t_id = wt_id w, t_record = wt_record w, t_active = n, t_already = False\<rparr>, s))"

definition max_active_faults :: "int option \<Rightarrow> fault list" where
  "max_active_faults ma =
     (if (case ma of None \<Rightarrow> True | Some n \<Rightarrow> n < 1)
      then [Fault ''TEACHING_MAX_ACTIVE_UNGIVEN'' ''max_active''] else [])"

definition at_cap_faults :: "int option \<Rightarrow> members option \<Rightarrow> members list \<Rightarrow> fault list" where
  "at_cap_faults ma same active =
     (case ma of
        None \<Rightarrow> []
      | Some n \<Rightarrow> if same = None \<and> n \<le> int (length active) then [Fault ''TEACHING_AT_CAP'' (show_int n)] else [])"

definition remember ::
  "platform \<Rightarrow> string option \<Rightarrow> string option \<Rightarrow> string option \<Rightarrow> string option \<Rightarrow> int option \<Rightarrow> int option
     \<Rightarrow> string option \<Rightarrow> string \<Rightarrow> taught store_op" where
  "remember p ag t cid src max_active max_chars rel now s =
     (case cited_capture p s cid src of
        Inl e \<Rightarrow> (Inl e, s)
      | Inr (source_faults, cap) \<Rightarrow>
          (let active = tl_active (list_teachings p s);
               faults = source_faults @ teaching_text_faults t max_chars @ agent_faults ag cap
                 @ max_active_faults max_active;
               same = find (the_same src t) active;
               all_faults = faults @ at_cap_faults max_active same active
           in if same \<noteq> None \<and> faults = [] then (Inr (already_taught p (the same) (Some (length active))), s)
              else if all_faults \<noteq> [] then (Inl (Stream_Fault all_faults), s)
              else newly_taught (Some (length active + 1))
                     (write_taught p ag t cid src cap now rel
                        [(''kind'', JStr ''instruction''), (''status'', JStr ''active'')] s)))"

definition questions :: "json list" where
  "questions = [JInt 1, JInt 2, JInt 3, JInt 4, JStr ''size'']"

definition question_faults :: "platform \<Rightarrow> json option \<Rightarrow> fault list" where
  "question_faults p question =
     (if (case question of None \<Rightarrow> True | Some q \<Rightarrow> \<not> list_ex (strict_eq q) questions)
      then [Fault ''TEACHING_QUESTION_UNKNOWN'' (string_of p question)] else [])"

definition raise_change ::
  "platform \<Rightarrow> string option \<Rightarrow> string option \<Rightarrow> string option \<Rightarrow> string option \<Rightarrow> json option \<Rightarrow> int option
     \<Rightarrow> string option \<Rightarrow> string \<Rightarrow> taught store_op" where
  "raise_change p ag t cid src question max_chars rel now s =
     (case cited_capture p s cid src of
        Inl e \<Rightarrow> (Inl e, s)
      | Inr (source_faults, cap) \<Rightarrow>
          (let faults = source_faults @ teaching_text_faults t max_chars @ agent_faults ag cap
                 @ question_faults p question;
               same = find (the_same src t) (tl_open (list_teachings p s))
           in if same \<noteq> None \<and> faults = [] then (Inr (already_taught p (the same) None), s)
              else if faults \<noteq> [] then (Inl (Stream_Fault faults), s)
              else newly_taught None
                     (write_taught p ag t cid src cap now rel
                        [(''kind'', JStr ''change-request''), (''status'', JStr ''open''),
                         (''failed_question'', the question)] s)))"

definition revoked :: "members \<Rightarrow> string \<Rightarrow> string \<Rightarrow> members" where
  "revoked r now src = spread r
     [(''status'', JStr ''forgotten''),
      (''forgotten'', JObj [(''at'', JStr now), (''source_message_id'', JStr src)])]"

definition forget ::
  "platform \<Rightarrow> string option \<Rightarrow> string option \<Rightarrow> string option \<Rightarrow> string \<Rightarrow> taught store_op" where
  "forget p idt cid src now s =
     (case cited_capture p s cid src of
        Inl e \<Rightarrow> (Inl e, s)
      | Inr (source_faults, _) \<Rightarrow>
          (let active = tl_active (list_teachings p s);
               held = find (\<lambda>r. map_of r ''id'' = map_option JStr idt) active;
               faults = source_faults
                 @ (if held = None
                    then [Fault ''TEACHING_NOT_ACTIVE'' (case idt of None \<Rightarrow> ''undefined'' | Some i \<Rightarrow> i)] else [])
           in if faults \<noteq> [] then (Inl (Stream_Fault faults), s)
              else (case (held, src) of
                      (Some r, Some src') \<Rightarrow>
                        newly_taught (Some (length active - 1)) (write_teaching p (revoked r now src') s)
                    | _ \<Rightarrow> (Inl Type_Error, s))))"

end
