(* ===== verification/Teachings_Props.thy ===== *)
theory Teachings_Props
  imports Teachings Reply_Fence
begin

text \<open>
  What the teaching operations guarantee: no record is lost or overwritten, the teacher is the sender
  of a captured message, the cap holds, teaching the same thing twice is teaching it once, and
  forgetting changes a status and nothing else.
\<close>

section \<open>The writer\<close>

lemma map_of_map_filter:
  "map_of (List.map_filter (\<lambda>k. map_option (\<lambda>v. (k, v)) (f k)) ks) k = (if k \<in> set ks then f k else None)"
  by (induction ks) (auto simp: List.map_filter_simps split: option.split)

lemma map_of_filter_key: "map_of (filter (\<lambda>(k, v). P k) r) k = (if P k then map_of r k else None)"
  by (induction r) auto

lemma map_of_in_schema_order [simp]: "map_of (in_schema_order r) k = map_of r k"
  by (simp add: in_schema_order_def Let_def map_add_def map_of_map_filter map_of_filter_key split: option.split)

lemma write_teaching_cases:
  "write_teaching p r s =
     (if kind_faults p r @ validate teaching_schema (JObj r) ''$'' = []
      then (Inr \<lparr>wt_id = string_of p (map_of r ''id''), wt_record = in_schema_order r\<rparr>,
            s\<lparr>teaching_files := AList.update (teaching_file (string_of p (map_of r ''id'')))
                (Some (JObj (in_schema_order r))) (teaching_files s)\<rparr>)
      else (Inl (Stream_Fault (kind_faults p r @ validate teaching_schema (JObj r) ''$'')), s))"
  by (simp add: write_teaching_def Let_def)

lemma ev_write_teaching: "evolves p s (snd (write_teaching p' r s))"
  by (auto simp: write_teaching_cases intro: atomic_write.Teaching_Write)

lemma free_id_fresh:
  assumes "free_id p s src ms n = Inr idt"
  shows "map_of (teaching_files s) (teaching_file idt) = None"
  using assms by (induction n arbitrary: ms) (auto simp: Let_def split: if_splits)

lemma write_taught_cases:
  assumes "write_taught p ag t cid src cap now rel added s = (r, s')"
  obtains (unchanged) e where "r = Inl e" "s' = s"
  | (written) ag' t' cid' src' cap' b idt where "ag = Some ag'" "t = Some t'" "cid = Some cid'" "src = Some src'" "cap = Some cap'"
      "teaching_base p s ag' t' cid' src' cap' now rel = Inr b" "map_of b ''id'' = Some (JStr idt)"
      "map_of (teaching_files s) (teaching_file idt) = None" "kind_faults p (b @ added) = []"
      "validate teaching_schema (JObj (b @ added)) ''$'' = []"
      "r = Inr \<lparr>wt_id = idt, wt_record = in_schema_order (b @ added)\<rparr>"
      "s' = s\<lparr>teaching_files := AList.update (teaching_file idt) (Some (JObj (in_schema_order (b @ added)))) (teaching_files s)\<rparr>"
proof -
  { fix ag' t' cid' src' cap' b
    assume args: "ag = Some ag'" "t = Some t'" "cid = Some cid'" "src = Some src'" "cap = Some cap'"
      and b: "teaching_base p s ag' t' cid' src' cap' now rel = Inr b"
    then obtain idt where idt: "map_of b ''id'' = Some (JStr idt)" "map_of (teaching_files s) (teaching_file idt) = None"
      by (auto simp: teaching_base_def bind_res_Inr_iff dest: free_id_fresh split: option.splits)
    have "thesis"
      using assms args b idt unchanged written [OF args b idt]
      by (auto simp: write_taught_def write_teaching_cases string_of_def map_add_def split: if_splits) }
  then show thesis
    using assms unchanged by (fastforce simp: write_taught_def split: option.splits sum.splits)
qed

lemma ev_write_taught: "evolves p s (snd (write_taught p ag t cid src cap now rel added s))"
proof -
  obtain r s' where w: "write_taught p ag t cid src cap now rel added s = (r, s')" by fastforce
  then have "evolves p s s'"
    by (cases rule: write_taught_cases) (auto intro: atomic_write.Teaching_Write)
  with w show ?thesis by simp
qed

lemma snd_newly_taught [simp]: "snd (newly_taught n out) = snd out"
  by (simp add: newly_taught_def split: prod.split sum.split)

theorem ev_remember: "evolves p s (snd (remember p ag t cid src ma mc rel now s))"
  by (simp add: remember_def Let_def split_beta ev_write_taught split: sum.split)

theorem ev_raise_change: "evolves p s (snd (raise_change p ag t cid src q mc rel now s))"
  by (simp add: raise_change_def Let_def split_beta ev_write_taught split: sum.split)

theorem ev_forget: "evolves p s (snd (forget p idt cid src now s))"
  by (simp add: forget_def Let_def split_beta ev_write_teaching split: sum.split option.split)

interpretation remembering: store_operation p "\<lambda>s. s" "remember p ag t cid src ma mc rel now"
  by unfold_locales (rule ev_remember)

interpretation raising: store_operation p "\<lambda>s. s" "raise_change p ag t cid src q mc rel now"
  by unfold_locales (rule ev_raise_change)

interpretation forgetting: store_operation p "\<lambda>s. s" "forget p idt cid src now"
  by unfold_locales (rule ev_forget)

section \<open>What is in a group\<close>

lemma length_filter_insert_cmp:
  "length (filter P (insert_cmp c x xs)) = length (filter P (x # xs))"
  by (induction xs) auto

lemma length_filter_sort_cmp [simp]: "length (filter P (sort_cmp c xs)) = length (filter P xs)"
  by (induction xs) (simp_all add: length_filter_insert_cmp)

lemma length_filter_map_filter:
  "length (filter P (List.map_filter f xs)) = length (filter (\<lambda>x. case f x of None \<Rightarrow> False | Some y \<Rightarrow> P y) xs)"
  by (induction xs) (auto simp: List.map_filter_simps split: option.split)

text \<open>The file \<open>n\<close> holds a readable record of the group.\<close>

definition file_in_group :: "string \<Rightarrow> string \<Rightarrow> store \<Rightarrow> string \<Rightarrow> bool" where
  "file_in_group kind status s n \<longleftrightarrow>
     (case read_entry n (map_of (teaching_files s) n) of None \<Rightarrow> False | Some r \<Rightarrow> in_group kind status r)"

lemma group_length:
  "length (tl_active (list_teachings p s)) = length (filter (file_in_group ''instruction'' ''active'' s) (keys (teaching_files s)))"
  by (simp add: list_teachings_def read_teachings_def Let_def length_filter_map_filter
      file_in_group_def [abs_def])

lemma set_map_filter: "set (List.map_filter f xs) = {y. \<exists>x\<in>set xs. f x = Some y}"
  by (induction xs) (auto simp: List.map_filter_simps split: option.split)

lemma read_entry_None [simp]: "read_entry n None = None"
  by (simp add: read_entry_def)

lemma in_records:
  "r \<in> set (fst (read_teachings s)) \<longleftrightarrow> (\<exists>n j. map_of (teaching_files s) n = Some j \<and> read_entry n (Some j) = Some r)"
proof -
  have "r \<in> set (fst (read_teachings s)) \<longleftrightarrow>
      (\<exists>n\<in>set (keys (teaching_files s)). read_entry n (map_of (teaching_files s) n) = Some r)"
    by (simp add: read_teachings_def Let_def set_map_filter)
  also have "\<dots> \<longleftrightarrow> (\<exists>n j. map_of (teaching_files s) n = Some j \<and> read_entry n (Some j) = Some r)"
    using has_iff_keys [of "teaching_files s"] by (metis not_Some_eq option.simps(3) read_entry_None)
  finally show ?thesis .
qed

lemma in_active:
  "r \<in> set (tl_active (list_teachings p s)) \<longleftrightarrow>
     in_group ''instruction'' ''active'' r \<and> r \<in> set (fst (read_teachings s))"
  by (auto simp: list_teachings_def split_beta Let_def)

lemma in_open:
  "r \<in> set (tl_open (list_teachings p s)) \<longleftrightarrow>
     in_group ''change-request'' ''open'' r \<and> r \<in> set (fst (read_teachings s))"
  by (auto simp: list_teachings_def split_beta Let_def)

lemma teaching_file_name [simp]:
  "ends_with ''.json'' (teaching_file idt)" "length (teaching_file idt) = length idt + 5"
  "take (length idt) (teaching_file idt) = idt"
  by (auto simp: teaching_file_def ends_with_iff)

lemma visible_teaching:
  "pattern_match teaching_id_pattern idt \<Longrightarrow> visible (teaching_file idt)"
  by (auto simp: visible_def teaching_file_def teaching_id_pattern_def letter_def split: list.splits)

text \<open>A valid record carries an identifier of the form the schema gives.\<close>

lemma valid_teaching_id:
  assumes "validate teaching_schema (JObj r) subj = []" and "map_of r ''id'' = Some v"
  shows "\<exists>idt. v = JStr idt \<and> pattern_match teaching_id_pattern idt"
proof -
  have "(''id'', v) \<in> set r" using assms(2) by (rule map_of_SomeD)
  moreover have "map_of (sc_properties teaching_schema) ''id'' = Some (matching_schema teaching_id_pattern)"
    by (simp add: teaching_schema_def)
  ultimately have "validate (matching_schema teaching_id_pattern) v (dot subj ''id'') = []"
    using assms(1) by (fastforce simp: validate_Nil_iff child_faults_def member_faults_def concat_map_Nil_iff
        property_of_def name_in_def)
  then show ?thesis
    by (cases v) (auto simp: matching_schema_def validate_leaf const_wrong_def enum_wrong_def type_wrong_def
        matches_type_def below_minimum_def string_faults_def split: if_splits)
qed

lemma written_entry:
  assumes "pattern_match teaching_id_pattern idt" "map_of r ''id'' = Some (JStr idt)"
  shows "read_entry (teaching_file idt) (Some (Some (JObj r))) = Some r"
  using assms by (simp add: read_entry_def visible_teaching entry_members_def)

section \<open>Remembering\<close>

lemma cited_capture_Some:
  assumes "cited_capture p s cid src = Inr (fs, Some cap)"
  obtains c held where "cid = Some c" "src = Some (message_id cap)" "fs = []" "store_records_in p c s = Inr held"
    "cap \<in> set held" "direction cap = Inbound"
proof -
  have none: "component_faults ''conversation_id'' cid @ component_faults ''source_message_id'' src = []"
    using assms by (auto simp: cited_capture_def split: list.splits)
  then obtain c m where cm: "cid = Some c" "src = Some m"
    by (cases cid; cases src) (auto simp: component_faults_def)
  then obtain held where held: "store_records_in p c s = Inr held"
    using assms none by (cases "store_records_in p c s") (auto simp: cited_capture_def split: exn.splits)
  let ?found = "sort_cmp (\<lambda>a b. revision a - revision b) (filter (\<lambda>r. message_id r = m \<and> direction r = Inbound) held)"
  have out: "cited_capture p s cid src = (case ?found of [] \<Rightarrow> Inr ([Fault ''TEACHING_SOURCE_NOT_A_CAPTURE'' m], None)
      | c' # _ \<Rightarrow> Inr ([], Some c'))"
    using none cm held by (simp add: cited_capture_def)
  then obtain rest where rest: "?found = cap # rest" "fs = []" using assms by (cases ?found) auto
  then have "cap \<in> set ?found" by simp
  with cm held rest(2) show thesis by (intro that) auto
qed

lemma newly_taught_Inr:
  "newly_taught n out = (Inr w, s') \<longleftrightarrow>
     (\<exists>x. out = (Inr x, s') \<and> w = \<lparr>t_id = wt_id x, t_record = wt_record x, t_active = n, t_already = False\<rparr>)"
  by (cases out; cases "fst out") (auto simp: newly_taught_def)

text \<open>The ways \<open>remember\<close> returns.\<close>

lemma remember_Inr:
  assumes "remember p ag t cid src ma mc rel now s = (Inr w, s')"
  obtains (already) "t_already w" "s' = s" "t_record w \<in> set (tl_active (list_teachings p s))" "the_same src t (t_record w)"
  | (written) n x cap where "\<not> t_already w" "t_record w = wt_record x" "t_id w = wt_id x"
      "write_taught p ag t cid src (Some cap) now rel
        [(''kind'', JStr ''instruction''), (''status'', JStr ''active'')] s = (Inr x, s')"
      "cited_capture p s cid src = Inr ([], Some cap)" "agent_faults ag (Some cap) = []"
      "teaching_text_faults t mc = []" "ma = Some n" "int (length (tl_active (list_teachings p s))) < n"
      "t_active w = Some (length (tl_active (list_teachings p s)) + 1)"
proof -
  obtain sfs cap where sc: "cited_capture p s cid src = Inr (sfs, cap)"
    using assms by (cases "cited_capture p s cid src") (auto simp: remember_def)
  let ?active = "tl_active (list_teachings p s)"
  let ?same = "find (the_same src t) ?active"
  let ?faults = "sfs @ teaching_text_faults t mc @ agent_faults ag cap @ max_active_faults ma"
  show thesis
  proof (cases "?same \<noteq> None \<and> ?faults = []")
    case True
    then obtain x where x: "?same = Some x" by blast
    with assms sc True have "w = already_taught p x (Some (length ?active))" "s' = s"
      by (auto simp: remember_def Let_def)
    with find_Some_set [OF x] show thesis by (intro already) (simp_all add: already_taught_def)
  next
    case False
    with assms sc have none: "?faults @ at_cap_faults ma ?same ?active = []"
      and new: "newly_taught (Some (length ?active + 1)) (write_taught p ag t cid src cap now rel
        [(''kind'', JStr ''instruction''), (''status'', JStr ''active'')] s) = (Inr w, s')"
      by (auto simp: remember_def Let_def split: if_splits)
    from new obtain x where x: "write_taught p ag t cid src cap now rel
        [(''kind'', JStr ''instruction''), (''status'', JStr ''active'')] s = (Inr x, s')"
      "w = \<lparr>t_id = wt_id x, t_record = wt_record x, t_active = Some (length ?active + 1), t_already = False\<rparr>"
      by (auto simp: newly_taught_Inr)
    from x(1) obtain cap' where "cap = Some cap'" by (cases rule: write_taught_cases) auto
    moreover have "?same = None" using False none by auto
    ultimately show thesis
      using x sc none by (intro written [of x cap' "the ma"])
        (auto simp: max_active_faults_def at_cap_faults_def split: option.splits if_splits)
  qed
qed

lemma teaching_base_fields:
  assumes "teaching_base p s ag t cid src cap now rel = Inr b"
  shows "map_of b ''kind'' = None" "map_of b ''status'' = None" "map_of b ''taught_by'' = Some (taught_by cap)"
    "map_of b ''text'' = Some (JStr t)" "map_of b ''source_message_id'' = Some (JStr src)"
    "map_of b ''agent'' = Some (JStr ag)" "map_of b ''conversation_id'' = Some (JStr cid)"
    "map_of b ''taught_at'' = Some (JStr now)"
  using assms by (auto simp: teaching_base_def bind_res_Inr_iff split: option.splits)

text \<open>A record written to a file that was not there adds exactly itself.\<close>

definition teach_new :: "string \<Rightarrow> members \<Rightarrow> store \<Rightarrow> store" where
  "teach_new idt r s = s\<lparr>teaching_files := AList.update (teaching_file idt) (Some (JObj r)) (teaching_files s)\<rparr>"

lemma teach_new_entry:
  assumes "pattern_match teaching_id_pattern idt" "map_of r ''id'' = Some (JStr idt)"
  shows "r \<in> set (fst (read_teachings (teach_new idt r s)))"
proof -
  have "map_of (teaching_files (teach_new idt r s)) (teaching_file idt) = Some (Some (JObj r))"
    by (simp add: teach_new_def)
  with written_entry [OF assms] show ?thesis unfolding in_records by metis
qed

lemma teach_new_active:
  assumes "pattern_match teaching_id_pattern idt" "map_of r ''id'' = Some (JStr idt)"
    and fresh: "map_of (teaching_files s) (teaching_file idt) = None" and "in_group ''instruction'' ''active'' r"
  shows "length (tl_active (list_teachings p (teach_new idt r s))) = length (tl_active (list_teachings p s)) + 1"
proof -
  let ?k = "teaching_file idt"
  have k: "?k \<notin> set (keys (teaching_files s))" using fresh by (simp add: map_of_eq_None_iff)
  have "file_in_group ''instruction'' ''active'' (teach_new idt r s) n = file_in_group ''instruction'' ''active'' s n"
    if "n \<in> set (keys (teaching_files s))" for n
  proof -
    have "n \<noteq> ?k" using that k by blast
    then show ?thesis by (simp add: file_in_group_def teach_new_def)
  qed
  moreover have "file_in_group ''instruction'' ''active'' (teach_new idt r s) ?k"
    using written_entry [OF assms(1,2)] assms(4) by (simp add: file_in_group_def teach_new_def)
  moreover have "keys (teaching_files (teach_new idt r s)) = keys (teaching_files s) @ [?k]"
    using k by (simp add: teach_new_def keys_update)
  ultimately show ?thesis unfolding group_length by (simp del: set_map cong: filter_cong)
qed

lemma write_taught_written:
  assumes "write_taught p ag t cid src (Some cap) now rel added s = (Inr x, s')"
    and "map_of added ''id'' = None" 
  obtains ag' t' cid' src' b where "ag = Some ag'" "t = Some t'" "cid = Some cid'" "src = Some src'"
    "teaching_base p s ag' t' cid' src' cap now rel = Inr b" "wt_record x = in_schema_order (b @ added)"
    "map_of (wt_record x) ''id'' = Some (JStr (wt_id x))" "pattern_match teaching_id_pattern (wt_id x)"
    "map_of (teaching_files s) (teaching_file (wt_id x)) = None" "s' = teach_new (wt_id x) (wt_record x) s"
  using assms(1)
proof (cases rule: write_taught_cases)
  case (written ag' t' cid' src' cap' b idt)
  have ident: "map_of (b @ added) ''id'' = Some (JStr idt)" using written(7) by (simp add: map_add_def assms(2))
  from valid_teaching_id [OF written(10) ident] have pat: "pattern_match teaching_id_pattern idt" by simp
  have x: "x = \<lparr>wt_id = idt, wt_record = in_schema_order (b @ added)\<rparr>" "cap' = cap"
    using written(5,11) by simp_all
  show thesis
    by (rule that [of ag' t' cid' src' b]) (use x ident pat written(1-4,6,8,12) in \<open>simp_all add: teach_new_def\<close>)
qed simp

text \<open>An instruction is only ever recorded about a message somebody sent. When \<open>remember\<close> writes, the
  cited message is an inbound capture of this store on that conversation, the teacher on the record is
  copied from that capture, the text is the one given, and the record goes to a file that was not there.\<close>

theorem remember_attributes:
  assumes "remember p ag t cid src ma mc rel now s = (Inr w, s')" and "\<not> t_already w"
  shows "\<exists>c held cap t'. cid = Some c \<and> store_records_in p c s = Inr held \<and> cap \<in> set held
    \<and> src = Some (message_id cap) \<and> direction cap = Inbound \<and> ag = Some (agent cap) \<and> t = Some t'
    \<and> map_of (t_record w) ''taught_by'' = Some (taught_by cap) \<and> map_of (t_record w) ''text'' = Some (JStr t')
    \<and> map_of (teaching_files s) (teaching_file (t_id w)) = None
    \<and> s' = s\<lparr>teaching_files := AList.update (teaching_file (t_id w)) (Some (JObj (t_record w))) (teaching_files s)\<rparr>"
  using assms(1)
proof (cases rule: remember_Inr)
  case (written n x cap)
  from written(5) obtain c held where cite: "cid = Some c" "src = Some (message_id cap)" "store_records_in p c s = Inr held"
    "cap \<in> set held" "direction cap = Inbound"
    by (rule cited_capture_Some)
  have ag: "ag = Some (agent cap)" using written(6) by (auto simp: agent_faults_def split: option.splits if_splits)
  from written(4) obtain ag' t' cid' src' b where w: "t = Some t'" "teaching_base p s ag' t' cid' src' cap now rel = Inr b"
    "wt_record x = in_schema_order (b @ [(''kind'', JStr ''instruction''), (''status'', JStr ''active'')])"
    "map_of (teaching_files s) (teaching_file (wt_id x)) = None" "s' = teach_new (wt_id x) (wt_record x) s"
    by (rule write_taught_written) auto
  show ?thesis
    using cite ag w written(2,3) teaching_base_fields [OF w(2)]
    by (auto simp: teach_new_def map_add_def split: option.split)
qed (use assms(2) in simp)

text \<open>The cap of the declaration. When \<open>remember\<close> writes, the number of active instructions on disk
  grows by exactly one, the count returned is that number, and it is within the cap.\<close>

theorem remember_within_cap:
  assumes "remember p ag t cid src ma mc rel now s = (Inr w, s')" and "\<not> t_already w"
  shows "\<exists>n. ma = Some n \<and> int (length (tl_active (list_teachings p s'))) \<le> n
    \<and> t_active w = Some (length (tl_active (list_teachings p s')))
    \<and> length (tl_active (list_teachings p s')) = length (tl_active (list_teachings p s)) + 1"
  using assms(1)
proof (cases rule: remember_Inr)
  case (written n x cap)
  from written(4) obtain ag' t' cid' src' b where w: "teaching_base p s ag' t' cid' src' cap now rel = Inr b"
    "wt_record x = in_schema_order (b @ [(''kind'', JStr ''instruction''), (''status'', JStr ''active'')])"
    "map_of (wt_record x) ''id'' = Some (JStr (wt_id x))" "pattern_match teaching_id_pattern (wt_id x)"
    "map_of (teaching_files s) (teaching_file (wt_id x)) = None" "s' = teach_new (wt_id x) (wt_record x) s"
    by (rule write_taught_written) auto
  have "in_group ''instruction'' ''active'' (wt_record x)"
    using teaching_base_fields(1,2) [OF w(1)] by (simp add: w(2) in_group_def map_add_def)
  with teach_new_active [OF w(4,3,5)] w(6) written show ?thesis by simp
qed (use assms(2) in simp)

text \<open>Only the captures decide which message is cited.\<close>

lemma records_in_captures:
  assumes "captures s' = captures s" shows "store_records_in p c s' = store_records_in p c s"
proof -
  have "keys_in d s' = keys_in d s" "store_read_at p k s' = store_read_at p k s" for d k
    using assms by (simp_all add: keys_in_def on_disk_def store_read_at_def)
  then show ?thesis by (simp add: store_records_in_def Let_def)
qed

lemma cited_capture_captures:
  "captures s' = captures s \<Longrightarrow> cited_capture p s' cid src = cited_capture p s cid src"
  by (simp only: cited_capture_def records_in_captures [of s' s])

lemma captures_teach [simp]: "captures (teach_new idt r s) = captures s"
  by (simp add: teach_new_def)

lemma remember_same:
  assumes "cited_capture p s cid src = Inr ([], cap)" "teaching_text_faults t mc = []" "agent_faults ag cap = []"
    "max_active_faults ma = []" "x \<in> set (tl_active (list_teachings p s))" "the_same src t x"
  shows "\<exists>w. remember p ag t cid src ma mc rel now s = (Inr w, s) \<and> t_already w"
proof -
  from assms(5,6) obtain y where "find (the_same src t) (tl_active (list_teachings p s)) = Some y"
    by (metis find_None_iff not_None_eq)
  with assms(1-4) show ?thesis by (simp add: remember_def already_taught_def)
qed

text \<open>Taught twice is taught once. After \<open>remember\<close> returned, a second call with the same text and the
  same source message, whatever its time and release, returns the record as already held and writes nothing.\<close>

theorem remember_twice:
  assumes "remember p ag t cid src ma mc rel now s = (Inr w, s')"
  shows "\<exists>w'. remember p ag t cid src ma mc rel' now' s' = (Inr w', s') \<and> t_already w'"
proof -
  obtain sfs cap where sc: "cited_capture p s cid src = Inr (sfs, cap)"
    using assms by (cases "cited_capture p s cid src") (auto simp: remember_def)
  with assms have none: "sfs = []" "teaching_text_faults t mc = []" "agent_faults ag cap = []" "max_active_faults ma = []"
    by (auto simp: remember_def Let_def split: if_splits)
  from assms show ?thesis
  proof (cases rule: remember_Inr)
    case already
    with remember_same [of p s cid src cap t mc ag ma] sc none show ?thesis by blast
  next
    case (written n x cap')
    from written(4) obtain ag' t' cid' src' b where w: "teaching_base p s ag' t' cid' src' cap' now rel = Inr b"
      "wt_record x = in_schema_order (b @ [(''kind'', JStr ''instruction''), (''status'', JStr ''active'')])"
      "map_of (wt_record x) ''id'' = Some (JStr (wt_id x))" "pattern_match teaching_id_pattern (wt_id x)"
      "s' = teach_new (wt_id x) (wt_record x) s" "t = Some t'" "src = Some src'"
      by (rule write_taught_written) auto
    note fields = teaching_base_fields [OF w(1)]
    have "in_group ''instruction'' ''active'' (wt_record x)" "the_same src t (wt_record x)"
      using fields by (simp_all add: w(2,6,7) in_group_def the_same_def map_add_def)
    with teach_new_entry [OF w(4,3), of s] w(5) have "wt_record x \<in> set (tl_active (list_teachings p s'))"
      by (simp add: in_active)
    moreover have "cited_capture p s' cid src = Inr ([], cap)"
      using sc none(1) w(5) by (simp add: cited_capture_captures [OF captures_teach])
    ultimately show ?thesis
      using remember_same none \<open>the_same src t (wt_record x)\<close> by blast
  qed
qed

text \<open>Nothing taught is taken away. \<open>remember\<close> and \<open>raiseChange\<close> leave every file of the directory as it
  was, whether they return or throw, and add at most one.\<close>

theorem teaching_keeps_every_file:
  assumes "map_of (teaching_files s) f = Some j"
  shows "map_of (teaching_files (snd (remember p ag t cid src ma mc rel now s))) f = Some j
    \<and> map_of (teaching_files (snd (raise_change p ag t cid src q mc rel now s))) f = Some j"
proof -
  have one: "map_of (teaching_files (snd (write_taught p ag t cid src cap now rel added s))) f = Some j" for cap added
  proof -
    obtain r s' where w: "write_taught p ag t cid src cap now rel added s = (r, s')" by fastforce
    then have "map_of (teaching_files s') f = Some j"
      by (cases rule: write_taught_cases) (use assms in auto)
    with w show ?thesis by simp
  qed
  show ?thesis
    using assms by (simp add: remember_def raise_change_def Let_def split_beta one split: sum.split)
qed

lemma forget_Inr:
  assumes "forget p idt cid src now s = (Inr w, s')"
  obtains r i src' cap where "idt = Some i" "src = Some src'" "cited_capture p s cid src = Inr ([], cap)"
    "find (\<lambda>r. map_of r ''id'' = Some (JStr i)) (tl_active (list_teachings p s)) = Some r"
    "r \<in> set (tl_active (list_teachings p s))" "map_of r ''id'' = Some (JStr i)"
    "t_id w = i" "t_record w = in_schema_order (revoked r now src')"
    "t_active w = Some (length (tl_active (list_teachings p s)) - 1)"
    "s' = teach_new i (in_schema_order (revoked r now src')) s"
proof -
  obtain sfs cap where sc: "cited_capture p s cid src = Inr (sfs, cap)"
    using assms by (cases "cited_capture p s cid src") (auto simp: forget_def)
  obtain r where r: "find (\<lambda>r. map_of r ''id'' = map_option JStr idt) (tl_active (list_teachings p s)) = Some r"
    and none: "sfs = []"
    using assms sc by (auto simp: forget_def Let_def split: if_splits option.splits)
  from find_Some_set [OF r] have held: "r \<in> set (tl_active (list_teachings p s))" "map_of r ''id'' = map_option JStr idt" by simp_all
  then obtain n j where "read_entry n (Some j) = Some r" by (auto simp: in_active in_records)
  then obtain i where i: "idt = Some i"
    using held(2) by (cases idt) (auto simp: read_entry_def split: if_splits option.splits)
  obtain src' where src': "src = Some src'"
    using assms sc r none by (cases src) (auto simp: forget_def Let_def)
  have rid: "map_of (revoked r now src') ''id'' = Some (JStr i)"
    using held(2) i by (simp add: revoked_def)
  have "newly_taught (Some (length (tl_active (list_teachings p s)) - 1)) (write_teaching p (revoked r now src') s) = (Inr w, s')"
    using assms sc r none i src' by (simp add: forget_def Let_def)
  then obtain x where x: "write_teaching p (revoked r now src') s = (Inr x, s')"
    "w = \<lparr>t_id = wt_id x, t_record = wt_record x, t_active = Some (length (tl_active (list_teachings p s)) - 1), t_already = False\<rparr>"
    by (auto simp: newly_taught_Inr)
  with rid have "x = \<lparr>wt_id = i, wt_record = in_schema_order (revoked r now src')\<rparr>"
    "s' = teach_new i (in_schema_order (revoked r now src')) s"
    by (auto simp: write_teaching_cases string_of_def teach_new_def simp del: validate.simps split: if_splits)
  with x sc none r held i src' show thesis by (intro that [of i src' cap r]) simp_all
qed

text \<open>Forgetting is a status change. When \<open>forget\<close> returns, the file of the named record holds the
  same record with its status \<open>forgotten\<close> and the revoking message beside it, every other member of it and
  every other file is what it was.\<close>

theorem forget_changes_status_only:
  assumes "forget p idt cid src now s = (Inr w, s')"
  shows "\<exists>r i m. idt = Some i \<and> src = Some m \<and> r \<in> set (tl_active (list_teachings p s)) \<and> map_of r ''id'' = Some (JStr i)
    \<and> map_of (teaching_files s') (teaching_file i) = Some (Some (JObj (t_record w)))
    \<and> map_of (t_record w) ''status'' = Some (JStr ''forgotten'')
    \<and> map_of (t_record w) ''forgotten'' = Some (JObj [(''at'', JStr now), (''source_message_id'', JStr m)])
    \<and> (\<forall>k. k \<notin> {''status'', ''forgotten''} \<longrightarrow> map_of (t_record w) k = map_of r k)
    \<and> (\<forall>f. f \<noteq> teaching_file i \<longrightarrow> map_of (teaching_files s') f = map_of (teaching_files s) f)"
proof -
  from assms obtain r i m where f: "idt = Some i" "src = Some m" "r \<in> set (tl_active (list_teachings p s))"
    "map_of r ''id'' = Some (JStr i)" "t_record w = in_schema_order (revoked r now m)"
    "s' = teach_new i (in_schema_order (revoked r now m)) s"
    by (rule forget_Inr) auto
  then show ?thesis by (auto simp: teach_new_def revoked_def)
qed

section \<open>Concrete inputs\<close>

definition teaching_platform :: platform where
  "teaching_platform = sample_platform\<lparr>to_iso := (\<lambda>t. ''2026-01-02T03:04:05.678Z'')\<rparr>"

lemma teaching_platform_cites:
  "cited_capture teaching_platform owned_store (Some ''c'') (Some ''m'') = Inr ([], Some (sample_message ''c'' ''m'' Inbound))"
  by code_simp

definition sample_teaching :: members where
  "sample_teaching = [(''schema'', JStr ''carbon.teaching.v1''), (''id'', JStr ''teach-20260102T030405Z-00000000''),
     (''agent'', JStr ''sales''), (''text'', JStr ''be brief''), (''conversation_id'', JStr ''c''),
     (''source_message_id'', JStr ''m''), (''taught_by'', taught_by (sample_message ''c'' ''m'' Inbound)),
     (''taught_at'', JStr ''0'')]"

lemma teaching_platform_base:
  "teaching_base teaching_platform owned_store ''sales'' ''be brief'' ''c'' ''m'' (sample_message ''c'' ''m'' Inbound) ''0'' None
     = Inr sample_teaching"
  by code_simp

lemma sample_teaching_valid:
  "kind_faults teaching_platform (sample_teaching @ [(''kind'', JStr ''instruction''), (''status'', JStr ''active'')])
     @ validate teaching_schema (JObj (sample_teaching @ [(''kind'', JStr ''instruction''), (''status'', JStr ''active'')])) ''$'' = []"
  by code_simp

definition sample_instruction :: members where
  "sample_instruction = in_schema_order (sample_teaching @ [(''kind'', JStr ''instruction''), (''status'', JStr ''active'')])"

definition taught_store :: store where
  "taught_store = teach_new ''teach-20260102T030405Z-00000000'' sample_instruction owned_store"

lemma taught_once:
  "remember teaching_platform (Some ''sales'') (Some ''be brief'') (Some ''c'') (Some ''m'') (Some 5) (Some 100) None ''0''
     owned_store = (Inr \<lparr>t_id = ''teach-20260102T030405Z-00000000'', t_record = sample_instruction, t_active = Some 1,
       t_already = False\<rparr>, taught_store)"
proof -
  have "tl_active (list_teachings teaching_platform owned_store) = []" by code_simp
  moreover have "teaching_text_faults (Some ''be brief'') (Some 100) = []"
    by (simp add: teaching_text_faults_def trim_units_def utf16_ascii ascii_def js_space_def)
  moreover have "agent_faults (Some ''sales'') (Some (sample_message ''c'' ''m'' Inbound)) = []"
    by (simp add: agent_faults_def sample_message_def)
  moreover have "map_of sample_teaching ''id'' = Some (JStr ''teach-20260102T030405Z-00000000'')"
    by (simp add: sample_teaching_def)
  ultimately show ?thesis
    using sample_teaching_valid
    by (simp add: remember_def teaching_platform_cites max_active_faults_def at_cap_faults_def newly_taught_def
        write_taught_def teaching_platform_base write_teaching_cases taught_store_def teach_new_def
        sample_instruction_def [symmetric] map_add_def string_of_def del: validate.simps)
qed

theorem remember_attributes_witness:
  "\<exists>cap. message_id cap = ''m'' \<and> direction cap = Inbound
    \<and> map_of sample_instruction ''taught_by'' = Some (taught_by cap)"
  using remember_attributes [OF taught_once] by auto

theorem remember_within_cap_witness:
  "int (length (tl_active (list_teachings teaching_platform taught_store))) \<le> 5"
  using remember_within_cap [OF taught_once] by simp

theorem remember_twice_witness:
  "\<exists>w'. remember teaching_platform (Some ''sales'') (Some ''be brief'') (Some ''c'') (Some ''m'') (Some 5) (Some 100)
     (Some ''r'') ''9'' taught_store = (Inr w', taught_store) \<and> t_already w'"
  using remember_twice [OF taught_once] .

theorem teaching_keeps_every_file_witness:
  "map_of (teaching_files (snd (remember teaching_platform None None None None None None None [] taught_store)))
     (teaching_file ''teach-20260102T030405Z-00000000'') = Some (Some (JObj sample_instruction))"
  using teaching_keeps_every_file [of taught_store "teaching_file ''teach-20260102T030405Z-00000000''"]
  by (simp add: taught_store_def teach_new_def)

lemma forgotten_once:
  "\<exists>w s'. forget teaching_platform (Some ''teach-20260102T030405Z-00000000'') (Some ''c'') (Some ''m'') ''1'' taught_store = (Inr w, s')"
proof -
  have active: "tl_active (list_teachings teaching_platform taught_store) = [sample_instruction]" by code_simp
  have ident: "map_of sample_instruction ''id'' = Some (JStr ''teach-20260102T030405Z-00000000'')"
    by (simp add: sample_instruction_def sample_teaching_def)
  have valid: "kind_faults teaching_platform (revoked sample_instruction ''1'' ''m'')
      @ validate teaching_schema (JObj (revoked sample_instruction ''1'' ''m'')) ''$'' = []" by code_simp
  have "cited_capture teaching_platform taught_store (Some ''c'') (Some ''m'') = Inr ([], Some (sample_message ''c'' ''m'' Inbound))"
    unfolding taught_store_def by (rule trans [OF cited_capture_captures [OF captures_teach] teaching_platform_cites])
  with active ident valid show ?thesis
    by (simp add: forget_def newly_taught_def write_teaching_cases del: validate.simps)
qed

theorem forget_changes_status_only_witness:
  "\<exists>w s'. forget teaching_platform (Some ''teach-20260102T030405Z-00000000'') (Some ''c'') (Some ''m'') ''1'' taught_store = (Inr w, s')
     \<and> map_of (t_record w) ''status'' = Some (JStr ''forgotten'')"
  using forgotten_once forget_changes_status_only by blast

end
