(* ===== verification/Channel.thy ===== *)
theory Channel
  imports Teachings
begin

text \<open>
  What the runtime knows of a channel: the adapter's view of its declaration
  (\<open>runtime/channel.ts\<close>), the unit of work of a record (\<open>runtime/unit.ts\<close>), the channel state file
  (\<open>runtime/channel-state.ts\<close>), the poll block and its hold (\<open>runtime/poll.ts\<close>) and the terminal
  latch (\<open>runtime/latch.ts\<close>). A channel is the JSON object of the declaration. A state file that
  does not parse is \<open>None\<close>.
\<close>

section \<open>The declaration\<close>

record tool_server =
  ts_name :: string
  ts_url :: "string option"

record teaching_block =
  tb_enabled :: bool
  tb_max_active :: "int option"
  tb_max_chars :: "int option"

record agent_declaration =
  de_agent_id :: "string option"
  de_client :: "json option"
  de_channels :: "members list"
  de_secrets :: "(string \<times> string) list"
  de_api_key_via :: "string option"
  de_tool_servers :: "tool_server list"
  de_teaching :: "teaching_block option"
  de_records_enabled :: bool
  de_unit_kind :: "string option"
  de_unit_id_from :: "json option"
  de_harness_kind :: "string option"

definition teaching_enabled :: "agent_declaration \<Rightarrow> bool" where
  "teaching_enabled d = (case de_teaching d of None \<Rightarrow> False | Some t \<Rightarrow> tb_enabled t)"

text \<open>\<open>${channel.kind}:${channel.account}\<close>.\<close>

definition channel_subject :: "platform \<Rightarrow> members \<Rightarrow> string" where
  "channel_subject p ch = string_of p (map_of ch ''kind'') @ '':'' @ string_of p (map_of ch ''account'')"

section \<open>The channel an adapter is handed\<close>

definition secret_refs :: "string list" where
  "secret_refs = [''netrc_ref'', ''bot_token_ref'']"

text \<open>One turn of the loop over the secret references: the transport left, the secrets resolved and
  the faults so far.\<close>

type_synonym resolution = "members \<times> members \<times> fault list"

definition without :: "string \<Rightarrow> members \<Rightarrow> members" where
  "without k ms = filter (\<lambda>(n, v). n \<noteq> k) ms"

definition resolve_ref :: "(string \<times> string) list \<Rightarrow> string \<Rightarrow> string \<Rightarrow> resolution \<Rightarrow> resolution" where
  "resolve_ref secrets subj key st =
     (let (transport, resolved, faults) = st in
      case map_of transport key of
        None \<Rightarrow> st
      | Some name \<Rightarrow>
          (case (case name of JStr n \<Rightarrow> map_of (rev secrets) n | _ \<Rightarrow> None) of
             None \<Rightarrow> (without key transport, resolved,
               faults @ [Fault ''CHANNEL_SECRET_UNDECLARED'' (''channels.'' @ subj @ ''.transport.'' @ key)])
           | Some path \<Rightarrow>
               (without key transport,
                AList.update (take (length key - length ''_ref'') key) (JStr path) resolved, faults)))"

definition release_policy_faults :: "platform \<Rightarrow> members \<Rightarrow> fault list" where
  "release_policy_faults p ch =
     (let subj = ''channels.'' @ channel_subject p ch; policy = map_of ch ''release'' in
      (if policy \<noteq> Some (JStr ''quiet'') \<and> policy \<noteq> Some (JStr ''mention'')
       then [Fault ''RELEASE_POLICY_UNKNOWN'' (subj @ ''.release'')] else [])
    @ (if policy = Some (JStr ''quiet'')
          \<and> (case map_of ch ''quiet_ms'' of Some (JInt n) \<Rightarrow> n < 0 | _ \<Rightarrow> True)
       then [Fault ''RELEASE_QUIET_MS_ABSENT'' (subj @ ''.quiet_ms'')] else []))"

definition members_of :: "json option \<Rightarrow> members" where
  "members_of v = (case v of Some (JObj ms) \<Rightarrow> ms | _ \<Rightarrow> [])"

definition resolve_channel :: "platform \<Rightarrow> agent_declaration \<Rightarrow> members \<Rightarrow> exn + members" where
  "resolve_channel p d ch =
     (let (transport, resolved, secret_faults) =
            fold (resolve_ref (de_secrets d) (channel_subject p ch)) secret_refs
              (members_of (map_of ch ''transport''), [], []);
          faults = secret_faults @ release_policy_faults p ch
      in if faults \<noteq> [] then Inl (Runtime_Fault 1 faults)
         else Inr (without ''transport'' (spread (spread ch transport) resolved)))"

section \<open>Rooms\<close>

definition elements_of :: "json option \<Rightarrow> json list" where
  "elements_of v = (case v of Some (JArr xs) \<Rightarrow> xs | _ \<Rightarrow> [])"

definition member_of :: "json \<Rightarrow> string \<Rightarrow> json option" where
  "member_of v k = map_of (members_of (Some v)) k"

text \<open>\<open>None\<close> is \<open>null\<close>: the declaration does not say.\<close>

definition conversation_kind_of :: "members \<Rightarrow> string \<Rightarrow> json option" where
  "conversation_kind_of ch cid =
     (let named = find (\<lambda>c. member_of c ''id'' = Some (JStr cid)) (elements_of (map_of ch ''conversations''));
          kind = (case named of None \<Rightarrow> None | Some c \<Rightarrow> member_of c ''kind'')
      in if truthy kind then kind
         else (case map_of ch ''default_conversation_kind'' of Some JNull \<Rightarrow> None | v \<Rightarrow> v))"

definition management_conversation_of :: "platform \<Rightarrow> agent_declaration \<Rightarrow> string option" where
  "management_conversation_of p d =
     (let found = filter (\<lambda>c. member_of c ''kind'' = Some (JStr ''management''))
            (concat (map (\<lambda>ch. elements_of (map_of ch ''conversations'')) (de_channels d)))
      in case found of [c] \<Rightarrow> Some (string_of p (member_of c ''id'')) | _ \<Rightarrow> None)"

section \<open>Units of work\<close>

text \<open>\<open>at?.[step]\<close> on own members and array elements.\<close>

definition step_into :: "json option \<Rightarrow> string \<Rightarrow> json option" where
  "step_into v k =
     (case v of
        Some (JObj ms) \<Rightarrow> map_of ms k
      | Some (JArr xs) \<Rightarrow> map_option snd (find (\<lambda>(i, x). show_nat i = k) (enumerate 0 xs))
      | _ \<Rightarrow> None)"

definition unit_id_for :: "platform \<Rightarrow> agent_declaration \<Rightarrow> message \<Rightarrow> exn + string" where
  "unit_id_for p d m =
     (if de_unit_kind d = Some ''conversation'' then Inr (conversation_id m)
      else if de_unit_kind d = Some ''client_record'' then
        (let path_words = (case de_unit_id_from d of None \<Rightarrow> [] | Some JNull \<Rightarrow> [] | Some v \<Rightarrow> js_string p v);
             path = filter (\<lambda>w. w \<noteq> []) (split_on (CHR ''.'') path_words)
         in case foldl step_into (Some (JObj (fields_of m))) path of
              Some (JStr t) \<Rightarrow>
                if t \<noteq> [] then Inr t else Inl (Runtime_Fault 1 [Fault ''UNIT_ID_ABSENT'' (message_id m)])
            | _ \<Rightarrow> Inl (Runtime_Fault 1 [Fault ''UNIT_ID_ABSENT'' (message_id m)]))
      else Inl (Runtime_Fault 1 [Fault ''UNIT_OF_WORK_UNKNOWN''
             (case de_unit_kind d of None \<Rightarrow> ''undefined'' | Some k \<Rightarrow> k)]))"

section \<open>The files of a channel\<close>

text \<open>The box: the agent's store and the files under its \<open>channels\<close> directory.\<close>

record box =
  bx_store :: store
  bx_channel_files :: "(file_key \<times> members option) list"
  bx_latches :: "(file_key \<times> members option) list"

type_synonym 'a box_op = "box \<Rightarrow> (exn, 'a, box) outcome"

definition channel_file :: "platform \<Rightarrow> string \<Rightarrow> string \<Rightarrow> string \<Rightarrow> exn + file_key" where
  "channel_file p acct kind suffix =
     (let faults = component_faults ''account'' (Some acct) @ component_faults ''channel kind'' (Some kind) in
      if faults \<noteq> [] then Inl (Stream_Fault faults)
      else Inr (encode_component p acct, encode_component p kind @ suffix))"

definition channel_state_file :: "platform \<Rightarrow> string \<Rightarrow> string \<Rightarrow> exn + file_key" where
  "channel_state_file p acct kind = channel_file p acct kind ''.channel.json''"

definition read_channel_state :: "platform \<Rightarrow> string \<Rightarrow> string \<Rightarrow> box \<Rightarrow> members" where
  "read_channel_state p acct kind b =
     (case channel_state_file p acct kind of
        Inr k \<Rightarrow>
          (case map_of (bx_channel_files b) k of
             Some (Some ms) \<Rightarrow> ms
           | _ \<Rightarrow> [(''account'', JStr acct), (''kind'', JStr kind), (''poll'', JNull)])
      | Inl _ \<Rightarrow> [(''account'', JStr acct), (''kind'', JStr kind), (''poll'', JNull)])"

definition write_channel_state :: "platform \<Rightarrow> string \<Rightarrow> string \<Rightarrow> members \<Rightarrow> members box_op" where
  "write_channel_state p acct kind patch b =
     (let state = spread (spread (read_channel_state p acct kind b)
                    [(''account'', JStr acct), (''kind'', JStr kind)]) patch in
      case channel_state_file p acct kind of
        Inl e \<Rightarrow> (Inl e, b)
      | Inr k \<Rightarrow> (Inr state, b\<lparr>bx_channel_files := AList.update k (Some state) (bx_channel_files b)\<rparr>))"

section \<open>Polling\<close>

definition poll_failures_before_hold :: int where
  "poll_failures_before_hold = 3"

fun number_less :: "json \<Rightarrow> int \<Rightarrow> bool" where
  "number_less (JInt i) m = (i < m)"
| "number_less (JFloat n d) m = (n < m * int d)"
| "number_less _ m = False"

fun positive_number :: "json \<Rightarrow> bool" where
  "positive_number (JInt i) = (0 < i)"
| "positive_number (JFloat n d) = (0 < n)"
| "positive_number _ = False"

text \<open>The interval, or the fault that refuses it.\<close>

definition poll_interval_for :: "platform \<Rightarrow> members \<Rightarrow> int option \<Rightarrow> fault + json" where
  "poll_interval_for p ch adapter_floor =
     (let least = (case adapter_floor of None \<Rightarrow> 0 | Some f \<Rightarrow> f) in
      case map_of ch ''poll_interval_ms'' of
        None \<Rightarrow> Inl (Fault ''POLL_INTERVAL_MISSING'' (channel_subject p ch))
      | Some v \<Rightarrow>
          if \<not> positive_number v then Inl (Fault ''POLL_INTERVAL_MISSING'' (channel_subject p ch))
          else if number_less v least then Inl (Fault ''POLL_INTERVAL_BELOW_FLOOR'' (channel_subject p ch))
          else Inr v)"

definition failures_before_hold :: "members \<Rightarrow> int" where
  "failures_before_hold ch =
     (case map_of ch ''poll_failures_before_hold'' of
        Some (JInt i) \<Rightarrow> if 1 \<le> i then i else poll_failures_before_hold
      | Some (JFloat n d) \<Rightarrow> if int d \<le> n then n div int d else poll_failures_before_hold
      | _ \<Rightarrow> poll_failures_before_hold)"

definition inbound_transport_of :: "members \<Rightarrow> json option" where
  "inbound_transport_of ch =
     (if map_of ch ''kind'' \<noteq> Some (JStr ''email'') then None
      else (case map_of ch ''inbound'' of
              None \<Rightarrow> Some (JStr ''imap'') | Some JNull \<Rightarrow> Some (JStr ''imap'') | v \<Rightarrow> v))"

definition fresh_poll :: members where
  "fresh_poll = [(''last_attempt_at'', JNull), (''last_success_at'', JNull), (''last_item_count'', JNull),
     (''consecutive_failures'', JInt 0), (''holding'', JBool False), (''last_fault'', JNull)]"

definition poll_state :: "platform \<Rightarrow> string \<Rightarrow> string \<Rightarrow> box \<Rightarrow> members" where
  "poll_state p acct kind b =
     (case map_of (read_channel_state p acct kind b) ''poll'' of
        None \<Rightarrow> fresh_poll | Some JNull \<Rightarrow> fresh_poll | v \<Rightarrow> members_of v)"

definition transport_member :: "json option \<Rightarrow> members" where
  "transport_member t = (case t of None \<Rightarrow> [] | Some v \<Rightarrow> [(''inbound_transport'', v)])"

definition record_poll_success ::
  "platform \<Rightarrow> string \<Rightarrow> string \<Rightarrow> string \<Rightarrow> int \<Rightarrow> json option \<Rightarrow> members box_op" where
  "record_poll_success p acct kind at' items transport b =
     (let poll = spread (spread (poll_state p acct kind b) (transport_member transport))
            [(''last_attempt_at'', JStr at'), (''last_success_at'', JStr at'), (''last_item_count'', JInt items),
             (''consecutive_failures'', JInt 0), (''holding'', JBool False), (''last_fault'', JNull)]
      in case write_channel_state p acct kind [(''poll'', JObj poll)] b of
           (Inl e, b') \<Rightarrow> (Inl e, b') | (Inr _, b') \<Rightarrow> (Inr poll, b'))"

definition count_of :: "json option \<Rightarrow> int" where
  "count_of v = (case v of Some (JInt i) \<Rightarrow> i | _ \<Rightarrow> 0)"

definition record_poll_failure ::
  "platform \<Rightarrow> string \<Rightarrow> string \<Rightarrow> string \<Rightarrow> fault \<Rightarrow> int \<Rightarrow> json option \<Rightarrow> members box_op" where
  "record_poll_failure p acct kind at' cause threshold transport b =
     (let previous = poll_state p acct kind b;
          same = (transport = None \<or> map_of previous ''inbound_transport'' = transport);
          consecutive = (if same then count_of (map_of previous ''consecutive_failures'') else 0) + 1;
          poll = spread (spread previous (transport_member transport))
            [(''last_attempt_at'', JStr at'), (''consecutive_failures'', JInt consecutive),
             (''holding'', JBool (threshold \<le> consecutive)),
             (''last_fault'', JObj (members_of (Some (fault_json p cause)) @ [(''at'', JStr at')]))]
      in case write_channel_state p acct kind [(''poll'', JObj poll)] b of
           (Inl e, b') \<Rightarrow> (Inl e, b') | (Inr _, b') \<Rightarrow> (Inr poll, b'))"

definition hold_fault :: "platform \<Rightarrow> members \<Rightarrow> fault" where
  "hold_fault p ch = Fault ''CHANNEL_POLL_HOLD'' (channel_subject p ch)"

definition poll_fault :: "platform \<Rightarrow> members \<Rightarrow> fault" where
  "poll_fault p ch = Fault ''CHANNEL_POLL_FAILED'' (channel_subject p ch)"

section \<open>The latch\<close>

definition latch_file :: "platform \<Rightarrow> string \<Rightarrow> string \<Rightarrow> exn + file_key" where
  "latch_file p acct kind = channel_file p acct kind ''.latch.json''"

text \<open>The names under \<open>channels\<close> in order, each decoded; a name that is the hash of an identifier
  makes \<open>decodeComponent\<close> throw.\<close>

definition names_under :: "string \<Rightarrow> (file_key \<times> 'a) list \<Rightarrow> file_key list" where
  "names_under suffix files = sort_cmp (\<lambda>x y. if unit_order (fst x) (fst y) \<noteq> 0 then unit_order (fst x) (fst y)
                                   else unit_order (snd x) (snd y))
     (filter (\<lambda>(d, n). ends_with suffix n) (keys files))"

record found_file =
  ff_account :: string
  ff_kind :: string
  ff_content :: "members option"

definition found_at :: "string \<Rightarrow> (file_key \<times> members option) list \<Rightarrow> file_key \<Rightarrow> exn + found_file" where
  "found_at suffix files k =
     bind_res (decode_component (fst k)) (\<lambda>acct.
       bind_res (decode_component (take (length (snd k) - length suffix) (snd k))) (\<lambda>kind.
         Inr \<lparr>ff_account = acct, ff_kind = kind,
              ff_content = (case map_of files k of None \<Rightarrow> None | Some c \<Rightarrow> c)\<rparr>))"

definition latches_under :: "box \<Rightarrow> exn + found_file list" where
  "latches_under b = map_res (found_at ''.latch.json'' (bx_latches b)) (names_under ''.latch.json'' (bx_latches b))"

definition channel_states_under :: "box \<Rightarrow> exn + found_file list" where
  "channel_states_under b = map_res (found_at ''.channel.json'' (bx_channel_files b))
     (names_under ''.channel.json'' (bx_channel_files b))"

definition latch_fault :: "platform \<Rightarrow> found_file \<Rightarrow> fault" where
  "latch_fault p f =
     (let c = (case ff_content f of None \<Rightarrow> None | Some ms \<Rightarrow> map_of ms ''code'') in
      Fault (if truthy c then ''CHANNEL_LATCHED_'' @ string_of p c else ''CHANNEL_LATCHED'')
        (ff_kind f @ '':'' @ ff_account f))"

definition latch_faults :: "platform \<Rightarrow> box \<Rightarrow> exn + fault list" where
  "latch_faults p b = bind_res (latches_under b) (\<lambda>fs. Inr (map (latch_fault p) fs))"

definition exit_latched :: int where "exit_latched = 78"

definition refuse_if_latched :: "platform \<Rightarrow> box \<Rightarrow> exn + unit" where
  "refuse_if_latched p b =
     bind_res (latch_faults p b) (\<lambda>fs. if fs \<noteq> [] then Inl (Runtime_Fault exit_latched fs) else Inr ())"

text \<open>\<open>latch\<close> returns the fault to throw; here it is the exception itself.\<close>

definition write_latch :: "platform \<Rightarrow> string \<Rightarrow> string \<Rightarrow> fault \<Rightarrow> exn box_op" where
  "write_latch p acct kind cause b =
     (case latch_file p acct kind of
        Inl e \<Rightarrow> (Inl e, b)
      | Inr k \<Rightarrow>
          (Inr (Runtime_Fault exit_latched [cause]),
           if has (bx_latches b) k then b
           else b\<lparr>bx_latches := AList.update k (Some
                  [(''account'', JStr acct), (''kind'', JStr kind), (''latched_at'', JStr (to_iso p (clock (bx_store b)))),
                   (''code'', JStr (code cause)), (''subject'', JStr (subject cause)),
                   (''reason'', JStr (problem_text p cause)), (''what_now'', JStr (fix_text p cause))]) (bx_latches b)\<rparr>))"

end
