(* ===== verification/Channel_Props.thy ===== *)
theory Channel_Props
  imports Channel Sample
begin

text \<open>
  What the channel files guarantee: the failure count is the number of failures since the last poll
  that worked, whatever the order of polls and whatever else was written; a channel holds exactly
  when that number reaches the threshold; a latch stops every later start and keeps its first cause;
  a resolved channel carries no secret's name.
\<close>

section \<open>The channel state file\<close>

lemma write_then_read_channel_state:
  assumes "channel_state_file p acct kind = Inr k"
  shows "read_channel_state p acct kind (snd (write_channel_state p acct kind patch b)) =
           spread (spread (read_channel_state p acct kind b) [(''account'', JStr acct), (''kind'', JStr kind)]) patch"
  using assms by (simp add: write_channel_state_def Let_def) (simp add: read_channel_state_def)

lemma write_channel_state_ok:
  assumes "channel_state_file p acct kind = Inr k"
  shows "\<exists>st. fst (write_channel_state p acct kind patch b) = Inr st"
  using assms by (simp add: write_channel_state_def Let_def)

lemma map_of_spread_update [simp]: "map_of (spread o1 [(k, v)]) = (map_of o1)(k \<mapsto> v)"
  by simp

lemma snd_returned: "snd (case x of (Inl e, b) \<Rightarrow> (Inl e, b) | (Inr y, b) \<Rightarrow> (Inr z, b)) = snd x"
  by (cases x; cases "fst x") auto

lemma poll_state_written:
  assumes "channel_state_file p acct kind = Inr k"
  shows "poll_state p acct kind (snd (write_channel_state p acct kind [(''poll'', JObj ms)] b)) = ms"
  by (simp add: poll_state_def write_then_read_channel_state [OF assms] members_of_def)

section \<open>The failures in a row\<close>

datatype poll_event =
    Poll_Worked string int
  | Poll_Failed string fault

definition record_poll :: "platform \<Rightarrow> string \<Rightarrow> string \<Rightarrow> int \<Rightarrow> json option \<Rightarrow> poll_event \<Rightarrow> box \<Rightarrow> box" where
  "record_poll p acct kind threshold transport e b =
     (case e of
        Poll_Worked t n \<Rightarrow> snd (record_poll_success p acct kind t n transport b)
      | Poll_Failed t c \<Rightarrow> snd (record_poll_failure p acct kind t c threshold transport b))"

definition record_polls :: "platform \<Rightarrow> string \<Rightarrow> string \<Rightarrow> int \<Rightarrow> json option \<Rightarrow> poll_event list \<Rightarrow> box \<Rightarrow> box" where
  "record_polls p acct kind threshold transport es b = fold (record_poll p acct kind threshold transport) es b"

fun failed_poll :: "poll_event \<Rightarrow> bool" where
  "failed_poll (Poll_Failed t c) = True"
| "failed_poll (Poll_Worked t n) = False"

text \<open>The specification: the failures at the end of the history.\<close>

definition failures_in_a_row :: "poll_event list \<Rightarrow> int" where
  "failures_in_a_row es = int (length (takeWhile failed_poll (rev es)))"

lemma failures_in_a_row_snoc:
  "failures_in_a_row (es @ [e]) = (if failed_poll e then failures_in_a_row es + 1 else 0)"
  by (simp add: failures_in_a_row_def)

definition counts :: "int \<Rightarrow> json option \<Rightarrow> int \<Rightarrow> members \<Rightarrow> bool" where
  "counts threshold transport n ms \<longleftrightarrow>
     map_of ms ''consecutive_failures'' = Some (JInt n)
   \<and> (transport \<noteq> None \<longrightarrow> n \<noteq> 0 \<longrightarrow> map_of ms ''inbound_transport'' = transport)
   \<and> (map_of ms ''holding'' = Some (JBool True) \<longleftrightarrow> n \<noteq> 0 \<and> threshold \<le> n)"

lemma map_of_spread_transport:
  "map_of (spread o1 (transport_member t)) =
     (case t of None \<Rightarrow> map_of o1 | Some v \<Rightarrow> (map_of o1)(''inbound_transport'' \<mapsto> v))"
  by (auto simp: transport_member_def split: option.split)

lemma poll_state_after_success:
  assumes "channel_state_file p acct kind = Inr k"
  shows "counts threshold transport 0 (poll_state p acct kind (snd (record_poll_success p acct kind t n transport b)))"
proof -
  let ?poll = "spread (spread (poll_state p acct kind b) (transport_member transport))
     [(''last_attempt_at'', JStr t), (''last_success_at'', JStr t), (''last_item_count'', JInt n),
      (''consecutive_failures'', JInt 0), (''holding'', JBool False), (''last_fault'', JNull)]"
  have "snd (record_poll_success p acct kind t n transport b) = snd (write_channel_state p acct kind [(''poll'', JObj ?poll)] b)"
    unfolding record_poll_success_def Let_def by (rule snd_returned)
  then show ?thesis
    by (simp add: poll_state_written [OF assms] counts_def)
qed

lemma poll_state_after_failure:
  assumes k: "channel_state_file p acct kind = Inr k"
    and n: "counts threshold transport n (poll_state p acct kind b)" and "0 \<le> n"
  shows "counts threshold transport (n + 1) (poll_state p acct kind (snd (record_poll_failure p acct kind t c threshold transport b)))"
proof -
  let ?old = "poll_state p acct kind b"
  let ?count = "(if transport = None \<or> map_of ?old ''inbound_transport'' = transport
                 then count_of (map_of ?old ''consecutive_failures'') else 0) + 1"
  let ?poll = "spread (spread ?old (transport_member transport))
     [(''last_attempt_at'', JStr t), (''consecutive_failures'', JInt ?count), (''holding'', JBool (threshold \<le> ?count)),
      (''last_fault'', JObj (members_of (Some (fault_json p c)) @ [(''at'', JStr t)]))]"
  have w: "snd (record_poll_failure p acct kind t c threshold transport b) = snd (write_channel_state p acct kind [(''poll'', JObj ?poll)] b)"
    unfolding record_poll_failure_def Let_def by (rule snd_returned)
  have count: "?count = n + 1"
  proof (cases "n = 0 \<or> transport = None")
    case True
    with n show ?thesis by (auto simp: counts_def count_of_def simp del: map_of_eq_Some_iff)
  next
    case False
    with n show ?thesis by (simp add: counts_def count_of_def)
  qed
  have "map_of ?poll = (map_of (spread ?old (transport_member transport)))(''last_attempt_at'' \<mapsto> JStr t,
      ''consecutive_failures'' \<mapsto> JInt ?count, ''holding'' \<mapsto> JBool (threshold \<le> ?count),
      ''last_fault'' \<mapsto> JObj (members_of (Some (fault_json p c)) @ [(''at'', JStr t)]))"
    by (simp only: spread_Cons spread_Nil map_of_update)
  then have "map_of ?poll ''consecutive_failures'' = Some (JInt (n + 1))"
    "map_of ?poll ''holding'' = Some (JBool (threshold \<le> n + 1))"
    "map_of ?poll ''inbound_transport'' = map_of (spread ?old (transport_member transport)) ''inbound_transport''"
    unfolding count by simp_all
  then show ?thesis
    unfolding w poll_state_written [OF k]
    using \<open>0 \<le> n\<close> by (simp add: counts_def map_of_spread_transport split: option.splits)
qed

lemma poll_history:
  assumes "channel_state_file p acct kind = Inr k" and "poll_state p acct kind b = fresh_poll"
  shows "counts threshold transport (failures_in_a_row es) (poll_state p acct kind (record_polls p acct kind threshold transport es b))"
proof (induction es rule: rev_induct)
  case Nil
  show ?case
    using assms(2) by (simp add: record_polls_def counts_def fresh_poll_def failures_in_a_row_def)
next
  case (snoc e es)
  have "0 \<le> failures_in_a_row es" by (simp add: failures_in_a_row_def)
  with poll_state_after_failure [OF assms(1) snoc.IH] poll_state_after_success [OF assms(1)]
  show ?case
    by (cases e) (simp_all add: record_polls_def record_poll_def failures_in_a_row_snoc)
qed

text \<open>C6. Whatever the history of polls of a channel whose state file starts fresh, its file says
  the number of failures since the last poll that worked, and it says \<open>holding\<close> exactly when the last
  poll failed and that number has reached the threshold: one poll that works clears the hold.\<close>

theorem hold_counts_failures_in_a_row:
  assumes "channel_state_file p acct kind = Inr k"
    and "poll_state p acct kind b = fresh_poll"
  shows "map_of (poll_state p acct kind (record_polls p acct kind threshold transport es b)) ''consecutive_failures''
           = Some (JInt (failures_in_a_row es))
    \<and> (map_of (poll_state p acct kind (record_polls p acct kind threshold transport es b)) ''holding'' = Some (JBool True)
           \<longleftrightarrow> failures_in_a_row es \<noteq> 0 \<and> threshold \<le> failures_in_a_row es)"
  using poll_history [OF assms, of threshold transport es] by (simp_all add: counts_def)

definition bare_box :: box where
  "bare_box = \<lparr>bx_store = store_open 0, bx_channel_files = [], bx_latches = []\<rparr>"

lemma encode_byte_plain: "is_safe_byte (byte_of c) \<Longrightarrow> encode_byte c = [c]"
  by (simp add: encode_byte_def)

lemma sample_channel_file:
  "channel_state_file sample_platform ''a'' ''k'' = Inr (''a'', ''k.channel.json'')"
  "latch_file sample_platform ''a'' ''k'' = Inr (''a'', ''k.latch.json'')"
  by (simp_all add: channel_state_file_def latch_file_def channel_file_def component_faults_def Let_def
      encode_component_def encode_byte_plain is_safe_byte_def max_encoded_def max_raw_def control_byte_def)

theorem hold_counts_failures_in_a_row_witness:
  "map_of (poll_state sample_platform ''a'' ''k''
     (record_polls sample_platform ''a'' ''k'' 2 None
       [Poll_Failed ''1'' (Fault ''X'' ''s''), Poll_Failed ''2'' (Fault ''X'' ''s'')] bare_box)) ''holding'' = Some (JBool True)"
proof -
  have "poll_state sample_platform ''a'' ''k'' bare_box = fresh_poll"
    by (simp add: poll_state_def read_channel_state_def sample_channel_file bare_box_def)
  from hold_counts_failures_in_a_row [OF sample_channel_file(1) this, of 2 None
      "[Poll_Failed ''1'' (Fault ''X'' ''s''), Poll_Failed ''2'' (Fault ''X'' ''s'')]"]
  show ?thesis by (simp add: failures_in_a_row_def)
qed

section \<open>The latch\<close>

lemma map_res_not_ok: "x \<in> set xs \<Longrightarrow> \<not> is_ok (f x) \<Longrightarrow> \<not> is_ok (map_res f xs)"
  by (induction xs) (auto split: sum.splits)

lemma map_res_length: "map_res f xs = Inr ys \<Longrightarrow> length ys = length xs"
  by (induction xs arbitrary: ys) (auto split: sum.splits)

lemma latched_refuses:
  assumes "k \<in> set (names_under ''.latch.json'' (bx_latches b))"
  shows "\<not> is_ok (refuse_if_latched p b)"
proof (cases "latches_under b")
  case (Inr fs)
  then have "length fs = length (names_under ''.latch.json'' (bx_latches b))"
    unfolding latches_under_def by (rule map_res_length)
  with assms have "fs \<noteq> []" by auto
  with Inr show ?thesis by (simp add: refuse_if_latched_def latch_faults_def)
qed (simp add: refuse_if_latched_def latch_faults_def)

lemma latch_file_name: "latch_file p acct kind = Inr k \<Longrightarrow> ends_with ''.latch.json'' (snd k)"
  by (auto simp: latch_file_def channel_file_def Let_def ends_with_iff split: if_splits)

lemma write_latch_cases:
  "write_latch p acct kind c b = (Inr e, b') \<Longrightarrow>
     \<exists>k. latch_file p acct kind = Inr k \<and> has (bx_latches b') k \<and> e = Runtime_Fault exit_latched [c]
       \<and> bx_store b' = bx_store b \<and> bx_channel_files b' = bx_channel_files b
       \<and> (\<forall>j content. map_of (bx_latches b) j = Some content \<longrightarrow> map_of (bx_latches b') j = Some content)"
  by (auto simp: write_latch_def split: sum.splits if_splits)

text \<open>After a latch is written the runtime refuses to start, and the exception to stop on has
  the exit status the unit does not restart on. Every latch already on disk is left as it was, the
  channel's own included: the first cause stays, and nothing else in the box changes.\<close>

theorem latch_stops_and_keeps_first_cause:
  assumes "write_latch p acct kind cause b = (Inr e, b')"
  shows "\<not> is_ok (refuse_if_latched p b')
    \<and> e = Runtime_Fault 78 [cause]
    \<and> (\<forall>k content. map_of (bx_latches b) k = Some content \<longrightarrow> map_of (bx_latches b') k = Some content)
    \<and> bx_store b' = bx_store b \<and> bx_channel_files b' = bx_channel_files b"
proof -
  from write_latch_cases [OF assms] obtain k where k: "latch_file p acct kind = Inr k" "has (bx_latches b') k"
    and rest: "e = Runtime_Fault exit_latched [cause]" "bx_store b' = bx_store b" "bx_channel_files b' = bx_channel_files b"
      "\<forall>j content. map_of (bx_latches b) j = Some content \<longrightarrow> map_of (bx_latches b') j = Some content"
    by blast
  from k(2) have "k \<in> set (keys (bx_latches b'))" by (simp add: map_of_eq_None_iff)
  with latch_file_name [OF k(1)] have "k \<in> set (names_under ''.latch.json'' (bx_latches b'))"
    by (auto simp: names_under_def split_beta)
  then have "\<not> is_ok (refuse_if_latched p b')" by (rule latched_refuses)
  with rest show ?thesis by (simp add: exit_latched_def)
qed

theorem latch_stops_and_keeps_first_cause_witness:
  "\<not> is_ok (refuse_if_latched sample_platform
     (snd (write_latch sample_platform ''a'' ''k'' (Fault ''GONE'' ''s'') bare_box)))"
proof -
  obtain e b' where w: "write_latch sample_platform ''a'' ''k'' (Fault ''GONE'' ''s'') bare_box = (Inr e, b')"
    by (simp add: write_latch_def sample_channel_file)
  from latch_stops_and_keeps_first_cause [OF w] w show ?thesis by simp
qed

section \<open>The resolved channel\<close>

lemma map_of_without [simp]: "map_of (without k ms) = (map_of ms)(k := None)"
  by (induction ms) (auto simp: without_def fun_eq_iff)

lemma keys_without: "distinct (keys ms) \<Longrightarrow> distinct (keys (without k ms))"
  by (simp add: without_def distinct_map_filter split_beta)

definition declared_path :: "(string \<times> string) list \<Rightarrow> json option \<Rightarrow> string option" where
  "declared_path secrets v = (case v of Some (JStr n) \<Rightarrow> map_of (rev secrets) n | _ \<Rightarrow> None)"

lemma resolve_ref_simps:
  "resolve_ref secrets subj key (t, r, fs) =
     (case map_of t key of
        None \<Rightarrow> (t, r, fs)
      | Some v \<Rightarrow>
          (case declared_path secrets (Some v) of
             None \<Rightarrow> (without key t, r,
               fs @ [Fault ''CHANNEL_SECRET_UNDECLARED'' (''channels.'' @ subj @ ''.transport.'' @ key)])
           | Some path \<Rightarrow> (without key t, AList.update (take (length key - length ''_ref'') key) (JStr path) r, fs)))"
  by (simp add: resolve_ref_def declared_path_def split: option.split json.split)

text \<open>A channel is resolved exactly when every secret its transport names is declared and its
  release policy is complete. The resolved channel has no transport block, carries the declared path
  of each secret in place of its name, and none of the secrets' references.\<close>

theorem resolved_channel:
  assumes "distinct (keys (members_of (map_of ch ''transport'')))"
    and "map_of ch ''netrc_ref'' = None" "map_of ch ''bot_token_ref'' = None"
  shows "(is_ok (resolve_channel p d ch) \<longleftrightarrow>
      release_policy_faults p ch = []
    \<and> (\<forall>key \<in> {''netrc_ref'', ''bot_token_ref''}. \<forall>v. map_of (members_of (map_of ch ''transport'')) key = Some v \<longrightarrow>
         declared_path (de_secrets d) (Some v) \<noteq> None))
    \<and> (\<forall>r. resolve_channel p d ch = Inr r \<longrightarrow>
      map_of r ''transport'' = None \<and> map_of r ''netrc_ref'' = None \<and> map_of r ''bot_token_ref'' = None
    \<and> (\<forall>v. map_of (members_of (map_of ch ''transport'')) ''netrc_ref'' = Some v \<longrightarrow>
         map_of r ''netrc'' = map_option JStr (declared_path (de_secrets d) (Some v)))
    \<and> (\<forall>v. map_of (members_of (map_of ch ''transport'')) ''bot_token_ref'' = Some v \<longrightarrow>
         map_of r ''bot_token'' = map_option JStr (declared_path (de_secrets d) (Some v))))"
proof (intro conjI [OF _ allI] impI)
  let ?t = "members_of (map_of ch ''transport'')"
  have d1: "distinct (keys (without a ?t))" for a by (rule keys_without [OF assms(1)])
  then have d2: "distinct (keys (without a (without b ?t)))" for a b by (rule keys_without)
  show "is_ok (resolve_channel p d ch) \<longleftrightarrow>
      release_policy_faults p ch = []
    \<and> (\<forall>key \<in> {''netrc_ref'', ''bot_token_ref''}. \<forall>v. map_of ?t key = Some v \<longrightarrow>
         declared_path (de_secrets d) (Some v) \<noteq> None)"
    by (auto simp: resolve_channel_def secret_refs_def resolve_ref_simps split: option.splits if_splits)
  show "map_of r ''transport'' = None \<and> map_of r ''netrc_ref'' = None \<and> map_of r ''bot_token_ref'' = None
    \<and> (\<forall>v. map_of ?t ''netrc_ref'' = Some v \<longrightarrow>
         map_of r ''netrc'' = map_option JStr (declared_path (de_secrets d) (Some v)))
    \<and> (\<forall>v. map_of ?t ''bot_token_ref'' = Some v \<longrightarrow>
         map_of r ''bot_token'' = map_option JStr (declared_path (de_secrets d) (Some v)))"
    if "resolve_channel p d ch = Inr r" for r
    using that assms d1 d2
    by (auto simp: resolve_channel_def secret_refs_def resolve_ref_simps map_of_spread map_add_def
        simp del: map_of_eq_Some_iff split: option.splits if_splits)
qed

definition sample_channel :: members where
  "sample_channel = [(''kind'', JStr ''telegram''), (''account'', JStr ''a''), (''release'', JStr ''quiet''),
     (''quiet_ms'', JInt 0), (''transport'', JObj [(''bot_token_ref'', JStr ''bot'')])]"

definition sample_declaration :: agent_declaration where
  "sample_declaration = \<lparr>de_agent_id = Some ''acme'', de_client = None, de_channels = [sample_channel],
     de_secrets = [(''bot'', ''/etc/bot'')], de_api_key_via = None, de_tool_servers = [],
     de_teaching = None, de_records_enabled = False, de_unit_kind = Some ''conversation'',
     de_unit_id_from = None, de_harness_kind = None\<rparr>"

theorem resolved_channel_witness:
  "is_ok (resolve_channel sample_platform sample_declaration sample_channel)"
  using resolved_channel [of sample_channel sample_platform sample_declaration]
  by (simp add: sample_channel_def sample_declaration_def members_of_def release_policy_faults_def Let_def
      declared_path_def)

end
