(* ===== verification/Operations.thy ===== *)
theory Operations
  imports Store_Inv
begin

text \<open>
  The sequencing of fallible operations on a state, as the larger components compose them, and the
  rules by which a composition preserves what its parts preserve: locale \<open>preserved\<close> for a preorder on
  states, interpreted for \<open>keeps\<close> (the store only evolves) and for \<open>leaves\<close> (a part of the state is
  left alone).
\<close>

named_theorems keeps_rules \<open>operations that only evolve the store\<close>

section \<open>Sequencing\<close>

definition ret_op :: "'a \<Rightarrow> 's \<Rightarrow> ('e, 'a, 's) outcome" where
  "ret_op x s = (Inr x, s)"

definition throw_op :: "'e \<Rightarrow> 's \<Rightarrow> ('e, 'a, 's) outcome" where
  "throw_op e s = (Inl e, s)"

definition bind_op ::
  "('s \<Rightarrow> ('e, 'a, 's) outcome) \<Rightarrow> ('a \<Rightarrow> 's \<Rightarrow> ('e, 'b, 's) outcome) \<Rightarrow> 's \<Rightarrow> ('e, 'b, 's) outcome" where
  "bind_op m f s = (case m s of (Inl e, s') \<Rightarrow> (Inl e, s') | (Inr x, s') \<Rightarrow> f x s')"

text \<open>A read that may throw, and a part of the state.\<close>

definition read_op :: "('s \<Rightarrow> 'e + 'a) \<Rightarrow> 's \<Rightarrow> ('e, 'a, 's) outcome" where
  "read_op f s = (f s, s)"

definition get_op :: "('s \<Rightarrow> 'a) \<Rightarrow> 's \<Rightarrow> ('e, 'a, 's) outcome" where
  "get_op f s = (Inr (f s), s)"

definition modify_op :: "('s \<Rightarrow> 's) \<Rightarrow> 's \<Rightarrow> ('e, unit, 's) outcome" where
  "modify_op f s = (Inr (), f s)"

text \<open>\<open>try { m } catch (e) { h e }\<close>.\<close>

definition catch_op ::
  "('s \<Rightarrow> ('e, 'a, 's) outcome) \<Rightarrow> ('e \<Rightarrow> 's \<Rightarrow> ('e, 'a, 's) outcome) \<Rightarrow> 's \<Rightarrow> ('e, 'a, 's) outcome" where
  "catch_op m h s = (case m s of (Inl e, s') \<Rightarrow> h e s' | (Inr x, s') \<Rightarrow> (Inr x, s'))"

text \<open>A loop that collects what its body returns.\<close>

fun collect_op :: "('a \<Rightarrow> 's \<Rightarrow> ('e, 'b, 's) outcome) \<Rightarrow> 'a list \<Rightarrow> 's \<Rightarrow> ('e, 'b list, 's) outcome" where
  "collect_op f [] s = (Inr [], s)"
| "collect_op f (x # xs) s =
     (case f x s of
        (Inl e, s') \<Rightarrow> (Inl e, s')
      | (Inr y, s') \<Rightarrow>
          (case collect_op f xs s' of
             (Inl e, s'') \<Rightarrow> (Inl e, s'')
           | (Inr ys, s'') \<Rightarrow> (Inr (y # ys), s'')))"

text \<open>A loop whose body passes an accumulator on.\<close>

fun walk_op :: "('acc \<Rightarrow> 'x \<Rightarrow> 's \<Rightarrow> ('e, 'acc, 's) outcome) \<Rightarrow> 'acc \<Rightarrow> 'x list \<Rightarrow> 's \<Rightarrow> ('e, 'acc, 's) outcome" where
  "walk_op f acc [] s = (Inr acc, s)"
| "walk_op f acc (x # xs) s =
     (case f acc x s of (Inl e, s') \<Rightarrow> (Inl e, s') | (Inr acc', s') \<Rightarrow> walk_op f acc' xs s')"

text \<open>\<open>try { m } finally { f }\<close>: what \<open>f\<close> throws is thrown, otherwise what \<open>m\<close> did stands.\<close>

definition finally_op ::
  "('s \<Rightarrow> ('e, 'a, 's) outcome) \<Rightarrow> ('s \<Rightarrow> ('e, unit, 's) outcome) \<Rightarrow> 's \<Rightarrow> ('e, 'a, 's) outcome" where
  "finally_op m f s =
     (case m s of (r, s1) \<Rightarrow> (case f s1 of (Inl e, s2) \<Rightarrow> (Inl e, s2) | (Inr _, s2) \<Rightarrow> (r, s2)))"

text \<open>A part of the state that an operation of another component runs on.\<close>

definition zoom :: "('s \<Rightarrow> 't) \<Rightarrow> ('t \<Rightarrow> 's \<Rightarrow> 's) \<Rightarrow> ('t \<Rightarrow> ('e, 'a, 't) outcome) \<Rightarrow> 's \<Rightarrow> ('e, 'a, 's) outcome" where
  "zoom part put_part m s = (case m (part s) of (r, t) \<Rightarrow> (r, put_part t s))"

lemma op_simps [simp]:
  "ret_op x s = (Inr x, s)" "throw_op e s = (Inl e, s)" "read_op g s = (g s, s)"
  "get_op h s = (Inr (h s), s)" "modify_op u s = (Inr (), u s)"
  by (simp_all add: ret_op_def throw_op_def read_op_def get_op_def modify_op_def)

lemma bind_op_Inr:
  "bind_op m f s = (Inr y, s'') \<longleftrightarrow> (\<exists>x s'. m s = (Inr x, s') \<and> f x s' = (Inr y, s''))"
  by (auto simp: bind_op_def split: prod.split sum.split)

section \<open>What an operation preserves\<close>

text \<open>\<open>stays R m\<close>: operation \<open>m\<close> moves the state along \<open>R\<close> on every way out.\<close>

definition stays :: "('s \<Rightarrow> 's \<Rightarrow> bool) \<Rightarrow> ('s \<Rightarrow> ('e, 'a, 's) outcome) \<Rightarrow> bool" where
  "stays R f \<longleftrightarrow> (\<forall>s. R s (snd (f s)))"

lemma staysI: "(\<And>s. R s (snd (f s))) \<Longrightarrow> stays R f"
  by (simp add: stays_def)

lemma staysD: "stays R f \<Longrightarrow> R s (snd (f s))"
  by (simp add: stays_def)

lemma stays_if [keeps_rules]:
  "(b \<Longrightarrow> stays R f) \<Longrightarrow> (\<not> b \<Longrightarrow> stays R g) \<Longrightarrow> stays R (if b then f else g)"
  by simp

lemma stays_let [keeps_rules]: "stays R (f x) \<Longrightarrow> stays R (Let x f)"
  by simp

lemma stays_option [keeps_rules]:
  "stays R f \<Longrightarrow> (\<And>x. stays R (g x)) \<Longrightarrow> stays R (case v of None \<Rightarrow> f | Some x \<Rightarrow> g x)"
  by (cases v) simp_all

lemma stays_sum [keeps_rules]:
  "(\<And>x. stays R (f x)) \<Longrightarrow> (\<And>y. stays R (g y)) \<Longrightarrow> stays R (case v of Inl x \<Rightarrow> f x | Inr y \<Rightarrow> g y)"
  by (cases v) simp_all

lemma stays_prod [keeps_rules]: "(\<And>x y. stays R (f x y)) \<Longrightarrow> stays R (case v of (x, y) \<Rightarrow> f x y)"
  by (cases v) simp

lemma stays_list [keeps_rules]:
  "stays R f \<Longrightarrow> (\<And>x xs. stays R (g x xs)) \<Longrightarrow> stays R (case v of [] \<Rightarrow> f | x # xs \<Rightarrow> g x xs)"
  by (cases v) simp_all

lemma stays_exn [keeps_rules]:
  assumes "\<And>fs. stays R (f1 fs)" "\<And>n fs. stays R (f2 n fs)" "\<And>f. stays R (f3 f)"
    "\<And>fs. stays R (f4 fs)" "stays R f5" "stays R f6" "\<And>t. stays R (f7 t)"
  shows "stays R (case e of Stream_Fault fs \<Rightarrow> f1 fs | Runtime_Fault n fs \<Rightarrow> f2 n fs | Program_Fault f \<Rightarrow> f3 f
      | Tool_Fault fs \<Rightarrow> f4 fs | Type_Error \<Rightarrow> f5 | Io_Error \<Rightarrow> f6 | Error t \<Rightarrow> f7 t)"
  using assms by (cases e) simp_all

lemma stays_get: "(\<And>s. stays R (g (f s))) \<Longrightarrow> stays R (bind_op (get_op f) g)"
  by (simp add: stays_def bind_op_def)

lemma stays_diagonal: "(\<And>s. stays R (f s)) \<Longrightarrow> stays R (\<lambda>s. f s s)"
  by (simp add: stays_def)

text \<open>Where the relation is a preorder, sequencing, handling and looping preserve it.\<close>

locale preserved =
  fixes R :: "'s \<Rightarrow> 's \<Rightarrow> bool"
  assumes stays_refl: "R s s" and stays_trans: "R s t \<Longrightarrow> R t u \<Longrightarrow> R s u"
begin

lemma basic:
  "stays R (ret_op x)" "stays R (throw_op e)" "stays R (read_op g)" "stays R (get_op h)"
  "stays R (\<lambda>s. (r s, s))" "stays R (Pair r')"
  by (simp_all add: stays_def stays_refl)

lemma bind:
  assumes "stays R m" and "\<And>x. stays R (f x)"
  shows "stays R (bind_op m f)"
proof (rule staysI)
  fix s
  obtain r s' where m: "m s = (r, s')" by fastforce
  with staysD [OF assms(1), where s = s] have "R s s'" by simp
  with staysD [OF assms(2), where s = s'] m show "R s (snd (bind_op m f s))"
    by (auto simp: bind_op_def split: sum.split intro: stays_trans)
qed

lemma catch:
  assumes "stays R m" and "\<And>e. stays R (h e)"
  shows "stays R (catch_op m h)"
proof (rule staysI)
  fix s
  obtain r s' where m: "m s = (r, s')" by fastforce
  with staysD [OF assms(1), where s = s] have "R s s'" by simp
  with staysD [OF assms(2), where s = s'] m show "R s (snd (catch_op m h s))"
    by (auto simp: catch_op_def split: sum.split intro: stays_trans)
qed

lemma final:
  assumes "stays R m" and "stays R f"
  shows "stays R (finally_op m f)"
proof (rule staysI)
  fix s
  obtain r s' where m: "m s = (r, s')" by fastforce
  with staysD [OF assms(1), where s = s] have "R s s'" by simp
  with staysD [OF assms(2), where s = s'] m show "R s (snd (finally_op m f s))"
    by (auto simp: finally_op_def split: prod.split sum.split intro: stays_trans)
qed

lemma each:
  assumes "\<And>x. stays R (f x)"
  shows "stays R (fold_op f xs)"
proof (induction xs)
  case (Cons x xs)
  have "fold_op f (x # xs) = bind_op (f x) (\<lambda>_. fold_op f xs)"
    by (simp add: fun_eq_iff bind_op_def split: prod.split sum.split)
  with bind [OF assms Cons.IH] show ?case by simp
qed (simp add: stays_def stays_refl)

lemma collect:
  assumes "\<And>x. stays R (f x)"
  shows "stays R (collect_op f xs)"
proof (induction xs)
  case (Cons x xs)
  have "collect_op f (x # xs) = bind_op (f x) (\<lambda>y. bind_op (collect_op f xs) (\<lambda>ys. ret_op (y # ys)))"
    by (simp add: fun_eq_iff bind_op_def split: prod.split sum.split)
  moreover have "stays R (bind_op (collect_op f xs) (\<lambda>ys. ret_op (y # ys)))" for y
    by (intro bind Cons.IH basic)
  ultimately show ?case by (metis assms bind)
qed (simp add: stays_def stays_refl)

lemma walk:
  assumes "\<And>acc x. stays R (f acc x)"
  shows "stays R (walk_op f acc xs)"
proof (induction xs arbitrary: acc)
  case (Cons x xs)
  have "walk_op f acc (x # xs) = bind_op (f acc x) (\<lambda>acc'. walk_op f acc' xs)"
    by (simp add: fun_eq_iff bind_op_def split: prod.split sum.split)
  with bind [OF assms Cons.IH] show ?case by simp
qed (simp add: stays_def stays_refl)

lemmas rules = basic bind catch final each collect walk

end

section \<open>What keeps the store\<close>

text \<open>Operation \<open>f\<close> of any component reaches its store, seen through \<open>view\<close>, by writes of the store
  library only.\<close>

definition evolution :: "platform \<Rightarrow> ('s \<Rightarrow> store) \<Rightarrow> 's \<Rightarrow> 's \<Rightarrow> bool" where
  "evolution p view s s' \<longleftrightarrow> (store_ok p (view s) \<longrightarrow> evolves p (view s) (view s'))"

abbreviation keeps :: "platform \<Rightarrow> ('s \<Rightarrow> store) \<Rightarrow> ('s \<Rightarrow> ('e, 'a, 's) outcome) \<Rightarrow> bool" where
  "keeps p view \<equiv> stays (evolution p view)"

interpretation evolving: preserved "evolution p view" for p view
  by unfold_locales (auto simp: evolution_def intro: rtranclp_trans dest: evolves_ok)

lemmas evolving_rules [keeps_rules] = evolving.rules

lemma keepsI: "(\<And>s. store_ok p (view s) \<Longrightarrow> evolves p (view s) (view (snd (f s)))) \<Longrightarrow> keeps p view f"
  by (simp add: stays_def evolution_def)

lemma keepsD: "keeps p view f \<Longrightarrow> store_ok p (view s) \<Longrightarrow> evolves p (view s) (view (snd (f s)))"
  by (simp add: stays_def evolution_def)

lemma keeps_unchanged: "(\<And>s. view (snd (f s)) = view s) \<Longrightarrow> keeps p view f"
  by (simp add: stays_def evolution_def)

lemma keeps_modify: "(\<And>s. view (u s) = view s) \<Longrightarrow> keeps p view (modify_op u)"
  by (rule keeps_unchanged) simp

lemma keeps_zoom:
  assumes "keeps p inner m" and "\<And>s. view s = inner (part s)" and "\<And>t s. part (put_part t s) = t"
  shows "keeps p view (zoom part put_part m)"
  using assms by (simp add: stays_def evolution_def zoom_def split_beta)

section \<open>What is left alone\<close>

text \<open>An operation that does not touch the part of the state \<open>f\<close> reads.\<close>

definition same :: "('s \<Rightarrow> 'v) \<Rightarrow> 's \<Rightarrow> 's \<Rightarrow> bool" where
  "same f s s' \<longleftrightarrow> f s' = f s"

abbreviation leaves :: "('s \<Rightarrow> 'v) \<Rightarrow> ('s \<Rightarrow> ('e, 'a, 's) outcome) \<Rightarrow> bool" where
  "leaves f \<equiv> stays (same f)"

interpretation leaving: preserved "same f" for f
  by unfold_locales (simp_all add: same_def)

lemmas leaving_rules [keeps_rules] = leaving.rules

lemma leavesI: "(\<And>s. f (snd (m s)) = f s) \<Longrightarrow> leaves f m"
  by (simp add: stays_def same_def)

lemma leavesD: "leaves f m \<Longrightarrow> f (snd (m s)) = f s"
  by (simp add: stays_def same_def)

lemma leaves_outcome: "leaves f m \<Longrightarrow> m s = (r, s') \<Longrightarrow> f s' = f s"
  using leavesD [of f m s] by simp

lemma leaves_modify: "(\<And>s. f (u s) = f s) \<Longrightarrow> leaves f (modify_op u)"
  by (rule leavesI) simp

lemma leaves_zoom: "(\<And>t s. f (put_part t s) = f s) \<Longrightarrow> leaves f (zoom part put_part m)"
  by (rule leavesI) (simp add: zoom_def split: prod.split)

section \<open>The store's operations\<close>

lemma keeps_store [keeps_rules]:
  "keeps p (\<lambda>s. s) (store_capture p m opts)" "keeps p (\<lambda>s. s) (store_park p m w opts)"
  "keeps p (\<lambda>s. s) (store_park_failed p m fs w')" "keeps p (\<lambda>s. s) (store_annotate p m noted)"
  "keeps p (\<lambda>s. s) (store_set_disposition p m d)" "keeps p (\<lambda>s. s) (store_advance_cursor p cid kind pos)"
  "keeps p (\<lambda>s. s) (store_put_attachment p cid mid revn bytes mime fn)"
  "keeps p (\<lambda>s. s) (store_write_thread p unit_id ms)"
  by (auto intro!: keepsI ev_capture ev_park ev_write_thread ev_put_attachment ev_advance_cursor ev_set_disposition
      ev_park_failed ev_annotate)

lemma keeps_store_replies [keeps_rules]:
  "keeps p (\<lambda>s. s) (store_release p m rat tid turn now holds)" "keeps p (\<lambda>s. s) (store_complete_release p m cat)"
  "keeps p (\<lambda>s. s) (store_reply p m status)" "keeps p (\<lambda>s. s) (store_settle_delivery p rid status chunks completed)"
  "keeps p (\<lambda>s. s) (store_release_held_reply p rid)" "keeps p (\<lambda>s. s) (store_mark_sent p rid chs)"
  "keeps p (\<lambda>s. s) (store_mark_unknown p rid)" "keeps p (\<lambda>s. s) (store_mark_failed p rid)"
  by (auto intro!: keepsI ev_release ev_complete_release ev_reply ev_settle_delivery ev_release_held_reply ev_marks)

end
