(* ===== verification/Reply_Tool.thy ===== *)
theory Reply_Tool
  imports Channel Operations Teachings_Props
begin

text \<open>
  The one door out of a turn: the \<open>reply\<close> tool (\<open>runtime/reply-tool.ts\<close>) on every channel but the
  browser, and the handlers of the teaching tools (\<open>runtime/teach-tool.ts\<close>). The files of the work
  directory and the records action service are outside the program: \<open>work_files\<close> answers
  \<open>realpath\<close>, \<open>stat\<close> and \<open>read\<close> for a path, \<open>action_service\<close> answers a \<open>post\<close>.
\<close>

section \<open>Reply attachments\<close>

record work_file =
  wf_path :: string
  wf_is_file :: "bool option"
  wf_bytes :: string

type_synonym work_files = "string \<Rightarrow> work_file option"

definition resolve_work_root :: "work_files \<Rightarrow> string option \<Rightarrow> exn + string" where
  "resolve_work_root files work =
     (case work of
        None \<Rightarrow> Inl (Stream_Fault [Fault ''WORK_DIR_ABSENT'' []])
      | Some w \<Rightarrow>
          if w = [] then Inl (Stream_Fault [Fault ''WORK_DIR_ABSENT'' []])
          else (case files w of
                  None \<Rightarrow> Inl (Stream_Fault [Fault ''WORK_DIR_ABSENT'' w])
                | Some f \<Rightarrow> Inr (wf_path f)))"

definition inside_work :: "string \<Rightarrow> string \<Rightarrow> bool" where
  "inside_work base resolved \<longleftrightarrow>
     resolved = base \<or> starts_with (if ends_with ''/'' base then base else base @ ''/'') resolved"

definition resolve_output_file :: "work_files \<Rightarrow> string \<Rightarrow> string \<Rightarrow> exn + work_file" where
  "resolve_output_file files given base =
     (case files given of
        None \<Rightarrow> Inl (Stream_Fault [Fault ''ATTACHMENT_MISSING'' given])
      | Some f \<Rightarrow>
          if \<not> inside_work base (wf_path f) then Inl (Stream_Fault [Fault ''ATTACHMENT_OUTSIDE_WORK'' given])
          else (case wf_is_file f of
                  None \<Rightarrow> Inl (Stream_Fault [Fault ''ATTACHMENT_MISSING'' given])
                | Some False \<Rightarrow> Inl (Stream_Fault [Fault ''ATTACHMENT_NOT_A_FILE'' given])
                | Some True \<Rightarrow> Inr f))"

record ready_file =
  rf_bytes :: string
  rf_mime :: string
  rf_filename :: string

definition lower_ascii :: "char \<Rightarrow> char" where
  "lower_ascii c = (if 65 \<le> byte_of c \<and> byte_of c \<le> 90 then char_of (byte_of c + 32) else c)"

definition base_name :: "string \<Rightarrow> string" where
  "base_name path = last (split_on (CHR ''/'') path)"

definition read_attachment_file :: "work_files \<Rightarrow> string \<Rightarrow> string \<Rightarrow> exn + ready_file" where
  "read_attachment_file files given base =
     bind_res (resolve_output_file files given base) (\<lambda>f.
       Inr \<lparr>rf_bytes = wf_bytes f,
            rf_mime = (if take 5 (wf_bytes f) = ''%PDF-'' \<or> ends_with ''.pdf'' (map lower_ascii (wf_path f))
                       then ''application/pdf'' else ''application/octet-stream''),
            rf_filename = base_name (wf_path f)\<rparr>)"

text \<open>One turn of the loop over the paths: the files read so far and the faults so far.\<close>

definition read_one_path ::
  "platform \<Rightarrow> work_files \<Rightarrow> string \<Rightarrow> json \<Rightarrow> ready_file list \<times> fault list \<Rightarrow> exn + (ready_file list \<times> fault list)" where
  "read_one_path p files base given st =
     (case given of
        JStr path \<Rightarrow>
          if starts_with ''/'' path then
            (case read_attachment_file files path base of
               Inr f \<Rightarrow> Inr (fst st @ [f], snd st)
             | Inl (Stream_Fault fs) \<Rightarrow> Inr (fst st, snd st @ fs)
             | Inl e \<Rightarrow> Inl e)
          else Inr (fst st, snd st @ [Fault ''PATH_NOT_ABSOLUTE'' path])
      | v \<Rightarrow> Inr (fst st, snd st @ [Fault ''PATH_NOT_ABSOLUTE'' (js_string p v)]))"

fun read_paths ::
  "platform \<Rightarrow> work_files \<Rightarrow> string \<Rightarrow> json list \<Rightarrow> ready_file list \<times> fault list \<Rightarrow> exn + (ready_file list \<times> fault list)" where
  "read_paths p files base [] st = Inr st"
| "read_paths p files base (g # gs) st =
     bind_res (read_one_path p files base g st) (read_paths p files base gs)"

definition read_attachments :: "platform \<Rightarrow> work_files \<Rightarrow> json option \<Rightarrow> string option \<Rightarrow> exn + ready_file list" where
  "read_attachments p files paths work =
     (case (case paths of None \<Rightarrow> JArr [] | Some JNull \<Rightarrow> JArr [] | Some v \<Rightarrow> v) of
        JArr list \<Rightarrow>
          if length list > 100 then Inl (Stream_Fault [Fault ''ATTACHMENTS_INVALID'' ''attachments''])
          else if list = [] then Inr []
          else bind_res (resolve_work_root files work) (\<lambda>base.
                 bind_res (read_paths p files base list ([], [])) (\<lambda>(ready, faults).
                   if faults \<noteq> [] then Inl (Stream_Fault faults) else Inr ready))
      | _ \<Rightarrow> Inl (Stream_Fault [Fault ''ATTACHMENTS_INVALID'' ''attachments'']))"

definition put_ready :: "platform \<Rightarrow> message \<Rightarrow> ready_file \<Rightarrow> attachment store_op" where
  "put_ready p m f = store_put_attachment p (conversation_id m) (message_id m) (revision m)
     (rf_bytes f) (Some (rf_mime f)) (Some (rf_filename f))"

definition attachments_from_paths ::
  "platform \<Rightarrow> work_files \<Rightarrow> message \<Rightarrow> json option \<Rightarrow> string option \<Rightarrow> attachment list store_op" where
  "attachments_from_paths p files m paths work =
     bind_op (read_op (\<lambda>s. read_attachments p files paths work)) (collect_op (put_ready p m))"

section \<open>The outbound record\<close>

definition by_received :: "platform \<Rightarrow> message \<Rightarrow> message \<Rightarrow> int" where
  "by_received p a b = locale_compare p (received_at a) (received_at b)"

text \<open>\<open>.sort(...).at(-1)\<close>.\<close>

definition newest_of :: "platform \<Rightarrow> message list \<Rightarrow> message option" where
  "newest_of p ms = (if ms = [] then None else Some (last (sort_cmp (by_received p) ms)))"

definition open_release :: "message \<Rightarrow> bool" where
  "open_release m = (case release m of None \<Rightarrow> False
     | Some r \<Rightarrow> (case rel_completed_at r of None \<Rightarrow> True | Some t \<Rightarrow> t = []))"

definition open_release_in :: "platform \<Rightarrow> string \<Rightarrow> store \<Rightarrow> exn + message option" where
  "open_release_in p cid s =
     bind_res (store_records_in p cid s) (\<lambda>ms.
       Inr (newest_of p (filter (\<lambda>m. direction m = Inbound \<and> open_release m) ms)))"

record reply_args =
  ra_conversation_id :: string
  ra_request_id :: string
  ra_text :: string
  ra_attachments :: "json option"
  ra_about_job :: "string option"
  ra_about_move :: "string option"

definition blank_outbound ::
  "platform \<Rightarrow> string \<Rightarrow> message \<Rightarrow> message option \<Rightarrow> reply_args \<Rightarrow> string \<Rightarrow> message" where
  "blank_outbound p ag newest opened a now =
     \<lparr>msg_schema = ''carbon.message.v1'', agent = ag, source = source newest, account = account newest,
      conversation_id = ra_conversation_id a, conversation_kind = conversation_kind newest,
      message_id = ra_conversation_id a @ '':reply-'' @ ra_request_id a,
      platform_message_id = ''reply-'' @ ra_request_id a, revision = 0, direction = Outbound, role = Agent,
      sender_id = ag, sender_name = None, sent_at = Some now, received_at = now, body = ra_text a,
      attachments = [], raw = None, historical = False,
      reply_to = (case opened of None \<Rightarrow> None | Some o1 \<Rightarrow> Some (message_id o1)),
      disposition = Captured, hold = None, release = None,
      delivery = Some \<lparr>dl_request_id = ra_request_id a, dl_status = ''pending'',
        dl_text_sha256 = sha256_hex p (ra_text a), dl_chunk_ids = None, dl_action_claim = None,
        dl_completed_at = None\<rparr>,
      adapter_fields = None\<rparr>"

definition outbound_record ::
  "platform \<Rightarrow> work_files \<Rightarrow> string \<Rightarrow> string option \<Rightarrow> reply_args \<Rightarrow> message store_op" where
  "outbound_record p files ag work a =
     bind_op (read_op (store_records_in p (ra_conversation_id a))) (\<lambda>ms.
       case newest_of p (filter (\<lambda>m. direction m = Inbound) ms) of
         None \<Rightarrow> throw_op (Stream_Fault [Fault ''CONVERSATION_NOT_OWNED'' (ra_conversation_id a)])
       | Some newest \<Rightarrow>
           bind_op (read_op (open_release_in p (ra_conversation_id a))) (\<lambda>opened.
             bind_op (get_op (\<lambda>s. blank_outbound p ag newest opened a (to_iso p (clock s)))) (\<lambda>m.
               bind_op (attachments_from_paths p files m (ra_attachments a) work) (\<lambda>atts.
                 ret_op (m\<lparr>attachments := atts\<rparr>)))))"

section \<open>The writer\<close>

definition teach_check_conversation :: "platform \<Rightarrow> agent_declaration \<Rightarrow> string option" where
  "teach_check_conversation p d = (if teaching_enabled d then management_conversation_of p d else None)"

record reply_result =
  rr_status :: string
  rr_request_id :: string
  rr_chunk_ids :: "string list"

text \<open>No browser reply is active in this model, so a conversation whose first inbound record is the
  browser's is refused.\<close>

definition browser_scope :: "message list \<Rightarrow> bool" where
  "browser_scope ms = (case find (\<lambda>m. direction m = Inbound) ms of None \<Rightarrow> False | Some m \<Rightarrow> source m = ''browser'')"

definition claimed :: "members option \<Rightarrow> message \<Rightarrow> message" where
  "claimed claim m = (case claim of
     None \<Rightarrow> m
   | Some c \<Rightarrow> m\<lparr>delivery := map_option (\<lambda>d. d\<lparr>dl_action_claim := Some c\<rparr>) (delivery m)\<rparr>)"

definition held_here :: "platform \<Rightarrow> agent_declaration \<Rightarrow> string \<Rightarrow> bool" where
  "held_here p d cid = (teach_check_conversation p d = Some cid)"

definition reply_writer ::
  "platform \<Rightarrow> work_files \<Rightarrow> agent_declaration \<Rightarrow> string \<Rightarrow> string option \<Rightarrow> reply_args \<Rightarrow> members option
     \<Rightarrow> reply_result store_op" where
  "reply_writer p files d ag work a claim =
     bind_op (read_op (store_records_in p (ra_conversation_id a))) (\<lambda>ms.
       if browser_scope ms then throw_op (Stream_Fault [Fault ''BROWSER_REPLY_SCOPE_REFUSED'' (ra_request_id a)])
       else
         bind_op (outbound_record p files ag work a) (\<lambda>m.
           bind_op (read_op (store_read_request p (ra_request_id a))) (\<lambda>_.
             (let is_held = held_here p d (ra_conversation_id a) in
              bind_op (store_reply p (claimed claim m) (if is_held then ''pending-teach-check'' else ''pending''))
                (\<lambda>written.
                   ret_op (case written of
                     Fenced_Sent chs _ \<Rightarrow>
                       \<lparr>rr_status = ''already_sent'', rr_request_id = ra_request_id a, rr_chunk_ids = chs\<rparr>
                   | Written _ _ \<Rightarrow>
                       \<lparr>rr_status = (if is_held then ''held'' else ''written''),
                        rr_request_id = ra_request_id a, rr_chunk_ids = []\<rparr>))))))"

definition reply_handler ::
  "platform \<Rightarrow> work_files \<Rightarrow> agent_declaration \<Rightarrow> string \<Rightarrow> string option \<Rightarrow> reply_args \<Rightarrow> reply_result store_op" where
  "reply_handler p files d ag work a = reply_writer p files d ag work a None"

section \<open>Replies that act on a job\<close>

text \<open>\<open>post(route, body)\<close>: what the service answered, or what \<open>post\<close> threw.\<close>

type_synonym action_service = "string \<Rightarrow> members \<Rightarrow> exn + members"

definition begin_bound_action ::
  "action_service \<Rightarrow> string \<Rightarrow> string \<Rightarrow> string \<Rightarrow> string \<Rightarrow> string \<Rightarrow> exn + members option" where
  "begin_bound_action serve unit_id operation about_job about_move source_id =
     bind_res (serve ''/bound''
         [(''unit'', JStr unit_id), (''operation'', JStr operation), (''about_job'', JStr about_job),
          (''about_move'', JStr about_move), (''source_id'', JStr source_id)])
       (\<lambda>r. Inr (if map_of r ''kind'' = Some (JStr ''other'') then None
                 else Some ([(''kind'', JStr ''claimed'')]
                   @ concat (map (\<lambda>k. case map_of r k of None \<Rightarrow> [] | Some v \<Rightarrow> [(k, v)])
                       [''job'', ''step'', ''action_id'']))))"

definition records_reply_handler ::
  "platform \<Rightarrow> work_files \<Rightarrow> action_service \<Rightarrow> agent_declaration \<Rightarrow> string \<Rightarrow> string option \<Rightarrow> reply_args
     \<Rightarrow> reply_result store_op" where
  "records_reply_handler p files serve d ag work a =
     bind_op (read_op (store_records_in p (ra_conversation_id a))) (\<lambda>ms.
       case newest_of p (filter (\<lambda>m. direction m = Inbound) ms) of
         None \<Rightarrow> throw_op (Stream_Fault [Fault ''CONVERSATION_NOT_OWNED'' (ra_conversation_id a)])
       | Some inbound \<Rightarrow>
           bind_op (read_op (\<lambda>s. read_attachments p files (ra_attachments a) work)) (\<lambda>_.
             bind_op (read_op (store_read_request p (ra_request_id a))) (\<lambda>existing.
               if (case existing of None \<Rightarrow> False | Some q \<Rightarrow> req_status q \<noteq> ''failed'')
               then reply_writer p files d ag work a None
               else
                 (case (ra_about_job a, ra_about_move a) of
                    (Some job, Some mv) \<Rightarrow>
                      bind_op (read_op (\<lambda>s. unit_id_for p d inbound)) (\<lambda>unit_id.
                        bind_op (read_op (\<lambda>s. begin_bound_action serve unit_id ''carbon-send'' job mv (ra_request_id a)))
                          (reply_writer p files d ag work a))
                  | _ \<Rightarrow> throw_op (Stream_Fault [Fault ''JOB_ACTION_CONTEXT_REQUIRED'' (ra_request_id a)])))))"

text \<open>The proof is the digest of the message id and its chunk ids as JSON text, \<open>receipt_text\<close>.\<close>

definition finish_mapped_action :: "action_service \<Rightarrow> members \<Rightarrow> string \<Rightarrow> exn + members" where
  "finish_mapped_action serve claim source_id =
     serve ''/finish'' (concat (map (\<lambda>k. case map_of claim k of None \<Rightarrow> [] | Some v \<Rightarrow> [(k, v)])
       [''job'', ''step'', ''action_id'']) @ [(''source_id'', JStr source_id)])"

definition claim_of :: "message \<Rightarrow> members option" where
  "claim_of m = (case delivery m of None \<Rightarrow> None | Some d \<Rightarrow> dl_action_claim d)"

fun text_member :: "json option \<Rightarrow> bool" where
  "text_member (Some (JStr t)) = True"
| "text_member _ = False"

definition usable_claim :: "members option \<Rightarrow> bool" where
  "usable_claim c = (case c of None \<Rightarrow> False
     | Some ms \<Rightarrow> list_all (\<lambda>k. text_member (map_of ms k)) [''job'', ''step'', ''action_id''])"

definition record_sent_action ::
  "platform \<Rightarrow> action_service \<Rightarrow> (message \<Rightarrow> string) \<Rightarrow> message \<Rightarrow> unit store_op" where
  "record_sent_action p serve receipt_text m =
     (if \<not> usable_claim (claim_of m) then throw_op (Stream_Fault [Fault ''JOB_ACTION_CLAIM_INVALID'' (message_id m)])
      else
        bind_op (read_op (\<lambda>s. finish_mapped_action serve (the (claim_of m))
            (''carbon-send:'' @ sha256_hex p (receipt_text m)))) (\<lambda>_.
          bind_op (get_op (\<lambda>s. to_iso p (clock s))) (\<lambda>now.
            bind_op (store_annotate p m [(''action_recorded_at'', JStr now)]) (\<lambda>_. ret_op ()))))"

section \<open>The teaching tools\<close>

definition teaching_of :: "agent_declaration \<Rightarrow> exn + teaching_block" where
  "teaching_of d =
     (case de_teaching d of
        None \<Rightarrow> Inl (Runtime_Fault 1 [Fault ''TEACHING_BLOCK_ABSENT'' ''teaching''])
      | Some t \<Rightarrow> if tb_enabled t then Inr t
                  else Inl (Runtime_Fault 1 [Fault ''TEACHING_DISABLED'' ''teaching.enabled'']))"

record teach_args =
  ta_id :: "string option"
  ta_text :: "string option"
  ta_conversation_id :: "string option"
  ta_source_message_id :: "string option"
  ta_failed_question :: "json option"

definition management_faults :: "string option \<Rightarrow> string option \<Rightarrow> fault list" where
  "management_faults management cid =
     (if management \<noteq> None \<and> cid = management then []
      else [Fault ''TEACHING_NOT_IN_MANAGEMENT_CONVERSATION'' (case cid of None \<Rightarrow> ''undefined'' | Some c \<Rightarrow> c)])"

definition as_tool_fault :: "exn \<Rightarrow> exn" where
  "as_tool_fault e = (case e of Stream_Fault fs \<Rightarrow> Tool_Fault fs | _ \<Rightarrow> e)"

definition in_management ::
  "string option \<Rightarrow> teach_args \<Rightarrow> 'a store_op \<Rightarrow> 'a store_op" where
  "in_management management a write =
     (if management_faults management (ta_conversation_id a) \<noteq> []
      then throw_op (Tool_Fault (management_faults management (ta_conversation_id a)))
      else catch_op write (\<lambda>e. throw_op (as_tool_fault e)))"

definition remember_handler ::
  "platform \<Rightarrow> string \<Rightarrow> teaching_block \<Rightarrow> string option \<Rightarrow> string option \<Rightarrow> teach_args \<Rightarrow> taught store_op" where
  "remember_handler p ag tb management rel a =
     in_management management a (bind_op (get_op (\<lambda>s. to_iso p (clock s))) (\<lambda>now.
       remember p (Some ag) (ta_text a) (ta_conversation_id a) (ta_source_message_id a)
         (tb_max_active tb) (tb_max_chars tb) rel now))"

definition raise_change_handler ::
  "platform \<Rightarrow> string \<Rightarrow> teaching_block \<Rightarrow> string option \<Rightarrow> string option \<Rightarrow> teach_args \<Rightarrow> taught store_op" where
  "raise_change_handler p ag tb management rel a =
     in_management management a (bind_op (get_op (\<lambda>s. to_iso p (clock s))) (\<lambda>now.
       raise_change p (Some ag) (ta_text a) (ta_conversation_id a) (ta_source_message_id a)
         (ta_failed_question a) (tb_max_chars tb) rel now))"

definition forget_handler :: "platform \<Rightarrow> string option \<Rightarrow> teach_args \<Rightarrow> taught store_op" where
  "forget_handler p management a =
     in_management management a (bind_op (get_op (\<lambda>s. to_iso p (clock s))) (\<lambda>now.
       forget p (ta_id a) (ta_conversation_id a) (ta_source_message_id a) now))"

section \<open>They only evolve the store\<close>

lemma keeps_teachings [keeps_rules]:
  "keeps p (\<lambda>s. s) (remember p ag t cid src ma mc rel now)"
  "keeps p (\<lambda>s. s) (raise_change p ag t cid src q mc rel now)"
  "keeps p (\<lambda>s. s) (forget p idt cid src now)"
  by (auto intro!: keepsI ev_remember ev_raise_change ev_forget)

lemma keeps_in_management [keeps_rules]:
  "keeps p (\<lambda>s. s) f \<Longrightarrow> keeps p (\<lambda>s. s) (in_management management a f)"
  unfolding in_management_def by (intro keeps_rules)

lemma keeps_teach_handlers [keeps_rules]:
  "keeps p (\<lambda>s. s) (remember_handler p ag tb management rel a)"
  "keeps p (\<lambda>s. s) (raise_change_handler p ag tb management rel a)"
  "keeps p (\<lambda>s. s) (forget_handler p management a)"
  unfolding remember_handler_def raise_change_handler_def forget_handler_def by (intro keeps_rules)+

lemma keeps_attachments [keeps_rules]: "keeps p (\<lambda>s. s) (attachments_from_paths p files m paths work)"
  unfolding attachments_from_paths_def put_ready_def by (intro keeps_rules)

lemma keeps_outbound [keeps_rules]: "keeps p (\<lambda>s. s) (outbound_record p files ag work a)"
  unfolding outbound_record_def by (intro keeps_rules)

lemma keeps_reply_writer [keeps_rules]: "keeps p (\<lambda>s. s) (reply_writer p files d ag work a claim)"
  unfolding reply_writer_def by (intro keeps_rules)

lemma keeps_reply_handler [keeps_rules]: "keeps p (\<lambda>s. s) (reply_handler p files d ag work a)"
  unfolding reply_handler_def by (intro keeps_rules)

lemma keeps_records_reply [keeps_rules]: "keeps p (\<lambda>s. s) (records_reply_handler p files serve d ag work a)"
  unfolding records_reply_handler_def by (intro keeps_rules)

lemma keeps_record_sent [keeps_rules]: "keeps p (\<lambda>s. s) (record_sent_action p serve rt m)"
  unfolding record_sent_action_def by (intro keeps_rules)

end
