(* ===== verification/Release_Rules.thy ===== *)
theory Release_Rules
  imports Reply_Tool
begin

text \<open>
  What the release loop decides without touching the harness or the channel (\<open>runtime/loop.ts\<close>):
  whether the operator hold applies, whether a record may go to the model now, which errors end the
  process and which park one record, what a turn did, and whether the sandbox deny file is placed.
\<close>

section \<open>Whether a record is released\<close>

definition hold_applies :: "members \<Rightarrow> string \<Rightarrow> bool" where
  "hold_applies ch cid \<longleftrightarrow>
     conversation_kind_of ch cid \<noteq> Some (JStr ''ops'')
   \<and> conversation_kind_of ch cid \<noteq> Some (JStr ''management'')"

text \<open>\<open>n >= v\<close> on a number; a quiet interval of another type is not read further.\<close>

definition at_least :: "int \<Rightarrow> json option \<Rightarrow> bool" where
  "at_least n v = (case v of Some (JInt q) \<Rightarrow> q \<le> n | Some (JFloat q d) \<Rightarrow> q \<le> n * int d | _ \<Rightarrow> False)"

definition newest_inbound :: "platform \<Rightarrow> message list \<Rightarrow> int" where
  "newest_inbound p ms =
     foldl max 0 (List.map_filter (date_parse p \<circ> received_at) (filter (\<lambda>m. direction m = Inbound) ms))"

type_synonym decision = "bool \<times> string"

definition policy_decision :: "platform \<Rightarrow> members \<Rightarrow> store \<Rightarrow> message \<Rightarrow> int \<Rightarrow> exn + decision" where
  "policy_decision p ch s m now =
     (let policy = map_of ch ''release''; quiet = map_of ch ''quiet_ms'' in
      if policy = Some (JStr ''quiet'') then
        (if quiet = Some (JInt 0) then Inr (True, ''quiet'')
         else bind_res (store_records_in p (conversation_id m) s) (\<lambda>ms.
                Inr (if at_least (now - newest_inbound p ms) quiet then (True, ''quiet'') else (False, ''not-yet-quiet''))))
      else if policy = Some (JStr ''mention'') then
        Inr (if js_includes (string_of p (map_of ch ''mention'')) (body m) then (True, ''mention'') else (False, ''no-mention''))
      else Inl (Runtime_Fault 1 [Fault ''RELEASE_POLICY_UNKNOWN'' (string_of p policy)]))"

definition release_decision :: "platform \<Rightarrow> members \<Rightarrow> store \<Rightarrow> message \<Rightarrow> int \<Rightarrow> exn + decision" where
  "release_decision p ch s m now =
     (if direction m \<noteq> Inbound then Inr (False, ''outbound'')
      else if historical m then Inr (False, ''historical'')
      else if disposition m = Parked then Inr (False, ''parked'')
      else if release m \<noteq> None then Inr (False, ''already-released'')
      else if hold_applies ch (conversation_id m) then
        (if role m = Operator then Inr (False, ''operator-message'')
         else bind_res (store_is_held p (conversation_id m) now s) (\<lambda>held.
                if held then Inr (False, ''held'') else policy_decision p ch s m now))
      else policy_decision p ch s m now)"

section \<open>What a turn did\<close>

definition truncated_seconds :: "int \<Rightarrow> nat \<Rightarrow> int" where
  "truncated_seconds n d = (if n < 0 then - ((- n * 1000) div int d) else (n * 1000) div int d)"

definition when_text :: "platform \<Rightarrow> json option \<Rightarrow> string option" where
  "when_text p v =
     (case v of
        Some (JInt i) \<Rightarrow> Some (to_iso p (i * 1000))
      | Some (JFloat n d) \<Rightarrow> Some (to_iso p (truncated_seconds n d))
      | Some (JStr t) \<Rightarrow> if t = [] then None else Some t
      | _ \<Rightarrow> None)"

definition or_null :: "json option \<Rightarrow> json" where
  "or_null v = (case v of None \<Rightarrow> JNull | Some x \<Rightarrow> x)"

definition tool_call_in :: "json \<Rightarrow> json option" where
  "tool_call_in item =
     (let t = member_of item ''type''; rest = [(''tool'', or_null (member_of item ''tool'')), (''status'', or_null (member_of item ''status''))] in
      if t = Some (JStr ''mcpToolCall'') then Some (JObj ((''server'', or_null (member_of item ''server'')) # rest))
      else if t = Some (JStr ''dynamicToolCall'') then Some (JObj ((''server'', or_null (member_of item ''namespace'')) # rest))
      else None)"

definition tool_calls_in :: "json option \<Rightarrow> json list" where
  "tool_calls_in items = List.map_filter tool_call_in (elements_of items)"

definition commands_in :: "json option \<Rightarrow> json list" where
  "commands_in items = List.map_filter
     (\<lambda>item. if member_of item ''type'' \<noteq> Some (JStr ''commandExecution'') then None
             else Some (JObj [(''cwd'', or_null (member_of item ''cwd'')), (''status'', or_null (member_of item ''status'')),
                              (''exit_code'', or_null (member_of item ''exitCode''))]))
     (elements_of items)"

definition release_id_for :: "message \<Rightarrow> string" where
  "release_id_for m = ''release-'' @ message_id m @ ''-'' @ show_int (revision m)"

definition no_reply :: string where "no_reply = ''NO_REPLY''"
definition nothing_taught :: string where "nothing_taught = ''NOTHING_TAUGHT''"

definition said :: "string \<Rightarrow> json option \<Rightarrow> bool" where
  "said word text = (case text of Some (JStr t) \<Rightarrow> trim_units t = utf16 word | _ \<Rightarrow> False)"

definition said_no_reply :: "json option \<Rightarrow> bool" where
  "said_no_reply text = said no_reply text"

definition said_nothing_taught :: "json option \<Rightarrow> bool" where
  "said_nothing_taught text = said nothing_taught text"

section \<open>Which errors end the process\<close>

definition ending_codes :: "string list" where
  "ending_codes = [''SANDBOX_DENY_NOT_PLACED'', ''BROWSER_WORKSPACE_NOT_ISOLATED'',
     ''HARNESS_CHILD_EXITED_MID_TURN'', ''TOOL_SERVER_UNDECLARED'', ''TOOL_SERVER_NOT_LISTED'']"

definition ends_the_process :: "exn \<Rightarrow> bool" where
  "ends_the_process e =
     (case e of
        Runtime_Fault n fs \<Rightarrow> n \<noteq> 1 \<or> list_ex (\<lambda>f. code f \<in> set ending_codes) fs
      | _ \<Rightarrow> True)"

definition parkable_program_fault :: "exn \<Rightarrow> exn" where
  "parkable_program_fault e =
     (case e of
        Program_Fault f \<Rightarrow> if starts_with ''PROGRAM_'' (code f) then Runtime_Fault 1 [f] else e
      | _ \<Rightarrow> e)"

definition faults_of :: "exn \<Rightarrow> fault list" where
  "faults_of e = (case e of Runtime_Fault _ fs \<Rightarrow> fs | _ \<Rightarrow> [])"

section \<open>The sandbox deny file\<close>

record deny_gate =
  dg_file :: string
  dg_root :: string
  dg_owner :: int
  dg_browser :: bool

record deny_stat =
  ds_symlink :: bool
  ds_is_file :: bool
  ds_uid :: int
  ds_mode :: nat
  ds_body :: "string option"

definition newline :: string where "newline = [CHR 0x0A]"
definition quoted :: "string \<Rightarrow> string" where "quoted t = CHR 0x22 # t @ [CHR 0x22]"

definition sandbox_deny_body :: "string \<Rightarrow> bool \<Rightarrow> string" where
  "sandbox_deny_body base browser =
     (if browser then
        ''# Placed by carbon bootstrap.sh for HC-14 browser isolation.'' @ newline
      @ ''[permissions.filesystem]'' @ newline
      @ ''deny_read = ['' @ join '', '' (map (\<lambda>d. quoted (base @ d))
          [''/codex-home'', ''/secrets'', ''/store'', ''/companion-private'', ''/runtime-private'', ''/source-work''])
      @ '']'' @ newline
      else
        ''# Placed by carbon bootstrap.sh for HC-14. The model'' @ [CHR 0x27] @ ''s shell may not read the'' @ newline
      @ ''# provider login or the secrets directory. Nothing else is set here.'' @ newline
      @ ''[permissions.filesystem]'' @ newline
      @ ''deny_read = ['' @ join '', '' (map (\<lambda>d. quoted (base @ d)) [''/codex-home/auth.json'', ''/secrets''])
      @ '']'' @ newline)"

text \<open>\<open>stat\<close> is \<open>lstat\<close> of the file, \<open>None\<close> when it fails; 420 is \<open>0o644\<close> and 4096 \<open>0o10000\<close>.\<close>

definition deny_wrong :: "deny_gate \<Rightarrow> deny_stat option \<Rightarrow> string list" where
  "deny_wrong g st =
     (case st of
        None \<Rightarrow> [''absent'']
      | Some f \<Rightarrow>
          (if ds_symlink f then [''symlink''] else if \<not> ds_is_file f then [''not a regular file''] else [])
        @ (if ds_uid f \<noteq> dg_owner g then [''owner''] else [])
        @ (if ds_mode f mod 4096 \<noteq> 420 then [''mode''] else [])
        @ (if (if ds_is_file f then ds_body f else None) \<noteq> Some (sandbox_deny_body (dg_root g) (dg_browser g))
           then [''content''] else []))"

definition check_sandbox_deny :: "deny_gate \<Rightarrow> deny_stat option \<Rightarrow> exn + unit" where
  "check_sandbox_deny g st =
     (if deny_wrong g st \<noteq> [] then Inl (Runtime_Fault 1 [Fault ''SANDBOX_DENY_NOT_PLACED'' (dg_file g)]) else Inr ())"

section \<open>The tool servers\<close>

definition reply_server_name :: string where "reply_server_name = ''carbon-reply''"
definition teach_server_name :: string where "teach_server_name = ''carbon-teach''"
definition records_server_name :: string where "records_server_name = ''carbon-records''"

definition declared_servers :: "agent_declaration \<Rightarrow> string list" where
  "declared_servers d =
     map ts_name (filter (\<lambda>s. Some (ts_name s) \<noteq> de_api_key_via d) (de_tool_servers d))
   @ [reply_server_name]
   @ (if teaching_enabled d then [teach_server_name] else [])
   @ (if de_records_enabled d then [records_server_name] else [])"

definition sorted_names :: "string list \<Rightarrow> string list" where
  "sorted_names ns = sort_cmp unit_order (remdups ns)"

definition refuse_undeclared_servers :: "agent_declaration \<Rightarrow> string list \<Rightarrow> exn + unit" where
  "refuse_undeclared_servers d listed =
     (let declared = declared_servers d;
          faults = map (Fault ''TOOL_SERVER_UNDECLARED'') (sorted_names (filter (\<lambda>n. n \<notin> set declared) listed))
                 @ map (Fault ''TOOL_SERVER_NOT_LISTED'') (sorted_names (filter (\<lambda>n. n \<notin> set listed) declared))
      in if faults \<noteq> [] then Inl (Runtime_Fault 1 faults) else Inr ())"

definition proxy_faults_for :: "agent_declaration \<Rightarrow> (string \<Rightarrow> bool) \<Rightarrow> fault list" where
  "proxy_faults_for d probe =
     (case de_api_key_via d of
        None \<Rightarrow> []
      | Some via \<Rightarrow>
          if via = [] then []
          else
            (let url = (case find (\<lambda>s. ts_name s = via) (de_tool_servers d) of None \<Rightarrow> None | Some s \<Rightarrow> ts_url s);
                 up = (case url of None \<Rightarrow> False | Some u \<Rightarrow> u \<noteq> [] \<and> probe u)
             in if up then [] else [Fault ''PROVIDER_PROXY_DOWN'' (''tool_servers.'' @ via)]))"

end
