(* ===== verification/Loop.thy ===== *)
theory Loop
  imports Turn_Input
begin

text \<open>
  The state of the release loop and one turn of the model (\<open>runtime/loop.ts\<close>, class \<open>ReleaseLoop\<close>), on
  every channel but the browser: the thread of a unit, the tool server check, the turn and its thread
  record, the reply enforcement and the teach check, and the program harness
  (\<open>runtime/program-release.ts\<close>). What is outside the program is the record \<open>world\<close>: each of its
  fields answers from the whole state of the loop, so an answer may depend on everything that
  happened before. During a turn the model calls the tools; a turn answers with the calls it made
  and with its result, and the calls run through the tools' own handlers.
\<close>

section \<open>State\<close>

record recovery =
  rv_resend :: "string list"
  rv_reissue :: "string list"
  rv_unknown :: "string list"
  rv_done :: "string list"

record loop =
  lp_box :: box
  lp_threads :: "(string \<times> json) list"
  lp_status_read :: bool
  lp_status_stale :: bool
  lp_hold :: "fault list"
  lp_proxy :: "fault list"
  lp_records :: "fault list"
  lp_synced :: bool
  lp_release :: "string option"
  lp_recovering :: "recovery option"
  lp_sends :: "message list"

type_synonym 'a loop_op = "loop \<Rightarrow> (exn, 'a, loop) outcome"

text \<open>\<open>lp_sends\<close> is no field of the class: it is the list of the records handed to the channel, which the
  properties speak about.\<close>

abbreviation lp_store :: "loop \<Rightarrow> store" where
  "lp_store l \<equiv> bx_store (lp_box l)"

definition put_store :: "store \<Rightarrow> loop \<Rightarrow> loop" where
  "put_store s l = l\<lparr>lp_box := (lp_box l)\<lparr>bx_store := s\<rparr>\<rparr>"

definition on_store :: "'a store_op \<Rightarrow> 'a loop_op" where
  "on_store m = zoom lp_store put_store m"

definition put_box :: "box \<Rightarrow> loop \<Rightarrow> loop" where
  "put_box b l = l\<lparr>lp_box := b\<rparr>"

definition on_box :: "'a box_op \<Rightarrow> 'a loop_op" where
  "on_box m = zoom lp_box put_box m"

definition reads :: "(store \<Rightarrow> exn + 'a) \<Rightarrow> 'a loop_op" where
  "reads f = read_op (\<lambda>l. f (lp_store l))"

section \<open>The world\<close>

record turn_request =
  tq_thread :: json
  tq_input :: json
  tq_client_id :: string

record turn_result =
  tr_status :: "json option"
  tr_turn_id :: "json option"
  tr_completed_at :: "json option"
  tr_agent_message :: "json option"
  tr_token_usage :: "json option"
  tr_error :: "json option"
  tr_program :: "json option"

datatype tool_call =
    Reply_Call reply_args
  | Remember_Call teach_args
  | Raise_Call teach_args
  | Forget_Call teach_args

text \<open>\<open>te_stale\<close>: whether a tool server reported a change of its status during the turn.\<close>

record turn_effect =
  te_calls :: "tool_call list"
  te_stale :: bool
  te_result :: "exn + turn_result"

type_synonym server_status = "string \<times> json"

datatype raw_attachment =
    File_Bytes string "string option" "string option"
  | Plain_Attachment attachment

record candidate =
  cd_record :: message
  cd_attachments :: "raw_attachment list"
  cd_raw :: "string option"
  cd_cursor :: "(string \<times> string) option"

record send_result =
  sr_status :: "json option"
  sr_chunk_ids :: "string list option"

record world =
  w_platform :: platform
  w_declaration :: agent_declaration
  w_channel :: members
  w_account :: string
  w_kind :: string
  w_agent :: string
  w_store_root :: "string list"
  w_checkout :: string
  w_work :: string
  w_clock :: "loop \<Rightarrow> int"
  w_files :: "loop \<Rightarrow> work_files"
  w_deny :: "(deny_gate \<times> (loop \<Rightarrow> deny_stat option)) option"
  w_open_thread :: "loop \<Rightarrow> string \<Rightarrow> exn + members"
  w_resume_thread :: "loop \<Rightarrow> string \<Rightarrow> json \<Rightarrow> exn + unit"
  w_statuses :: "loop \<Rightarrow> json \<Rightarrow> exn + server_status list"
  w_holds_release :: "server_status list \<Rightarrow> fault list"
  w_probe :: "loop \<Rightarrow> string \<Rightarrow> bool"
  w_turn :: "loop \<Rightarrow> turn_request \<Rightarrow> turn_effect"
  w_after_turn :: "loop \<Rightarrow> exn option"
  w_serve :: "loop \<Rightarrow> action_service"
  w_receipt :: "message \<Rightarrow> string"
  w_stopping :: "loop \<Rightarrow> bool"
  w_poll :: "(loop \<Rightarrow> exn + json list) option"
  w_list_pending :: "loop \<Rightarrow> json list \<Rightarrow> exn + json list"
  w_payload :: "loop \<Rightarrow> json list \<Rightarrow> exn + (candidate list \<times> (candidate \<times> string) list)"
  w_consume :: "loop \<Rightarrow> json \<Rightarrow> exn + (string \<times> string \<times> string) list"
  w_send :: "loop \<Rightarrow> message \<Rightarrow> exn + send_result"

definition is_program :: "world \<Rightarrow> bool" where
  "is_program w = (de_harness_kind (w_declaration w) = Some ''program'')"

text \<open>\<open>this.now()\<close>. The store's own \<open>new Date()\<close> reads the time last read here.\<close>

definition tick :: "world \<Rightarrow> int loop_op" where
  "tick w =
     bind_op (modify_op (\<lambda>l. put_store ((lp_store l)\<lparr>clock := w_clock w l\<rparr>) l)) (\<lambda>_. get_op (\<lambda>l. clock (lp_store l)))"

definition now_text :: "world \<Rightarrow> string loop_op" where
  "now_text w = bind_op (tick w) (\<lambda>t. ret_op (to_iso (w_platform w) t))"

section \<open>The tool servers\<close>

definition read_tool_server_status :: "world \<Rightarrow> json \<Rightarrow> unit loop_op" where
  "read_tool_server_status w thread =
     bind_op (read_op (\<lambda>l. w_statuses w l thread)) (\<lambda>statuses.
       bind_op (get_op lp_status_read) (\<lambda>was_read.
         bind_op
           (if was_read then ret_op ()
            else bind_op (read_op (\<lambda>l. refuse_undeclared_servers (w_declaration w) (map fst statuses)))
                   (\<lambda>_. modify_op (\<lambda>l. l\<lparr>lp_status_read := True\<rparr>)))
           (\<lambda>_. modify_op (\<lambda>l. l\<lparr>lp_hold := w_holds_release w statuses, lp_status_stale := False\<rparr>))))"

definition check_provider_proxy :: "world \<Rightarrow> fault list loop_op" where
  "check_provider_proxy w =
     bind_op (modify_op (\<lambda>l. l\<lparr>lp_proxy := proxy_faults_for (w_declaration w) (w_probe w l)\<rparr>)) (\<lambda>_. get_op lp_proxy)"

definition check_deny :: "world \<Rightarrow> unit loop_op" where
  "check_deny w =
     (case w_deny w of
        None \<Rightarrow> ret_op ()
      | Some (g, stat) \<Rightarrow> read_op (\<lambda>l. check_sandbox_deny g (stat l)))"

section \<open>The thread of a unit\<close>

definition resumable :: "members option \<Rightarrow> json option" where
  "resumable existing =
     (case existing of
        None \<Rightarrow> None
      | Some ms \<Rightarrow>
          if truthy (map_of ms ''thread_id'')
             \<and> (case map_of ms ''completed_turns'' of None \<Rightarrow> False | Some n \<Rightarrow> positive_number n)
          then map_of ms ''thread_id'' else None)"

definition open_fresh_thread :: "world \<Rightarrow> string \<Rightarrow> json loop_op" where
  "open_fresh_thread w unit_id =
     bind_op (read_op (\<lambda>l. w_open_thread w l unit_id)) (\<lambda>rec.
       bind_op (reads (store_read_thread (w_platform w) unit_id)) (\<lambda>existing.
         bind_op (on_store (store_write_thread (w_platform w) unit_id
             (spread (spread (case existing of None \<Rightarrow> [] | Some ms \<Rightarrow> ms) rec)
                [(''completed_turns'', JInt 0), (''turns'', JArr [])]))) (\<lambda>_.
           ret_op (or_null (map_of rec ''thread_id'')))))"

definition thread_for :: "world \<Rightarrow> string \<Rightarrow> json loop_op" where
  "thread_for w unit_id =
     bind_op (check_deny w) (\<lambda>_.
       bind_op (get_op (\<lambda>l. map_of (lp_threads l) unit_id)) (\<lambda>known.
         case known of
           Some thread \<Rightarrow> ret_op thread
         | None \<Rightarrow>
             bind_op (reads (store_read_thread (w_platform w) unit_id)) (\<lambda>existing.
               bind_op
                 (case resumable existing of
                    Some thread \<Rightarrow>
                      bind_op (read_op (\<lambda>l. w_resume_thread w l unit_id thread)) (\<lambda>_. ret_op thread)
                  | None \<Rightarrow> open_fresh_thread w unit_id)
                 (\<lambda>thread.
                    bind_op (modify_op (\<lambda>l. l\<lparr>lp_threads := AList.update unit_id thread (lp_threads l)\<rparr>)) (\<lambda>_.
                      bind_op (read_tool_server_status w thread) (\<lambda>_. ret_op thread))))))"

section \<open>One turn\<close>

text \<open>A call of a tool during the turn. What the handler answers or throws goes to the model and ends
  nothing.\<close>

definition handled :: "'a store_op \<Rightarrow> unit store_op" where
  "handled m = catch_op (bind_op m (\<lambda>_. ret_op ())) (\<lambda>_. ret_op ())"

definition reply_call :: "world \<Rightarrow> loop \<Rightarrow> reply_args \<Rightarrow> reply_result store_op" where
  "reply_call w l a =
     (if de_records_enabled (w_declaration w)
      then records_reply_handler (w_platform w) (w_files w l) (w_serve w l) (w_declaration w) (w_agent w) (Some (w_work w)) a
      else reply_handler (w_platform w) (w_files w l) (w_declaration w) (w_agent w) (Some (w_work w)) a)"

definition teach_call :: "world \<Rightarrow> loop \<Rightarrow> tool_call \<Rightarrow> unit store_op" where
  "teach_call w l c =
     (let p = w_platform w; d = w_declaration w; management = management_conversation_of p d in
      case teaching_of d of
        Inl e \<Rightarrow> ret_op ()
      | Inr tb \<Rightarrow>
          (case c of
             Remember_Call a \<Rightarrow> handled (remember_handler p (w_agent w) tb management (lp_release l) a)
           | Raise_Call a \<Rightarrow> handled (raise_change_handler p (w_agent w) tb management (lp_release l) a)
           | Forget_Call a \<Rightarrow> handled (forget_handler p management a)
           | Reply_Call a \<Rightarrow> ret_op ()))"

definition tool_call :: "world \<Rightarrow> tool_call \<Rightarrow> unit loop_op" where
  "tool_call w c l =
     on_store (case c of Reply_Call a \<Rightarrow> handled (reply_call w l a) | _ \<Rightarrow> teach_call w l c) l"

definition turn_of :: "world \<Rightarrow> turn_request \<Rightarrow> turn_result loop_op" where
  "turn_of w q =
     bind_op (check_deny w) (\<lambda>_.
       bind_op (get_op (\<lambda>l. w_turn w l q)) (\<lambda>effect. bind_op (tick w) (\<lambda>_.
         bind_op (fold_op (tool_call w) (te_calls effect)) (\<lambda>_.
           bind_op (modify_op (\<lambda>l. l\<lparr>lp_status_stale := lp_status_stale l \<or> te_stale effect\<rparr>)) (\<lambda>_.
             read_op (\<lambda>l. te_result effect))))))"

definition agent_message_kept :: nat where
  "agent_message_kept = 300"

definition kept_message :: "json option \<Rightarrow> json" where
  "kept_message v = (case v of Some (JStr t) \<Rightarrow> JStr (take_units agent_message_kept t) | _ \<Rightarrow> JNull)"

definition optional :: "string \<Rightarrow> json option \<Rightarrow> members" where
  "optional k v = (case v of None \<Rightarrow> [] | Some x \<Rightarrow> [(k, x)])"

definition program_part :: "json option \<Rightarrow> members" where
  "program_part v =
     (if truthy v then
        [(''program'', JObj (concat (map (\<lambda>k. optional k (member_of (the v) k)) [''disposition'', ''observations'', ''timings''])))]
      else [])"

definition turn_entry :: "string \<Rightarrow> turn_result \<Rightarrow> string \<Rightarrow> json" where
  "turn_entry rid r completed_at = JObj
     ([(''release_id'', JStr rid)] @ optional ''turn_id'' (tr_turn_id r) @ optional ''status'' (tr_status r)
    @ [(''completed_at'', JStr completed_at), (''token_usage'', or_null (tr_token_usage r)),
       (''error'', or_null (tr_error r)), (''agent_message'', kept_message (tr_agent_message r))]
    @ program_part (tr_program r))"

definition completed :: "turn_result \<Rightarrow> bool" where
  "completed r \<longleftrightarrow> tr_status r = Some (JStr ''completed'')"

definition thread_after :: "members option \<Rightarrow> string \<Rightarrow> turn_result \<Rightarrow> string \<Rightarrow> members" where
  "thread_after existing rid r completed_at =
     (let thread = (case existing of None \<Rightarrow> [] | Some ms \<Rightarrow> ms) in
      spread thread
        [(''completed_turns'', JInt (count_of (map_of thread ''completed_turns'') + (if completed r then 1 else 0))),
         (''turns'', JArr (elements_of (map_of thread ''turns'') @ [turn_entry rid r completed_at]))])"

definition after_turn :: "world \<Rightarrow> unit loop_op" where
  "after_turn w =
     bind_op (get_op (w_after_turn w)) (\<lambda>e.
       case e of
         None \<Rightarrow> ret_op ()
       | Some x \<Rightarrow> if ends_the_process x then throw_op x else ret_op ())"

definition take_turn ::
  "world \<Rightarrow> string \<Rightarrow> json \<Rightarrow> string \<Rightarrow> json \<Rightarrow> string \<Rightarrow> (turn_result \<times> string) loop_op" where
  "take_turn w unit_id thread rid input client_id =
     bind_op (modify_op (\<lambda>l. l\<lparr>lp_release := Some rid\<rparr>)) (\<lambda>_.
       bind_op
         (finally_op (turn_of w \<lparr>tq_thread = thread, tq_input = input, tq_client_id = client_id\<rparr>)
            (modify_op (\<lambda>l. l\<lparr>lp_release := None\<rparr>)))
         (\<lambda>result.
            bind_op (case when_text (w_platform w) (tr_completed_at result) of
                Some t \<Rightarrow> ret_op t | None \<Rightarrow> now_text w) (\<lambda>completed_at.
              bind_op (reads (store_read_thread (w_platform w) unit_id)) (\<lambda>existing.
                bind_op (on_store (store_write_thread (w_platform w) unit_id
                    (thread_after existing rid result completed_at))) (\<lambda>_.
                  bind_op (after_turn w) (\<lambda>_. ret_op (result, completed_at)))))))"

section \<open>Whether the turn answered\<close>

definition answers :: "string \<Rightarrow> message \<Rightarrow> bool" where
  "answers rid m \<longleftrightarrow> direction m = Outbound
     \<and> (case delivery m of None \<Rightarrow> False | Some d \<Rightarrow> dl_request_id d = rid)"

definition has_outbound :: "world \<Rightarrow> message \<Rightarrow> string \<Rightarrow> bool loop_op" where
  "has_outbound w m rid =
     bind_op (reads (store_records_in (w_platform w) (conversation_id m))) (\<lambda>ms. ret_op (list_ex (answers rid) ms))"

definition reread :: "world \<Rightarrow> message \<Rightarrow> message loop_op" where
  "reread w m =
     bind_op (reads (store_read (w_platform w) (conversation_id m) (message_id m) (revision m))) (\<lambda>found.
       case found of None \<Rightarrow> throw_op Type_Error | Some x \<Rightarrow> ret_op x)"

definition mark_reply_outcome :: "world \<Rightarrow> message list \<Rightarrow> string \<Rightarrow> unit loop_op" where
  "mark_reply_outcome w ms outcome =
     fold_op (\<lambda>m. bind_op (reread w m) (\<lambda>x.
       bind_op (on_store (store_annotate (w_platform w) x [(''reply_outcome'', JStr outcome)])) (\<lambda>_. ret_op ()))) ms"

definition park_with :: "world \<Rightarrow> fault list \<Rightarrow> string option \<Rightarrow> message \<Rightarrow> unit loop_op" where
  "park_with w faults reason m =
     bind_op (reread w m) (\<lambda>x.
       bind_op (on_store (store_park_failed (w_platform w) x faults reason)) (\<lambda>_. ret_op ()))"

section \<open>Completing a release\<close>

text \<open>\<open>adapter_fields.browser_delivery.phase\<close> is read on every channel; only the browser writes it.\<close>

definition uncertain_delivery :: "message \<Rightarrow> bool" where
  "uncertain_delivery m \<longleftrightarrow>
     (case map_of (fields_of m) ''browser_delivery'' of
        None \<Rightarrow> False | Some v \<Rightarrow> member_of v ''phase'' = Some (JStr ''uncertain''))"

definition complete_one :: "world \<Rightarrow> string \<Rightarrow> message \<Rightarrow> unit loop_op" where
  "complete_one w completed_at m = bind_op (on_store (store_complete_release (w_platform w) m completed_at)) (\<lambda>_. ret_op ())"

definition complete_certain :: "world \<Rightarrow> string \<Rightarrow> message \<Rightarrow> unit loop_op" where
  "complete_certain w completed_at m = (if uncertain_delivery m then ret_op () else complete_one w completed_at m)"

section \<open>A program's reply\<close>

definition gate_faults :: "exn \<Rightarrow> fault list option" where
  "gate_faults e = (case e of Stream_Fault fs \<Rightarrow> Some fs | Tool_Fault fs \<Rightarrow> Some fs | _ \<Rightarrow> None)"

definition text_arg :: "json \<Rightarrow> string \<Rightarrow> string option" where
  "text_arg v k = (case member_of v k of Some (JStr t) \<Rightarrow> Some t | _ \<Rightarrow> None)"

text \<open>The handler is called without the tool server's argument check; an identifier that is no text
  is refused by the store as empty.\<close>

definition program_reply_args :: "json \<Rightarrow> reply_args" where
  "program_reply_args v =
     \<lparr>ra_conversation_id = (case text_arg v ''conversation_id'' of None \<Rightarrow> [] | Some t \<Rightarrow> t),
      ra_request_id = (case text_arg v ''request_id'' of None \<Rightarrow> [] | Some t \<Rightarrow> t),
      ra_text = (case text_arg v ''text'' of None \<Rightarrow> [] | Some t \<Rightarrow> t),
      ra_attachments = member_of v ''attachments'', ra_about_job = text_arg v ''about_job'',
      ra_about_move = text_arg v ''about_move''\<rparr>"

definition park_at_gate :: "world \<Rightarrow> fault list \<Rightarrow> message \<Rightarrow> unit loop_op" where
  "park_at_gate w faults m =
     bind_op (reads (store_read (w_platform w) (conversation_id m) (message_id m) (revision m))) (\<lambda>found.
       case found of
         None \<Rightarrow> ret_op ()
       | Some x \<Rightarrow> bind_op (on_store (store_park_failed (w_platform w) x faults (Some ''program-reply-gate''))) (\<lambda>_. ret_op ()))"

definition submit_program_reply :: "world \<Rightarrow> message list \<Rightarrow> json \<Rightarrow> string loop_op" where
  "submit_program_reply w ms reply =
     catch_op
       (bind_op (get_op (\<lambda>l. reply_call w l (program_reply_args reply))) (\<lambda>call.
          bind_op (on_store call) (\<lambda>_. ret_op ''replied'')))
       (\<lambda>e. case gate_faults e of
              None \<Rightarrow> throw_op e
            | Some fs \<Rightarrow> bind_op (fold_op (park_at_gate w fs) ms) (\<lambda>_. ret_op ''parked-gate''))"

definition apply_program_reply ::
  "world \<Rightarrow> message \<Rightarrow> message list \<Rightarrow> string \<Rightarrow> turn_result \<Rightarrow> string loop_op" where
  "apply_program_reply w m ms rid result =
     bind_op (has_outbound w m rid) (\<lambda>answered.
       if answered then ret_op ''replied''
       else
         (let invalid = Runtime_Fault 1 [Fault ''PROGRAM_RESPONSE_INVALID'' (message_id m)];
              disposition = (if truthy (tr_program result) then member_of (the (tr_program result)) ''disposition'' else None) in
          if disposition = Some (JStr ''no_reply'')
          then bind_op (mark_reply_outcome w ms ''no-reply-declared'') (\<lambda>_. ret_op ''no-reply-declared'')
          else if disposition = Some (JStr ''missing_case'')
          then bind_op (mark_reply_outcome w ms ''missing-case'') (\<lambda>_. ret_op ''missing-case'')
          else if disposition = Some (JStr ''reply'') then
            (case elements_of (member_of (the (tr_program result)) ''replies'') of
               [] \<Rightarrow> throw_op invalid
             | reply # _ \<Rightarrow> if \<not> truthy (Some reply) then throw_op invalid else submit_program_reply w ms reply)
          else throw_op invalid))"

section \<open>The reply enforcement\<close>

definition ensure_reply ::
  "world \<Rightarrow> message \<Rightarrow> message list \<Rightarrow> string \<Rightarrow> json \<Rightarrow> string \<Rightarrow> turn_result \<Rightarrow> string loop_op" where
  "ensure_reply w m ms unit_id thread rid result =
     bind_op (has_outbound w m rid) (\<lambda>answered.
       if answered then ret_op ''replied''
       else if is_program w then apply_program_reply w m ms rid result
       else
         bind_op (get_op (\<lambda>l. follow_up_input (w_platform w) (w_declaration w) (lp_store l) m rid)) (\<lambda>input.
           bind_op (take_turn w unit_id thread rid (JStr input) (rid @ ''-follow-up'')) (\<lambda>(follow_up, _).
             bind_op (has_outbound w m rid) (\<lambda>answered_now.
               if answered_now then ret_op ''replied-after-follow-up''
               else if said_no_reply (tr_agent_message follow_up)
               then bind_op (mark_reply_outcome w ms ''no-reply-declared'') (\<lambda>_. ret_op ''no-reply-declared'')
               else
                 bind_op (fold_op (park_with w [Fault ''REPLY_ABSENT'' (message_id m)] (Some ''no-reply'')) ms)
                   (\<lambda>_. ret_op ''parked-no-reply'')))))"

section \<open>The teach check\<close>

definition held_for :: "string \<Rightarrow> message \<Rightarrow> bool" where
  "held_for rid m \<longleftrightarrow> answers rid m
     \<and> (case delivery m of None \<Rightarrow> False | Some d \<Rightarrow> dl_status d = ''pending-teach-check'')"

definition held_reply :: "world \<Rightarrow> message \<Rightarrow> string \<Rightarrow> message option loop_op" where
  "held_reply w m rid =
     bind_op (reads (store_records_in (w_platform w) (conversation_id m))) (\<lambda>ms. ret_op (find (held_for rid) ms))"

definition recorded_this_release :: "world \<Rightarrow> string \<Rightarrow> bool loop_op" where
  "recorded_this_release w rid =
     get_op (\<lambda>l. teachings_under_release (w_platform w) (lp_store l) (Some rid) \<noteq> [])"

definition let_go :: "world \<Rightarrow> string \<Rightarrow> string \<Rightarrow> string loop_op" where
  "let_go w rid outcome = bind_op (on_store (store_release_held_reply (w_platform w) rid)) (\<lambda>_. ret_op outcome)"

definition program_teach_check :: "world \<Rightarrow> message \<Rightarrow> string \<Rightarrow> string loop_op" where
  "program_teach_check w m rid =
     bind_op (held_reply w m rid) (\<lambda>found.
       case found of
         None \<Rightarrow> ret_op ''not-held''
       | Some h \<Rightarrow>
           bind_op (recorded_this_release w rid) (\<lambda>recorded.
             if recorded then let_go w rid ''released''
             else
               bind_op (reads (store_read (w_platform w) (conversation_id h) (message_id h) (revision h))) (\<lambda>x.
                 case x of
                   None \<Rightarrow> ret_op ''parked-unrecorded-teaching''
                 | Some y \<Rightarrow> bind_op (on_store (store_park_failed (w_platform w) y
                     [Fault ''TEACHING_UNRECORDED'' (message_id m)] (Some ''unrecorded-teaching'')))
                       (\<lambda>_. ret_op ''parked-unrecorded-teaching''))))"

definition ensure_teach_check :: "world \<Rightarrow> message \<Rightarrow> string \<Rightarrow> json \<Rightarrow> string \<Rightarrow> string loop_op" where
  "ensure_teach_check w m unit_id thread rid =
     bind_op (held_reply w m rid) (\<lambda>found.
       case found of
         None \<Rightarrow> ret_op ''not-held''
       | Some h \<Rightarrow>
           bind_op (recorded_this_release w rid) (\<lambda>recorded.
             if recorded then let_go w rid ''released''
             else if is_program w then program_teach_check w m rid
             else
               bind_op (get_op (\<lambda>l. teach_check_input (w_platform w) (w_declaration w) (lp_store l) m)) (\<lambda>input.
                 bind_op (take_turn w unit_id thread rid (JStr input) (rid @ ''-teach-check'')) (\<lambda>(follow_up, _).
                   bind_op (recorded_this_release w rid) (\<lambda>recorded_now.
                     if recorded_now then let_go w rid ''released-after-follow-up''
                     else if said_nothing_taught (tr_agent_message follow_up)
                     then let_go w rid ''released-nothing-taught''
                     else bind_op (park_with w [Fault ''TEACHING_UNRECORDED'' (message_id m)] (Some ''unrecorded-teaching'') h)
                            (\<lambda>_. ret_op ''parked-unrecorded-teaching''))))))"

end
