(* ===== verification/Loop_Pass.thy ===== *)
theory Loop_Pass
  imports Loop
begin

text \<open>
  One pass of the release loop over one channel (\<open>runtime/loop.ts\<close>): poll, recover, capture, release,
  deliver, in that order, and what each of them writes. The browser's branches are left out.
\<close>

section \<open>Poll\<close>

record polled =
  pl_polled :: bool
  pl_items :: "json list"
  pl_holding :: bool
  pl_failures :: int
  pl_fault :: "fault option"

definition poll_pass :: "world \<Rightarrow> json list \<Rightarrow> polled loop_op" where
  "poll_pass w handed =
     (case w_poll w of
        None \<Rightarrow> ret_op \<lparr>pl_polled = False, pl_items = handed, pl_holding = False, pl_failures = 0, pl_fault = None\<rparr>
      | Some ask \<Rightarrow>
          bind_op (now_text w) (\<lambda>at_text.
            (let p = w_platform w; ch = w_channel w; transport = inbound_transport_of ch in
             bind_op (get_op ask) (\<lambda>answer.
               case answer of
                 Inl e \<Rightarrow>
                   bind_op (on_box (record_poll_failure p (w_account w) (w_kind w) at_text (poll_fault p ch)
                       (failures_before_hold ch) transport)) (\<lambda>state.
                     ret_op \<lparr>pl_polled = True, pl_items = [],
                       pl_holding = (map_of state ''holding'' = Some (JBool True)),
                       pl_failures = count_of (map_of state ''consecutive_failures''), pl_fault = Some (poll_fault p ch)\<rparr>)
               | Inr items \<Rightarrow>
                   bind_op (on_box (record_poll_success p (w_account w) (w_kind w) at_text (int (length items)) transport)) (\<lambda>_.
                     ret_op \<lparr>pl_polled = True, pl_items = items, pl_holding = False, pl_failures = 0, pl_fault = None\<rparr>)))))"

section \<open>Recover\<close>

definition status_is :: "string \<Rightarrow> message \<Rightarrow> bool" where
  "status_is st m \<longleftrightarrow> (case delivery m of None \<Rightarrow> False | Some d \<Rightarrow> dl_status d = st)"

definition request_of :: "message \<Rightarrow> string" where
  "request_of m = (case delivery m of None \<Rightarrow> [] | Some d \<Rightarrow> dl_request_id d)"

definition claimed_send :: "message \<Rightarrow> bool" where
  "claimed_send m \<longleftrightarrow> direction m = Outbound \<and> status_is ''pending'' m \<and> claim_of m \<noteq> None"

definition quarantine :: "world \<Rightarrow> message \<Rightarrow> unit loop_op" where
  "quarantine w m =
     (if \<not> claimed_send m then ret_op ()
      else bind_op (on_store (store_mark_unknown (w_platform w) (request_of m))) (\<lambda>_.
             bind_op (on_store (store_annotate (w_platform w) m [(''action_reconcile_required'', JBool True)])) (\<lambda>_. ret_op ())))"

definition turn_id_of :: "message \<Rightarrow> string" where
  "turn_id_of m = (case release m of None \<Rightarrow> [] | Some r \<Rightarrow> rel_turn_id r)"

text \<open>\<open>new Set\<close> and \<open>add\<close>: a repeated element keeps its place.\<close>

definition add_once :: "'a list \<Rightarrow> 'a \<Rightarrow> 'a list" where
  "add_once xs x = (if x \<in> set xs then xs else xs @ [x])"

text \<open>The open releases in the order they are first met, each with its records.\<close>

definition open_releases :: "message list \<Rightarrow> (string \<times> message list) list" where
  "open_releases ms =
     (let opened = filter (\<lambda>m. direction m = Inbound \<and> open_release m) ms in
      map (\<lambda>rid. (rid, filter (\<lambda>m. turn_id_of m = rid) opened)) (foldl add_once [] (map turn_id_of opened)))"

definition finish_answered :: "world \<Rightarrow> string \<Rightarrow> string \<Rightarrow> recovery \<Rightarrow> message \<Rightarrow> recovery loop_op" where
  "finish_answered w rid completed_at rv m =
     (if uncertain_delivery m then ret_op (rv\<lparr>rv_unknown := add_once (rv_unknown rv) rid\<rparr>)
      else bind_op (complete_one w completed_at m) (\<lambda>_. ret_op (rv\<lparr>rv_done := rv_done rv @ [message_id m]\<rparr>)))"

definition classify :: "world \<Rightarrow> message list \<Rightarrow> recovery \<Rightarrow> string \<times> message list \<Rightarrow> recovery loop_op" where
  "classify w all rv opened_group =
     (let (rid, ms) = opened_group; replies = filter (answers rid) all in
      if list_ex (status_is ''sent'') replies then
        bind_op (now_text w) (\<lambda>completed_at. walk_op (finish_answered w rid completed_at) rv ms)
      else if list_ex (status_is ''unknown'') replies then ret_op (rv\<lparr>rv_unknown := add_once (rv_unknown rv) rid\<rparr>)
      else if list_ex (status_is ''pending'') replies then ret_op (rv\<lparr>rv_resend := add_once (rv_resend rv) rid\<rparr>)
      else ret_op (rv\<lparr>rv_reissue := add_once (rv_reissue rv) rid\<rparr>))"

definition outbound_requests :: "string \<Rightarrow> message list \<Rightarrow> string list" where
  "outbound_requests st ms =
     foldl add_once [] (map request_of (filter (\<lambda>m. direction m = Outbound \<and> status_is st m) ms))"

definition recover :: "world \<Rightarrow> recovery loop_op" where
  "recover w =
     bind_op (reads (store_rebuild (w_platform w))) (\<lambda>before.
       bind_op (fold_op (quarantine w) before) (\<lambda>_.
         bind_op (reads (store_rebuild (w_platform w))) (\<lambda>all.
           walk_op (classify w all)
             \<lparr>rv_resend = outbound_requests ''pending'' all, rv_reissue = [],
              rv_unknown = outbound_requests ''unknown'' all, rv_done = []\<rparr>
             (open_releases all))))"

section \<open>Capture\<close>

definition put_raw_attachment :: "world \<Rightarrow> message \<Rightarrow> raw_attachment \<Rightarrow> attachment loop_op" where
  "put_raw_attachment w m a =
     (case a of
        File_Bytes bytes mime name \<Rightarrow>
          on_store (store_put_attachment (w_platform w) (conversation_id m) (message_id m) (revision m) bytes mime name)
      | Plain_Attachment b \<Rightarrow> ret_op b)"

definition options_of :: "candidate \<Rightarrow> capture_options" where
  "options_of c = \<lparr>opt_raw = cd_raw c, opt_cursor = cd_cursor c, opt_disposition = None\<rparr>"

definition capture_entry :: "world \<Rightarrow> candidate \<Rightarrow> message list loop_op" where
  "capture_entry w c =
     bind_op (collect_op (put_raw_attachment w (cd_record c)) (cd_attachments c)) (\<lambda>atts.
       catch_op
         (bind_op (on_store (store_capture (w_platform w) ((cd_record c)\<lparr>attachments := atts\<rparr>) (options_of c)))
            (\<lambda>written. ret_op [cr_record written]))
         (\<lambda>e. case e of Stream_Fault fs \<Rightarrow> ret_op [] | _ \<Rightarrow> throw_op e))"

text \<open>Every adapter's \<open>consume\<close> is a number of cursor moves.\<close>

definition consume_item :: "world \<Rightarrow> json \<Rightarrow> unit loop_op" where
  "consume_item w item =
     bind_op (read_op (\<lambda>l. w_consume w l item)) (\<lambda>moves.
       fold_op (\<lambda>(cid, kind, pos). bind_op (on_store (store_advance_cursor (w_platform w) cid kind pos)) (\<lambda>_. ret_op ())) moves)"

definition park_entry :: "world \<Rightarrow> candidate \<times> string \<Rightarrow> unit loop_op" where
  "park_entry w item =
     bind_op (on_store (store_park (w_platform w) (cd_record (fst item)) (snd item) (options_of (fst item))))
       (\<lambda>_. ret_op ())"

definition capture_pass :: "world \<Rightarrow> json list \<Rightarrow> (message list \<times> string list) loop_op" where
  "capture_pass w items =
     bind_op (read_op (\<lambda>l. w_list_pending w l items)) (\<lambda>pending.
       if pending = [] then ret_op ([], [])
       else
         bind_op (read_op (\<lambda>l. w_payload w l pending)) (\<lambda>(entries, parked).
           bind_op (collect_op (capture_entry w) entries) (\<lambda>captured.
             bind_op (fold_op (park_entry w) parked) (\<lambda>_.
               bind_op (fold_op (consume_item w) pending) (\<lambda>_.
                 ret_op (concat captured, map (\<lambda>i. message_id (cd_record (fst i))) parked))))))"

section \<open>The records service\<close>

definition collect_source :: "string \<Rightarrow> bool" where
  "collect_source t =
     (case t of
        [] \<Rightarrow> False
      | c # cs \<Rightarrow> 97 \<le> byte_of c \<and> byte_of c \<le> 122 \<and> length cs \<le> 63
          \<and> list_all (\<lambda>d. 97 \<le> byte_of d \<and> byte_of d \<le> 122 \<or> digit d \<or> d = CHR ''_'' \<or> d = CHR ''-'') cs)"

definition collect_one :: "world \<Rightarrow> message \<Rightarrow> unit loop_op" where
  "collect_one w m =
     (if direction m \<noteq> Inbound \<or> historical m \<or> \<not> collect_source (source m) then ret_op ()
      else
        (case unit_id_for (w_platform w) (w_declaration w) m of
           Inl e \<Rightarrow> (case e of Runtime_Fault _ _ \<Rightarrow> ret_op () | _ \<Rightarrow> throw_op e)
         | Inr unit_id \<Rightarrow>
             bind_op (read_op (\<lambda>l. w_serve w l ''/collect''
                 [(''source_id'', JStr (message_id m)), (''channel'', JStr (source m)), (''unit'', JStr unit_id)]))
               (\<lambda>_. ret_op ())))"

definition sync_collected :: "world \<Rightarrow> message list \<Rightarrow> unit loop_op" where
  "sync_collected w captured =
     (if \<not> de_records_enabled (w_declaration w) then ret_op ()
      else
        bind_op (get_op lp_synced) (\<lambda>synced.
          bind_op (if synced then ret_op captured else reads (store_rebuild (w_platform w))) (\<lambda>candidates.
            bind_op (fold_op (collect_one w) candidates) (\<lambda>_.
              modify_op (\<lambda>l. l\<lparr>lp_synced := True\<rparr>)))))"

definition tool_faults :: "exn \<Rightarrow> fault list" where
  "tool_faults e = (case e of Tool_Fault fs \<Rightarrow> fs | _ \<Rightarrow> [])"

definition sync_collected_or_hold :: "world \<Rightarrow> message list \<Rightarrow> bool loop_op" where
  "sync_collected_or_hold w ms =
     catch_op
       (bind_op (sync_collected w ms) (\<lambda>_.
          bind_op (modify_op (\<lambda>l. l\<lparr>lp_records := []\<rparr>)) (\<lambda>_. ret_op True)))
       (\<lambda>e. if ''RECORDS_ACTION_UNAVAILABLE'' \<in> set (codes (tool_faults e))
            then bind_op (modify_op (\<lambda>l. l\<lparr>lp_records := tool_faults e\<rparr>)) (\<lambda>_. ret_op False)
            else throw_op e)"

section \<open>One release\<close>

record released =
  ro_message_ids :: "string list"
  ro_release_id :: string
  ro_status :: "json option"
  ro_turn_id :: "json option"
  ro_reply :: "string option"
  ro_teach_check :: "string option"

definition build_input :: "world \<Rightarrow> message list \<Rightarrow> string \<Rightarrow> json \<Rightarrow> json loop_op" where
  "build_input w ms rid thread =
     (if is_program w
      then reads (\<lambda>s. program_release_input (w_store_root w) (w_checkout w) (w_work w) ms rid thread)
      else bind_op (reads (\<lambda>s. turn_input (w_platform w) (w_store_root w) (w_checkout w) (w_declaration w) s ms rid))
             (\<lambda>t. ret_op (JStr t)))"

definition write_release :: "world \<Rightarrow> string \<Rightarrow> json \<Rightarrow> string \<Rightarrow> message \<Rightarrow> unit loop_op" where
  "write_release w released_at thread rid m =
     bind_op (tick w) (\<lambda>now.
       bind_op (on_store (store_release (w_platform w) m released_at (js_string (w_platform w) thread) rid now
           (hold_applies (w_channel w) (conversation_id m)))) (\<lambda>_. ret_op ()))"

definition admitted :: "world \<Rightarrow> string \<Rightarrow> members \<Rightarrow> unit loop_op" where
  "admitted w route payload =
     (if de_records_enabled (w_declaration w)
      then bind_op (read_op (\<lambda>l. w_serve w l route payload)) (\<lambda>_. ret_op ()) else ret_op ())"

definition turn_failed :: "world \<Rightarrow> message \<Rightarrow> message list \<Rightarrow> string \<Rightarrow> released loop_op" where
  "turn_failed w m ms completed_at =
     bind_op (fold_op (\<lambda>one. bind_op (reread w one) (\<lambda>x.
         bind_op (on_store (store_set_disposition (w_platform w) x Permanent_Error)) (\<lambda>_.
           complete_one w completed_at one))) ms) (\<lambda>_.
       bind_op (on_box (write_latch (w_platform w) (w_account w) (w_kind w) (Fault ''TURN_FAILED'' (message_id m)))) throw_op)"

definition release_turn ::
  "world \<Rightarrow> message list \<Rightarrow> string \<Rightarrow> json \<Rightarrow> bool \<Rightarrow> string option \<Rightarrow> released loop_op" where
  "release_turn w ms unit_id thread reissue release_id =
     (case ms of
        [] \<Rightarrow> throw_op Type_Error
      | m # _ \<Rightarrow>
          (let rid = (case release_id of None \<Rightarrow> release_id_for m | Some r \<Rightarrow> r); ids = map message_id ms in
           bind_op (build_input w ms rid thread) (\<lambda>input.
           bind_op (if reissue then ret_op ()
                    else bind_op (now_text w) (\<lambda>released_at. fold_op (write_release w released_at thread rid) ms)) (\<lambda>_.
           bind_op (admitted w ''/turn-start'' [(''releaseId'', JStr rid), (''unit'', JStr unit_id),
               (''sourceIds'', JArr (map JStr ids))]) (\<lambda>_.
           bind_op (finally_op (take_turn w unit_id thread rid input rid)
                      (admitted w ''/turn-end'' [(''releaseId'', JStr rid)])) (\<lambda>(result, completed_at).
             if tr_status result = Some (JStr ''failed'') then turn_failed w m ms completed_at
             else if \<not> completed result then
               ret_op \<lparr>ro_message_ids = ids, ro_release_id = rid, ro_status = tr_status result,
                 ro_turn_id = tr_turn_id result, ro_reply = None, ro_teach_check = None\<rparr>
             else
               bind_op (ensure_reply w m ms unit_id thread rid result) (\<lambda>reply.
               bind_op (ensure_teach_check w m unit_id thread rid) (\<lambda>teach.
               bind_op (fold_op (complete_certain w completed_at) ms) (\<lambda>_.
                 ret_op \<lparr>ro_message_ids = ids, ro_release_id = rid, ro_status = tr_status result,
                   ro_turn_id = tr_turn_id result, ro_reply = Some reply, ro_teach_check = Some teach\<rparr>)))))))))"

text \<open>\<open>None\<close> is \<open>null\<close>: nothing was released.\<close>

definition release_one ::
  "world \<Rightarrow> message list \<Rightarrow> bool \<Rightarrow> string option \<Rightarrow> string option \<Rightarrow> released option loop_op" where
  "release_one w ms reissue release_id unit_id =
     (case ms of
        [] \<Rightarrow> throw_op Type_Error
      | m # _ \<Rightarrow>
          bind_op (case unit_id of Some u \<Rightarrow> ret_op u
                   | None \<Rightarrow> read_op (\<lambda>l. unit_id_for (w_platform w) (w_declaration w) m)) (\<lambda>unit_id'.
          bind_op (thread_for w unit_id') (\<lambda>thread.
          bind_op (get_op lp_hold) (\<lambda>holding.
            if holding \<noteq> [] then ret_op None
            else
              bind_op (check_provider_proxy w) (\<lambda>proxy.
                if proxy \<noteq> [] then ret_op None
                else
                  bind_op (sync_collected_or_hold w ms) (\<lambda>synced.
                    if \<not> synced then ret_op None
                    else bind_op (release_turn w ms unit_id' thread reissue release_id) (\<lambda>r. ret_op (Some r))))))))"

section \<open>The release pass\<close>

datatype group_key =
    Reissue_Key string
  | Mention_Key string int
  | Quiet_Key string string

record release_group =
  rg_key :: group_key
  rg_records :: "message list"
  rg_reissue :: bool
  rg_release_id :: "string option"
  rg_unit_id :: "string option"

record passed =
  pa_released :: "released list"
  pa_held :: "string list"
  pa_parked :: "string list"
  pa_holding :: "string list"

definition add_to_group :: "release_group \<Rightarrow> release_group list \<Rightarrow> release_group list" where
  "add_to_group g gs =
     (if rg_key g \<in> rg_key ` set gs
      then map (\<lambda>h. if rg_key h = rg_key g then h\<lparr>rg_records := rg_records h @ rg_records g\<rparr> else h) gs
      else gs @ [g])"

definition sequence_of :: "store \<Rightarrow> message \<Rightarrow> int option" where
  "sequence_of s m =
     (case filter (\<lambda>x. ix_conversation_id x = conversation_id m \<and> ix_message_id x = message_id m \<and> ix_revision x = revision m)
             (index_lines s) of
        [] \<Rightarrow> None | xs \<Rightarrow> Some (ix_seq (last xs)))"

text \<open>A record that has no index line comes after those that have one.\<close>

definition by_arrival :: "platform \<Rightarrow> store \<Rightarrow> message \<Rightarrow> message \<Rightarrow> int" where
  "by_arrival p s a b =
     (if by_received p a b \<noteq> 0 then by_received p a b
      else (case (sequence_of s a, sequence_of s b) of
              (Some i, Some j) \<Rightarrow> i - j | (None, None) \<Rightarrow> 0 | (None, Some _) \<Rightarrow> 1 | (Some _, None) \<Rightarrow> -1))"

type_synonym grouping = "release_group list \<times> string list \<times> string list"

definition group_fresh :: "world \<Rightarrow> message \<Rightarrow> string \<Rightarrow> release_group" where
  "group_fresh w m unit_id =
     \<lparr>rg_key = (if map_of (w_channel w) ''release'' = Some (JStr ''mention'')
                then Mention_Key (message_id m) (revision m) else Quiet_Key (conversation_id m) unit_id),
      rg_records = [m], rg_reissue = False, rg_release_id = None, rg_unit_id = Some unit_id\<rparr>"

definition group_one :: "world \<Rightarrow> int \<Rightarrow> string list \<Rightarrow> grouping \<Rightarrow> message \<Rightarrow> grouping loop_op" where
  "group_one w now reissued acc m =
     (let (groups, held, parked) = acc in
      if open_release m \<and> turn_id_of m \<in> set reissued then
        ret_op (add_to_group \<lparr>rg_key = Reissue_Key (turn_id_of m), rg_records = [m], rg_reissue = True,
          rg_release_id = Some (turn_id_of m), rg_unit_id = None\<rparr> groups, held, parked)
      else
        bind_op (reads (\<lambda>s. release_decision (w_platform w) (w_channel w) s m now)) (\<lambda>(ok, reason).
          if \<not> ok then
            ret_op (groups, if reason = ''held'' \<or> reason = ''not-yet-quiet'' then held @ [message_id m] else held, parked)
          else
            (case unit_id_for (w_platform w) (w_declaration w) m of
               Inr unit_id \<Rightarrow> ret_op (add_to_group (group_fresh w m unit_id) groups, held, parked)
             | Inl e \<Rightarrow>
                 if ends_the_process e then throw_op e
                 else bind_op (park_with w (faults_of e) None m) (\<lambda>_. ret_op (groups, held, parked @ [message_id m])))))"

definition close_parked :: "world \<Rightarrow> fault list \<Rightarrow> message \<Rightarrow> unit loop_op" where
  "close_parked w faults m =
     bind_op (park_with w faults None m) (\<lambda>_.
       bind_op (reads (store_read (w_platform w) (conversation_id m) (message_id m) (revision m))) (\<lambda>found.
         case found of
           Some x \<Rightarrow>
             if release x \<noteq> None \<and> list_ex (\<lambda>f. starts_with ''PROGRAM_'' (code f)) faults
             then bind_op (now_text w) (\<lambda>completed_at. complete_one w completed_at x) else ret_op ()
         | None \<Rightarrow> ret_op ()))"

text \<open>What became of one group: released or held, or parked by a fault of its own.\<close>

definition try_release :: "world \<Rightarrow> release_group \<Rightarrow> (released option option) loop_op" where
  "try_release w g =
     catch_op
       (bind_op (release_one w (rg_records g) (rg_reissue g) (rg_release_id g) (rg_unit_id g)) (\<lambda>r. ret_op (Some r)))
       (\<lambda>e. let routed = parkable_program_fault e in
            if ends_the_process routed then throw_op routed
            else bind_op (fold_op (close_parked w (faults_of routed)) (rg_records g)) (\<lambda>_. ret_op None))"

definition reread_status :: "world \<Rightarrow> unit loop_op" where
  "reread_status w =
     bind_op (get_op (\<lambda>l. map snd (lp_threads l))) (\<lambda>threads.
       read_tool_server_status w (case threads of [] \<Rightarrow> JNull | t # _ \<Rightarrow> t))"

definition group_ids :: "release_group \<Rightarrow> string list" where
  "group_ids g = map message_id (rg_records g)"

fun release_groups :: "world \<Rightarrow> release_group list \<Rightarrow> passed \<Rightarrow> passed loop_op" where
  "release_groups w [] acc = ret_op acc"
| "release_groups w (g # gs) acc =
     bind_op (get_op (w_stopping w)) (\<lambda>stop.
       if stop then ret_op acc
       else
         bind_op (try_release w g) (\<lambda>outcome.
           case outcome of
             None \<Rightarrow> release_groups w gs (acc\<lparr>pa_parked := pa_parked acc @ group_ids g\<rparr>)
           | Some None \<Rightarrow> release_groups w gs (acc\<lparr>pa_held := pa_held acc @ group_ids g\<rparr>)
           | Some (Some r) \<Rightarrow>
               bind_op (get_op lp_status_stale) (\<lambda>stale.
                 if \<not> stale then release_groups w gs (acc\<lparr>pa_released := pa_released acc @ [r]\<rparr>)
                 else
                   bind_op (reread_status w) (\<lambda>_.
                     bind_op (get_op lp_hold) (\<lambda>holding.
                       if holding \<noteq> [] then ret_op (acc\<lparr>pa_released := pa_released acc @ [r]\<rparr>)
                       else release_groups w gs (acc\<lparr>pa_released := pa_released acc @ [r]\<rparr>))))))"

definition holding_subjects :: "loop \<Rightarrow> string list" where
  "holding_subjects l = map subject (lp_hold l @ lp_proxy l @ lp_records l)"

definition waiting :: "message list \<Rightarrow> string list" where
  "waiting ms = map message_id (filter (\<lambda>m. direction m = Inbound \<and> release m = None \<and> \<not> historical m) ms)"

definition release_candidates :: "world \<Rightarrow> int \<Rightarrow> string list \<Rightarrow> grouping loop_op" where
  "release_candidates w now reissued =
     bind_op (reads (store_rebuild (w_platform w))) (\<lambda>ms.
       bind_op (get_op (\<lambda>l. sort_cmp (by_arrival (w_platform w) (lp_store l)) (filter (\<lambda>m. direction m = Inbound) ms)))
         (walk_op (group_one w now reissued) ([], [], [])))"

definition release_pass :: "world \<Rightarrow> string list \<Rightarrow> passed loop_op" where
  "release_pass w reissued =
     bind_op (get_op (\<lambda>l. lp_status_stale l \<and> lp_threads l \<noteq> [])) (\<lambda>stale.
     bind_op (if stale then reread_status w else ret_op ()) (\<lambda>_.
     bind_op (check_provider_proxy w) (\<lambda>_.
     bind_op (get_op (\<lambda>l. lp_hold l @ lp_proxy l)) (\<lambda>holding.
       if holding \<noteq> [] then
         bind_op (reads (store_rebuild (w_platform w))) (\<lambda>ms.
           ret_op \<lparr>pa_released = [], pa_held = waiting ms, pa_parked = [], pa_holding = map subject holding\<rparr>)
       else
         bind_op (tick w) (\<lambda>now.
         bind_op (release_candidates w now reissued) (\<lambda>(groups, held, parked).
         bind_op (release_groups w groups
             \<lparr>pa_released = [], pa_held = held, pa_parked = parked, pa_holding = []\<rparr>) (\<lambda>acc.
         bind_op (get_op holding_subjects) (\<lambda>subjects. ret_op (acc\<lparr>pa_holding := subjects\<rparr>)))))))))"

section \<open>Deliver\<close>

definition record_sent :: "world \<Rightarrow> message \<Rightarrow> unit loop_op" where
  "record_sent w m =
     bind_op (tick w) (\<lambda>_.
       bind_op (get_op (\<lambda>l. record_sent_action (w_platform w) (w_serve w l) (w_receipt w) m)) on_store)"

definition finish_receipt :: "world \<Rightarrow> message \<Rightarrow> unit loop_op" where
  "finish_receipt w m =
     (if direction m = Outbound \<and> status_is ''sent'' m \<and> claim_of m \<noteq> None
         \<and> \<not> truthy (map_of (fields_of m) ''action_recorded_at'')
      then record_sent w m else ret_op ())"

definition answered_by :: "string \<Rightarrow> message \<Rightarrow> bool" where
  "answered_by rid m \<longleftrightarrow> direction m = Inbound \<and> open_release m \<and> turn_id_of m = rid"

definition send_one :: "world \<Rightarrow> message \<Rightarrow> (exn + send_result) loop_op" where
  "send_one w m =
     bind_op (get_op (\<lambda>l. w_send w l m)) (\<lambda>r.
       bind_op (modify_op (\<lambda>l. l\<lparr>lp_sends := lp_sends l @ [m]\<rparr>)) (\<lambda>_. bind_op (tick w) (\<lambda>_. ret_op r)))"

definition settle_sent :: "world \<Rightarrow> message \<Rightarrow> send_result \<Rightarrow> unit loop_op" where
  "settle_sent w m r =
     bind_op (on_store (store_mark_sent (w_platform w) (request_of m) (case sr_chunk_ids r of None \<Rightarrow> [] | Some c \<Rightarrow> c))) (\<lambda>confirmed.
       if claim_of confirmed \<noteq> None then record_sent w confirmed else ret_op ())"

definition complete_answered :: "world \<Rightarrow> message \<Rightarrow> unit loop_op" where
  "complete_answered w m =
     bind_op (now_text w) (\<lambda>completed_at.
       bind_op (reads (store_records_in (w_platform w) (conversation_id m))) (\<lambda>ms.
         fold_op (complete_certain w completed_at) (filter (answered_by (request_of m)) ms)))"

type_synonym delivered = "(string \<times> json option) list"

definition deliver_one :: "world \<Rightarrow> delivered \<Rightarrow> message \<Rightarrow> delivered loop_op" where
  "deliver_one w acc m =
     (if direction m \<noteq> Outbound \<or> \<not> status_is ''pending'' m then ret_op acc
      else
        bind_op (send_one w m) (\<lambda>outcome.
          case outcome of
            Inl e \<Rightarrow>
              bind_op (on_store (store_mark_unknown (w_platform w) (request_of m))) (\<lambda>_.
                ret_op (acc @ [(request_of m, Some (JStr ''unknown''))]))
          | Inr r \<Rightarrow>
              (let st = sr_status r in
               bind_op
                 (if st = Some (JStr ''sent'') then settle_sent w m r
                  else if st = Some (JStr ''unknown'')
                  then bind_op (on_store (store_mark_unknown (w_platform w) (request_of m))) (\<lambda>_. ret_op ())
                  else bind_op (on_store (store_mark_failed (w_platform w) (request_of m))) (\<lambda>_. ret_op ()))
                 (\<lambda>_. bind_op (if st = Some (JStr ''sent'') then complete_answered w m else ret_op ())
                    (\<lambda>_. ret_op (acc @ [(request_of m, st)]))))))"

definition deliver :: "world \<Rightarrow> delivered loop_op" where
  "deliver w =
     bind_op (reads (store_rebuild (w_platform w))) (\<lambda>before.
       bind_op (fold_op (finish_receipt w) before) (\<lambda>_.
         bind_op (reads (store_rebuild (w_platform w))) (\<lambda>ms.
           walk_op (deliver_one w) [] ms)))"

section \<open>One pass\<close>

record pass_result =
  ps_captured :: "message list"
  ps_passed :: passed
  ps_delivered :: delivered
  ps_poll :: polled

definition pass_op :: "world \<Rightarrow> json list \<Rightarrow> pass_result loop_op" where
  "pass_op w handed =
     bind_op (poll_pass w handed) (\<lambda>polled.
       if pl_holding polled then
         ret_op \<lparr>ps_captured = [],
           ps_passed = \<lparr>pa_released = [], pa_held = [], pa_parked = [], pa_holding = [channel_subject (w_platform w) (w_channel w)]\<rparr>,
           ps_delivered = [], ps_poll = polled\<rparr>
       else
         bind_op (capture_pass w (pl_items polled)) (\<lambda>(captured, parked).
         bind_op (get_op (\<lambda>l. case lp_recovering l of None \<Rightarrow> [] | Some rv \<Rightarrow> rv_reissue rv)) (\<lambda>reissued.
         bind_op (modify_op (\<lambda>l. l\<lparr>lp_recovering := None\<rparr>)) (\<lambda>_.
         bind_op (release_pass w reissued) (\<lambda>passed.
         bind_op (deliver w) (\<lambda>delivered.
           ret_op \<lparr>ps_captured = captured, ps_passed = passed\<lparr>pa_parked := parked @ pa_parked passed\<rparr>,
             ps_delivered = delivered, ps_poll = polled\<rparr>))))))"

end
