(* ===== verification/Loop_Inv.thy ===== *)
theory Loop_Inv
  imports Loop_Pass
begin

text \<open>
  Every operation of the release loop reaches the store through the store's own operations: the
  whole pass and the whole recovery evolve the store, whatever the harness, the channel and the
  model do. The interpretations give what the store library promises of every operation.
\<close>

section \<open>Rules\<close>

lemma keeps_call [keeps_rules]:
  assumes "\<And>a. stays R (f1 a)" "\<And>a. stays R (f2 a)" "\<And>a. stays R (f3 a)" "\<And>a. stays R (f4 a)"
  shows "stays R (case c of Reply_Call a \<Rightarrow> f1 a | Remember_Call a \<Rightarrow> f2 a | Raise_Call a \<Rightarrow> f3 a | Forget_Call a \<Rightarrow> f4 a)"
  using assms by (cases c) simp_all

lemma keeps_raw_attachment [keeps_rules]:
  assumes "\<And>a b c. stays R (f1 a b c)" "\<And>a. stays R (f2 a)"
  shows "stays R (case x of File_Bytes a b c \<Rightarrow> f1 a b c | Plain_Attachment a \<Rightarrow> f2 a)"
  using assms by (cases x) simp_all

text \<open>What every part of a pass but the sending of a record does: the store only evolves, and neither
  the list of sent records nor what was recovered changes.\<close>

definition quiet :: "world \<Rightarrow> loop \<Rightarrow> loop \<Rightarrow> bool" where
  "quiet w l l' \<longleftrightarrow> evolution (w_platform w) lp_store l l'
     \<and> lp_sends l' = lp_sends l \<and> lp_recovering l' = lp_recovering l"

interpretation quieting: preserved "quiet w" for w
  by unfold_locales (auto simp: quiet_def intro: evolving.stays_refl elim: evolving.stays_trans)

lemmas quieting_rules [keeps_rules] = quieting.rules

abbreviation keeps_loop :: "world \<Rightarrow> 'a loop_op \<Rightarrow> bool" where
  "keeps_loop w \<equiv> stays (quiet w)"

lemma quietI:
  assumes "\<And>l. lp_sends (snd (m l)) = lp_sends l" "\<And>l. lp_recovering (snd (m l)) = lp_recovering l"
    and "keeps (w_platform w) lp_store m"
  shows "keeps_loop w m"
  using assms by (simp add: stays_def quiet_def)

lemma quiet_keeps: "keeps_loop w m \<Longrightarrow> keeps (w_platform w) lp_store m"
  by (simp add: stays_def quiet_def)

lemma quiet_leaves: "keeps_loop w m \<Longrightarrow> leaves lp_sends m" "keeps_loop w m \<Longrightarrow> leaves lp_recovering m"
  by (simp_all add: stays_def quiet_def same_def)

lemma keeps_on_store [keeps_rules]:
  assumes "keeps (w_platform w) (\<lambda>s. s) m" shows "keeps_loop w (on_store m)"
proof (rule quietI)
  show "keeps (w_platform w) lp_store (on_store m)"
    unfolding on_store_def by (rule keeps_zoom [OF assms]) (simp_all add: put_store_def)
qed (simp_all add: on_store_def zoom_def put_store_def split: prod.split)

lemma keeps_on_box [keeps_rules]:
  assumes "keeps (w_platform w) bx_store m" shows "keeps_loop w (on_box m)"
proof (rule quietI)
  show "keeps (w_platform w) lp_store (on_box m)"
    unfolding on_box_def by (rule keeps_zoom [OF assms]) (simp_all add: put_box_def)
qed (simp_all add: on_box_def zoom_def put_box_def split: prod.split)

lemma keeps_reads [keeps_rules]: "keeps_loop w (reads f)"
  unfolding reads_def by (rule quieting.basic)

lemma keeps_fields [keeps_rules]:
  "keeps_loop w (modify_op (\<lambda>l. l\<lparr>lp_status_read := b\<rparr>))"
  "keeps_loop w (modify_op (\<lambda>l. l\<lparr>lp_hold := h l, lp_status_stale := st l\<rparr>))"
  "keeps_loop w (modify_op (\<lambda>l. l\<lparr>lp_proxy := pr l\<rparr>))"
  "keeps_loop w (modify_op (\<lambda>l. l\<lparr>lp_threads := th l\<rparr>))"
  "keeps_loop w (modify_op (\<lambda>l. l\<lparr>lp_status_stale := st l\<rparr>))"
  "keeps_loop w (modify_op (\<lambda>l. l\<lparr>lp_release := r\<rparr>))"
  "keeps_loop w (modify_op (\<lambda>l. l\<lparr>lp_synced := b\<rparr>))"
  "keeps_loop w (modify_op (\<lambda>l. l\<lparr>lp_records := fs\<rparr>))"
  by (rule quietI; (rule keeps_modify)?; simp)+

lemma keeps_tick [keeps_rules]: "keeps_loop w (tick w')"
proof (rule quietI)
  show "keeps (w_platform w) lp_store (tick w')"
  proof (rule keepsI)
    fix l
    have "same_files (lp_store l) (lp_store (snd (tick w' l)))"
      by (simp add: tick_def bind_op_def put_store_def same_files_def)
    then show "evolves (w_platform w) (lp_store l) (lp_store (snd (tick w' l)))" by (rule same_files_evolves)
  qed
qed (simp_all add: tick_def bind_op_def put_store_def)

lemma keeps_now [keeps_rules]: "keeps_loop w (now_text w')"
  unfolding now_text_def by (intro keeps_rules)

section \<open>The channel's files\<close>

lemma store_write_channel_state [simp]: "bx_store (snd (write_channel_state p acct kind patch b)) = bx_store b"
  by (simp add: write_channel_state_def Let_def split: sum.split)

lemma snd_case_outcome: "snd (case x of (Inl e, b) \<Rightarrow> (Inl e, b) | (Inr y, b) \<Rightarrow> (Inr z, b)) = snd x"
  by (cases x; cases "fst x") auto

lemma keeps_polls [keeps_rules]:
  "keeps p bx_store (record_poll_success p' acct kind t n transport)"
  "keeps p bx_store (record_poll_failure p' acct kind t c threshold transport)"
  by (rule keeps_unchanged, unfold record_poll_success_def record_poll_failure_def Let_def snd_case_outcome, simp)+

lemma keeps_latch [keeps_rules]: "keeps p bx_store (write_latch p' acct kind c)"
  by (rule keeps_unchanged) (simp add: write_latch_def split: sum.split)

section \<open>A turn\<close>

lemma keeps_status [keeps_rules]: "keeps_loop w (read_tool_server_status w thread)"
  unfolding read_tool_server_status_def by (intro keeps_rules)

lemma keeps_proxy [keeps_rules]: "keeps_loop w (check_provider_proxy w)"
  unfolding check_provider_proxy_def by (intro keeps_rules)

lemma keeps_deny [keeps_rules]: "keeps_loop w (check_deny w)"
  unfolding check_deny_def by (intro keeps_rules)

lemma keeps_thread [keeps_rules]: "keeps_loop w (thread_for w unit_id)"
  unfolding thread_for_def open_fresh_thread_def by (intro keeps_rules)

lemma keeps_handled [keeps_rules]:
  "keeps p (\<lambda>s. s) m \<Longrightarrow> keeps p (\<lambda>s. s) (handled m)" for p and m :: "'a store_op"
  unfolding handled_def by (intro keeps_rules)

lemma keeps_reply_call [keeps_rules]: "keeps (w_platform w) (\<lambda>s. s) (reply_call w l a)"
  unfolding reply_call_def by (intro keeps_rules)

lemma keeps_teach_call [keeps_rules]: "keeps (w_platform w) (\<lambda>s. s) (teach_call w l c)"
  unfolding teach_call_def by (intro keeps_rules)

lemma keeps_tool_call [keeps_rules]: "keeps_loop w (tool_call w c)"
proof -
  have "keeps_loop w (\<lambda>l. on_store (case c of Reply_Call a \<Rightarrow> handled (reply_call w l a) | _ \<Rightarrow> teach_call w l c) l)"
    by (rule stays_diagonal) (intro keeps_rules)
  then show ?thesis by (simp add: tool_call_def [abs_def])
qed

lemma keeps_turn_of [keeps_rules]: "keeps_loop w (turn_of w q)"
  unfolding turn_of_def by (intro keeps_rules)

lemma keeps_after_turn [keeps_rules]: "keeps_loop w (after_turn w)"
  unfolding after_turn_def by (intro keeps_rules)

lemma keeps_take_turn [keeps_rules]: "keeps_loop w (take_turn w unit_id thread rid input client_id)"
  unfolding take_turn_def by (intro keeps_rules)

lemma keeps_reread [keeps_rules]: "keeps_loop w (reread w m)"
  unfolding reread_def by (intro keeps_rules)

lemma keeps_marks [keeps_rules]:
  "keeps_loop w (has_outbound w m rid)" "keeps_loop w (mark_reply_outcome w ms outcome)" "keeps_loop w (park_with w fs reason m)"
  "keeps_loop w (park_at_gate w fs m)" "keeps_loop w (complete_one w at' m)" "keeps_loop w (complete_certain w at' m)"
  unfolding has_outbound_def mark_reply_outcome_def park_with_def park_at_gate_def complete_one_def complete_certain_def
  by (intro keeps_rules)+

lemma keeps_submit [keeps_rules]: "keeps_loop w (submit_program_reply w ms reply)"
  unfolding submit_program_reply_def by (rule quieting.catch) (rule stays_get, (intro keeps_rules)+)

lemma keeps_program_reply [keeps_rules]: "keeps_loop w (apply_program_reply w m ms rid result)"
  unfolding apply_program_reply_def by (intro keeps_rules)

lemma keeps_ensure_reply [keeps_rules]: "keeps_loop w (ensure_reply w m ms unit_id thread rid result)"
  unfolding ensure_reply_def by (intro keeps_rules)

lemma keeps_teach_parts [keeps_rules]:
  "keeps_loop w (held_reply w m rid)" "keeps_loop w (recorded_this_release w rid)" "keeps_loop w (let_go w rid outcome)"
  unfolding held_reply_def recorded_this_release_def let_go_def by (intro keeps_rules)+

lemma keeps_program_teach_check [keeps_rules]: "keeps_loop w (program_teach_check w m rid)"
  unfolding program_teach_check_def by (intro keeps_rules)

lemma keeps_teach_check [keeps_rules]: "keeps_loop w (ensure_teach_check w m unit_id thread rid)"
  unfolding ensure_teach_check_def by (intro keeps_rules)

section \<open>A pass\<close>

lemma keeps_poll_pass [keeps_rules]: "keeps_loop w (poll_pass w handed)"
  unfolding poll_pass_def by (intro keeps_rules)

lemma keeps_recover_parts [keeps_rules]:
  "keeps_loop w (quarantine w m)" "keeps_loop w (finish_answered w rid at' rv m)" "keeps_loop w (classify w all rv g)"
  unfolding quarantine_def classify_def finish_answered_def by (intro keeps_rules)+

lemma keeps_recover [keeps_rules]: "keeps_loop w (recover w)"
  unfolding recover_def by (intro keeps_rules)

lemma keeps_capture_parts [keeps_rules]:
  "keeps_loop w (put_raw_attachment w m a)" "keeps_loop w (consume_item w item)" "keeps_loop w (park_entry w pe)"
  unfolding put_raw_attachment_def consume_item_def park_entry_def
  by (intro keeps_rules)+

lemma keeps_capture_entry [keeps_rules]: "keeps_loop w (capture_entry w c)"
  unfolding capture_entry_def by (intro keeps_rules)

lemma keeps_capture_pass [keeps_rules]: "keeps_loop w (capture_pass w items)"
  unfolding capture_pass_def by (intro keeps_rules)

lemma keeps_collect_one [keeps_rules]: "keeps_loop w (collect_one w m)"
  unfolding collect_one_def by (intro keeps_rules)

lemma keeps_sync [keeps_rules]: "keeps_loop w (sync_collected_or_hold w ms)"
  unfolding sync_collected_or_hold_def sync_collected_def by (intro keeps_rules)

lemma keeps_release_parts [keeps_rules]:
  "keeps_loop w (build_input w ms rid thread)" "keeps_loop w (write_release w at' thread rid m)"
  "keeps_loop w (admitted w route payload)" "keeps_loop w (turn_failed w m ms at')"
  unfolding build_input_def write_release_def admitted_def turn_failed_def by (intro keeps_rules)+

lemma keeps_release_turn [keeps_rules]: "keeps_loop w (release_turn w ms unit_id thread reissue rid)"
  unfolding release_turn_def by (intro keeps_rules)

lemma keeps_release_one [keeps_rules]: "keeps_loop w (release_one w ms reissue rid unit_id)"
  unfolding release_one_def by (intro keeps_rules)

lemma keeps_close_parked [keeps_rules]: "keeps_loop w (close_parked w fs m)"
  unfolding close_parked_def by (intro keeps_rules)

lemma keeps_try_release [keeps_rules]: "keeps_loop w (try_release w g)"
  unfolding try_release_def by (intro keeps_rules)

lemma keeps_reread_status [keeps_rules]: "keeps_loop w (reread_status w)"
  unfolding reread_status_def by (intro keeps_rules)

lemma keeps_release_groups [keeps_rules]: "keeps_loop w (release_groups w gs acc)"
proof (induction gs arbitrary: acc)
  case (Cons g gs)
  show ?case
    unfolding release_groups.simps by (intro keeps_rules Cons.IH)
qed (simp, intro keeps_rules)

lemma keeps_group_one [keeps_rules]: "keeps_loop w (group_one w now reissued acc m)"
  unfolding group_one_def by (intro keeps_rules)

lemma keeps_release_pass [keeps_rules]: "keeps_loop w (release_pass w reissued)"
  unfolding release_pass_def release_candidates_def by (intro keeps_rules)

lemma keeps_loop_record_sent [keeps_rules]: "keeps_loop w (record_sent w m)"
  unfolding record_sent_def by (rule quieting.bind, rule keeps_tick, rule stays_get, intro keeps_rules)

lemma keeps_deliver_parts [keeps_rules]:
  "keeps_loop w (finish_receipt w m)" "keeps_loop w (settle_sent w m r)" "keeps_loop w (complete_answered w m)"
  unfolding finish_receipt_def settle_sent_def complete_answered_def by (intro keeps_rules)+

lemma keeps_send_one: "keeps (w_platform w) lp_store (send_one w m)"
proof -
  have "keeps (w_platform w) lp_store (modify_op (\<lambda>l. l\<lparr>lp_sends := lp_sends l @ [m]\<rparr>))" by (rule keeps_modify) simp
  then show ?thesis
    unfolding send_one_def by (intro evolving.rules quiet_keeps [OF keeps_tick])
qed

lemma keeps_deliver: "keeps (w_platform w) lp_store (deliver w)"
proof -
  have "keeps (w_platform w) lp_store (deliver_one w acc m)" for acc m
    unfolding deliver_one_def Let_def
    by (rule stays_if, rule evolving.basic, rule evolving.bind, rule keeps_send_one, rule quiet_keeps) (intro keeps_rules)
  moreover have "keeps (w_platform w) lp_store (fold_op (finish_receipt w) ms)"
    "keeps (w_platform w) lp_store (reads f)" for ms and f :: "store \<Rightarrow> exn + message list"
    by (rule quiet_keeps, intro keeps_rules)+
  ultimately show ?thesis
    unfolding deliver_def by (intro evolving.bind evolving.walk)
qed

lemma keeps_pass: "keeps (w_platform w) lp_store (pass_op w handed)"
proof -
  have "keeps (w_platform w) lp_store (modify_op (\<lambda>l. l\<lparr>lp_recovering := rv\<rparr>))" for rv
    by (rule keeps_modify) simp
  moreover have "keeps (w_platform w) lp_store (poll_pass w handed)" "keeps (w_platform w) lp_store (capture_pass w items)"
    "keeps (w_platform w) lp_store (release_pass w reissued)" for items reissued
    by (rule quiet_keeps, intro keeps_rules)+
  ultimately show ?thesis
    unfolding pass_op_def by (intro evolving.bind evolving.basic stays_if stays_prod keeps_deliver)
qed

section \<open>Interpretations\<close>

interpretation passing: store_operation "w_platform w" lp_store "pass_op w handed"
  by unfold_locales (rule keepsD [OF keeps_pass])

interpretation recovering: store_operation "w_platform w" lp_store "recover w"
  by unfold_locales (rule keepsD [OF quiet_keeps [OF keeps_recover]])

interpretation delivering: store_operation "w_platform w" lp_store "deliver w"
  by unfold_locales (rule keepsD [OF keeps_deliver])

interpretation turning: store_operation "w_platform w" lp_store "take_turn w unit_id thread rid input client_id"
  by unfold_locales (rule keepsD [OF quiet_keeps [OF keeps_take_turn]])

end
