(* ===== verification/Loop_Props.thy ===== *)
theory Loop_Props
  imports Loop_Inv Channel_Props
begin

text \<open>
  What the release loop guarantees, for every harness, channel and model: a pass and a recovery lose
  nothing the store holds; when a record may go to the model; a held channel is left alone; what a
  restart owes; what is handed to the channel and what becomes of it; when a reply is held back.
\<close>

section \<open>Running an operation\<close>

lemma catch_op_Inr:
  "catch_op m h s = (Inr y, s'') \<longleftrightarrow>
     m s = (Inr y, s'') \<or> (\<exists>e s'. m s = (Inl e, s') \<and> h e s' = (Inr y, s''))"
  by (auto simp: catch_op_def split: prod.split sum.split)

lemma on_store_Inr:
  "on_store m l = (Inr y, l') \<longleftrightarrow> (\<exists>s'. m (lp_store l) = (Inr y, s') \<and> l' = put_store s' l)"
  by (auto simp: on_store_def zoom_def split: prod.split)

lemma reads_Inr: "reads f l = (Inr y, l') \<longleftrightarrow> f (lp_store l) = Inr y \<and> l' = l"
  by (auto simp: reads_def)

section \<open>Nothing is lost\<close>


section \<open>When a record may go to the model\<close>

definition policy_allows :: "platform \<Rightarrow> members \<Rightarrow> store \<Rightarrow> message \<Rightarrow> int \<Rightarrow> bool" where
  "policy_allows p ch s m now \<longleftrightarrow>
     (if map_of ch ''release'' = Some (JStr ''quiet'')
      then map_of ch ''quiet_ms'' = Some (JInt 0)
         \<or> (\<exists>ms. store_records_in p (conversation_id m) s = Inr ms
              \<and> at_least (now - newest_inbound p ms) (map_of ch ''quiet_ms''))
      else map_of ch ''release'' = Some (JStr ''mention'') \<and> js_includes (string_of p (map_of ch ''mention'')) (body m))"

lemma policy_decision_iff:
  "(\<exists>r. policy_decision p ch s m now = Inr (True, r)) \<longleftrightarrow> policy_allows p ch s m now"
  by (auto simp: policy_decision_def policy_allows_def Let_def bind_res_Inr_iff split: if_splits)


section \<open>A held channel\<close>

lemma stores_of_polls [simp]:
  "bx_store (snd (record_poll_success p acct kind t n transport b)) = bx_store b"
  "bx_store (snd (record_poll_failure p acct kind t c threshold transport b)) = bx_store b"
  "bx_latches (snd (record_poll_success p acct kind t n transport b)) = bx_latches b"
  "bx_latches (snd (record_poll_failure p acct kind t c threshold transport b)) = bx_latches b"
  unfolding record_poll_success_def record_poll_failure_def Let_def snd_case_outcome
  by (simp_all add: write_channel_state_def Let_def split: sum.split)

definition untouched :: "loop \<Rightarrow> loop \<Rightarrow> bool" where
  "untouched l l' \<longleftrightarrow> same_files (lp_store l) (lp_store l') \<and> lp_sends l' = lp_sends l
     \<and> lp_recovering l' = lp_recovering l \<and> lp_threads l' = lp_threads l \<and> bx_latches (lp_box l') = bx_latches (lp_box l)"

interpretation touching: preserved untouched
  by unfold_locales (auto simp: untouched_def same_files_def)

lemmas touching_rules [keeps_rules] = touching.rules

lemma untouched_poll: "stays untouched (poll_pass w handed)"
proof -
  have tick: "stays untouched (tick w)"
    by (rule staysI) (simp add: tick_def bind_op_def put_store_def untouched_def same_files_def)
  have box: "stays untouched (on_box (record_poll_success p acct kind t n transport))"
    "stays untouched (on_box (record_poll_failure p acct kind t c threshold transport))" for p acct kind t n transport c threshold
    by (rule staysI, simp add: on_box_def zoom_def put_box_def untouched_def same_files_def split_beta)+
  show ?thesis
    unfolding poll_pass_def now_text_def by (intro keeps_rules tick box)
qed

lemma pass_cases:
  assumes "pass_op w handed l = (Inr r, l')"
  obtains (holding) "pl_holding (ps_poll r)" "poll_pass w handed l = (Inr (ps_poll r), l')"
      "r = \<lparr>ps_captured = [],
        ps_passed = \<lparr>pa_released = [], pa_held = [], pa_parked = [], pa_holding = [channel_subject (w_platform w) (w_channel w)]\<rparr>,
        ps_delivered = [], ps_poll = ps_poll r\<rparr>"
  | (running) parked l1 l2 l3 passed where "\<not> pl_holding (ps_poll r)" "poll_pass w handed l = (Inr (ps_poll r), l1)"
      "capture_pass w (pl_items (ps_poll r)) l1 = (Inr (ps_captured r, parked), l2)"
      "release_pass w (case lp_recovering l2 of None \<Rightarrow> [] | Some rv \<Rightarrow> rv_reissue rv) (l2\<lparr>lp_recovering := None\<rparr>) = (Inr passed, l3)"
      "deliver w l3 = (Inr (ps_delivered r), l')" "ps_passed r = passed\<lparr>pa_parked := parked @ pa_parked passed\<rparr>"
proof -
  from assms obtain polled l1 where poll: "poll_pass w handed l = (Inr polled, l1)"
    by (auto simp: pass_op_def bind_op_Inr)
  show thesis
  proof (cases "pl_holding polled")
    case True
    with assms poll have "r = \<lparr>ps_captured = [],
        ps_passed = \<lparr>pa_released = [], pa_held = [], pa_parked = [], pa_holding = [channel_subject (w_platform w) (w_channel w)]\<rparr>,
        ps_delivered = [], ps_poll = polled\<rparr>" "l' = l1"
      by (auto simp: pass_op_def bind_op_def)
    with True poll show ?thesis by (intro holding) simp_all
  next
    case False
    with assms poll obtain captured parked l2 passed l3 delivered where
      "capture_pass w (pl_items polled) l1 = (Inr (captured, parked), l2)"
      "release_pass w (case lp_recovering l2 of None \<Rightarrow> [] | Some rv \<Rightarrow> rv_reissue rv) (l2\<lparr>lp_recovering := None\<rparr>) = (Inr passed, l3)"
      "deliver w l3 = (Inr delivered, l')"
      "r = \<lparr>ps_captured = captured, ps_passed = passed\<lparr>pa_parked := parked @ pa_parked passed\<rparr>,
             ps_delivered = delivered, ps_poll = polled\<rparr>"
      by (auto simp: pass_op_def bind_op_Inr)
    with False poll show ?thesis by (intro running) simp_all
  qed
qed

text \<open>C9. A pass over a channel whose poll says it holds captures nothing, releases nothing and sends
  nothing: no file of the store changes, no thread is opened, no latch is written, and what a restart
  owes stays owed.\<close>

theorem held_channel_is_left_alone:
  assumes "pass_op w handed l = (Inr r, l')" and "pl_holding (ps_poll r)"
  shows "ps_captured r = [] \<and> pa_released (ps_passed r) = [] \<and> ps_delivered r = [] \<and> untouched l l'"
proof (intro conjI)
  from assms have r: "r = \<lparr>ps_captured = [],
        ps_passed = \<lparr>pa_released = [], pa_held = [], pa_parked = [], pa_holding = [channel_subject (w_platform w) (w_channel w)]\<rparr>,
        ps_delivered = [], ps_poll = ps_poll r\<rparr>" and poll: "poll_pass w handed l = (Inr (ps_poll r), l')"
    by (auto elim: pass_cases)
  from r show "ps_captured r = []" "pa_released (ps_passed r) = []" "ps_delivered r = []" by (metis pass_result.select_convs passed.select_convs(1))+
  from staysD [OF untouched_poll, of l w handed] poll show "untouched l l'" by simp
qed

section \<open>What a restart owes, while the proxy is down\<close>

lemma leaves_recovering_deliver: "leaves lp_recovering (deliver w)"
proof -
  have send: "leaves lp_recovering (send_one w m)" for m
    unfolding send_one_def
    by (intro leaving.rules quiet_leaves(2) [OF keeps_tick]) (rule leaves_modify, simp)
  have one: "leaves lp_recovering (deliver_one w acc m)" for acc m
    unfolding deliver_one_def Let_def
    by (rule stays_if, rule leaving.basic, rule leaving.bind, rule send, rule quiet_leaves(2) [where w = w]) (intro keeps_rules)
  have "leaves lp_recovering (fold_op (finish_receipt w) ms)" "leaves lp_recovering (reads f)"
    for ms and f :: "store \<Rightarrow> exn + message list"
    by (rule quiet_leaves(2) [where w = w], intro keeps_rules)+
  with one show ?thesis
    unfolding deliver_def by (intro leaving.bind leaving.walk)
qed

lemma release_pass_proxy_down:
  assumes "\<And>l. proxy_faults_for (w_declaration w) (w_probe w l) \<noteq> []"
    and "release_pass w reissued l = (Inr passed, l')"
  shows "pa_released passed = []"
proof -
  have "lp_proxy l2 \<noteq> []" if "check_provider_proxy w l1 = (Inr fs, l2)" for l1 l2 fs
    using that assms(1) by (auto simp: check_provider_proxy_def bind_op_def)
  with assms(2) show ?thesis
    unfolding release_pass_def by (auto simp: bind_op_Inr split: if_splits)
qed

text \<open>C10. A pass that does not hold, run while the provider proxy does not answer, releases nothing
  and forgets what the restart owed; and a record of a release that was opened and never answered is
  taken into no group by a pass that knows of nothing to re-issue. So the release is not re-issued
  when the proxy answers again, only after the next restart.\<close>

theorem reissue_is_forgotten_while_proxy_is_down:
  assumes "pass_op w handed l = (Inr r, l')" and "\<not> pl_holding (ps_poll r)"
    and "\<And>l. proxy_faults_for (w_declaration w) (w_probe w l) \<noteq> []"
  shows "pa_released (ps_passed r) = [] \<and> lp_recovering l' = None
    \<and> (release m \<noteq> None \<longrightarrow> group_one w now [] acc m l2 = (Inr acc, l2))"
proof (intro conjI impI)
  from assms(1,2) obtain l2 l3 reissued passed where
    l2: "release_pass w reissued (l2\<lparr>lp_recovering := None\<rparr>) = (Inr passed, l3)" "deliver w l3 = (Inr (ps_delivered r), l')"
    and r: "pa_released (ps_passed r) = pa_released passed"
    by (auto elim: pass_cases)
  from release_pass_proxy_down [OF assms(3) l2(1)] r show "pa_released (ps_passed r) = []" by simp
  from leaves_outcome [OF quiet_leaves(2) [OF keeps_release_pass] l2(1)] leaves_outcome [OF leaves_recovering_deliver l2(2)]
  show "lp_recovering l' = None" by simp
  show "group_one w now [] acc m l2 = (Inr acc, l2)" if "release m \<noteq> None" for l2
    using that
    by (cases acc) (auto simp: group_one_def release_decision_def bind_op_def reads_def Let_def)
qed

section \<open>Delivery\<close>

definition settled_status :: "string \<Rightarrow> bool" where
  "settled_status st \<longleftrightarrow> st \<in> {''sent'', ''unknown'', ''failed''}"

definition settled :: "platform \<Rightarrow> string \<Rightarrow> store \<Rightarrow> bool" where
  "settled p rid s \<longleftrightarrow> (\<exists>q. store_read_request p rid s = Inr (Some q) \<and> settled_status (req_status q))"

text \<open>No settled request becomes unsettled.\<close>

definition settling :: "platform \<Rightarrow> store \<Rightarrow> store \<Rightarrow> bool" where
  "settling p s s' \<longleftrightarrow> (\<forall>rid. settled p rid s \<longrightarrow> settled p rid s')"

interpretation store_settling: preserved "settling p" for p
  by unfold_locales (auto simp: settling_def)

lemmas settling_rules [keeps_rules] = store_settling.rules

lemma requests_publish [simp]: "request_files (store_publish m kind c s) = request_files s"
  by (simp add: store_publish_def Let_def)

lemma requests_write_record [simp]: "request_files (write_record k m s) = request_files s"
  by (simp add: write_record_def)

lemma settle_requests:
  "(\<exists>e. fst (store_settle_delivery p rid st chs at' s) = Inl e)
       \<and> request_files (snd (store_settle_delivery p rid st chs at' s)) = request_files s
   \<or> (\<exists>m q file. fst (store_settle_delivery p rid st chs at' s) = Inr m \<and> store_request_file p rid = Inr file
       \<and> req_status q = st
       \<and> request_files (snd (store_settle_delivery p rid st chs at' s)) = AList.update file q (request_files s))"
  by (simp add: store_settle_delivery_def Let_def split_beta split: sum.split option.split)
     (intro conjI allI impI; rule exI, rule conjI [rotated], rule refl, simp)

lemma settling_same: "request_files s' = request_files s \<Longrightarrow> settling p s s'"
  by (simp add: settling_def settled_def store_read_request_def)

lemma settled_update:
  "settled_status (req_status q) \<Longrightarrow> request_files s' = AList.update file q (request_files s)
     \<Longrightarrow> settled p rid s \<or> store_request_file p rid = Inr file \<Longrightarrow> settled p rid s'"
  by (auto simp: settled_def store_read_request_def bind_res_def split: sum.splits)

lemma settling_settle:
  assumes "settled_status st"
  shows "stays (settling p) (store_settle_delivery p rid st chs at')"
proof (rule staysI)
  fix s
  show "settling p s (snd (store_settle_delivery p rid st chs at' s))"
    using settle_requests [of p rid st chs at' s]
  proof (elim disjE conjE exE)
    assume "request_files (snd (store_settle_delivery p rid st chs at' s)) = request_files s"
    then show ?thesis by (rule settling_same)
  next
    fix q k
    assume "req_status q = st" "request_files (snd (store_settle_delivery p rid st chs at' s)) = AList.update k q (request_files s)"
    with assms show ?thesis unfolding settling_def by (blast intro: settled_update)
  qed
qed

lemma settle_settles:
  assumes "store_settle_delivery p rid st chs at' s = (Inr m, s')" "settled_status st"
  shows "settled p rid s'"
proof -
  from settle_requests [of p rid st chs at' s] assms(1) obtain q k where
    "store_request_file p rid = Inr k" "req_status q = st" "request_files s' = AList.update k q (request_files s)"
    by auto
  with settled_update [of q s' k s p rid] assms(2) show ?thesis by simp
qed

lemma settling_marks [keeps_rules]:
  "stays (settling p) (store_mark_sent p rid chs)" "stays (settling p) (store_mark_unknown p rid)"
  "stays (settling p) (store_mark_failed p rid)"
  unfolding store_mark_sent_def [abs_def] store_mark_unknown_def [abs_def] store_mark_failed_def [abs_def]
  by (rule stays_diagonal, rule settling_settle, simp add: settled_status_def)+

lemma mark_settles:
  "store_mark_sent p rid chs s = (Inr m, s') \<Longrightarrow> settled p rid s'"
  "store_mark_unknown p rid s = (Inr m, s') \<Longrightarrow> settled p rid s'"
  "store_mark_failed p rid s = (Inr m, s') \<Longrightarrow> settled p rid s'"
  unfolding store_mark_sent_def store_mark_unknown_def store_mark_failed_def
  by (erule settle_settles, simp add: settled_status_def)+

lemma settling_others [keeps_rules]:
  "stays (settling p) (store_annotate p' m noted)" "stays (settling p) (store_complete_release p' m cat)"
  by (rule staysI, rule settling_same, simp add: requests_annotate requests_complete)+

text \<open>The same on the loop, with the records handed to the channel.\<close>

definition delivering_step :: "world \<Rightarrow> loop \<Rightarrow> loop \<Rightarrow> bool" where
  "delivering_step w l l' \<longleftrightarrow> settling (w_platform w) (lp_store l) (lp_store l') \<and> lp_sends l' = lp_sends l"

interpretation loop_settling: preserved "delivering_step w" for w
  by unfold_locales (auto simp: delivering_step_def settling_def)

lemmas loop_settling_rules [keeps_rules] = loop_settling.rules

lemma step_on_store [keeps_rules]:
  assumes "stays (settling (w_platform w)) m" shows "stays (delivering_step w) (on_store m)"
  using assms by (simp add: stays_def delivering_step_def on_store_def zoom_def put_store_def split_beta)

lemma step_reads [keeps_rules]: "stays (delivering_step w) (reads f)"
  unfolding reads_def by (rule loop_settling.basic)

lemma step_tick [keeps_rules]: "stays (delivering_step w) (tick w')"
  by (rule staysI) (simp add: tick_def bind_op_def put_store_def delivering_step_def settling_same)

lemma step_now [keeps_rules]: "stays (delivering_step w) (now_text w')"
  unfolding now_text_def by (intro keeps_rules)

lemma step_record_sent [keeps_rules]: "stays (delivering_step w) (record_sent w m)"
  unfolding record_sent_def record_sent_action_def
  by (rule loop_settling.bind, rule step_tick, rule stays_get) (intro keeps_rules)

lemma step_complete [keeps_rules]: "stays (delivering_step w) (complete_certain w at' m)"
  unfolding complete_certain_def complete_one_def by (intro keeps_rules)

lemma step_answered [keeps_rules]: "stays (delivering_step w) (complete_answered w m)"
  unfolding complete_answered_def by (intro keeps_rules)

lemma step_receipt [keeps_rules]: "stays (delivering_step w) (finish_receipt w m)"
  unfolding finish_receipt_def by (intro keeps_rules)

definition deliverable :: "message \<Rightarrow> bool" where
  "deliverable m \<longleftrightarrow> direction m = Outbound \<and> status_is ''pending'' m"

lemma send_one_outcome:
  assumes "send_one w m l = (r, l')"
  shows "lp_sends l' = lp_sends l @ [m]" "settling p (lp_store l) (lp_store l')" "\<exists>x. r = Inr x"
    "request_files (lp_store l') = request_files (lp_store l)" "captures (lp_store l') = captures (lp_store l)"
  using assms by (auto simp: send_one_def bind_op_def tick_def put_store_def settling_same)

lemma settled_after_mark:
  assumes "bind_op (on_store mark) f l = (Inr y, l')" and "\<And>x. stays (delivering_step w) (f x)"
    and "stays (settling (w_platform w)) mark" and "\<And>s x s'. mark s = (Inr x, s') \<Longrightarrow> settled (w_platform w) rid s'"
  shows "settled (w_platform w) rid (lp_store l')" "delivering_step w l l'"
proof -
  from assms(1) obtain x l1 where l1: "on_store mark l = (Inr x, l1)" "f x l1 = (Inr y, l')"
    by (auto simp: bind_op_Inr)
  from staysD [OF assms(2), of l1 x] l1(2) have step: "delivering_step w l1 l'" by simp
  from l1(1) assms(4) have "settled (w_platform w) rid (lp_store l1)"
    by (auto simp: on_store_Inr put_store_def)
  with step show "settled (w_platform w) rid (lp_store l')" by (auto simp: delivering_step_def settling_def)
  from staysD [OF step_on_store [OF assms(3)], of l] l1(1) step show "delivering_step w l l'"
    by (auto intro: loop_settling.stays_trans)
qed

lemma deliver_one_outcome:
  assumes "deliver_one w acc m l = (Inr acc', l')" "deliverable m"
  shows "settled (w_platform w) (request_of m) (lp_store l')" "settling (w_platform w) (lp_store l) (lp_store l')"
    "lp_sends l' = lp_sends l @ [m]" "\<exists>st. acc' = acc @ [(request_of m, st)]"
proof -
  let ?p = "w_platform w" and ?rid = "request_of m"
  from assms obtain x l1 where send: "send_one w m l = (Inr x, l1)"
    and rest: "(case x of
            Inl e \<Rightarrow> bind_op (on_store (store_mark_unknown ?p ?rid)) (\<lambda>_. ret_op (acc @ [(?rid, Some (JStr ''unknown''))]))
          | Inr r \<Rightarrow>
              bind_op
                 (if sr_status r = Some (JStr ''sent'') then settle_sent w m r
                  else if sr_status r = Some (JStr ''unknown'')
                  then bind_op (on_store (store_mark_unknown ?p ?rid)) (\<lambda>_. ret_op ())
                  else bind_op (on_store (store_mark_failed ?p ?rid)) (\<lambda>_. ret_op ()))
                 (\<lambda>_. bind_op (if sr_status r = Some (JStr ''sent'') then complete_answered w m else ret_op ())
                    (\<lambda>_. ret_op (acc @ [(?rid, sr_status r)])))) l1 = (Inr acc', l')"
    by (auto simp: deliver_one_def deliverable_def bind_op_Inr Let_def)
  have sent: "settled ?p ?rid (lp_store l2) \<and> delivering_step w l1 l2"
    if "settle_sent w m r l1 = (Inr y, l2)" for r y l2
    using settled_after_mark [OF that [unfolded settle_sent_def], of w ?rid] mark_settles(1)
    by (auto intro!: keeps_rules)
  have unknown: "settled ?p ?rid (lp_store l2) \<and> delivering_step w l1 l2"
    if "bind_op (on_store (store_mark_unknown ?p ?rid)) (\<lambda>_. ret_op z) l1 = (Inr y, l2)" for z y :: 'z and l2
    using settled_after_mark [OF that, of w ?rid] mark_settles(2) by (auto intro!: keeps_rules)
  have failed: "settled ?p ?rid (lp_store l2) \<and> delivering_step w l1 l2"
    if "bind_op (on_store (store_mark_failed ?p ?rid)) (\<lambda>_. ret_op z) l1 = (Inr y, l2)" for z y :: 'z and l2
    using settled_after_mark [OF that, of w ?rid] mark_settles(3) by (auto intro!: keeps_rules)
  have "settled ?p ?rid (lp_store l') \<and> delivering_step w l1 l' \<and> (\<exists>st. acc' = acc @ [(?rid, st)])"
  proof (cases x)
    case (Inl e)
    with rest have "bind_op (on_store (store_mark_unknown ?p ?rid)) (\<lambda>_. ret_op (acc @ [(?rid, Some (JStr ''unknown''))])) l1 = (Inr acc', l')"
      by simp
    then show ?thesis using unknown by (auto simp: bind_op_Inr)
  next
    case (Inr r)
    with rest obtain u l2 where first: "(if sr_status r = Some (JStr ''sent'') then settle_sent w m r
                  else if sr_status r = Some (JStr ''unknown'')
                  then bind_op (on_store (store_mark_unknown ?p ?rid)) (\<lambda>_. ret_op ())
                  else bind_op (on_store (store_mark_failed ?p ?rid)) (\<lambda>_. ret_op ())) l1 = (Inr u, l2)"
      and then_: "bind_op (if sr_status r = Some (JStr ''sent'') then complete_answered w m else ret_op ())
                    (\<lambda>_. ret_op (acc @ [(?rid, sr_status r)])) l2 = (Inr acc', l')"
      by (auto simp: bind_op_Inr)
    have "settled ?p ?rid (lp_store l2) \<and> delivering_step w l1 l2"
    proof (cases "sr_status r = Some (JStr ''sent'')")
      case True
      with first show ?thesis by (intro sent) simp
    next
      case False
      note other = this
      show ?thesis
      proof (cases "sr_status r = Some (JStr ''unknown'')")
        case True
        with first show ?thesis by (intro unknown) simp
      next
        case False
        with other first show ?thesis by (intro failed) simp
      qed
    qed
    moreover have "stays (delivering_step w) (bind_op (if sr_status r = Some (JStr ''sent'') then complete_answered w m else ret_op ())
                    (\<lambda>_. ret_op (acc @ [(?rid, sr_status r)])))"
      by (intro keeps_rules)
    from staysD [OF this, of l2] then_ have "delivering_step w l2 l'" by simp
    moreover from then_ have "acc' = acc @ [(?rid, sr_status r)]" by (auto simp: bind_op_Inr)
    ultimately show ?thesis
      by (auto simp: delivering_step_def settling_def)
  qed
  with send_one_outcome [OF send] show "settled ?p ?rid (lp_store l')" "settling ?p (lp_store l) (lp_store l')"
    "lp_sends l' = lp_sends l @ [m]" "\<exists>st. acc' = acc @ [(?rid, st)]"
    by (auto simp: delivering_step_def intro: store_settling.stays_trans)
qed

lemma deliver_walk:
  "walk_op (deliver_one w) acc ms l = (Inr acc', l') \<Longrightarrow>
     settling (w_platform w) (lp_store l) (lp_store l')
   \<and> lp_sends l' = lp_sends l @ filter deliverable ms
   \<and> (\<forall>m\<in>set (filter deliverable ms). settled (w_platform w) (request_of m) (lp_store l'))
   \<and> map fst acc' = map fst acc @ map request_of (filter deliverable ms)"
proof (induction ms arbitrary: acc l)
  case (Cons m ms)
  then obtain acc1 l1 where one: "deliver_one w acc m l = (Inr acc1, l1)" and more: "walk_op (deliver_one w) acc1 ms l1 = (Inr acc', l')"
    by (auto split: prod.splits sum.splits)
  show ?case
  proof (cases "deliverable m")
    case True
    from deliver_one_outcome [OF one True] Cons.IH [OF more] True show ?thesis
      by (auto simp: settling_def)
  next
    case False
    with one have "acc1 = acc" "l1 = l" by (auto simp: deliver_one_def deliverable_def)
    with Cons.IH [OF more] False show ?thesis by simp
  qed
qed (simp add: settling_def)

text \<open>C11. Delivery first completes the receipts of sent actions; then it hands to the channel exactly the
  outbound records of the store that are pending, each once; a delivery that returns has settled the request of every one of them as sent, unknown or
  failed, and its answer names them in that order. Nothing held for the teach check, sent, unknown
  or failed is handed over.\<close>

theorem delivery_settles_what_it_sends:
  assumes "deliver w l = (Inr d, l')"
  shows "\<exists>before l1 ms. store_rebuild (w_platform w) (lp_store l) = Inr before
    \<and> fold_op (finish_receipt w) before l = (Inr (), l1) \<and> store_rebuild (w_platform w) (lp_store l1) = Inr ms
    \<and> lp_sends l' = lp_sends l @ filter deliverable ms
    \<and> (\<forall>m\<in>set (filter deliverable ms). settled (w_platform w) (request_of m) (lp_store l'))
    \<and> map fst d = map request_of (filter deliverable ms)"
proof -
  from assms obtain before ms l1 where l1: "store_rebuild (w_platform w) (lp_store l) = Inr before"
      "fold_op (finish_receipt w) before l = (Inr (), l1)"
    and ms: "store_rebuild (w_platform w) (lp_store l1) = Inr ms" and walk: "walk_op (deliver_one w) [] ms l1 = (Inr d, l')"
    by (auto simp: deliver_def bind_op_Inr reads_Inr)
  have "stays (delivering_step w) (fold_op (finish_receipt w) before)" by (intro keeps_rules)
  from staysD [OF this, of l] l1 have "lp_sends l1 = lp_sends l" by (simp add: delivering_step_def)
  with deliver_walk [OF walk] l1 ms show ?thesis by auto
qed

end
