(* ===== verification/Loop_Checks.thy ===== *)
theory Loop_Checks
  imports Loop_Props
begin

text \<open>
  What a recovery owes, what the teach check lets through, and what becomes of a reply whose request
  file is missing.
\<close>

section \<open>The teach check\<close>

lemma taught_same: "teaching_files s' = teaching_files s \<Longrightarrow> teachings_under_release p s' rel = teachings_under_release p s rel"
proof -
  assume "teaching_files s' = teaching_files s"
  then have "list_teachings p s' = list_teachings p s" by (simp add: list_teachings_def read_teachings_def)
  then show ?thesis by (cases rel) (simp_all add: teachings_under_release_def)
qed

lemma teaching_files_browser_stamp [simp]: "teaching_files (snd (browser_stamp extra m s)) = teaching_files s"
  by (simp add: browser_stamp_def store_next_seq_def Let_def)

lemma teachings_settle [keeps_rules]: "leaves teaching_files (store_settle_delivery p rid st chs at')"
  by (rule leavesI) (simp add: store_settle_delivery_def Let_def split_beta split: sum.split option.split)

lemma teachings_let_go [keeps_rules]: "leaves teaching_files (store_release_held_reply p rid)"
  unfolding store_release_held_reply_def
  by (rule leavesI) (simp add: leavesD [OF teachings_settle] split: sum.split)

lemma teachings_park [keeps_rules]: "leaves teaching_files (store_park_failed p m fs reason)"
  by (rule leavesI) (simp add: store_park_failed_def store_next_seq_def Let_def split_beta split: sum.split)

lemma let_go_outcome:
  assumes "let_go w rid outcome l = (Inr o', l')"
  shows "o' = outcome" "teachings_under_release p (lp_store l') rel = teachings_under_release p (lp_store l) rel"
    "\<exists>q. store_read_request (w_platform w) rid (lp_store l') = Inr (Some q) \<and> req_status q = ''pending''"
proof -
  from assms obtain m s where s: "store_release_held_reply (w_platform w) rid (lp_store l) = (Inr m, s)"
    and l': "o' = outcome" "l' = put_store s l"
    unfolding let_go_def bind_op_Inr on_store_Inr by auto
  then show "o' = outcome" by simp
  have store: "lp_store l' = s" using l' by (simp add: put_store_def)
  show "teachings_under_release p (lp_store l') rel = teachings_under_release p (lp_store l) rel"
    unfolding store by (rule taught_same) (rule leaves_outcome [OF teachings_let_go s])
  from s have "store_settle_delivery (w_platform w) rid ''pending'' None None (lp_store l) = (Inr m, s)"
    unfolding store_release_held_reply_def by (simp split: sum.splits if_split_asm)
  with settle_requests [of "w_platform w" rid "''pending''" None None "lp_store l"]
  show "\<exists>q. store_read_request (w_platform w) rid (lp_store l') = Inr (Some q) \<and> req_status q = ''pending''"
    unfolding store by (elim disjE conjE exE) (simp_all add: store_read_request_def bind_res_def)
qed

definition taught :: "world \<Rightarrow> string \<Rightarrow> loop \<Rightarrow> bool" where
  "taught w rid l \<longleftrightarrow> teachings_under_release (w_platform w) (lp_store l) (Some rid) \<noteq> []"

lemma recorded_iff:
  "recorded_this_release w rid l = (Inr b, l') \<longleftrightarrow> l' = l \<and> b = taught w rid l"
  by (auto simp: recorded_this_release_def taught_def)

lemma park_with_teachings:
  assumes "park_with w fs reason m l = (Inr x, l')"
  shows "teachings_under_release p (lp_store l') rel = teachings_under_release p (lp_store l) rel"
  using assms leaves_outcome [OF teachings_park]
  by (auto simp: park_with_def reread_def bind_op_Inr reads_Inr on_store_Inr put_store_def split: option.splits
      intro!: taught_same)

lemma held_reply_Inr:
  "held_reply w m rid l = (Inr found, l') \<longleftrightarrow>
     l' = l \<and> (\<exists>ms. store_records_in (w_platform w) (conversation_id m) (lp_store l) = Inr ms \<and> found = find (held_for rid) ms)"
  by (auto simp: held_reply_def bind_op_Inr reads_Inr)

definition let_loose :: "world \<Rightarrow> string \<Rightarrow> loop \<Rightarrow> bool" where
  "let_loose w rid l \<longleftrightarrow>
     (\<exists>q. store_read_request (w_platform w) rid (lp_store l) = Inr (Some q) \<and> req_status q = ''pending'')"

text \<open>The outcomes of a check that found a held reply.\<close>

definition checked :: "world \<Rightarrow> string \<Rightarrow> string \<Rightarrow> loop \<Rightarrow> bool" where
  "checked w rid outcome l \<longleftrightarrow>
     (outcome = ''released'' \<and> taught w rid l \<and> let_loose w rid l)
   \<or> (outcome = ''released-after-follow-up'' \<and> \<not> is_program w \<and> taught w rid l \<and> let_loose w rid l)
   \<or> (outcome = ''released-nothing-taught'' \<and> \<not> is_program w \<and> \<not> taught w rid l \<and> let_loose w rid l)
   \<or> (outcome = ''parked-unrecorded-teaching'' \<and> \<not> taught w rid l)"

lemma checked_let_go:
  assumes "let_go w rid outcome l = (Inr o', l')" "taught w rid l \<Longrightarrow> outcome = ''released'' \<or> outcome = ''released-after-follow-up'' \<and> \<not> is_program w"
    "\<not> taught w rid l \<Longrightarrow> outcome = ''released-nothing-taught'' \<and> \<not> is_program w"
  shows "checked w rid o' l'"
proof -
  have "taught w rid l' = taught w rid l" "let_loose w rid l'" "o' = outcome"
    using let_go_outcome [OF assms(1)] by (simp_all add: taught_def let_loose_def)
  with assms(2,3) show ?thesis by (auto simp: checked_def)
qed

lemma checked_program:
  assumes "program_teach_check w m rid l = (Inr o', l')" "\<not> taught w rid l"
    "held_reply w m rid l = (Inr (Some h), l)"
  shows "checked w rid o' l'"
proof -
  have "recorded_this_release w rid l = (Inr False, l)" using assms(2) by (simp add: recorded_iff)
  with assms(1,3) have "o' = ''parked-unrecorded-teaching''"
    "teachings_under_release (w_platform w) (lp_store l') (Some rid) = teachings_under_release (w_platform w) (lp_store l) (Some rid)"
    using leaves_outcome [OF teachings_park]
    by (auto simp: program_teach_check_def bind_op_Inr reads_Inr on_store_Inr put_store_def split: option.splits
        intro!: taught_same)
  with assms(2) show ?thesis by (simp add: checked_def taught_def)
qed

lemma checked_asked:
  fixes follow_up :: turn_result
  assumes "(if taught w rid l then let_go w rid ''released-after-follow-up''
            else if said_nothing_taught (tr_agent_message follow_up) then let_go w rid ''released-nothing-taught''
            else bind_op (park_with w [Fault ''TEACHING_UNRECORDED'' (message_id m)] (Some ''unrecorded-teaching'') h)
                   (\<lambda>_. ret_op ''parked-unrecorded-teaching'')) l = (Inr outcome, l')"
    and "\<not> is_program w"
  shows "checked w rid outcome l'"
proof (cases "taught w rid l \<or> said_nothing_taught (tr_agent_message follow_up)")
  case True
  with assms show ?thesis by (auto intro: checked_let_go split: if_splits)
next
  case False
  with assms obtain x where park: "park_with w [Fault ''TEACHING_UNRECORDED'' (message_id m)] (Some ''unrecorded-teaching'') h l = (Inr x, l')"
    and "outcome = ''parked-unrecorded-teaching''"
    by (auto simp: bind_op_Inr)
  with False park_with_teachings [OF park] show ?thesis by (simp add: checked_def taught_def)
qed

lemma checked_held:
  assumes "ensure_teach_check w m unit_id thread rid l = (Inr outcome, l')" "held_reply w m rid l = (Inr (Some h), l)"
  shows "checked w rid outcome l'"
proof (cases "taught w rid l")
  case True
  with assms have "let_go w rid ''released'' l = (Inr outcome, l')"
    by (auto simp: ensure_teach_check_def bind_op_Inr recorded_iff)
  with True show ?thesis by (auto intro: checked_let_go)
next
  case False
  note untaught = this
  show ?thesis
  proof (cases "is_program w")
    case True
    with assms untaught have "program_teach_check w m rid l = (Inr outcome, l')"
      by (auto simp: ensure_teach_check_def bind_op_Inr recorded_iff)
    with untaught assms(2) show ?thesis by (auto intro: checked_program)
  next
    case False
    with assms untaught obtain follow_up :: turn_result and l1 where
      "(if taught w rid l1 then let_go w rid ''released-after-follow-up''
        else if said_nothing_taught (tr_agent_message follow_up) then let_go w rid ''released-nothing-taught''
        else bind_op (park_with w [Fault ''TEACHING_UNRECORDED'' (message_id m)] (Some ''unrecorded-teaching'') h)
               (\<lambda>_. ret_op ''parked-unrecorded-teaching'')) l1 = (Inr outcome, l')"
      by (auto simp: ensure_teach_check_def bind_op_Inr recorded_iff)
    from checked_asked [OF this False] show ?thesis .
  qed
qed


section \<open>Recovery\<close>

lemma set_add_once [simp]: "set (add_once xs x) = insert x (set xs)"
  by (auto simp: add_once_def)

lemma distinct_add_once [simp]: "distinct (add_once xs x) = distinct xs"
  by (simp add: add_once_def)

lemma set_foldl_add_once: "set (foldl add_once acc xs) = set acc \<union> set xs"
  by (induction xs arbitrary: acc) auto

definition owed :: "message list \<Rightarrow> string \<Rightarrow> bool" where
  "owed ms rid \<longleftrightarrow> (\<forall>m\<in>set ms. answers rid m \<longrightarrow>
     \<not> status_is ''sent'' m \<and> \<not> status_is ''unknown'' m \<and> \<not> status_is ''pending'' m)"

lemma finish_answered_reissue:
  "walk_op (finish_answered w rid at') rv ms l = (Inr rv', l') \<Longrightarrow> rv_reissue rv' = rv_reissue rv"
proof (induction ms arbitrary: rv l)
  case (Cons m ms)
  then obtain rv1 l1 where "finish_answered w rid at' rv m l = (Inr rv1, l1)" "rv_reissue rv' = rv_reissue rv1"
    by (auto split: prod.splits sum.splits)
  then show ?case by (auto simp: finish_answered_def bind_op_Inr split: if_splits)
qed simp

lemma classify_reissue:
  assumes "classify w all rv (rid, ms) l = (Inr rv', l')"
  shows "rv_reissue rv' = (if owed all rid then add_once (rv_reissue rv) rid else rv_reissue rv)"
proof -
  let ?replies = "filter (answers rid) all"
  show ?thesis
  proof (cases "list_ex (status_is ''sent'') ?replies")
    case True
    with assms obtain at' l1 where "walk_op (finish_answered w rid at') rv ms l1 = (Inr rv', l')"
      by (auto simp: classify_def Let_def bind_op_Inr)
    with True show ?thesis by (auto simp: owed_def list_ex_iff dest: finish_answered_reissue)
  next
    case False
    with assms show ?thesis
      by (auto simp: classify_def Let_def owed_def list_ex_iff split: if_splits)
  qed
qed

lemma classify_walk:
  "walk_op (classify w all) rv gs l = (Inr rv', l') \<Longrightarrow> distinct (rv_reissue rv) \<Longrightarrow>
     set (rv_reissue rv') = set (rv_reissue rv) \<union> {rid \<in> fst ` set gs. owed all rid} \<and> distinct (rv_reissue rv')"
proof (induction gs arbitrary: rv l)
  case (Cons g gs)
  then obtain rv1 l1 where one: "classify w all rv (fst g, snd g) l = (Inr rv1, l1)"
    and more: "walk_op (classify w all) rv1 gs l1 = (Inr rv', l')"
    by (auto split: prod.splits sum.splits)
  from Cons.IH [OF more] classify_reissue [OF one] Cons.prems(2) show ?case by (auto split: if_splits)
qed simp

lemma open_releases_ids:
  "fst ` set (open_releases ms) = turn_id_of ` {m \<in> set ms. direction m = Inbound \<and> open_release m}"
  by (simp add: open_releases_def Let_def image_image set_foldl_add_once)

text \<open>A recovery sends nothing. After every pending reply with a claimed action is marked unknown, it owes the model exactly the releases of captured inbound records
  that were opened and not completed and of which no reply is sent, unknown or waiting to be sent,
  each once.\<close>

theorem recovery_owes:
  assumes "recover w l = (Inr rv, l')"
  shows "lp_sends l' = lp_sends l \<and> distinct (rv_reissue rv)
    \<and> (\<exists>before l1 ms. store_rebuild (w_platform w) (lp_store l) = Inr before \<and> fold_op (quarantine w) before l = (Inr (), l1)
      \<and> store_rebuild (w_platform w) (lp_store l1) = Inr ms
      \<and> set (rv_reissue rv) = {turn_id_of m |m. m \<in> set ms \<and> direction m = Inbound \<and> open_release m \<and> owed ms (turn_id_of m)})"
proof -
  from leaves_outcome [OF quiet_leaves(1) [OF keeps_recover] assms] have sends: "lp_sends l' = lp_sends l" .
  from assms obtain before ms l1 where ms: "store_rebuild (w_platform w) (lp_store l) = Inr before"
      "fold_op (quarantine w) before l = (Inr (), l1)" "store_rebuild (w_platform w) (lp_store l1) = Inr ms"
    and walk: "walk_op (classify w ms)
             \<lparr>rv_resend = outbound_requests ''pending'' ms, rv_reissue = [],
              rv_unknown = outbound_requests ''unknown'' ms, rv_done = []\<rparr>
             (open_releases ms) l1 = (Inr rv, l')"
    by (auto simp: recover_def bind_op_Inr reads_Inr)
  from classify_walk [OF walk] have "set (rv_reissue rv) = {rid \<in> fst ` set (open_releases ms). owed ms rid}"
    "distinct (rv_reissue rv)" by simp_all
  then have "distinct (rv_reissue rv)" "\<exists>before l1 ms. store_rebuild (w_platform w) (lp_store l) = Inr before \<and> fold_op (quarantine w) before l = (Inr (), l1)
      \<and> store_rebuild (w_platform w) (lp_store l1) = Inr ms
      \<and> set (rv_reissue rv) = {turn_id_of m |m. m \<in> set ms \<and> direction m = Inbound \<and> open_release m \<and> owed ms (turn_id_of m)}"
    using ms by (auto simp: open_releases_ids)
  with sends show ?thesis by (intro conjI)
qed

section \<open>A reply without its request file\<close>

lemma settle_unknown_request:
  assumes "store_request_file p rid = Inr file" "map_of (request_files s) file = None"
  shows "store_settle_delivery p rid st chs at' s = (Inl (Stream_Fault [Fault ''REQUEST_UNKNOWN'' rid]), s)"
  using assms by (simp add: store_settle_delivery_def store_read_request_def)


end
