(* ===== verification/Loop_Sample.thy ===== *)
theory Loop_Sample
  imports Loop_Checks Sample
begin

text \<open>
  A concrete world for the loop, and the properties of the loop applied to it: an agent with one
  channel, a model that says nothing, a clock that stands still.
\<close>

definition sample_effect :: turn_effect where
  "sample_effect = \<lparr>te_calls = [], te_stale = False,
     te_result = Inr \<lparr>tr_status = Some (JStr ''completed''), tr_turn_id = Some (JStr ''turn''),
       tr_completed_at = Some (JStr ''200''), tr_agent_message = Some (JStr ''done''),
       tr_token_usage = None, tr_error = None, tr_program = None\<rparr>\<rparr>"

definition sample_world :: world where
  "sample_world = \<lparr>w_platform = sample_platform, w_declaration = sample_declaration, w_channel = sample_channel,
     w_account = ''a'', w_kind = ''telegram'', w_agent = ''acme'', w_store_root = [], w_checkout = [], w_work = [],
     w_clock = (\<lambda>l. 0), w_files = (\<lambda>l x. None), w_deny = None,
     w_open_thread = (\<lambda>l u. Inr [(''thread_id'', JStr ''thread'')]), w_resume_thread = (\<lambda>l u t. Inr ()),
     w_statuses = (\<lambda>l t. Inr []), w_holds_release = (\<lambda>ss. []), w_probe = (\<lambda>l u. True),
     w_turn = (\<lambda>l q. sample_effect), w_after_turn = (\<lambda>l. None), w_serve = (\<lambda>l r m. Inl Type_Error),
     w_receipt = (\<lambda>m. []), w_stopping = (\<lambda>l. False), w_poll = Some (\<lambda>l. Inr []),
     w_list_pending = (\<lambda>l js. Inr []), w_payload = (\<lambda>l js. Inr ([], [])), w_consume = (\<lambda>l j. Inr []),
     w_send = (\<lambda>l m. Inr \<lparr>sr_status = Some (JStr ''sent''), sr_chunk_ids = Some [''1'']\<rparr>)\<rparr>"

definition loop_of :: "store \<Rightarrow> loop" where
  "loop_of s = \<lparr>lp_box = bare_box\<lparr>bx_store := s\<rparr>, lp_threads = [], lp_status_read = False, lp_status_stale = False,
     lp_hold = [], lp_proxy = [], lp_records = [], lp_synced = True, lp_release = None, lp_recovering = None, lp_sends = []\<rparr>"

text \<open>A store that holds an inbound record, and a reply to it with its request in the given state; and
  one whose inbound record was released and never answered.\<close>

definition replying_store :: "string \<Rightarrow> store" where
  "replying_store st = owned_store\<lparr>
     captures := [((''c'', ''m.json''), sample_message ''c'' ''m'' Inbound),
       ((''c'', ''r.json''), sample_reply\<lparr>delivery := Some ((sample_delivery ''q'')\<lparr>dl_status := st\<rparr>)\<rparr>)],
     request_files := [(''q.json'', \<lparr>req_request_id = ''q'', req_status = st, req_conversation_id = ''c'',
       req_message_id = ''r'', req_revision = 0, req_chunk_ids = []\<rparr>)]\<rparr>"

definition unanswered_store :: store where
  "unanswered_store = owned_store\<lparr>captures := [((''c'', ''m.json''), (sample_message ''c'' ''m'' Inbound)\<lparr>
     release := Some \<lparr>rel_released_at = ''100'', rel_thread_id = ''thread'', rel_turn_id = ''turn'',
       rel_completed_at = None\<rparr>\<rparr>)]\<rparr>"

lemma loop_of_store [simp]: "lp_store (loop_of s) = s"
  by (simp add: loop_of_def bare_box_def)

lemma sample_world_platform [simp]: "w_platform sample_world = sample_platform"
  by (simp add: sample_world_def)



definition failing_world :: world where
  "failing_world = sample_world\<lparr>w_poll := Some (\<lambda>l. Inl Type_Error),
     w_channel := (''poll_failures_before_hold'', JInt 1) # sample_channel\<rparr>"

theorem held_channel_is_left_alone_witness:
  "untouched (loop_of owned_store) (snd (pass_op failing_world [] (loop_of owned_store)))"
proof -
  have "case fst (pass_op failing_world [] (loop_of owned_store)) of Inr r \<Rightarrow> pl_holding (ps_poll r) | Inl e \<Rightarrow> False"
    by code_simp
  then obtain r l' where "pass_op failing_world [] (loop_of owned_store) = (Inr r, l')" "pl_holding (ps_poll r)"
    by (cases "pass_op failing_world [] (loop_of owned_store)") (auto split: sum.splits)
  from held_channel_is_left_alone [OF this] this(1) show ?thesis by simp
qed

definition proxied_world :: world where
  "proxied_world = sample_world\<lparr>w_declaration := sample_declaration\<lparr>de_api_key_via := Some ''http://proxy''\<rparr>,
     w_probe := (\<lambda>l u. False)\<rparr>"

theorem reissue_is_forgotten_while_proxy_is_down_witness:
  "lp_recovering (snd (pass_op proxied_world []
     ((loop_of unanswered_store)\<lparr>lp_recovering := Some \<lparr>rv_resend = [], rv_reissue = [''turn''], rv_unknown = [], rv_done = []\<rparr>\<rparr>)))
   = None"
proof -
  let ?l = "(loop_of unanswered_store)\<lparr>lp_recovering := Some \<lparr>rv_resend = [], rv_reissue = [''turn''], rv_unknown = [], rv_done = []\<rparr>\<rparr>"
  have "case fst (pass_op proxied_world [] ?l) of Inr r \<Rightarrow> \<not> pl_holding (ps_poll r) | Inl e \<Rightarrow> False"
    by code_simp
  then obtain r l' where run: "pass_op proxied_world [] ?l = (Inr r, l')" "\<not> pl_holding (ps_poll r)"
    by (cases "pass_op proxied_world [] ?l") (auto split: sum.splits)
  have "proxy_faults_for (w_declaration proxied_world) (w_probe proxied_world l) \<noteq> []" for l
    by (simp add: proxied_world_def proxy_faults_for_def split: option.split)
  from reissue_is_forgotten_while_proxy_is_down [OF run this] run(1) show ?thesis by simp
qed

theorem delivery_settles_what_it_sends_witness:
  "settled sample_platform ''q'' (lp_store (snd (deliver sample_world (loop_of (replying_store ''pending'')))))"
proof -
  let ?l = "loop_of (replying_store ''pending'')"
  have "is_ok (fst (deliver sample_world ?l))" "lp_sends (snd (deliver sample_world ?l)) = [sample_reply]"
    by code_simp+
  then obtain d l' where "deliver sample_world ?l = (Inr d, l')" "lp_sends l' = [sample_reply]"
    by (cases "deliver sample_world ?l"; cases "fst (deliver sample_world ?l)") auto
  from delivery_settles_what_it_sends [OF this(1)] obtain ms where
    sends: "lp_sends l' = lp_sends ?l @ filter deliverable ms"
    and settles: "\<forall>m\<in>set (filter deliverable ms). settled (w_platform sample_world) (request_of m) (lp_store l')"
    by blast
  from sends have "filter deliverable ms = [sample_reply]"
    unfolding \<open>lp_sends l' = [sample_reply]\<close> by (simp add: loop_of_def)
  then have "sample_reply \<in> set (filter deliverable ms)" by simp
  from bspec [OF settles this] show ?thesis
    using \<open>deliver sample_world ?l = (Inr d, l')\<close> by (simp add: request_of_def)
qed

definition program_world :: world where
  "program_world = sample_world\<lparr>w_declaration := sample_declaration\<lparr>de_harness_kind := Some ''program''\<rparr>\<rparr>"


theorem recovery_owes_witness:
  "\<exists>rv. fst (recover sample_world (loop_of unanswered_store)) = Inr rv \<and> distinct (rv_reissue rv) \<and> rv_reissue rv = [''turn'']"
proof -
  let ?r = "recover sample_world (loop_of unanswered_store)"
  have "case fst ?r of Inr rv \<Rightarrow> rv_reissue rv = [''turn''] | Inl e \<Rightarrow> False" by code_simp
  then obtain rv l' where "?r = (Inr rv, l')" "rv_reissue rv = [''turn'']"
    by (cases ?r) (auto split: sum.splits)
  with recovery_owes [OF this(1)] show ?thesis by simp
qed


end
