(* ===== verification/Js_Values.thy ===== *)
theory Js_Values
  imports Turn_Input
begin

text \<open>
  What the channel adapters do with JSON no schema has checked: property reads, coercions to text and
  to numbers, strict equality, \<open>Object.keys\<close>, \<open>JSON.stringify\<close>; and texts as their code units.
  An object's members are listed in the order the language enumerates them. The number a text
  denotes (\<open>Number(t)\<close>) is decided here for digits; for any other text it is the argument \<open>num\<close>, where
  \<open>None\<close> is a value that is no finite integer.
\<close>

section \<open>Values\<close>

definition nullish :: "json option \<Rightarrow> bool" where
  "nullish v \<longleftrightarrow> v = None \<or> v = Some JNull"

text \<open>\<open>v ?? d\<close>, and \<open>v?.k\<close> of a value that may be undefined.\<close>

definition or_else :: "json option \<Rightarrow> json \<Rightarrow> json" where
  "or_else v d = (if nullish v then d else the v)"

definition member_at :: "json option \<Rightarrow> string \<Rightarrow> json option" where
  "member_at v k = (case v of None \<Rightarrow> None | Some x \<Rightarrow> member_of x k)"

definition text_value :: "json option \<Rightarrow> string option" where
  "text_value v = (case v of Some (JStr t) \<Rightarrow> Some t | _ \<Rightarrow> None)"

text \<open>\<open>===\<close>: two objects read from different texts are never the same object.\<close>

fun strict_eq :: "json option \<Rightarrow> json option \<Rightarrow> bool" where
  "strict_eq (Some (JArr _)) _ = False"
| "strict_eq (Some (JObj _)) _ = False"
| "strict_eq v w = (v = w)"

definition object_keys :: "json option \<Rightarrow> string list" where
  "object_keys v =
     (case v of
        Some (JObj ms) \<Rightarrow> keys ms
      | Some (JArr xs) \<Rightarrow> map show_nat [0..<length xs]
      | Some (JStr t) \<Rightarrow> map show_nat [0..<js_length t]
      | _ \<Rightarrow> [])"

text \<open>\<open>JSON.stringify(v)\<close>.\<close>

function json_text :: "platform \<Rightarrow> json \<Rightarrow> string" where
  "json_text p JNull = ''null''"
| "json_text p (JBool b) = (if b then ''true'' else ''false'')"
| "json_text p (JInt i) = show_int i"
| "json_text p (JFloat n d) = number_text p n d"
| "json_text p (JStr t) = json_quote t"
| "json_text p (JArr xs) = ''['' @ join '','' (map (json_text p) xs) @ '']''"
| "json_text p (JObj ms) = ''{'' @ join '','' (map (\<lambda>kv. json_quote (fst kv) @ '':'' @ json_text p (snd kv)) ms) @ ''}''"
  by pat_completeness auto
termination
  by (relation "measure (size \<circ> snd)") (auto simp: less_Suc_eq_le intro: size_list_estimation' dest: size_json_obj)

section \<open>Numbers\<close>

definition digits_text :: "string \<Rightarrow> bool" where
  "digits_text t \<longleftrightarrow> t \<noteq> [] \<and> list_all digit t"

definition js_number :: "(string \<Rightarrow> int option) \<Rightarrow> string \<Rightarrow> int option" where
  "js_number num t = (if digits_text t then Some (int (read_nat t 0)) else num t)"

text \<open>A value as a fraction, \<open>None\<close> for NaN; and \<open>v >= w\<close>, which compares two texts as texts.\<close>

definition as_fraction :: "platform \<Rightarrow> (string \<Rightarrow> int option) \<Rightarrow> json \<Rightarrow> (int \<times> nat) option" where
  "as_fraction p num v =
     (case v of
        JNull \<Rightarrow> Some (0, 1)
      | JBool b \<Rightarrow> Some (if b then 1 else 0, 1)
      | JInt i \<Rightarrow> Some (i, 1)
      | JFloat n d \<Rightarrow> Some (n, d)
      | _ \<Rightarrow> map_option (\<lambda>i. (i, 1)) (js_number num (js_string p v)))"

definition is_textual :: "json \<Rightarrow> bool" where
  "is_textual v = (case v of JStr _ \<Rightarrow> True | JArr _ \<Rightarrow> True | JObj _ \<Rightarrow> True | _ \<Rightarrow> False)"

definition at_least_value :: "platform \<Rightarrow> (string \<Rightarrow> int option) \<Rightarrow> json \<Rightarrow> json \<Rightarrow> bool" where
  "at_least_value p num v w =
     (if is_textual v \<and> is_textual w then js_le (js_string p w) (js_string p v)
      else (case (as_fraction p num v, as_fraction p num w) of
              (Some (n, d), Some (m, e)) \<Rightarrow> m * int d \<le> n * int e | _ \<Rightarrow> False))"

text \<open>\<open>new Date(s * 1000).toISOString()\<close> of a number \<open>s\<close>; a time the language cannot hold throws.\<close>

definition max_time :: int where
  "max_time = 8640000000000000"

definition date_text :: "platform \<Rightarrow> json option \<Rightarrow> exn + string option" where
  "date_text p v =
     (let written = (\<lambda>t. if \<bar>t\<bar> > max_time then Inl (Error ''Invalid time value'') else Inr (Some (to_iso p t))) in
      case v of
        Some (JInt i) \<Rightarrow> written (i * 1000)
      | Some (JFloat n d) \<Rightarrow> written (truncated_seconds n d)
      | _ \<Rightarrow> Inr None)"

definition iso_time :: "platform \<Rightarrow> int \<Rightarrow> exn + string" where
  "iso_time p t = (if \<bar>t\<bar> > max_time then Inl (Error ''Invalid time value'') else Inr (to_iso p t))"

text \<open>A whole number of a declaration, and \<open>filter\<close> with a test that may throw.\<close>

definition whole_number :: "members \<Rightarrow> string \<Rightarrow> int \<Rightarrow> int" where
  "whole_number ch k d = (case map_of ch k of Some (JInt i) \<Rightarrow> i | _ \<Rightarrow> d)"

fun filter_res :: "('a \<Rightarrow> 'e + bool) \<Rightarrow> 'a list \<Rightarrow> 'e + 'a list" where
  "filter_res f [] = Inr []"
| "filter_res f (x # xs) =
     bind_res (f x) (\<lambda>keep. bind_res (filter_res f xs) (\<lambda>ys. Inr (if keep then x # ys else ys)))"

section \<open>Texts as code units\<close>

text \<open>\<open>t.padStart(n, '0')\<close>, \<open>t.slice(n)\<close> (whole characters), \<open>t.lastIndexOf(u)\<close>, \<open>t.trim()\<close>.\<close>

definition pad_start :: "nat \<Rightarrow> string \<Rightarrow> string" where
  "pad_start n t = replicate (n - js_length t) (CHR ''0'') @ t"

definition drop_units :: "nat \<Rightarrow> string \<Rightarrow> string" where
  "drop_units n t = drop (length (take_units n t)) t"

definition last_index :: "nat list \<Rightarrow> nat list \<Rightarrow> int" where
  "last_index pat us =
     (case find (\<lambda>i. take (length pat) (drop i us) = pat) (rev [0..<Suc (length us)]) of
        None \<Rightarrow> -1 | Some i \<Rightarrow> int i)"

definition trim_list :: "nat list \<Rightarrow> nat list" where
  "trim_list us = rev (dropWhile js_space (rev (dropWhile js_space us)))"

lemma length_trim_list [simp]: "length (trim_list us) \<le> length us"
proof -
  have "length (dropWhile js_space (rev vs)) \<le> length vs" for vs
    by (metis length_dropWhile_le length_rev)
  from this [of "dropWhile js_space us"] length_dropWhile_le [of js_space us]
  show ?thesis unfolding trim_list_def length_rev by (rule order_trans)
qed

lemma words_dropWhile: "filter (\<lambda>u. \<not> js_space u) (dropWhile js_space us) = filter (\<lambda>u. \<not> js_space u) us"
  by (induction us) auto

lemma words_trim [simp]: "filter (\<lambda>u. \<not> js_space u) (trim_list us) = filter (\<lambda>u. \<not> js_space u) us"
  by (simp add: trim_list_def words_dropWhile flip: rev_filter)

lemma last_index_bound: "last_index pat us \<le> int (length us)"
  by (auto simp: last_index_def dest!: find_Some_set split: option.split)

end
