(* ===== verification/Telegram.thy ===== *)
theory Telegram
  imports Js_Values
begin

text \<open>
  The rules of the Telegram adapter (\<open>adapters/telegram/{content,cursors,index}.ts\<close>): what is in one
  update, where an item stands against the cursors, the records a batch becomes, what moves a cursor,
  how a reply is cut and sent. The Bot API is the argument \<open>call\<close> of the sending operations; an update
  is the JSON the server sent, with no schema.
\<close>

section \<open>Positions\<close>

definition position_of :: "platform \<Rightarrow> json option \<Rightarrow> string" where
  "position_of p mid = pad_start 12 (string_of p mid)"

definition offset_position_of :: "platform \<Rightarrow> json option \<Rightarrow> string" where
  "offset_position_of p uid = pad_start 16 (string_of p uid)"

definition updates_conversation :: "string \<Rightarrow> string" where
  "updates_conversation acct = acct @ '':updates''"

definition next_offset :: "platform \<Rightarrow> (string \<Rightarrow> int option) \<Rightarrow> string \<Rightarrow> store \<Rightarrow> exn + int option" where
  "next_offset p num acct s =
     bind_res (store_cursors p (updates_conversation acct) s) (\<lambda>c.
       Inr (case cur_message c of
              None \<Rightarrow> None
            | Some at' \<Rightarrow> map_option (\<lambda>n. n + 1) (js_number num at')))"

section \<open>One update\<close>

record update_reading =
  ur_message :: "json option"
  ur_edited :: bool
  ur_channel_post :: bool
  ur_unknown :: "string option"

definition unknown_kind_of :: "json option \<Rightarrow> string" where
  "unknown_kind_of update =
     (let names = filter (\<lambda>k. k \<noteq> ''update_id'') (object_keys update) in
      if names = [] then ''an update with nothing on it'' else join '', '' names)"

definition message_of :: "json option \<Rightarrow> update_reading" where
  "message_of update =
     (let found = (\<lambda>k. truthy (member_at update k));
          read = (\<lambda>k edited post. \<lparr>ur_message = member_at update k, ur_edited = edited, ur_channel_post = post, ur_unknown = None\<rparr>) in
      if found ''message'' then read ''message'' False False
      else if found ''edited_message'' then read ''edited_message'' True False
      else if found ''channel_post'' then read ''channel_post'' False True
      else if found ''edited_channel_post'' then read ''edited_channel_post'' True True
      else \<lparr>ur_message = None, ur_edited = False, ur_channel_post = False, ur_unknown = Some (unknown_kind_of update)\<rparr>)"

definition chat_kind :: "json option \<Rightarrow> string" where
  "chat_kind chat = (if member_at chat ''type'' = Some (JStr ''private'') then ''direct'' else ''group'')"

definition body_of :: "json option \<Rightarrow> string" where
  "body_of message =
     (case text_value (member_at message ''text'') of
        Some t \<Rightarrow> t
      | None \<Rightarrow> (case text_value (member_at message ''caption'') of Some t \<Rightarrow> t | None \<Rightarrow> []))"

record media =
  md_file_id :: "json option"
  md_bytes :: json
  md_mime :: json
  md_file_name :: json
  md_kind :: string

definition default_mime :: "string \<Rightarrow> string" where
  "default_mime kind =
     (case map_of [(''document'', ''application/octet-stream''), (''video'', ''video/mp4''), (''audio'', ''audio/mpeg''),
         (''voice'', ''audio/ogg''), (''video_note'', ''video/mp4''), (''animation'', ''video/mp4''), (''sticker'', ''image/webp'')] kind of
        None \<Rightarrow> [] | Some t \<Rightarrow> t)"

definition media_extension :: "string \<Rightarrow> string" where
  "media_extension kind =
     (case map_of [(''video'', ''.mp4''), (''audio'', ''.mp3''), (''voice'', ''.ogg''), (''video_note'', ''.mp4''),
         (''animation'', ''.mp4''), (''sticker'', ''.webp'')] kind of
        None \<Rightarrow> [] | Some t \<Rightarrow> t)"

definition size_of :: "json \<Rightarrow> json" where
  "size_of x = or_else (member_of x ''file_size'') (JInt 0)"

text \<open>The reduction over the sizes of a photo; an element that is null throws.\<close>

fun largest_size :: "platform \<Rightarrow> (string \<Rightarrow> int option) \<Rightarrow> json \<Rightarrow> json list \<Rightarrow> exn + json" where
  "largest_size p num a [] = Inr a"
| "largest_size p num a (b # bs) =
     (if a = JNull \<or> b = JNull then Inl Type_Error
      else largest_size p num (if at_least_value p num (size_of b) (size_of a) then b else a) bs)"

definition photo_media :: "platform \<Rightarrow> json \<Rightarrow> media" where
  "photo_media p largest =
     \<lparr>md_file_id = member_of largest ''file_id'', md_bytes = size_of largest, md_mime = JStr ''image/jpeg'',
      md_file_name = JStr (''photo-'' @ string_of p (member_of largest ''file_unique_id'') @ ''.jpg''), md_kind = ''photo''\<rparr>"

definition media_kinds :: "string list" where
  "media_kinds = [''document'', ''video'', ''audio'', ''voice'', ''video_note'', ''animation'', ''sticker'']"

definition media_under :: "platform \<Rightarrow> json option \<Rightarrow> string \<Rightarrow> media option" where
  "media_under p message kind =
     (let m = member_at message kind; file_id = member_at m ''file_id'' in
      if \<not> truthy m \<or> text_value file_id = None then None
      else Some \<lparr>md_file_id = file_id, md_bytes = or_else (member_at m ''file_size'') (JInt 0),
        md_mime = or_else (member_at m ''mime_type'') (JStr (default_mime kind)),
        md_file_name = or_else (member_at m ''file_name'')
          (JStr (kind @ ''-'' @ string_of p (member_at m ''file_unique_id'') @ media_extension kind)),
        md_kind = kind\<rparr>)"

definition media_of :: "platform \<Rightarrow> (string \<Rightarrow> int option) \<Rightarrow> json option \<Rightarrow> exn + media option" where
  "media_of p num message =
     (case elements_of (member_at message ''photo'') of
        x # xs \<Rightarrow> bind_res (largest_size p num x xs) (\<lambda>largest.
                    if largest = JNull then Inl Type_Error else Inr (Some (photo_media p largest)))
      | [] \<Rightarrow> Inr (case List.map_filter (media_under p message) media_kinds of [] \<Rightarrow> None | md # _ \<Rightarrow> Some md))"

definition album_of :: "json option \<Rightarrow> string option" where
  "album_of message = (case text_value (member_at message ''media_group_id'') of Some t \<Rightarrow> if t = [] then None else Some t | None \<Rightarrow> None)"

definition readable :: "json option \<Rightarrow> media option \<Rightarrow> bool" where
  "readable message md \<longleftrightarrow> body_of message \<noteq> [] \<or> md \<noteq> None"

definition service_kind_of :: "json option \<Rightarrow> string" where
  "service_kind_of message =
     (let names = filter (\<lambda>k. k \<notin> set [''message_id'', ''from'', ''chat'', ''date'', ''edit_date'', ''message_thread_id''])
                    (object_keys message) in
      if names = [] then ''a message with neither words nor media'' else join '', '' names)"

record sender =
  sd_id :: string
  sd_name :: "json option"
  sd_is_bot :: bool

definition person_name :: "platform \<Rightarrow> json option \<Rightarrow> json option" where
  "person_name p from' =
     (let names = filter (\<lambda>v. truthy (Some v)) (List.map_filter (member_at from') [''first_name'', ''last_name'']);
          joined = join '' '' (map (js_string p) names) in
      if joined \<noteq> [] then Some (JStr joined)
      else if truthy (member_at from' ''username'') then member_at from' ''username'' else None)"

definition who_sent :: "platform \<Rightarrow> json option \<Rightarrow> sender" where
  "who_sent p message =
     (let from' = member_at message ''from''; chat = member_at message ''chat'' in
      if truthy from' \<and> member_at from' ''id'' \<noteq> None then
        \<lparr>sd_id = string_of p (member_at from' ''id''), sd_name = person_name p from',
         sd_is_bot = (member_at from' ''is_bot'' = Some (JBool True))\<rparr>
      else
        \<lparr>sd_id = (if member_at chat ''id'' = None then ''unknown'' else string_of p (member_at chat ''id'')),
         sd_name = (if nullish (member_at chat ''title'') then None else member_at chat ''title''), sd_is_bot = False\<rparr>)"

section \<open>The declaration\<close>

definition max_message_chars :: nat where
  "max_message_chars = 4096"

definition hold_ms :: int where
  "hold_ms = 24 * 60 * 60 * 1000"

definition telegram_defaults :: members where
  "telegram_defaults =
     [(''allowed_chat_ids'', JStr ''any''), (''operator_sender_ids'', JArr []), (''max_message_chars'', JInt (int max_message_chars)),
      (''max_attachment_bytes'', JInt 20000000), (''mode'', JStr ''polling''), (''long_poll_timeout_s'', JInt 25),
      (''album_quiet_ms'', JInt 2000), (''hold'', JObj [(''release_after_ms'', JInt hold_ms)])]"

definition telegram_channel :: "members \<Rightarrow> members" where
  "telegram_channel declared =
     spread (spread telegram_defaults declared)
       [(''hold'', JObj (spread [(''release_after_ms'', JInt hold_ms)] (members_of (map_of declared ''hold''))))]"

definition answers_in :: "platform \<Rightarrow> members \<Rightarrow> string \<Rightarrow> bool" where
  "answers_in p ch chat_id =
     (case map_of ch ''allowed_chat_ids'' of
        Some (JStr t) \<Rightarrow> t = ''any''
      | Some (JArr xs) \<Rightarrow> chat_id \<in> set (map (js_string p) xs)
      | _ \<Rightarrow> False)"

definition is_operator :: "platform \<Rightarrow> members \<Rightarrow> string \<Rightarrow> exn + bool" where
  "is_operator p ch who =
     (if nullish (map_of ch ''operator_sender_ids'') then Inr False
      else (case map_of ch ''operator_sender_ids'' of
              Some (JArr xs) \<Rightarrow> Inr (who \<in> set (map (js_string p) xs)) | _ \<Rightarrow> Inl Type_Error))"

section \<open>Reading one item\<close>

text \<open>An attachment of a record: bytes that were fetched with what is known of them, or a description.\<close>

datatype carried =
    Fetched string members
  | Described members

text \<open>\<open>it_text\<close> is the text of the item itself, which is kept where it holds no update.\<close>

record item =
  it_position :: "string option"
  it_received_at :: "string option"
  it_update :: "json option"
  it_attachments :: "carried list option"
  it_extra :: members
  it_raw :: "string option"
  it_wrong_type :: "members option"
  it_text :: string

record telegram =
  tg_agent :: string
  tg_account :: string
  tg_channel :: members
  tg_now :: string

definition chat_of :: "platform \<Rightarrow> item \<Rightarrow> exn + json option" where
  "chat_of p it =
     (let chat = member_at (ur_message (message_of (it_update it))) ''chat'' in
      if nullish chat \<or> member_at chat ''id'' = None
      then Inl (Stream_Fault [Fault ''CHAT_ABSENT''
             (js_string p (or_else (member_at (it_update it) ''update_id'') (JStr ''an update'')))])
      else Inr chat)"

definition chat_conversation :: "platform \<Rightarrow> telegram \<Rightarrow> json option \<Rightarrow> string" where
  "chat_conversation p c chat = tg_account c @ '':'' @ string_of p (member_at chat ''id'')"

definition conversation_id_of :: "platform \<Rightarrow> telegram \<Rightarrow> item \<Rightarrow> exn + string" where
  "conversation_id_of p c it = bind_res (chat_of p it) (\<lambda>chat. Inr (chat_conversation p c chat))"

definition kind_of :: "item \<Rightarrow> string" where
  "kind_of it = (if ur_edited (message_of (it_update it)) then ''revision'' else ''message'')"

section \<open>What is pending\<close>

definition position_text :: "item \<Rightarrow> string" where
  "position_text it = (case it_position it of None \<Rightarrow> ''null'' | Some t \<Rightarrow> t)"

definition edit_written :: "message list \<Rightarrow> json option \<Rightarrow> bool" where
  "edit_written ms edited_at = list_ex (\<lambda>m. strict_eq (map_of (fields_of m) ''edit_date'') edited_at) ms"

definition past_cursors :: "platform \<Rightarrow> telegram \<Rightarrow> store \<Rightarrow> item \<Rightarrow> exn + bool" where
  "past_cursors p c s it =
     (case conversation_id_of p c it of
        Inl e \<Rightarrow> Inr True
      | Inr cid \<Rightarrow>
          (case store_cursors p cid s of
             Inl e \<Rightarrow> Inr True
           | Inr cursors \<Rightarrow>
               if (case cursor_at (kind_of it) cursors of None \<Rightarrow> True | Some at' \<Rightarrow> \<not> js_le (position_text it) at') then Inr True
               else if kind_of it \<noteq> ''revision'' then Inr False
               else bind_res (store_records_in p cid s) (\<lambda>ms.
                      Inr (\<not> edit_written ms (member_at (ur_message (message_of (it_update it))) ''edit_date'')))))"

fun list_pending :: "platform \<Rightarrow> telegram \<Rightarrow> store \<Rightarrow> item list \<Rightarrow> exn + item list" where
  "list_pending p c s [] = Inr []"
| "list_pending p c s (it # its) =
     bind_res (past_cursors p c s it) (\<lambda>past.
       bind_res (list_pending p c s its) (\<lambda>rest. Inr (if past then it # rest else rest)))"

section \<open>Consuming one item\<close>

definition consume :: "platform \<Rightarrow> telegram \<Rightarrow> item \<Rightarrow> unit store_op" where
  "consume p c it =
     bind_op
       (case conversation_id_of p c it of
          Inl e \<Rightarrow> ret_op ()
        | Inr cid \<Rightarrow> bind_op (store_advance_cursor p cid (kind_of it) (position_text it)) (\<lambda>_. ret_op ()))
       (\<lambda>_. case member_at (it_update it) ''update_id'' of
              None \<Rightarrow> ret_op ()
            | Some uid \<Rightarrow>
                bind_op (store_advance_cursor p (updates_conversation (tg_account c)) ''message'' (offset_position_of p (Some uid)))
                  (\<lambda>_. ret_op ()))"

section \<open>The records of a batch\<close>

record entry =
  en_record :: members
  en_raw :: string
  en_cursor :: "string \<times> string option"
  en_attachments :: "carried list"

datatype outcome_of_item =
    Taken entry
  | Set_Aside entry string

definition received :: "telegram \<Rightarrow> item \<Rightarrow> string" where
  "received c it = (case it_received_at it of Some t \<Rightarrow> t | None \<Rightarrow> tg_now c)"

definition smallest_record :: "telegram \<Rightarrow> item \<Rightarrow> string \<Rightarrow> string \<Rightarrow> string \<Rightarrow> members" where
  "smallest_record c it cid mid pmid =
     [(''schema'', JStr ''carbon.message.v1''), (''agent'', JStr (tg_agent c)), (''source'', JStr ''telegram''),
      (''account'', JStr (tg_account c)), (''conversation_id'', JStr cid), (''conversation_kind'', JStr ''direct''),
      (''message_id'', JStr mid), (''platform_message_id'', JStr pmid), (''revision'', JInt 0),
      (''direction'', JStr ''inbound''), (''role'', JStr ''contact''), (''sender_id'', JStr ''unknown''),
      (''received_at'', JStr (received c it)), (''body'', JStr []), (''attachments'', JArr []),
      (''historical'', JBool False), (''disposition'', JStr ''parked'')]"

definition count_revisions :: "platform \<Rightarrow> store \<Rightarrow> string \<Rightarrow> string \<Rightarrow> nat" where
  "count_revisions p s cid pmid =
     (case store_records_in p cid s of
        Inl e \<Rightarrow> 0 | Inr ms \<Rightarrow> length (filter (\<lambda>m. platform_message_id m = pmid) ms))"

definition attachments_for :: "platform \<Rightarrow> item \<Rightarrow> media option \<Rightarrow> carried list" where
  "attachments_for p it md =
     (case it_attachments it of
        Some fetched \<Rightarrow> fetched
      | None \<Rightarrow>
          (case md of
             None \<Rightarrow> []
           | Some m \<Rightarrow>
               [Described [(''file'', JStr (''unavailable/'' @ string_of p (md_file_id m))), (''filename'', md_file_name m),
                  (''mime'', md_mime m), (''bytes'', md_bytes m), (''sha256'', JStr (replicate 64 (CHR ''0''))),
                  (''download_failed'', JBool True)]]))"

definition is_own :: "platform \<Rightarrow> members \<Rightarrow> sender \<Rightarrow> bool" where
  "is_own p ch who \<longleftrightarrow> sd_is_bot who
     \<and> (case map_of ch ''bot_id'' of None \<Rightarrow> False | Some b \<Rightarrow> sd_id who = js_string p b)"

definition base_record ::
  "platform \<Rightarrow> telegram \<Rightarrow> item \<Rightarrow> json option \<Rightarrow> json option \<Rightarrow> int \<Rightarrow> bool \<Rightarrow> bool \<Rightarrow> members" where
  "base_record p c it message chat revn own operator =
     (let cid = chat_conversation p c chat; pmid = string_of p (member_at message ''message_id''); who = who_sent p message in
      [(''schema'', JStr ''carbon.message.v1''), (''agent'', JStr (tg_agent c)), (''source'', JStr ''telegram''),
       (''account'', JStr (tg_account c)), (''conversation_id'', JStr cid), (''conversation_kind'', JStr (chat_kind chat)),
       (''message_id'', JStr (cid @ '':'' @ pmid)), (''platform_message_id'', JStr pmid), (''revision'', JInt revn),
       (''direction'', JStr (if own then ''outbound'' else ''inbound'')),
       (''role'', JStr (if own then ''agent'' else if operator then ''operator'' else ''contact'')),
       (''sender_id'', JStr (sd_id who)), (''received_at'', JStr (received c it)), (''body'', JStr (body_of message)),
       (''attachments'', JArr []), (''historical'', JBool False),
       (''disposition'', JStr (if answers_in p (tg_channel c) (string_of p (member_at chat ''id'')) then ''captured'' else ''policy-drop''))])"

definition hold_block :: "members \<Rightarrow> string \<Rightarrow> json" where
  "hold_block ch set_at = JObj
     [(''reason'', JStr ''an operator this channel names wrote in this chat''), (''set_at'', JStr set_at),
      (''release_after_ms'', or_else (member_at (map_of ch ''hold'') ''release_after_ms'') (JInt hold_ms))]"

definition put_if :: "bool \<Rightarrow> string \<Rightarrow> json option \<Rightarrow> members \<Rightarrow> members" where
  "put_if b k v ms = (if b then AList.update k (the v) ms else ms)"

definition adapter_part :: "item \<Rightarrow> update_reading \<Rightarrow> media option \<Rightarrow> members" where
  "adapter_part it rd md =
     (let message = ur_message rd; edit = member_at message ''edit_date''; thread = member_at message ''message_thread_id'';
          file_name = map_option md_file_name md in
      put_if (member_at message ''forward_origin'' \<noteq> None) ''forwarded'' (Some (JBool True))
     (put_if (truthy file_name) ''file_name'' file_name
     (put_if (thread \<noteq> None) ''message_thread_id'' thread
     (put_if (ur_channel_post rd) ''channel_post'' (Some (JBool True))
     (put_if (ur_edited rd \<and> edit \<noteq> None) ''edit_date'' edit
     (put_if (album_of message \<noteq> None) ''media_group_id'' (map_option JStr (album_of message)) (it_extra it)))))))"

definition full_record ::
  "platform \<Rightarrow> telegram \<Rightarrow> item \<Rightarrow> update_reading \<Rightarrow> json option \<Rightarrow> int \<Rightarrow> bool \<Rightarrow> bool \<Rightarrow> media option \<Rightarrow> exn + members" where
  "full_record p c it rd chat revn own operator md =
     bind_res (date_text p (member_at (ur_message rd) ''date'')) (\<lambda>sent.
       (let message = ur_message rd; who = who_sent p message; fields = adapter_part it rd md;
            target = member_at (member_at message ''reply_to_message'') ''message_id'';
            record0 = base_record p c it message chat revn own operator
                 @ (case sent of None \<Rightarrow> [] | Some t \<Rightarrow> if t = [] then [] else [(''sent_at'', JStr t)])
                 @ (case sd_name who of None \<Rightarrow> [] | Some n \<Rightarrow> [(''sender_name'', n)])
                 @ (case target of None \<Rightarrow> [] | Some t \<Rightarrow> [(''reply_to'', JStr (js_string p t))])
                 @ (if operator then [(''hold'', hold_block (tg_channel c) (case sent of None \<Rightarrow> received c it | Some t \<Rightarrow> t))] else [])
                 @ (if fields = [] then [] else [(''adapter_fields'', JObj fields)])
        in Inr (case it_wrong_type it of None \<Rightarrow> record0 | Some wt \<Rightarrow> spread record0 wt)))"

type_synonym revisions = "(string \<times> nat) list"

definition raw_of :: "platform \<Rightarrow> item \<Rightarrow> string" where
  "raw_of p it =
     (case it_raw it of
        Some t \<Rightarrow> t
      | None \<Rightarrow> if nullish (it_update it) then it_text it else json_text p (the (it_update it)))"

definition unreadable_update :: "platform \<Rightarrow> telegram \<Rightarrow> item \<Rightarrow> string \<Rightarrow> outcome_of_item" where
  "unreadable_update p c it kind =
     (let uid = js_string p (or_else (member_at (it_update it) ''update_id'') (JStr ''unknown'')) in
      Set_Aside
        \<lparr>en_record = smallest_record c it (tg_account c @ '':unreadable'') (tg_account c @ '':unreadable:update-'' @ uid) uid,
         en_raw = raw_of p it, en_cursor = (kind_of it, it_position it), en_attachments = []\<rparr>
        (''the update is a '' @ kind @ '' this adapter does not read''))"

definition revision_of ::
  "platform \<Rightarrow> store \<Rightarrow> revisions \<Rightarrow> update_reading \<Rightarrow> string \<Rightarrow> string \<Rightarrow> nat \<times> revisions" where
  "revision_of p s revs rd cid pmid =
     (if ur_edited rd then
        (let counted = (case map_of revs pmid of Some n \<Rightarrow> n | None \<Rightarrow> count_revisions p s cid pmid) in
         (counted, AList.update pmid (counted + 1) revs))
      else (0, revs))"

definition payload_one ::
  "platform \<Rightarrow> (string \<Rightarrow> int option) \<Rightarrow> telegram \<Rightarrow> store \<Rightarrow> revisions \<Rightarrow> item \<Rightarrow> exn + (outcome_of_item \<times> revisions)" where
  "payload_one p num c s revs it =
     (let rd = message_of (it_update it); message = ur_message rd in
      case ur_unknown rd of
        Some kind \<Rightarrow> Inr (unreadable_update p c it kind, revs)
      | None \<Rightarrow>
          bind_res (chat_of p it) (\<lambda>chat.
          bind_res (media_of p num message) (\<lambda>md.
            (let who = who_sent p message; own = is_own p (tg_channel c) who;
                 cid = chat_conversation p c chat; pmid = string_of p (member_at message ''message_id'') in
             bind_res (if own then Inr False else is_operator p (tg_channel c) (sd_id who)) (\<lambda>operator.
               (let (revn, revs') = revision_of p s revs rd cid pmid in
                bind_res (full_record p c it rd chat (int revn) own operator md) (\<lambda>record0.
                  Inr (if readable message md
                    then Taken \<lparr>en_record = record0, en_raw = raw_of p it, en_cursor = (kind_of it, it_position it),
                           en_attachments = attachments_for p it md\<rparr>
                    else Set_Aside \<lparr>en_record = spread record0 [(''body'', JStr []), (''disposition'', JStr ''parked'')],
                           en_raw = raw_of p it, en_cursor = (kind_of it, it_position it), en_attachments = []\<rparr>
                         (''the message carries '' @ service_kind_of message @ '', which this adapter does not read''), revs'))))))))"

fun payload_walk ::
  "platform \<Rightarrow> (string \<Rightarrow> int option) \<Rightarrow> telegram \<Rightarrow> store \<Rightarrow> revisions \<Rightarrow> item list \<Rightarrow> exn + outcome_of_item list" where
  "payload_walk p num c s revs [] = Inr []"
| "payload_walk p num c s revs (it # its) =
     bind_res (payload_one p num c s revs it) (\<lambda>(x, revs').
       bind_res (payload_walk p num c s revs' its) (\<lambda>xs. Inr (x # xs)))"

definition taken :: "outcome_of_item \<Rightarrow> entry option" where
  "taken x = (case x of Taken e \<Rightarrow> Some e | Set_Aside _ _ \<Rightarrow> None)"

definition set_aside :: "outcome_of_item \<Rightarrow> (entry \<times> string) option" where
  "set_aside x = (case x of Taken _ \<Rightarrow> None | Set_Aside e reason \<Rightarrow> Some (e, reason))"

definition payload ::
  "platform \<Rightarrow> (string \<Rightarrow> int option) \<Rightarrow> telegram \<Rightarrow> store \<Rightarrow> item list \<Rightarrow> exn + (entry list \<times> (entry \<times> string) list)" where
  "payload p num c s its =
     bind_res (payload_walk p num c s [] its) (\<lambda>xs. Inr (List.map_filter taken xs, List.map_filter set_aside xs))"

end
