(* ===== verification/Telegram_Send.thy ===== *)
theory Telegram_Send
  imports Telegram
begin

text \<open>
  The sending half of the Telegram adapter (\<open>adapters/telegram/index.ts\<close>, and the token rules of
  \<open>api.ts\<close>): how a reply is cut into messages, what it is threaded under, the calls a send makes and
  what a failed call means. The loop of \<open>splitBody\<close> may run for ever where the limit is zero, so it is a
  partial function. A text that is cut is held as its code units, because a cut may fall between the two
  halves of a character.
\<close>

section \<open>Cutting a reply\<close>

definition cut_at :: "nat \<Rightarrow> nat list \<Rightarrow> nat" where
  "cut_at limit window =
     (let paragraph = last_index [10, 10] window;
          sentence = (if 2 * paragraph < int limit then last_index [46, 32] window else paragraph);
          kept = (if 0 < sentence \<and> 2 * sentence < int limit then -1 else sentence);
          word_end = (if kept < 0 then last_index [32] window else kept)
      in if 2 * word_end < int limit then limit else nat word_end)"

partial_function (option) split_loop :: "nat \<Rightarrow> nat list \<Rightarrow> nat list list \<Rightarrow> nat list list option" where
  "split_loop limit rest chunks =
     (if length rest \<le> limit then Some (if rest = [] then chunks else chunks @ [rest])
      else (let cut = cut_at limit (take limit rest) in
            split_loop limit (trim_list (drop cut rest)) (chunks @ [trim_list (take cut rest)])))"

definition split_body :: "nat list \<Rightarrow> nat \<Rightarrow> nat list list option" where
  "split_body units limit = (if length units \<le> limit then Some [units] else split_loop limit units [])"

section \<open>What a reply is threaded under\<close>

definition time_of :: "message \<Rightarrow> string" where
  "time_of m = (case sent_at m of Some t \<Rightarrow> t | None \<Rightarrow> received_at m)"

definition reply_target :: "platform \<Rightarrow> store \<Rightarrow> message \<Rightarrow> exn + message option" where
  "reply_target p s m =
     bind_res (store_records_in p (conversation_id m) s) (\<lambda>ms.
       (let inbound = filter (\<lambda>h. direction h = Inbound \<and> disposition h \<noteq> Parked) ms;
            named = (case reply_to m of None \<Rightarrow> None | Some r \<Rightarrow> find (\<lambda>h. platform_message_id h = r) inbound)
        in Inr (if inbound = [] then None
                else case named of
                  Some h \<Rightarrow> Some h
                | None \<Rightarrow> Some (last (sort_cmp (\<lambda>a b. locale_compare p (time_of a) (time_of b)) inbound)))))"

definition chat_id_of :: "telegram \<Rightarrow> message \<Rightarrow> string" where
  "chat_id_of c m = drop_units (js_length (tg_account c) + 1) (conversation_id m)"

section \<open>The calls of a send\<close>

datatype api_call =
    Send_Text "nat list" "int option"
  | Send_Document attachment string

text \<open>\<open>outcomeOf\<close>: only the server's own refusal of the first call means that nothing went out.\<close>

definition outcome_of :: "exn \<Rightarrow> nat \<Rightarrow> string" where
  "outcome_of e sent_so_far =
     (if 0 < sent_so_far then ''unknown''
      else (case e of Stream_Fault (f # _) \<Rightarrow> if code f = ''BOT_API_REFUSED'' then ''failed'' else ''unknown'' | _ \<Rightarrow> ''unknown''))"

text \<open>A call answers from the calls made before it in this send.\<close>

type_synonym bot_api = "api_call list \<Rightarrow> api_call \<Rightarrow> exn + json option"

definition chunk_id :: "platform \<Rightarrow> json option \<Rightarrow> string" where
  "chunk_id p v = js_string p (or_else (member_at v ''message_id'') (JStr []))"

fun send_calls :: "platform \<Rightarrow> bot_api \<Rightarrow> api_call list \<Rightarrow> api_call list \<Rightarrow> string list \<Rightarrow> string \<times> string list \<times> api_call list" where
  "send_calls p api made [] ids = (''sent'', ids, made)"
| "send_calls p api made (x # xs) ids =
     (case api made x of
        Inl e \<Rightarrow> (outcome_of e (length ids), ids, made @ [x])
      | Inr v \<Rightarrow> send_calls p api (made @ [x]) xs (ids @ [chunk_id p v]))"

definition pdf_suffix :: "string \<Rightarrow> bool" where
  "pdf_suffix name \<longleftrightarrow> map (\<lambda>c. if 65 \<le> byte_of c \<and> byte_of c \<le> 90 then byte_of c + 32 else byte_of c) (drop (length name - 4) name)
     = [46, 112, 100, 102]"

definition document_name_of :: "attachment \<Rightarrow> string" where
  "document_name_of a =
     (let name = (case att_filename a of Some n \<Rightarrow> n | None \<Rightarrow> base_name (att_file a)) in
      if att_mime a = ''application/pdf'' \<and> \<not> pdf_suffix name then name @ ''.pdf'' else name)"

definition documents :: "message \<Rightarrow> api_call list" where
  "documents m = map (\<lambda>a. Send_Document a (document_name_of a)) (filter (\<lambda>a. att_download_failed a \<noteq> Some True) (attachments m))"

definition reply_number :: "platform \<Rightarrow> (string \<Rightarrow> int option) \<Rightarrow> store \<Rightarrow> message \<Rightarrow> exn + int option" where
  "reply_number p num s m =
     (if conversation_kind m = ''direct'' then Inr None
      else bind_res (reply_target p s m) (\<lambda>target.
             Inr (case target of None \<Rightarrow> None | Some t \<Rightarrow> js_number num (platform_message_id t))))"

definition texts :: "int option \<Rightarrow> nat list list \<Rightarrow> api_call list" where
  "texts to chunks = map (\<lambda>(i, ch). Send_Text ch (if i = 0 then to else None)) (enumerate 0 chunks)"

text \<open>The limit is a whole number. \<open>None\<close>: the send does not return.\<close>

definition chars_limit :: "members \<Rightarrow> nat" where
  "chars_limit ch = (case map_of ch ''max_message_chars'' of Some (JInt i) \<Rightarrow> nat i | _ \<Rightarrow> max_message_chars)"

definition send_live ::
  "platform \<Rightarrow> (string \<Rightarrow> int option) \<Rightarrow> telegram \<Rightarrow> (exn + unit) \<Rightarrow> bot_api \<Rightarrow> store \<Rightarrow> message \<Rightarrow> nat list list
     \<Rightarrow> exn + (string \<times> string list \<times> api_call list)" where
  "send_live p num c transport api s m chunks =
     bind_res transport (\<lambda>_.
     bind_res (reply_number p num s m) (\<lambda>to.
       Inr (send_calls p api [] (texts to chunks @ documents m) [])))"

definition send_telegram ::
  "platform \<Rightarrow> (string \<Rightarrow> int option) \<Rightarrow> telegram \<Rightarrow> (exn + unit) \<Rightarrow> bot_api \<Rightarrow> store \<Rightarrow> message
     \<Rightarrow> (exn + (string \<times> string list \<times> api_call list)) option" where
  "send_telegram p num c transport api s m =
     (if \<not> answers_in p (tg_channel c) (chat_id_of c m)
      then Some (Inl (Stream_Fault [Fault ''CHAT_NOT_DECLARED'' (conversation_id m)]))
      else (case split_body (utf16 (body m)) (chars_limit (tg_channel c)) of
              None \<Rightarrow> None
            | Some chunks \<Rightarrow> Some (send_live p num c transport api s m chunks)))"

text \<open>Whether the typing signal is sent, and the match of an item with a delivery.\<close>

definition shows_typing :: "platform \<Rightarrow> telegram \<Rightarrow> message \<Rightarrow> string \<Rightarrow> bool \<Rightarrow> bool" where
  "shows_typing p c m state dry_run \<longleftrightarrow>
     state = ''composing'' \<and> answers_in p (tg_channel c) (chat_id_of c m) \<and> \<not> dry_run"

definition matches_delivery :: "platform \<Rightarrow> item \<Rightarrow> delivery_info option \<Rightarrow> bool" where
  "matches_delivery p it d \<longleftrightarrow>
     (let message = ur_message (message_of (it_update it)) in
      message \<noteq> None
      \<and> (string_of p (member_at message ''message_id'') \<in> set (case d of None \<Rightarrow> [] | Some x \<Rightarrow> (case dl_chunk_ids x of None \<Rightarrow> [] | Some ids \<Rightarrow> ids))
         \<or> (case d of None \<Rightarrow> False | Some x \<Rightarrow> sha256_hex p (body_of message) = dl_text_sha256 x)))"

section \<open>The token\<close>

definition token_char :: "char \<Rightarrow> bool" where
  "token_char c \<longleftrightarrow> digit c \<or> (65 \<le> byte_of c \<and> byte_of c \<le> 90) \<or> (97 \<le> byte_of c \<and> byte_of c \<le> 122)
     \<or> c = CHR ''_'' \<or> c = CHR ''-''"

text \<open>\<open>/^([0-9]+):[A-Za-z0-9_-]+$/\<close> on the trimmed text.\<close>

definition trimmed_ascii :: "string \<Rightarrow> string option" where
  "trimmed_ascii t = (if list_all (\<lambda>u. u < 128) (trim_units t) then Some (map char_of (trim_units t)) else None)"

definition bot_id_of :: "string \<Rightarrow> int option" where
  "bot_id_of t =
     (case trimmed_ascii t of
        None \<Rightarrow> None
      | Some token \<Rightarrow>
          (let name = takeWhile digit token; rest = drop (length name) token in
           if name \<noteq> [] \<and> rest \<noteq> [] \<and> hd rest = CHR '':'' \<and> tl rest \<noteq> [] \<and> list_all token_char (tl rest)
           then Some (int (read_nat name 0)) else None))"

text \<open>The file read is given: its bytes, or an exception that is classed by its code.\<close>

definition read_token :: "string option \<Rightarrow> (string \<Rightarrow> exn + string) \<Rightarrow> exn + string" where
  "read_token file read_file =
     (case file of
        None \<Rightarrow> Inl (Stream_Fault [Fault ''CHANNEL_TOKEN_PATH_ABSENT'' ''transport.bot_token_ref''])
      | Some f \<Rightarrow>
          if f = [] then Inl (Stream_Fault [Fault ''CHANNEL_TOKEN_PATH_ABSENT'' ''transport.bot_token_ref''])
          else
            (case read_file f of
               Inl e \<Rightarrow> Inl (Stream_Fault [Fault ''CHANNEL_TOKEN_UNREADABLE'' f])
             | Inr text' \<Rightarrow>
                 if bot_id_of text' = None then Inl (Stream_Fault [Fault ''BOT_TOKEN_MALFORMED'' f])
                 else Inr (case trimmed_ascii text' of None \<Rightarrow> [] | Some token \<Rightarrow> token)))"

text \<open>What is shown never holds the token: \<open>split\<close> and \<open>join\<close>, left to right.\<close>

function scrub_text :: "string \<Rightarrow> string \<Rightarrow> string" where
  "scrub_text token t =
     (if token = [] then t
      else if t = [] then []
      else if starts_with token t then ''<bot token>'' @ scrub_text token (drop (length token) t)
      else hd t # scrub_text token (tl t))"
  by pat_completeness auto
termination
  by (relation "measure (\<lambda>(token, t). length t)") auto

declare scrub_text.simps [simp del]

end
