(* ===== verification/Telegram_Poll.thy ===== *)
theory Telegram_Poll
  imports Telegram_Send
begin

text \<open>
  The long poll behind the Telegram channel (\<open>adapters/telegram/live.ts\<close>): what the worker remembers of
  the updates it was sent, when it may ask the server again, the batch it hands over; and the
  protocol of the server, the worker and the store as a step relation. An update's identifier is an
  integer, which the Bot API documents. The download of media, its lanes and its budget are left out:
  what was fetched for an item is given.
\<close>

section \<open>What the worker remembers\<close>

type_synonym seen = "(int \<times> item) list"

record poll_entry =
  pe_items :: seen
  pe_highest :: "int option"
  pe_seen :: seen
  pe_fault :: "exn option"

definition fresh_entry :: poll_entry where
  "fresh_entry = \<lparr>pe_items = [], pe_highest = None, pe_seen = [], pe_fault = None\<rparr>"

definition update_id_of :: "json \<Rightarrow> int" where
  "update_id_of u = (case member_of u ''update_id'' of Some (JInt i) \<Rightarrow> i | _ \<Rightarrow> 0)"

definition arrived_item :: "platform \<Rightarrow> string \<Rightarrow> json \<Rightarrow> item" where
  "arrived_item p now u =
     (let message_id' = member_at (ur_message (message_of (Some u))) ''message_id'' in
      \<lparr>it_position = (if message_id' = None then None else Some (position_of p message_id')),
       it_received_at = Some now, it_update = Some u, it_attachments = None, it_extra = [], it_raw = None,
       it_wrong_type = None, it_text = []\<rparr>)"

text \<open>The first sighting of an update is the one that is kept.\<close>

definition remember_one :: "platform \<Rightarrow> string \<Rightarrow> json \<Rightarrow> seen \<Rightarrow> seen" where
  "remember_one p now u sn = (if has sn (update_id_of u) then sn else sn @ [(update_id_of u, arrived_item p now u)])"

definition remember_all :: "platform \<Rightarrow> string \<Rightarrow> json list \<Rightarrow> seen \<Rightarrow> seen" where
  "remember_all p now us sn = fold (remember_one p now) us sn"

definition drop_confirmed :: "int option \<Rightarrow> seen \<Rightarrow> seen" where
  "drop_confirmed ofs sn = (case ofs of None \<Rightarrow> sn | Some n \<Rightarrow> filter (\<lambda>(k, _). \<not> k < n) sn)"

definition retained :: "int option \<Rightarrow> seen \<Rightarrow> seen" where
  "retained ofs sn =
     sort_cmp (\<lambda>a b. fst a - fst b) (filter (\<lambda>(k, _). case ofs of None \<Rightarrow> True | Some n \<Rightarrow> n \<le> k) sn)"

text \<open>Asking for a higher offset would tell the server to forget what was handed over and not consumed.\<close>

definition worker_waits :: "poll_entry \<Rightarrow> int option \<Rightarrow> bool" where
  "worker_waits e ofs \<longleftrightarrow>
     (case pe_highest e of None \<Rightarrow> False | Some h \<Rightarrow> (case ofs of None \<Rightarrow> True | Some n \<Rightarrow> n \<le> h))"

definition highest_of :: "int option \<Rightarrow> seen \<Rightarrow> int option" where
  "highest_of old its = (case its of [] \<Rightarrow> old | x # xs \<Rightarrow> Some (foldl max (fst x) (map fst xs)))"

definition hand_over :: "seen \<Rightarrow> poll_entry \<Rightarrow> poll_entry" where
  "hand_over its e = e\<lparr>pe_items := its, pe_highest := highest_of (pe_highest e) its, pe_fault := None\<rparr>"

text \<open>How long an album may still be growing.\<close>

definition album_wait :: "platform \<Rightarrow> int \<Rightarrow> int \<Rightarrow> seen \<Rightarrow> int" where
  "album_wait p quiet now its =
     (let albums = filter (\<lambda>(_, it). album_of (ur_message (message_of (it_update it))) \<noteq> None) its;
          times = List.map_filter (\<lambda>(_, it). case it_received_at it of None \<Rightarrow> None | Some t \<Rightarrow> date_parse p t) albums;
          youngest = foldl max 0 times
      in if youngest = 0 then 0 else max 0 (quiet - (now - youngest)))"

datatype batch =
    Settled seen
  | Failed exn
  | Asking

text \<open>The answers of the server in turn, each with the text and the value of the clock when it came: the
  worker asks with one offset until no album is growing.\<close>

fun settled_batch ::
  "platform \<Rightarrow> int option \<Rightarrow> int \<Rightarrow> seen \<Rightarrow> ((exn + json list) \<times> string \<times> int) list \<Rightarrow> seen \<times> batch" where
  "settled_batch p ofs quiet sn [] = (sn, Asking)"
| "settled_batch p ofs quiet sn ((answer, now_text', now) # later) =
     (case answer of
        Inl e \<Rightarrow> (sn, Failed e)
      | Inr us \<Rightarrow>
          (let sn' = remember_all p now_text' us sn; its = retained ofs sn' in
           if album_wait p quiet now its = 0 then (sn', Settled its) else settled_batch p ofs quiet sn' later))"

definition wanted :: "platform \<Rightarrow> (string \<Rightarrow> int option) \<Rightarrow> members \<Rightarrow> item \<Rightarrow> exn + media option" where
  "wanted p num ch it =
     (let message = ur_message (message_of (it_update it)) in
      if message = None then Inr None
      else bind_res (media_of p num message) (\<lambda>md.
             Inr (case md of
                    None \<Rightarrow> None
                  | Some m \<Rightarrow> if at_least_value p num (or_else (map_of ch ''max_attachment_bytes'') (JInt 0)) (md_bytes m)
                              then Some m else None)))"

definition with_attachment ::
  "platform \<Rightarrow> (string \<Rightarrow> int option) \<Rightarrow> members \<Rightarrow> (int \<Rightarrow> (string \<times> members) option) \<Rightarrow> int \<times> item \<Rightarrow> exn + int \<times> item" where
  "with_attachment p num ch fetched ki =
     bind_res (wanted p num ch (snd ki)) (\<lambda>md.
       Inr (fst ki,
         (case (md, fetched (fst ki)) of
            (Some m, Some (bytes, meta)) \<Rightarrow> (snd ki)\<lparr>it_attachments := Some [Fetched bytes meta]\<rparr>
          | _ \<Rightarrow> snd ki)))"

definition poll_failure :: "exn \<Rightarrow> exn" where
  "poll_failure e = (case e of Stream_Fault fs \<Rightarrow> e | _ \<Rightarrow> Stream_Fault [Fault ''BOT_API_POLL_FAILED'' ''getUpdates''])"

text \<open>One turn of the worker's loop.\<close>

definition worker_round ::
  "platform \<Rightarrow> (string \<Rightarrow> int option) \<Rightarrow> members \<Rightarrow> int \<Rightarrow> int option \<Rightarrow> ((exn + json list) \<times> string \<times> int) list
     \<Rightarrow> (int \<Rightarrow> (string \<times> members) option) \<Rightarrow> poll_entry \<Rightarrow> poll_entry" where
  "worker_round p num ch quiet ofs answers fetched e =
     (if worker_waits e ofs then e
      else
        (let (sn, b) = settled_batch p ofs quiet (drop_confirmed ofs (pe_seen e)) answers; e1 = e\<lparr>pe_seen := sn\<rparr> in
         case b of
           Asking \<Rightarrow> e1
         | Failed x \<Rightarrow> e1\<lparr>pe_fault := Some (poll_failure x)\<rparr>
         | Settled its \<Rightarrow>
             (case map_res (with_attachment p num ch fetched) its of
                Inl x \<Rightarrow> e1\<lparr>pe_fault := Some (poll_failure x)\<rparr>
              | Inr its' \<Rightarrow> hand_over its' e1)))"

text \<open>What a pass of the loop is given.\<close>

definition arrivals :: "poll_entry \<Rightarrow> (exn + item list) \<times> poll_entry" where
  "arrivals e =
     (case pe_fault e of
        Some x \<Rightarrow> if pe_items e = [] then (Inl x, e\<lparr>pe_fault := None\<rparr>) else (Inr (map snd (pe_items e)), e)
      | None \<Rightarrow> (Inr (map snd (pe_items e)), e))"

section \<open>The protocol\<close>

text \<open>The server, the store and the worker. \<open>ru_arrived\<close> and \<open>ru_written\<close> are history: the updates that
  ever were, and those the loop has settled on disk: captured, parked, or refused by the schema.
  \<open>ru_pass\<close> is a pass in progress: the handed items that were pending when it began. The server
  answers with the earliest updates it holds, which the Bot API documents, and forgets those below
  the offset it is asked for.\<close>

record run =
  ru_server :: "json list"
  ru_arrived :: "int set"
  ru_written :: "int set"
  ru_offset :: "int option"
  ru_entry :: poll_entry
  ru_pass :: "int list option"

definition still_held :: "int option \<Rightarrow> json list \<Rightarrow> json list" where
  "still_held ofs us = filter (\<lambda>u. case ofs of None \<Rightarrow> True | Some n \<Rightarrow> n \<le> update_id_of u) us"

definition offset_after :: "int option \<Rightarrow> int \<Rightarrow> int option" where
  "offset_after ofs k = Some (case ofs of None \<Rightarrow> k + 1 | Some n \<Rightarrow> max n (k + 1))"

inductive quiet_step :: "platform \<Rightarrow> run \<Rightarrow> run \<Rightarrow> bool" for p where
  Arrive: "(\<forall>k\<in>ru_arrived r. k < update_id_of u) \<Longrightarrow>
     quiet_step p r (r\<lparr>ru_server := ru_server r @ [u], ru_arrived := insert (update_id_of u) (ru_arrived r)\<rparr>)"
| Ask: "\<not> worker_waits (ru_entry r) (ru_offset r) \<Longrightarrow> held = still_held (ru_offset r) (ru_server r) \<Longrightarrow>
     quiet_step p r (r\<lparr>ru_server := held, ru_entry := (ru_entry r)\<lparr>pe_seen :=
       remember_all p now (take n held) (drop_confirmed (ru_offset r) (pe_seen (ru_entry r)))\<rparr>\<rparr>)"
| Settle: "\<not> worker_waits (ru_entry r) (ru_offset r) \<Longrightarrow> map fst its = map fst (retained (ru_offset r) (pe_seen (ru_entry r))) \<Longrightarrow>
     quiet_step p r (r\<lparr>ru_entry := hand_over its (ru_entry r)\<rparr>)"
| Begin: "ru_pass r = None \<Longrightarrow>
     quiet_step p r (r\<lparr>ru_pass := Some (filter (\<lambda>k. k \<notin> ru_written r) (map fst (pe_items (ru_entry r))))\<rparr>)"
| Write: "ru_pass r = Some ks \<Longrightarrow> k \<in> set ks \<Longrightarrow> quiet_step p r (r\<lparr>ru_written := insert k (ru_written r)\<rparr>)"
| Consume: "ru_pass r = Some ks \<Longrightarrow> set ks \<subseteq> ru_written r \<Longrightarrow> k \<in> set ks \<Longrightarrow>
     quiet_step p r (r\<lparr>ru_offset := offset_after (ru_offset r) k\<rparr>)"
| Finish: "ru_pass r = Some ks \<Longrightarrow> quiet_step p r (r\<lparr>ru_pass := None\<rparr>)"

text \<open>A crash at any moment forgets what is in memory and nothing else.\<close>

inductive run_step :: "platform \<Rightarrow> run \<Rightarrow> run \<Rightarrow> bool" for p where
  Quiet: "quiet_step p r r' \<Longrightarrow> run_step p r r'"
| Crash: "run_step p r (r\<lparr>ru_entry := fresh_entry, ru_pass := None\<rparr>)"

definition first_run :: run where
  "first_run = \<lparr>ru_server = [], ru_arrived = {}, ru_written = {}, ru_offset = None, ru_entry = fresh_entry, ru_pass = None\<rparr>"

abbreviation run_reaches :: "platform \<Rightarrow> run \<Rightarrow> bool" where
  "run_reaches p r \<equiv> (run_step p)\<^sup>*\<^sup>* first_run r"

inductive_cases quiet_stepE: "quiet_step p r r'"
inductive_cases run_stepE: "run_step p r r'"

end
