(* ===== verification/Telegram_Poll_Props.thy ===== *)
theory Telegram_Poll_Props
  imports Telegram_Poll Sample
begin

text \<open>
  The durability of the Telegram channel: every update that ever was is on disk or still held by the
  server, whatever crashes; and the state in which the worker waits for ever.
\<close>

section \<open>What the worker knows\<close>

lemma keys_remember_one: "set (keys (remember_one p now u sn)) = insert (update_id_of u) (set (keys sn))"
  by (force simp: remember_one_def dest: map_of_SomeD)

lemma keys_remember_all: "set (keys (remember_all p now us sn)) = set (keys sn) \<union> update_id_of ` set us"
proof (induction us arbitrary: sn)
  case (Cons u us)
  have "remember_all p now (u # us) sn = remember_all p now us (remember_one p now u sn)"
    by (simp add: remember_all_def)
  with Cons keys_remember_one show ?case by auto
qed (simp add: remember_all_def)

lemma keys_drop_confirmed:
  "set (keys (drop_confirmed ofs sn)) = {k \<in> set (keys sn). case ofs of None \<Rightarrow> True | Some n \<Rightarrow> n \<le> k}"
  by (auto simp: drop_confirmed_def split: option.split)

lemma keys_retained:
  "set (keys (retained ofs sn)) = {k \<in> set (keys sn). case ofs of None \<Rightarrow> True | Some n \<Rightarrow> n \<le> k}"
  by (auto simp: retained_def image_iff split: option.splits) force+

section \<open>Nothing is lost\<close>

text \<open>\<open>X\<close> leaves no update out that is earlier than one of its own and not on disk.\<close>

definition closed :: "int set \<Rightarrow> int set \<Rightarrow> int set \<Rightarrow> bool" where
  "closed arr wr X \<longleftrightarrow> X \<subseteq> arr \<and> (\<forall>x\<in>X. \<forall>y\<in>arr. y < x \<longrightarrow> y \<in> X \<or> y \<in> wr)"

lemma closed_empty [simp]: "closed arr wr {}"
  by (simp add: closed_def)

lemma closed_union: "closed arr wr X \<Longrightarrow> closed arr wr Y \<Longrightarrow> closed arr wr (X \<union> Y)"
  unfolding closed_def by blast

lemma closed_written: "closed arr wr X \<Longrightarrow> closed arr (insert k wr) X"
  by (auto simp: closed_def)

lemma closed_arrive: "closed arr wr X \<Longrightarrow> \<forall>j\<in>arr. j < k \<Longrightarrow> closed (insert k arr) wr X"
  by (fastforce simp: closed_def)

lemma closed_unwritten: "closed arr wr X \<Longrightarrow> closed arr wr {k \<in> X. k \<notin> wr}"
  by (auto simp: closed_def)

definition behind :: "int option \<Rightarrow> int set \<Rightarrow> int set \<Rightarrow> bool" where
  "behind ofs arr wr \<longleftrightarrow> (case ofs of None \<Rightarrow> True | Some n \<Rightarrow> (\<forall>k\<in>arr. k < n \<longrightarrow> k \<in> wr) \<and> n - 1 \<in> arr)"

lemma closed_above:
  assumes "closed arr wr X" "behind ofs arr wr"
  shows "closed arr wr {k \<in> X. case ofs of None \<Rightarrow> True | Some n \<Rightarrow> n \<le> k}"
proof (cases ofs)
  case None
  with assms(1) show ?thesis by simp
next
  case (Some n)
  have "y \<in> X \<and> n \<le> y \<or> y \<in> wr" if "x \<in> X" "y \<in> arr" "y < x" for x y
  proof (cases "y < n")
    case True
    with assms(2) Some that(2) show ?thesis by (simp add: behind_def)
  next
    case False
    with assms(1) that show ?thesis by (auto simp: closed_def)
  qed
  with assms(1) Some show ?thesis by (auto simp: closed_def)
qed

lemma sorted_take_before:
  assumes "sorted_wrt (<) (xs :: int list)" "x \<in> set (take n xs)" "y \<in> set xs" "y < x"
  shows "y \<in> set (take n xs)"
proof (rule ccontr)
  assume "y \<notin> set (take n xs)"
  moreover have "xs = take n xs @ drop n xs" by simp
  ultimately have "y \<in> set (drop n xs)" using assms(3) by (metis Un_iff set_append)
  moreover have "sorted_wrt (<) (take n xs @ drop n xs)" using assms(1) by simp
  ultimately have "x < y" using assms(2) by (auto simp: sorted_wrt_append simp del: append_take_drop_id)
  with assms(4) show False by simp
qed

lemma closed_answer:
  assumes "sorted_wrt (<) (map update_id_of us)" "update_id_of ` set us \<subseteq> arr" "arr \<subseteq> update_id_of ` set us \<union> wr"
    and "behind ofs arr wr"
  shows "closed arr wr (update_id_of ` set (take n (still_held ofs us)))"
proof -
  let ?held = "map update_id_of (still_held ofs us)"
  have "?held = filter (\<lambda>k. case ofs of None \<Rightarrow> True | Some m \<Rightarrow> m \<le> k) (map update_id_of us)"
    by (simp add: still_held_def filter_map comp_def)
  then have sorted: "sorted_wrt (<) ?held" and held: "set ?held = {k \<in> update_id_of ` set us. case ofs of None \<Rightarrow> True | Some m \<Rightarrow> m \<le> k}"
    using assms(1) by (simp_all add: sorted_wrt_filter)
  have "y \<in> set (take n ?held) \<or> y \<in> wr" if "x \<in> set (take n ?held)" "y \<in> arr" "y < x" for x y
  proof (cases "y \<in> set ?held")
    case True
    with sorted that show ?thesis by (blast intro: sorted_take_before)
  next
    case False
    with held that(2) assms(3,4) show ?thesis by (auto simp: behind_def split: option.splits)
  qed
  moreover have "set (take n ?held) \<subseteq> arr" using held assms(2) set_take_subset [of n ?held] by auto
  ultimately show ?thesis by (auto simp: closed_def take_map)
qed

definition run_ok :: "run \<Rightarrow> bool" where
  "run_ok r \<longleftrightarrow>
     sorted_wrt (<) (map update_id_of (ru_server r)) \<and> update_id_of ` set (ru_server r) \<subseteq> ru_arrived r
   \<and> ru_arrived r \<subseteq> update_id_of ` set (ru_server r) \<union> ru_written r
   \<and> behind (ru_offset r) (ru_arrived r) (ru_written r)
   \<and> closed (ru_arrived r) (ru_written r) (set (keys (pe_seen (ru_entry r))))
   \<and> closed (ru_arrived r) (ru_written r) (set (keys (pe_items (ru_entry r))))
   \<and> closed (ru_arrived r) (ru_written r) (case ru_pass r of None \<Rightarrow> {} | Some ks \<Rightarrow> set ks)"

lemma first_run_ok: "run_ok first_run"
  by (simp add: run_ok_def first_run_def fresh_entry_def behind_def)

lemma behind_arrive: "behind ofs arr wr \<Longrightarrow> \<forall>j\<in>arr. j < k \<Longrightarrow> behind ofs (insert k arr) wr"
  by (auto simp: behind_def split: option.splits)

lemma behind_written: "behind ofs arr wr \<Longrightarrow> behind ofs arr (insert k wr)"
  by (auto simp: behind_def split: option.splits)

lemma behind_consume:
  assumes "behind ofs arr wr" "closed arr wr X" "X \<subseteq> wr" "k \<in> X"
  shows "behind (offset_after ofs k) arr wr"
proof -
  have "j \<in> wr" if "j \<in> arr" "j < k + 1" for j
  proof (cases "j = k")
    case False
    with that(2) have "j < k" by simp
    with assms(2-4) that(1) show ?thesis unfolding closed_def by blast
  qed (use assms in blast)
  moreover have "k \<in> arr" using assms by (auto simp: closed_def)
  ultimately show ?thesis
    using assms(1) by (auto simp: behind_def offset_after_def max_def split: option.splits)
qed

lemma ask_ok:
  assumes "run_ok r" "held = still_held (ru_offset r) (ru_server r)"
  shows "run_ok (r\<lparr>ru_server := held, ru_entry := (ru_entry r)\<lparr>pe_seen :=
       remember_all p now (take n held) (drop_confirmed (ru_offset r) (pe_seen (ru_entry r)))\<rparr>\<rparr>)"
proof -
  from assms(1) have server: "sorted_wrt (<) (map update_id_of (ru_server r))" "update_id_of ` set (ru_server r) \<subseteq> ru_arrived r"
    "ru_arrived r \<subseteq> update_id_of ` set (ru_server r) \<union> ru_written r" "behind (ru_offset r) (ru_arrived r) (ru_written r)"
    by (simp_all add: run_ok_def)
  have "sorted_wrt (<) (map update_id_of held)"
    using server(1) unfolding assms(2) still_held_def sorted_wrt_map by (rule sorted_wrt_filter)
  moreover have "ru_arrived r \<subseteq> update_id_of ` set held \<union> ru_written r"
  proof
    fix k assume k: "k \<in> ru_arrived r"
    show "k \<in> update_id_of ` set held \<union> ru_written r"
    proof (cases "case ru_offset r of None \<Rightarrow> True | Some n \<Rightarrow> n \<le> k")
      case True
      with k server(3) show ?thesis unfolding assms(2) still_held_def by auto
    next
      case False
      with k server(4) show ?thesis by (auto simp: behind_def split: option.splits)
    qed
  qed
  moreover have "closed (ru_arrived r) (ru_written r)
      (set (keys (remember_all p now (take n held) (drop_confirmed (ru_offset r) (pe_seen (ru_entry r))))))"
    unfolding keys_remember_all keys_drop_confirmed assms(2)
    using assms(1) by (intro closed_union closed_above closed_answer server) (simp_all add: run_ok_def)
  ultimately show ?thesis
    using assms by (auto simp: run_ok_def still_held_def)
qed

lemma settle_ok:
  assumes "run_ok r" "map fst its = map fst (retained (ru_offset r) (pe_seen (ru_entry r)))"
  shows "run_ok (r\<lparr>ru_entry := hand_over its (ru_entry r)\<rparr>)"
proof -
  from assms(2) have "set (keys its) = {k \<in> set (keys (pe_seen (ru_entry r))). case ru_offset r of None \<Rightarrow> True | Some n \<Rightarrow> n \<le> k}"
    using keys_retained [of "ru_offset r" "pe_seen (ru_entry r)"] by metis
  with assms(1) closed_above [of "ru_arrived r" "ru_written r" _ "ru_offset r"] show ?thesis
    unfolding run_ok_def hand_over_def by simp
qed

lemma quiet_step_ok:
  assumes "quiet_step p r r'" "run_ok r"
  shows "run_ok r'"
  using assms
proof (induction rule: quiet_step.induct)
  case (Arrive r u)
  then show ?case
    by (auto simp: run_ok_def sorted_wrt_append intro: behind_arrive closed_arrive)
next
  case (Ask r held now n)
  with ask_ok show ?case by blast
next
  case (Settle r its)
  then show ?case by (blast intro: settle_ok)
next
  case (Begin r)
  have "set (filter (\<lambda>k. k \<notin> ru_written r) (keys (pe_items (ru_entry r)))) = {k \<in> set (keys (pe_items (ru_entry r))). k \<notin> ru_written r}"
    by auto
  with Begin closed_unwritten [of "ru_arrived r" "ru_written r" "set (keys (pe_items (ru_entry r)))"] show ?case
    unfolding run_ok_def by simp
next
  case (Write r ks k)
  then show ?case by (auto simp: run_ok_def intro: closed_written behind_written)
next
  case (Consume r ks k)
  then show ?case using behind_consume [of "ru_offset r" "ru_arrived r" "ru_written r" "set ks" k]
    by (simp add: run_ok_def)
next
  case (Finish r ks)
  then show ?case by (simp add: run_ok_def)
qed

lemma run_step_ok:
  assumes "run_step p r r'" "run_ok r" shows "run_ok r'"
  using assms
proof (induction rule: run_step.induct)
  case (Quiet r r')
  then show ?case by (rule quiet_step_ok)
next
  case (Crash r)
  then show ?case by (simp add: run_ok_def fresh_entry_def)
qed

lemma reached_ok: "run_reaches p r \<Longrightarrow> run_ok r"
  by (induction rule: rtranclp_induct) (auto intro: first_run_ok run_step_ok)


section \<open>A worker that waits for ever\<close>

definition stuck :: "run \<Rightarrow> bool" where
  "stuck r \<longleftrightarrow> worker_waits (ru_entry r) (ru_offset r) \<and> set (keys (pe_items (ru_entry r))) \<subseteq> ru_written r
     \<and> (case ru_pass r of None \<Rightarrow> True | Some ks \<Rightarrow> ks = [])"

lemma stuck_step:
  assumes "quiet_step p r r'" "stuck r"
  shows "stuck r' \<and> ru_written r' = ru_written r \<and> (\<forall>k\<in>ru_arrived r. \<forall>j\<in>ru_arrived r' - ru_arrived r. k < j)
    \<and> ru_arrived r \<subseteq> ru_arrived r'"
  using assms
proof (induction rule: quiet_step.induct)
  case (Begin r)
  then have "filter (\<lambda>k. k \<notin> ru_written r) (keys (pe_items (ru_entry r))) = []"
    by (auto simp: stuck_def filter_empty_conv)
  with Begin show ?case by (simp add: stuck_def)
qed (auto simp: stuck_def)

lemma stuck_run:
  assumes "(quiet_step p)\<^sup>*\<^sup>* r r'" "stuck r"
  shows "stuck r' \<and> ru_written r' = ru_written r"
  using assms
proof (induction rule: rtranclp_induct)
  case (step r1 r2)
  then have "stuck r1" "ru_written r1 = ru_written r" by simp_all
  with stuck_step [OF step.hyps(2)] show ?case by simp
qed simp

text \<open>One update arrives, is handed over and written; then the process stops before the offset moves, and
  after the restart the server sends the update again.\<close>

definition lone_update :: json where
  "lone_update = JObj [(''update_id'', JInt 7)]"

lemma lone_update_id [simp]: "update_id_of lone_update = 7"
  by (simp add: update_id_of_def lone_update_def member_of_def members_of_def)

definition lone_run :: "int set \<Rightarrow> poll_entry \<Rightarrow> int list option \<Rightarrow> run" where
  "lone_run wr e pass =
     \<lparr>ru_server = [lone_update], ru_arrived = {7}, ru_written = wr, ru_offset = None, ru_entry = e, ru_pass = pass\<rparr>"

definition lone_seen :: "platform \<Rightarrow> seen" where
  "lone_seen p = [(7, arrived_item p [] lone_update)]"

lemma lone_handed:
  "(quiet_step p)\<^sup>*\<^sup>* (lone_run wr fresh_entry None)
     (lone_run wr \<lparr>pe_items = lone_seen p, pe_highest = Some 7, pe_seen = lone_seen p, pe_fault = None\<rparr> None)"
proof -
  let ?asked = "lone_run wr (fresh_entry\<lparr>pe_seen := lone_seen p\<rparr>) None"
  let ?r = "lone_run wr fresh_entry None"
  have "remember_all p [] (take 1 [lone_update]) (drop_confirmed (ru_offset ?r) (pe_seen (ru_entry ?r))) = lone_seen p"
    by (simp add: lone_run_def fresh_entry_def drop_confirmed_def remember_all_def remember_one_def lone_seen_def)
  moreover have "quiet_step p ?r (?r\<lparr>ru_server := [lone_update], ru_entry := (ru_entry ?r)\<lparr>pe_seen :=
      remember_all p [] (take 1 [lone_update]) (drop_confirmed (ru_offset ?r) (pe_seen (ru_entry ?r)))\<rparr>\<rparr>)"
    by (rule quiet_step.Ask) (simp_all add: lone_run_def fresh_entry_def worker_waits_def still_held_def)
  ultimately have "quiet_step p ?r ?asked" by (simp add: lone_run_def)
  moreover have "quiet_step p ?asked
     (lone_run wr \<lparr>pe_items = lone_seen p, pe_highest = Some 7, pe_seen = lone_seen p, pe_fault = None\<rparr> None)"
    using quiet_step.Settle [of ?asked "lone_seen p" p]
    by (simp add: lone_run_def fresh_entry_def worker_waits_def retained_def lone_seen_def hand_over_def highest_of_def)
  ultimately show ?thesis by (rule converse_rtranclp_into_rtranclp [OF _ r_into_rtranclp])
qed

lemma quiet_reaches: "(quiet_step p)\<^sup>*\<^sup>* r r' \<Longrightarrow> run_reaches p r \<Longrightarrow> run_reaches p r'"
proof (induction rule: rtranclp_induct)
  case (step r1 r2)
  then have "run_reaches p r1" "run_step p r1 r2" by (simp_all add: run_step.Quiet)
  then show ?case by (rule rtranclp.rtrancl_into_rtrancl)
qed

lemma lone_reached:
  "run_reaches p (lone_run {7} \<lparr>pe_items = lone_seen p, pe_highest = Some 7, pe_seen = lone_seen p, pe_fault = None\<rparr> None)"
proof -
  let ?e = "\<lparr>pe_items = lone_seen p, pe_highest = Some 7, pe_seen = lone_seen p, pe_fault = None\<rparr>"
  have "quiet_step p first_run (lone_run {} fresh_entry None)"
    using quiet_step.Arrive [of first_run lone_update p] by (simp add: first_run_def lone_run_def)
  then have "run_step p first_run (lone_run {} fresh_entry None)" by (rule run_step.Quiet)
  then have "run_reaches p (lone_run {} fresh_entry None)" by (rule r_into_rtranclp)
  from quiet_reaches [OF lone_handed this] have "run_reaches p (lone_run {} ?e None)" .
  moreover have "quiet_step p (lone_run {} ?e None) (lone_run {} ?e (Some [7]))"
    using quiet_step.Begin [of "lone_run {} ?e None" p] by (simp add: lone_run_def lone_seen_def)
  ultimately have "run_reaches p (lone_run {} ?e (Some [7]))"
    by (rule quiet_reaches [OF r_into_rtranclp, rotated])
  moreover have "quiet_step p (lone_run {} ?e (Some [7])) (lone_run {7} ?e (Some [7]))"
    using quiet_step.Write [of "lone_run {} ?e (Some [7])" "[7]" 7 p] by (simp add: lone_run_def)
  ultimately have "run_reaches p (lone_run {7} ?e (Some [7]))"
    by (rule quiet_reaches [OF r_into_rtranclp, rotated])
  moreover have "run_step p (lone_run {7} ?e (Some [7])) (lone_run {7} fresh_entry None)"
    using run_step.Crash [of p "lone_run {7} ?e (Some [7])"] by (simp add: lone_run_def)
  ultimately have "run_reaches p (lone_run {7} fresh_entry None)"
    by (rule rtranclp.rtrancl_into_rtrancl)
  from quiet_reaches [OF lone_handed this] show ?thesis .
qed




end
