(* ===== verification/Positions.thy ===== *)
theory Positions
  imports Js_Values
begin

text \<open>
  Numbers as texts of a fixed width: padded with zeros, two numbers compare as texts as they do as
  numbers, which is what the cursors of the chat channels rest on.
\<close>

section \<open>Padded positions\<close>

lemma digitE:
  assumes "digit c" obtains d where "byte_of c = 48 + d" "d < 10"
proof -
  from assms have "byte_of c = 48 + (byte_of c - 48)" "byte_of c - 48 < 10" by (auto simp: digit_def)
  then show thesis by (rule that)
qed

lemma read_less:
  "length a = length b \<Longrightarrow> list_all digit a \<Longrightarrow> list_all digit b \<Longrightarrow> m < n \<Longrightarrow> read_nat a m < read_nat b n"
proof (induction a b arbitrary: m n rule: list_induct2)
  case (Cons x a y b)
  then obtain d e where "byte_of x = 48 + d" "d < 10" "byte_of y = 48 + e" "e < 10"
    by (auto elim!: digitE)
  with Cons show ?case by (auto intro!: Cons.IH)
qed simp

lemma units_le_numbers:
  "length a = length b \<Longrightarrow> list_all digit a \<Longrightarrow> list_all digit b \<Longrightarrow>
     units_le (map byte_of a) (map byte_of b) \<longleftrightarrow> read_nat a k \<le> read_nat b k"
proof (induction a b arbitrary: k rule: list_induct2)
  case (Cons x a y b)
  then obtain d e where de: "byte_of x = 48 + d" "d < 10" "byte_of y = 48 + e" "e < 10"
    by (auto elim!: digitE)
  have "read_nat a (10 * k + d) < read_nat b (10 * k + e)" if "d < e"
    using Cons that by (intro read_less) simp_all
  moreover have "read_nat b (10 * k + e) < read_nat a (10 * k + d)" if "e < d"
    using Cons that by (intro read_less) simp_all
  moreover have "units_le (map byte_of a) (map byte_of b) \<longleftrightarrow> read_nat a (10 * k + d) \<le> read_nat b (10 * k + d)"
    using Cons by simp
  ultimately show ?case
    using de by (cases d e rule: linorder_cases) auto
qed simp

lemma digits_ascii: "list_all digit t \<Longrightarrow> ascii t"
  by (induction t) (auto simp: digit_def)

lemma js_le_numbers:
  assumes "length a = length b" "list_all digit a" "list_all digit b"
  shows "js_le a b \<longleftrightarrow> read_nat a 0 \<le> read_nat b 0"
  using units_le_numbers [OF assms, of 0] digits_ascii assms by (simp add: js_le_def utf16_ascii)

lemma digits_show_nat: "list_all digit (show_nat n)"
  by (auto simp: list_all_iff digit_def dest!: show_nat_digits)

lemma read_zeros: "read_nat (replicate k (CHR ''0'') @ t) 0 = read_nat t 0"
proof -
  have "read_nat (replicate k (CHR ''0'')) 0 = 0" by (induction k) auto
  then show ?thesis by (simp add: read_nat_append)
qed

lemma length_show_nat: "n < 10 ^ k \<Longrightarrow> 0 < k \<Longrightarrow> length (show_nat n) \<le> k"
proof (induction n arbitrary: k rule: show_nat.induct)
  case (1 n)
  show ?case
  proof (cases "n < 10")
    case True
    then show ?thesis using 1 by (subst show_nat.simps) simp
  next
    case False
    from 1(3) obtain j where j: "k = Suc j" by (cases k) auto
    with False 1(2) have "0 < j" by (cases j) auto
    note k = j this
    from 1(2) k have "n div 10 < 10 ^ j" by (simp add: less_mult_imp_div_less)
    from 1(1) [OF False this k(2)] False k show ?thesis by (subst show_nat.simps) simp
  qed
qed

lemma pad_start_facts:
  assumes "n < 10 ^ k" "0 < k"
  shows "length (pad_start k (show_nat n)) = k" "list_all digit (pad_start k (show_nat n))"
    "read_nat (pad_start k (show_nat n)) 0 = n"
proof -
  note len = length_show_nat [OF assms] and asc = digits_ascii [OF digits_show_nat [of n]]
  show "length (pad_start k (show_nat n)) = k" using len asc by (simp add: pad_start_def)
  show "list_all digit (pad_start k (show_nat n))"
    using digits_show_nat [of n] by (simp add: pad_start_def) (simp add: list_all_iff digit_def)
  show "read_nat (pad_start k (show_nat n)) 0 = n" by (simp add: pad_start_def read_zeros)
qed

lemma pad_start_le:
  "m < 10 ^ k \<Longrightarrow> n < 10 ^ k \<Longrightarrow> 0 < k \<Longrightarrow> js_le (pad_start k (show_nat m)) (pad_start k (show_nat n)) \<longleftrightarrow> m \<le> n"
  by (subst js_le_numbers) (simp_all add: pad_start_facts)

lemma pad_start_inject:
  "m < 10 ^ k \<Longrightarrow> n < 10 ^ k \<Longrightarrow> 0 < k \<Longrightarrow> pad_start k (show_nat m) = pad_start k (show_nat n) \<longleftrightarrow> m = n"
  by (metis pad_start_facts(3))

text \<open>Texts of equal length in front of others.\<close>

lemma units_le_append:
  "length a = length b \<Longrightarrow> units_le (a @ x) (b @ y) \<longleftrightarrow> (if a = b then units_le x y else units_le a b)"
  by (induction a b rule: list_induct2) auto

lemma js_le_append:
  assumes "length a = length b" "ascii a" "ascii b" "ascii x" "ascii y"
  shows "js_le (a @ x) (b @ y) \<longleftrightarrow> (if a = b then js_le x y else js_le a b)"
proof -
  have "map byte_of a = map byte_of b \<longleftrightarrow> a = b"
    by (rule inj_map_eq_map) (auto intro: injI)
  with assms show ?thesis by (simp add: js_le_def utf16_ascii units_le_append)
qed

end
