(* ===== verification/Telegram_Batch.thy ===== *)
theory Telegram_Batch
  imports Telegram_Props Loop_Sample "HOL-Library.Multiset" "HOL-Library.Sublist"
begin

text \<open>
  What becomes of a batch and of a reply on the Telegram channel: every item is a record of its own,
  the report of a send, an update that names no chat, and edits whose revision numbers collide. Ends
  with the concrete inputs of the channel's properties.
\<close>

section \<open>Every item becomes a record\<close>

definition kept_of :: "platform \<Rightarrow> item \<Rightarrow> string \<times> string \<times> string option" where
  "kept_of p it = (raw_of p it, kind_of it, it_position it)"

definition kept_in :: "entry \<Rightarrow> string \<times> string \<times> string option" where
  "kept_in e = (en_raw e, en_cursor e)"

definition entry_of :: "outcome_of_item \<Rightarrow> entry" where
  "entry_of x = (case x of Taken e \<Rightarrow> e | Set_Aside e _ \<Rightarrow> e)"

lemma payload_one_keeps:
  assumes "payload_one p num c s revs it = Inr (x, revs')"
  shows "kept_in (entry_of x) = kept_of p it"
proof (cases "ur_unknown (message_of (it_update it))")
  case None
  let ?rd = "message_of (it_update it)"
  from None assms obtain chat md operator where
    known: "chat_of p it = Inr chat" "media_of p num (ur_message ?rd) = Inr md"
      "(if is_own p (tg_channel c) (who_sent p (ur_message ?rd)) then Inr False
        else is_operator p (tg_channel c) (sd_id (who_sent p (ur_message ?rd)))) = Inr operator"
    by (auto simp: payload_one_def Let_def bind_res_Inr_iff)
  obtain revn revs'' where rev: "revision_of p s revs ?rd (chat_conversation p c chat)
      (string_of p (member_at (ur_message ?rd) ''message_id'')) = (revn, revs'')" by (rule prod.exhaust)
  from None assms known rev obtain record0 where
    "x = (if readable (ur_message ?rd) md
       then Taken \<lparr>en_record = record0, en_raw = raw_of p it, en_cursor = (kind_of it, it_position it),
              en_attachments = attachments_for p it md\<rparr>
       else Set_Aside \<lparr>en_record = spread record0 [(''body'', JStr []), (''disposition'', JStr ''parked'')],
              en_raw = raw_of p it, en_cursor = (kind_of it, it_position it), en_attachments = []\<rparr>
            (''the message carries '' @ service_kind_of (ur_message ?rd) @ '', which this adapter does not read''))"
    unfolding payload_one_def Let_def by (auto simp: bind_res_Inr_iff simp del: spread_Cons)
  then show ?thesis by (simp add: kept_in_def kept_of_def entry_of_def)
next
  case (Some kind)
  with assms show ?thesis
    by (auto simp: payload_one_def Let_def kept_in_def kept_of_def entry_of_def unreadable_update_def)
qed

lemma payload_walk_keeps:
  "payload_walk p num c s revs its = Inr xs \<Longrightarrow> map (kept_in \<circ> entry_of) xs = map (kept_of p) its"
proof (induction its arbitrary: revs xs)
  case (Cons it its)
  then obtain x revs' xs' where "payload_one p num c s revs it = Inr (x, revs')"
    "payload_walk p num c s revs' its = Inr xs'" "xs = x # xs'"
    by (auto simp: bind_res_Inr_iff)
  with Cons.IH [of revs' xs'] payload_one_keeps [of p num c s revs it x revs'] show ?case by simp
qed simp

lemma mset_partition:
  "mset (map kept_in (List.map_filter taken xs)) + mset (map (kept_in \<circ> fst) (List.map_filter set_aside xs))
     = mset (map (kept_in \<circ> entry_of) xs)"
  by (induction xs) (auto simp: List.map_filter_simps taken_def set_aside_def entry_of_def split: outcome_of_item.split)

text \<open>Where a batch becomes a payload, every item of it is an entry or parked, once, with its own raw
  update and its own cursor position: nothing is dropped and nothing is made up.\<close>

theorem payload_accounts_for_every_item:
  assumes "payload p num c s its = Inr (entries, parked)"
  shows "length entries + length parked = length its
    \<and> mset (map kept_in entries) + mset (map (kept_in \<circ> fst) parked) = mset (map (kept_of p) its)"
proof
  from assms obtain xs where xs: "payload_walk p num c s [] its = Inr xs" "entries = List.map_filter taken xs"
    "parked = List.map_filter set_aside xs"
    by (auto simp: payload_def bind_res_Inr_iff)
  from mset_partition [of xs] payload_walk_keeps [OF xs(1)] xs(2,3)
  show all: "mset (map kept_in entries) + mset (map (kept_in \<circ> fst) parked) = mset (map (kept_of p) its)" by simp
  from arg_cong [OF all, of size] show "length entries + length parked = length its" by simp
qed

section \<open>An update that names no chat\<close>

lemma payload_walk_chatless:
  assumes "it \<in> set its" "ur_unknown (message_of (it_update it)) = None" "chat_of p it = Inl e"
  shows "\<not> is_ok (payload_walk p num c s revs its)"
  using assms(1)
proof (induction its arbitrary: revs)
  case (Cons it' its)
  have "payload_one p num c s revs it = Inl e" for revs
    using assms(2,3) by (simp add: payload_one_def Let_def)
  with Cons show ?case
    by (cases "payload_one p num c s revs it'") (auto simp: is_ok_iff bind_res_Inr_iff)
qed simp

text \<open>One message without a chat ends every pass: it stays pending whatever the cursors say, and no batch
  that holds it becomes a payload, so nothing of the batch is captured or consumed.\<close>

theorem chatless_update_stops_the_channel:
  assumes "it \<in> set its" "ur_unknown (message_of (it_update it)) = None" "chat_of p it = Inl e"
  shows "\<not> is_ok (payload p num c s its)" and "past_cursors p c s it = Inr True"
  using payload_walk_chatless [OF assms, of num c s "[]"] assms(3)
  by (auto simp: payload_def is_ok_iff bind_res_Inr_iff past_cursors_def conversation_id_of_def)

section \<open>Revision numbers\<close>

text \<open>The batch counts revisions by the message number alone, which is a number within one chat. Edits of
  messages of the same number in two chats, read in one batch, share the count; so the next edit in
  the second chat is given a number that is already taken there, and a capture under a taken number
  keeps the first text.\<close>

theorem edits_share_a_counter:
  assumes "ur_edited e1" "ur_edited e2" "ur_edited e3"
    and "count_revisions p s chat1 n = k" "count_revisions p s' chat2 n = k + 1"
  shows "fst (revision_of p s (snd (revision_of p s [] e1 chat1 n)) e2 chat2 n) = fst (revision_of p s' [] e3 chat2 n)"
  using assms by (simp add: revision_of_def)

section \<open>The report of a send\<close>

lemma send_calls_report:
  assumes "send_calls p api made xs ids = (st, ids', made')"
  shows "(st = ''sent'' \<longrightarrow> made' = made @ xs \<and> length ids' = length ids + length xs)
   \<and> (st = ''failed'' \<longrightarrow> ids' = [] \<and> ids = []
        \<and> (\<exists>x f fs. made' = made @ [x] \<and> api made x = Inl (Stream_Fault (f # fs)) \<and> code f = ''BOT_API_REFUSED''))
   \<and> st \<in> {''sent'', ''failed'', ''unknown''} \<and> prefix made' (made @ xs)"
  using assms
proof (induction p api made xs ids rule: send_calls.induct)
  case (2 p api made x xs ids)
  show ?case
  proof (cases "api made x")
    case (Inl e)
    with 2(2) show ?thesis
      by (auto simp: outcome_of_def prefix_def split: exn.splits list.splits if_splits)
  next
    case (Inr v)
    with 2 show ?thesis by auto
  qed
qed auto

text \<open>A send goes to a chat the declaration names or to none. It reports \<open>failed\<close> only where the server
  itself refused the first call, so nothing went out; it reports \<open>sent\<close> only where every piece of the
  reply and every attachment that has bytes was accepted, and then holds an identifier for each.\<close>

theorem send_reports_what_happened:
  assumes "send_telegram p num c transport api s m = Some (Inr (st, ids, made))"
  shows "answers_in p (tg_channel c) (chat_id_of c m)
    \<and> (st = ''failed'' \<longrightarrow> ids = [] \<and> (\<exists>x f fs. made = [x] \<and> api [] x = Inl (Stream_Fault (f # fs)) \<and> code f = ''BOT_API_REFUSED''))
    \<and> (st = ''sent'' \<longrightarrow> length ids = length made \<and> (\<exists>to chunks. split_body (utf16 (body m)) (chars_limit (tg_channel c)) = Some chunks
           \<and> made = texts to chunks @ documents m))"
proof -
  from assms have allowed: "answers_in p (tg_channel c) (chat_id_of c m)" by (simp add: send_telegram_def split: if_splits)
  from assms obtain chunks to where chunks: "split_body (utf16 (body m)) (chars_limit (tg_channel c)) = Some chunks"
    and calls: "send_calls p api [] (texts to chunks @ documents m) [] = (st, ids, made)"
    by (auto simp: send_telegram_def send_live_def bind_res_Inr_iff split: if_splits option.splits)
  note report = send_calls_report [OF calls]
  from report have refused: "st = ''failed'' \<Longrightarrow> ids = [] \<and> (\<exists>x f fs. made = [x] \<and> api [] x = Inl (Stream_Fault (f # fs)) \<and> code f = ''BOT_API_REFUSED'')"
    by simp
  from report chunks have "st = ''sent'' \<Longrightarrow> length ids = length made \<and> (\<exists>to chunks. split_body (utf16 (body m)) (chars_limit (tg_channel c)) = Some chunks
           \<and> made = texts to chunks @ documents m)"
    by auto
  with allowed refused show ?thesis by blast
qed

section \<open>Concrete inputs\<close>

definition sample_telegram :: telegram where
  "sample_telegram = \<lparr>tg_agent = ''sales'', tg_account = ''a'', tg_channel = telegram_channel [], tg_now = ''100''\<rparr>"

definition sample_update :: json where
  "sample_update = JObj [(''update_id'', JInt 7), (''message'', JObj [(''message_id'', JInt 5),
     (''chat'', JObj [(''id'', JInt 9), (''type'', JStr ''private'')]), (''from'', JObj [(''id'', JInt 3), (''first_name'', JStr ''Ann'')]),
     (''text'', JStr ''hi'')])]"

definition item_with :: "json \<Rightarrow> item" where
  "item_with u = arrived_item sample_platform ''100'' u"

theorem payload_accounts_for_every_item_witness:
  "\<exists>entries parked. payload sample_platform (\<lambda>t. None) sample_telegram (store_open 0) [item_with sample_update, item_with lone_update] = Inr (entries, parked)
     \<and> length entries + length parked = 2"
proof -
  have "is_ok (payload sample_platform (\<lambda>t. None) sample_telegram (store_open 0) [item_with sample_update, item_with lone_update])"
    by code_simp
  then obtain entries parked where
    "payload sample_platform (\<lambda>t. None) sample_telegram (store_open 0) [item_with sample_update, item_with lone_update] = Inr (entries, parked)"
    by (auto simp: is_ok_iff)
  with payload_accounts_for_every_item [OF this] show ?thesis by simp
qed

theorem consume_moves_the_offset_witness:
  "next_offset sample_platform (\<lambda>t. None) ''a'' (snd (consume sample_platform sample_telegram (item_with lone_update) (store_open 0))) = Inr (Some 8)"
proof -
  let ?it = "item_with lone_update"
  have stored: "offset_stored sample_platform (tg_account sample_telegram) (store_open 0) None"
    by (auto simp: offset_stored_def intro!: exI [of _ "\<lparr>cur_message = None, cur_revision = None\<rparr>"]) code_simp
  have chatless: "\<not> is_ok (conversation_id_of sample_platform sample_telegram ?it)" by code_simp
  have "fst (consume sample_platform sample_telegram ?it (store_open 0)) = Inr ()" by code_simp
  then have run: "consume sample_platform sample_telegram ?it (store_open 0) = (Inr (), snd (consume sample_platform sample_telegram ?it (store_open 0)))"
    by (metis prod.collapse)
  have "member_at (it_update ?it) ''update_id'' = Some (JInt 7)" by code_simp
  moreover have "store_cursor_file sample_platform cid \<noteq> store_cursor_file sample_platform (updates_conversation (tg_account sample_telegram))"
    if "conversation_id_of sample_platform sample_telegram ?it = Inr cid" for cid
    using chatless that by simp
  ultimately have "next_offset sample_platform (\<lambda>t. None) (tg_account sample_telegram)
      (snd (consume sample_platform sample_telegram ?it (store_open 0))) = Inr (offset_after (map_option (\<lambda>v. v + 1) None) 7)"
    by (intro consume_moves_the_offset [OF stored run, THEN conjunct2]) simp_all
  then show ?thesis by (simp add: offset_after_def sample_telegram_def)
qed


theorem send_reports_what_happened_witness:
  "\<exists>ids made. send_telegram sample_platform (\<lambda>t. None) sample_telegram (Inr ()) (\<lambda>made x. Inl (Stream_Fault [Fault ''BOT_API_REFUSED'' []]))
     (store_open 0) sample_reply = Some (Inr (''failed'', ids, made)) \<and> ids = []"
proof -
  let ?r = "send_telegram sample_platform (\<lambda>t. None) sample_telegram (Inr ()) (\<lambda>made x. Inl (Stream_Fault [Fault ''BOT_API_REFUSED'' []]))
     (store_open 0) sample_reply"
  have "case ?r of Some (Inr (st, ids, made)) \<Rightarrow> st = ''failed'' | _ \<Rightarrow> False" by code_simp
  then obtain ids made where "?r = Some (Inr (''failed'', ids, made))" by (auto split: option.splits sum.splits)
  with send_reports_what_happened [OF this] show ?thesis by simp
qed

end
