(* ===== verification/Whatsapp.thy ===== *)
theory Whatsapp
  imports Telegram_Send
begin

text \<open>
  What a WhatsApp event says (\<open>adapters/whatsapp/{jid,content}.ts\<close>): the one key of a chat, the
  envelopes round a message, what is read from it. An event is JSON no schema has checked. A jid is
  held as its bytes; it is cut at \<open>@\<close>, \<open>:\<close> and \<open>/\<close> only, which are single bytes.
\<close>

section \<open>Chat keys\<close>

definition lid_server :: string where
  "lid_server = ''lid''"

definition phone_server :: string where
  "phone_server = ''s.whatsapp.net''"

definition group_server :: string where
  "group_server = ''g.us''"

text \<open>What follows the last \<open>@\<close>, and what comes before it.\<close>

definition after_at :: "string \<Rightarrow> string" where
  "after_at jid = rev (takeWhile (\<lambda>c. c \<noteq> CHR ''@'') (rev jid))"

definition before_at :: "string \<Rightarrow> string" where
  "before_at jid = take (length jid - length (after_at jid) - 1) jid"

definition server_of :: "string \<Rightarrow> string option" where
  "server_of jid = (if CHR ''@'' \<in> set jid then Some (after_at jid) else None)"

definition is_lid :: "string \<Rightarrow> bool" where
  "is_lid jid \<longleftrightarrow> server_of jid = Some lid_server"

definition is_phone_jid :: "string \<Rightarrow> bool" where
  "is_phone_jid jid \<longleftrightarrow> server_of jid = Some phone_server"

definition is_group :: "string \<Rightarrow> bool" where
  "is_group jid \<longleftrightarrow> server_of jid = Some group_server"

definition normalise_jid :: "string \<Rightarrow> string" where
  "normalise_jid jid =
     (if CHR ''@'' \<in> set jid
      then takeWhile (\<lambda>c. c \<noteq> CHR ''/'') (takeWhile (\<lambda>c. c \<noteq> CHR '':'') (before_at jid)) @ ''@'' @ after_at jid
      else jid)"

definition candidates :: "json option list \<Rightarrow> string list" where
  "candidates vs = map normalise_jid (filter (\<lambda>t. t \<noteq> []) (List.map_filter text_value vs))"

definition canonical_of :: "string list \<Rightarrow> string option" where
  "canonical_of cs =
     (if cs = [] then None else case find is_lid cs of Some jid \<Rightarrow> Some jid | None \<Rightarrow> Some (hd cs))"

definition canonical_chat_key :: "json option \<Rightarrow> string option" where
  "canonical_chat_key key = canonical_of (candidates [member_at key ''remoteJid'', member_at key ''remoteJidAlt''])"

definition canonical_participant :: "json option \<Rightarrow> string option" where
  "canonical_participant key = canonical_of (candidates [member_at key ''participant'', member_at key ''participantAlt''])"

text \<open>The phone form and the linked-id form of one identity, side by side.\<close>

definition consider_pair :: "json option \<Rightarrow> json option \<Rightarrow> (string \<times> string) list" where
  "consider_pair a b =
     (case (text_value a, text_value b) of
        (Some x, Some y) \<Rightarrow>
          (let forms = [normalise_jid x, normalise_jid y] in
           case (find is_phone_jid forms, find is_lid forms) of
             (Some phone, Some lid) \<Rightarrow> [(phone, lid)]
           | _ \<Rightarrow> [])
      | _ \<Rightarrow> [])"

definition pairs_in :: "json option \<Rightarrow> (string \<times> string) list" where
  "pairs_in key =
     consider_pair (member_at key ''remoteJid'') (member_at key ''remoteJidAlt'')
     @ consider_pair (member_at key ''participant'') (member_at key ''participantAlt'')"

definition jid_conversation_kind :: "string \<Rightarrow> string" where
  "jid_conversation_kind chat = (if is_group chat then ''group'' else ''direct'')"

section \<open>The envelopes\<close>

definition protocol_message_edit :: int where
  "protocol_message_edit = 14"

definition protocol_revoke :: int where
  "protocol_revoke = 0"

definition association_media_album :: int where
  "association_media_album = 1"

definition association_hd_video_child :: int where
  "association_hd_video_child = 5"

definition association_hd_image_child :: int where
  "association_hd_image_child = 10"

definition wrappers :: "string list" where
  "wrappers =
     [''ephemeralMessage'', ''viewOnceMessage'', ''viewOnceMessageV2'', ''viewOnceMessageV2Extension'',
      ''documentWithCaptionMessage'', ''editedMessage'', ''groupStatusMessage'', ''groupStatusMessageV2'']"

definition is_object :: "json option \<Rightarrow> bool" where
  "is_object v = (case v of Some (JObj _) \<Rightarrow> True | Some (JArr _) \<Rightarrow> True | _ \<Rightarrow> False)"

definition is_child_envelope :: "json option \<Rightarrow> bool" where
  "is_child_envelope message \<longleftrightarrow>
     is_object message \<and> filter (\<lambda>k. k \<noteq> ''messageContextInfo'') (object_keys message) = [''associatedChildMessage'']"

definition wrapped :: "json option \<Rightarrow> string \<Rightarrow> json option" where
  "wrapped content name = member_at (member_at content name) ''message''"

fun unwrap_at :: "nat \<Rightarrow> json option \<Rightarrow> json option" where
  "unwrap_at 0 content = content"
| "unwrap_at (Suc depth) content =
     (if \<not> is_object content then content
      else (case find (\<lambda>name. truthy (wrapped content name)) wrappers of
              None \<Rightarrow> content
            | Some name \<Rightarrow> unwrap_at depth (wrapped content name)))"

definition unwrap :: "json option \<Rightarrow> json" where
  "unwrap message = or_else (unwrap_at 5 message) (JObj [])"

definition associated_to :: "json option \<Rightarrow> json option" where
  "associated_to v = member_at (member_at v ''messageContextInfo'') ''messageAssociation''"

definition association :: "json option \<Rightarrow> json" where
  "association message =
     or_else (associated_to (Some (unwrap message))) (or_else (associated_to message) JNull)"

definition is_hd_child :: "json option \<Rightarrow> bool" where
  "is_hd_child message \<longleftrightarrow> is_child_envelope message
     \<or> member_of (association message) ''associationType'' \<in> {Some (JInt association_hd_image_child), Some (JInt association_hd_video_child)}"

definition media_album_of :: "json option \<Rightarrow> (string \<times> json) option" where
  "media_album_of message =
     (let found = association message in
      if \<not> truthy (Some found) \<or> member_of found ''associationType'' \<noteq> Some (JInt association_media_album) then None
      else (case text_value (member_at (member_of found ''parentMessageKey'') ''id'') of
              Some i \<Rightarrow> if i = [] then None else Some (i, or_else (member_of found ''messageIndex'') JNull)
            | None \<Rightarrow> None))"

definition protocol_of :: "json option \<Rightarrow> json option" where
  "protocol_of message = member_of (unwrap message) ''protocolMessage''"

definition protocol_target :: "json option \<Rightarrow> string option" where
  "protocol_target message =
     (case text_value (member_at (member_at (protocol_of message) ''key'') ''id'') of
        Some t \<Rightarrow> if t = [] then None else Some t
      | None \<Rightarrow> None)"

definition edit_of :: "json option \<Rightarrow> (string \<times> json) option" where
  "edit_of message =
     (if \<not> truthy (protocol_of message) \<or> member_at (protocol_of message) ''type'' \<noteq> Some (JInt protocol_message_edit) then None
      else map_option (\<lambda>replaces. (replaces, or_else (member_at (protocol_of message) ''editedMessage'') (JObj [])))
             (protocol_target message))"

definition revoke_of :: "json option \<Rightarrow> string option" where
  "revoke_of message =
     (if \<not> truthy (protocol_of message) \<or> member_at (protocol_of message) ''type'' \<noteq> Some (JInt protocol_revoke) then None
      else protocol_target message)"

section \<open>The content\<close>

record content_media =
  cm_field :: string
  cm_mime :: json
  cm_bytes :: json
  cm_file_name :: "string option"

record read_content =
  rc_kind :: "string option"
  rc_text :: json
  rc_media :: "content_media option"
  rc_reaction_to :: json
  rc_unknown :: "string option"

definition of_kind :: "string option \<Rightarrow> json \<Rightarrow> read_content" where
  "of_kind kind text' = \<lparr>rc_kind = kind, rc_text = text', rc_media = None, rc_reaction_to = JNull, rc_unknown = None\<rparr>"

definition content_kinds :: "(string \<times> string) list" where
  "content_kinds =
     [(''imageMessage'', ''image''), (''videoMessage'', ''video''), (''audioMessage'', ''audio''),
      (''documentMessage'', ''document''), (''stickerMessage'', ''sticker''), (''ptvMessage'', ''video'')]"

text \<open>\<open>Number(v) || 0\<close>.\<close>

definition number_or_zero :: "platform \<Rightarrow> (string \<Rightarrow> int option) \<Rightarrow> json \<Rightarrow> json" where
  "number_or_zero p num v =
     (case as_fraction p num v of
        None \<Rightarrow> JInt 0 | Some (n, d) \<Rightarrow> if d = 1 then JInt n else if n = 0 then JInt 0 else JFloat n d)"

definition media_content :: "platform \<Rightarrow> (string \<Rightarrow> int option) \<Rightarrow> json \<Rightarrow> string \<Rightarrow> string \<Rightarrow> read_content" where
  "media_content p num content field kind =
     (let m = member_of content field in
      (of_kind (Some kind) (or_else (member_at m ''caption'') (JStr [])))\<lparr>rc_media := Some
         \<lparr>cm_field = field, cm_mime = or_else (member_at m ''mimetype'') (JStr ''application/octet-stream''),
          cm_bytes = number_or_zero p num (or_else (member_at m ''fileLength'') (JInt 0)),
          cm_file_name = text_value (member_at m ''fileName'')\<rparr>\<rparr>)"

definition read_message :: "platform \<Rightarrow> (string \<Rightarrow> int option) \<Rightarrow> json option \<Rightarrow> read_content" where
  "read_message p num message =
     (let content = unwrap message; at' = member_of content; has' = (\<lambda>k. truthy (at' k)) in
      if \<not> is_object (Some content) then of_kind None (JStr [])
      else if text_value (at' ''conversation'') \<noteq> None then of_kind (Some ''text'') (the (at' ''conversation''))
      else if has' ''extendedTextMessage'' then
        of_kind (Some ''text'') (or_else (member_at (at' ''extendedTextMessage'') ''text'') (JStr []))
      else case find (\<lambda>(field, kind). has' field) content_kinds of
        Some (field, kind) \<Rightarrow> media_content p num content field kind
      | None \<Rightarrow>
          if has' ''reactionMessage'' then
            (of_kind (Some ''reaction'') (or_else (member_at (at' ''reactionMessage'') ''text'') (JStr [])))\<lparr>rc_reaction_to :=
               or_else (member_at (member_at (at' ''reactionMessage'') ''key'') ''id'') JNull\<rparr>
          else if has' ''locationMessage'' then
            of_kind (Some ''location'')
              (or_else (member_at (at' ''locationMessage'') ''name'')
                 (or_else (member_at (at' ''locationMessage'') ''address'') (JStr [])))
          else if has' ''contactMessage'' then
            of_kind (Some ''contact'') (or_else (member_at (at' ''contactMessage'') ''displayName'') (JStr []))
          else if has' ''albumMessage'' then of_kind (Some ''album'') (JStr [])
          else if has' ''protocolMessage'' then of_kind (Some ''protocol'') (JStr [])
          else (of_kind None (JStr []))\<lparr>rc_unknown := Some
                  (case object_keys (Some content) of [] \<Rightarrow> ''an empty message'' | k # _ \<Rightarrow> k)\<rparr>)"

end
