(* ===== verification/Whatsapp_Adapter.thy ===== *)
theory Whatsapp_Adapter
  imports Whatsapp
begin

text \<open>
  The rules of the WhatsApp adapter (\<open>adapters/whatsapp/index.ts\<close>, and the chat-key map of
  \<open>channel-state.ts\<close>): what is pending past the cursors and outside an album's window, what a batch
  becomes, how a reply is sent. Numbers of the declaration are whole, and so is the time stamp of an
  event; the chat-key map on disk is missing, or what this adapter wrote.
\<close>

section \<open>Reading one item\<close>

record wa_item =
  wi_position :: "string option"
  wi_received_at :: "json option"
  wi_event :: "json option"
  wi_attachments :: "carried list option"
  wi_extra :: members
  wi_raw :: "string option"
  wi_wrong_type :: "members option"
  wi_text :: string

record whatsapp =
  wa_agent :: string
  wa_account :: string
  wa_channel :: members
  wa_now :: int

definition album_quiet_ms :: int where
  "album_quiet_ms = 2000"

definition key_of :: "wa_item \<Rightarrow> json" where
  "key_of it = or_else (member_at (wi_event it) ''key'') (JObj [])"

definition content_of :: "wa_item \<Rightarrow> json" where
  "content_of it = or_else (member_at (wi_event it) ''message'') (JObj [])"

definition chat_key_of :: "wa_item \<Rightarrow> exn + string" where
  "chat_key_of it =
     (case canonical_chat_key (Some (key_of it)) of
        None \<Rightarrow> Inl (Stream_Fault [Fault ''CHAT_KEY_ABSENT'' (case wi_position it of Some t \<Rightarrow> t | None \<Rightarrow> ''an event'')])
      | Some chat \<Rightarrow> Inr chat)"

definition wa_conversation :: "whatsapp \<Rightarrow> string \<Rightarrow> string" where
  "wa_conversation c chat = wa_account c @ '':'' @ chat"

definition wa_conversation_id_of :: "whatsapp \<Rightarrow> wa_item \<Rightarrow> exn + string" where
  "wa_conversation_id_of c it = bind_res (chat_key_of it) (\<lambda>chat. Inr (wa_conversation c chat))"

definition arrival_ms :: "platform \<Rightarrow> (string \<Rightarrow> int option) \<Rightarrow> wa_item \<Rightarrow> int" where
  "arrival_ms p num it =
     (case (case wi_received_at it of Some (JStr t) \<Rightarrow> date_parse p t | _ \<Rightarrow> None) of
        Some t \<Rightarrow> t
      | None \<Rightarrow>
          (case as_fraction p num (or_else (member_at (wi_event it) ''messageTimestamp'') (JInt 0)) of
             Some (n, d) \<Rightarrow> if 0 < n then truncated_seconds n d else 0
           | None \<Rightarrow> 0))"

definition sent_at_of :: "platform \<Rightarrow> (string \<Rightarrow> int option) \<Rightarrow> wa_item \<Rightarrow> exn + string option" where
  "sent_at_of p num it =
     (let t = arrival_ms p num it in if 0 < t then bind_res (iso_time p t) (\<lambda>s. Inr (Some s)) else Inr None)"

definition wa_kind_of :: "wa_item \<Rightarrow> string" where
  "wa_kind_of it = (if edit_of (Some (content_of it)) \<noteq> None then ''revision'' else ''message'')"

definition wa_position :: "wa_item \<Rightarrow> string" where
  "wa_position it = (case wi_position it of None \<Rightarrow> ''undefined'' | Some t \<Rightarrow> t)"

section \<open>What is pending\<close>

definition wa_edit_written :: "message list \<Rightarrow> json option \<Rightarrow> bool" where
  "wa_edit_written ms edit_key = list_ex (\<lambda>m. strict_eq (map_of (fields_of m) ''edit_key_id'') edit_key) ms"

definition wa_past_cursors :: "platform \<Rightarrow> whatsapp \<Rightarrow> store \<Rightarrow> wa_item \<Rightarrow> exn + bool" where
  "wa_past_cursors p c s it =
     bind_res (wa_conversation_id_of c it) (\<lambda>cid.
     bind_res (store_cursors p cid s) (\<lambda>cursors.
       if (case cursor_at (wa_kind_of it) cursors of None \<Rightarrow> True | Some at' \<Rightarrow> \<not> js_le (wa_position it) at') then Inr True
       else if wa_kind_of it \<noteq> ''revision'' then Inr False
       else bind_res (store_records_in p cid s) (\<lambda>ms. Inr (\<not> wa_edit_written ms (member_of (key_of it) ''id'')))))"

text \<open>The newest arrival of every album among the items.\<close>

definition note_album :: "platform \<Rightarrow> (string \<Rightarrow> int option) \<Rightarrow> wa_item \<Rightarrow> (string \<times> int) list \<Rightarrow> (string \<times> int) list" where
  "note_album p num it newest =
     (case media_album_of (Some (content_of it)) of
        None \<Rightarrow> newest
      | Some (album, _) \<Rightarrow>
          AList.update album (max (case map_of newest album of None \<Rightarrow> 0 | Some t \<Rightarrow> t) (arrival_ms p num it)) newest)"

definition last_of_album :: "platform \<Rightarrow> (string \<Rightarrow> int option) \<Rightarrow> wa_item list \<Rightarrow> (string \<times> int) list" where
  "last_of_album p num its = fold (note_album p num) its []"

definition album_open :: "whatsapp \<Rightarrow> (string \<times> int) list \<Rightarrow> wa_item \<Rightarrow> bool" where
  "album_open c newest it =
     (case media_album_of (Some (content_of it)) of
        None \<Rightarrow> False
      | Some (album, _) \<Rightarrow>
          wa_now c - (case map_of newest album of None \<Rightarrow> 0 | Some t \<Rightarrow> t) < whole_number (wa_channel c) ''album_quiet_ms'' album_quiet_ms)"

definition wa_list_pending ::
  "platform \<Rightarrow> (string \<Rightarrow> int option) \<Rightarrow> whatsapp \<Rightarrow> store \<Rightarrow> wa_item list \<Rightarrow> exn + wa_item list" where
  "wa_list_pending p num c s its =
     (let newest = last_of_album p num its in
      filter_res (\<lambda>it. bind_res (wa_past_cursors p c s it) (\<lambda>past. Inr (past \<and> \<not> album_open c newest it))) its)"

definition wa_consume :: "platform \<Rightarrow> whatsapp \<Rightarrow> wa_item \<Rightarrow> unit store_op" where
  "wa_consume p c it s =
     (case wa_conversation_id_of c it of
        Inl e \<Rightarrow> (Inl e, s)
      | Inr cid \<Rightarrow> bind_op (store_advance_cursor p cid (wa_kind_of it) (wa_position it)) (\<lambda>_. ret_op ()) s)"

section \<open>The chat-key map\<close>

record lid_map =
  lm_phone_to_lid :: "(string \<times> string) list"
  lm_lid_to_phone :: "(string \<times> string) list"
  lm_updated_at :: "string option"

definition no_lid_map :: lid_map where
  "no_lid_map = \<lparr>lm_phone_to_lid = [], lm_lid_to_phone = [], lm_updated_at = None\<rparr>"

definition lid_map_read :: "lid_map option \<Rightarrow> lid_map" where
  "lid_map_read file = (case file of None \<Rightarrow> no_lid_map | Some m \<Rightarrow> m)"

definition learn_pair :: "string \<times> string \<Rightarrow> lid_map \<times> bool \<Rightarrow> lid_map \<times> bool" where
  "learn_pair pr st =
     (let (phone, lid) = pr; (m, changed) = st;
          new1 = map_of (lm_phone_to_lid m) phone \<noteq> Some lid; new2 = map_of (lm_lid_to_phone m) lid \<noteq> Some phone in
      (m\<lparr>lm_phone_to_lid := (if new1 then AList.update phone lid (lm_phone_to_lid m) else lm_phone_to_lid m),
         lm_lid_to_phone := (if new2 then AList.update lid phone (lm_lid_to_phone m) else lm_lid_to_phone m)\<rparr>,
       changed \<or> new1 \<or> new2))"

definition learn_pairs :: "string \<Rightarrow> string \<Rightarrow> (string \<times> string) list \<Rightarrow> lid_map option \<Rightarrow> (exn, unit, lid_map option) outcome" where
  "learn_pairs now account' pairs file =
     (if component_faults ''account'' (Some account') \<noteq> [] then (Inl (Stream_Fault (component_faults ''account'' (Some account'))), file)
      else (let (m, changed) = fold learn_pair pairs (lid_map_read file, False) in
            (Inr (), if changed then Some (m\<lparr>lm_updated_at := Some now\<rparr>) else file)))"

definition lid_for :: "string \<Rightarrow> lid_map option \<Rightarrow> string option" where
  "lid_for phone file = map_of (lm_phone_to_lid (lid_map_read file)) phone"

section \<open>The agent's own send\<close>

definition own_records :: "platform \<Rightarrow> store \<Rightarrow> string \<Rightarrow> delivery_info list" where
  "own_records p s cid =
     (case store_records_in p cid s of
        Inl e \<Rightarrow> []
      | Inr ms \<Rightarrow> List.map_filter (\<lambda>m. if direction m = Outbound then delivery m else None) ms)"

definition own_ids :: "platform \<Rightarrow> store \<Rightarrow> string \<Rightarrow> string list" where
  "own_ids p s cid = concat (map (\<lambda>d. case dl_chunk_ids d of None \<Rightarrow> [] | Some ids \<Rightarrow> ids) (own_records p s cid))"

definition own_texts :: "platform \<Rightarrow> store \<Rightarrow> string \<Rightarrow> string list" where
  "own_texts p s cid = filter (\<lambda>t. t \<noteq> []) (map dl_text_sha256 (own_records p s cid))"

definition text_digest :: "platform \<Rightarrow> json \<Rightarrow> exn + string" where
  "text_digest p v = (case or_else (Some v) (JStr []) of JStr t \<Rightarrow> Inr (sha256_hex p t) | _ \<Rightarrow> Inl Type_Error)"

definition is_own_send ::
  "platform \<Rightarrow> (string \<Rightarrow> int option) \<Rightarrow> store \<Rightarrow> string \<Rightarrow> wa_item \<Rightarrow> exn + bool" where
  "is_own_send p num s cid it =
     (case text_value (member_of (key_of it) ''id'') of
        Some i \<Rightarrow> if i \<in> set (own_ids p s cid) then Inr True
                  else bind_res (text_digest p (rc_text (read_message p num (Some (content_of it))))) (\<lambda>h. Inr (h \<in> set (own_texts p s cid)))
      | None \<Rightarrow> bind_res (text_digest p (rc_text (read_message p num (Some (content_of it))))) (\<lambda>h. Inr (h \<in> set (own_texts p s cid))))"

section \<open>The records of a batch\<close>

definition from_me :: "wa_item \<Rightarrow> bool" where
  "from_me it \<longleftrightarrow> member_of (key_of it) ''fromMe'' = Some (JBool True)"

definition wa_sender_of :: "whatsapp \<Rightarrow> wa_item \<Rightarrow> string \<Rightarrow> string" where
  "wa_sender_of c it chat =
     (if from_me it then wa_account c
      else case canonical_participant (Some (key_of it)) of Some who \<Rightarrow> who | None \<Rightarrow> chat)"

definition wa_attachments_for :: "platform \<Rightarrow> wa_item \<Rightarrow> read_content \<Rightarrow> carried list" where
  "wa_attachments_for p it rc =
     (case wi_attachments it of
        Some fetched \<Rightarrow> fetched
      | None \<Rightarrow>
          (case rc_media rc of
             None \<Rightarrow> []
           | Some m \<Rightarrow>
               [Described [(''file'', JStr (''unavailable/'' @ string_of p (member_of (key_of it) ''id''))), (''mime'', cm_mime m),
                  (''bytes'', cm_bytes m), (''sha256'', JStr (replicate 64 (CHR ''0''))), (''download_failed'', JBool True)]]))"

definition wa_received :: "platform \<Rightarrow> whatsapp \<Rightarrow> wa_item \<Rightarrow> json" where
  "wa_received p c it = or_else (wi_received_at it) (JStr (to_iso p (wa_now c)))"

definition wa_hold :: "whatsapp \<Rightarrow> json \<Rightarrow> json" where
  "wa_hold c set_at = JObj
     [(''reason'', JStr ''the operator answered in this chat from their own device''), (''set_at'', set_at),
      (''release_after_ms'', or_else (member_at (map_of (wa_channel c) ''hold'') ''release_after_ms'') (JInt hold_ms))]"

definition wa_fields :: "wa_item \<Rightarrow> (string \<times> json) option \<Rightarrow> read_content \<Rightarrow> members" where
  "wa_fields it edit rc =
     (let message = Some (content_of it); album = media_album_of message; revoke = revoke_of message;
          file_name = (case rc_media rc of None \<Rightarrow> None | Some m \<Rightarrow> map_option JStr (cm_file_name m)) in
      put_if (truthy file_name) ''file_name'' file_name
     (put_if (truthy (member_at message ''associatedChildMessage'')) ''hd_variant_skipped'' (Some (JBool True))
     (put_if (truthy (Some (rc_reaction_to rc))) ''reaction_to'' (Some (rc_reaction_to rc))
     (put_if (album \<noteq> None) ''album_index'' (map_option snd album)
     (put_if (album \<noteq> None) ''album_id'' (map_option (JStr \<circ> fst) album)
     (put_if (revoke \<noteq> None) ''revoked_message_id'' (map_option JStr revoke)
     (put_if (edit \<noteq> None \<and> member_of (key_of it) ''id'' \<noteq> None) ''edit_key_id'' (member_of (key_of it) ''id'') (wi_extra it))))))))"

definition wa_target :: "wa_item \<Rightarrow> (string \<times> json) option \<Rightarrow> json option" where
  "wa_target it edit = (case edit of Some (replaces, _) \<Rightarrow> Some (JStr replaces) | None \<Rightarrow> member_of (key_of it) ''id'')"

definition wa_record ::
  "platform \<Rightarrow> whatsapp \<Rightarrow> wa_item \<Rightarrow> string \<Rightarrow> (string \<times> json) option \<Rightarrow> read_content \<Rightarrow> int \<Rightarrow> string option \<Rightarrow> members" where
  "wa_record p c it chat edit rc revn sent =
     (let cid = wa_conversation c chat; target = wa_target it edit; pushed = text_value (member_at (wi_event it) ''pushName'');
          fields = wa_fields it edit rc;
          record0 =
            [(''schema'', JStr ''carbon.message.v1''), (''agent'', JStr (wa_agent c)), (''source'', JStr ''whatsapp''),
             (''account'', JStr (wa_account c)), (''conversation_id'', JStr cid),
             (''conversation_kind'', JStr (jid_conversation_kind chat)),
             (''message_id'', JStr (cid @ '':'' @ string_of p target)),
             (''platform_message_id'', JStr (js_string p (or_else target (JStr [])))), (''revision'', JInt revn),
             (''direction'', JStr ''inbound''), (''role'', JStr (if from_me it then ''operator'' else ''contact'')),
             (''sender_id'', JStr (wa_sender_of c it chat)), (''received_at'', wa_received p c it),
             (''body'', or_else (Some (rc_text rc)) (JStr [])), (''attachments'', JArr []), (''historical'', JBool False),
             (''disposition'', JStr ''captured'')]
            @ (case sent of None \<Rightarrow> [] | Some t \<Rightarrow> if t = [] then [] else [(''sent_at'', JStr t)])
            @ (case pushed of None \<Rightarrow> [] | Some n \<Rightarrow> if n = [] then [] else [(''sender_name'', JStr n)])
            @ (if from_me it
               then [(''hold'', wa_hold c (case sent of None \<Rightarrow> wa_received p c it | Some t \<Rightarrow> JStr t))] else [])
            @ (if fields = [] \<and> edit = None then [] else [(''adapter_fields'', JObj fields)])
      in case wi_wrong_type it of None \<Rightarrow> record0 | Some wt \<Rightarrow> spread record0 wt)"

definition wa_raw_of :: "platform \<Rightarrow> wa_item \<Rightarrow> string" where
  "wa_raw_of p it =
     (case wi_raw it of
        Some t \<Rightarrow> t
      | None \<Rightarrow> if nullish (wi_event it) then wi_text it else json_text p (the (wi_event it)))"

definition wa_revision_of ::
  "platform \<Rightarrow> store \<Rightarrow> revisions \<Rightarrow> (string \<times> json) option \<Rightarrow> string \<Rightarrow> nat \<times> revisions" where
  "wa_revision_of p s revs edit cid =
     (case edit of
        None \<Rightarrow> (0, revs)
      | Some (replaces, _) \<Rightarrow>
          (let counted = (case map_of revs replaces of Some n \<Rightarrow> n | None \<Rightarrow> count_revisions p s cid replaces) in
           (counted, AList.update replaces (counted + 1) revs)))"

text \<open>One turn of the loop over the batch: \<open>None\<close> is \<open>continue\<close>, an item that becomes no record.\<close>

definition wa_outcome :: "platform \<Rightarrow> wa_item \<Rightarrow> members \<Rightarrow> read_content \<Rightarrow> outcome_of_item" where
  "wa_outcome p it record0 rc =
     (let cursor = (wa_kind_of it, wi_position it) in
      if rc_kind rc = None
      then Set_Aside \<lparr>en_record = spread record0 [(''body'', JStr [])], en_raw = wa_raw_of p it, en_cursor = cursor, en_attachments = []\<rparr>
             (''the message is a '' @ (case rc_unknown rc of Some k \<Rightarrow> k | None \<Rightarrow> ''kind'') @ '' this adapter does not read'')
      else Taken \<lparr>en_record = record0, en_raw = wa_raw_of p it, en_cursor = cursor, en_attachments = wa_attachments_for p it rc\<rparr>)"

definition wa_payload_one ::
  "platform \<Rightarrow> (string \<Rightarrow> int option) \<Rightarrow> whatsapp \<Rightarrow> store \<Rightarrow> revisions \<Rightarrow> wa_item \<Rightarrow> lid_map option
     \<Rightarrow> (exn, outcome_of_item option \<times> revisions, lid_map option) outcome" where
  "wa_payload_one p num c s revs it lids =
     (let message = Some (content_of it); edit = edit_of message;
          rc = read_message p num (case edit of Some (_, m) \<Rightarrow> Some m | None \<Rightarrow> message) in
      if is_hd_child message then (Inr (None, revs), lids)
      else (case chat_key_of it of
        Inl e \<Rightarrow> (Inl e, lids)
      | Inr chat \<Rightarrow>
          (let cid = wa_conversation c chat in
           case (if from_me it then is_own_send p num s cid it else Inr False) of
             Inl e \<Rightarrow> (Inl e, lids)
           | Inr own \<Rightarrow>
               if own then (Inr (None, revs), lids)
               else (case sent_at_of p num it of
                 Inl e \<Rightarrow> (Inl e, lids)
               | Inr sent \<Rightarrow>
                   (let (revn, revs') = wa_revision_of p s revs edit cid; record0 = wa_record p c it chat edit rc (int revn) sent in
                    bind_op (learn_pairs (to_iso p (wa_now c)) (wa_account c) (pairs_in (Some (key_of it)))) (\<lambda>_.
                      ret_op (Some (wa_outcome p it record0 rc), revs')) lids)))))"

fun wa_payload_walk ::
  "platform \<Rightarrow> (string \<Rightarrow> int option) \<Rightarrow> whatsapp \<Rightarrow> store \<Rightarrow> revisions \<Rightarrow> wa_item list \<Rightarrow> lid_map option
     \<Rightarrow> (exn, outcome_of_item option list, lid_map option) outcome" where
  "wa_payload_walk p num c s revs [] lids = (Inr [], lids)"
| "wa_payload_walk p num c s revs (it # its) lids =
     bind_op (wa_payload_one p num c s revs it) (\<lambda>(x, revs').
       bind_op (wa_payload_walk p num c s revs' its) (\<lambda>xs. ret_op (x # xs))) lids"

definition wa_payload ::
  "platform \<Rightarrow> (string \<Rightarrow> int option) \<Rightarrow> whatsapp \<Rightarrow> store \<Rightarrow> wa_item list \<Rightarrow> lid_map option
     \<Rightarrow> (exn, entry list \<times> (entry \<times> string) list, lid_map option) outcome" where
  "wa_payload p num c s its =
     bind_op (wa_payload_walk p num c s [] its) (\<lambda>xs.
       ret_op (List.map_filter taken (List.map_filter id xs), List.map_filter set_aside (List.map_filter id xs)))"

section \<open>Matching and sending\<close>

definition wa_matches_delivery :: "platform \<Rightarrow> (string \<Rightarrow> int option) \<Rightarrow> wa_item \<Rightarrow> delivery_info option \<Rightarrow> exn + bool" where
  "wa_matches_delivery p num it d =
     (if (case text_value (member_of (key_of it) ''id'') of
            None \<Rightarrow> False
          | Some i \<Rightarrow> i \<in> set (case d of None \<Rightarrow> [] | Some x \<Rightarrow> (case dl_chunk_ids x of None \<Rightarrow> [] | Some ids \<Rightarrow> ids))) then Inr True
      else bind_res (text_digest p (rc_text (read_message p num (Some (content_of it))))) (\<lambda>h.
             Inr (case d of None \<Rightarrow> False | Some x \<Rightarrow> h = dl_text_sha256 x)))"

text \<open>The function is the text of the one in the Telegram adapter, with the same default.\<close>

definition wa_split_body :: "nat list \<Rightarrow> nat \<Rightarrow> nat list list option" where
  "wa_split_body units limit = split_body units limit"

definition chat_jid_of :: "whatsapp \<Rightarrow> message \<Rightarrow> string" where
  "chat_jid_of c m = drop_units (js_length (wa_account c) + 1) (conversation_id m)"

text \<open>What a failed send threw, as the value its properties are read from.\<close>

definition wa_outcome_of :: "platform \<Rightarrow> (string \<Rightarrow> int option) \<Rightarrow> json option \<Rightarrow> nat \<Rightarrow> string" where
  "wa_outcome_of p num error sent_so_far =
     (let status = member_at (member_at error ''output'') ''statusCode'';
          code' = (if nullish status then member_at error ''statusCode'' else status);
          number = (if nullish code' then None else as_fraction p num (the code')) in
      if 0 < sent_so_far then ''unknown''
      else if number \<in> {Some (428, 1), Some (440, 1)} then ''failed'' else ''unknown'')"

type_synonym wa_socket = "nat list list \<Rightarrow> nat list \<Rightarrow> json option + json option"

fun wa_send_chunks ::
  "platform \<Rightarrow> (string \<Rightarrow> int option) \<Rightarrow> wa_socket \<Rightarrow> nat list list \<Rightarrow> nat list list \<Rightarrow> json list \<Rightarrow> string \<times> json list \<times> nat list list" where
  "wa_send_chunks p num sock made [] ids = (''sent'', ids, made)"
| "wa_send_chunks p num sock made (x # xs) ids =
     (case sock made x of
        Inl e \<Rightarrow> (wa_outcome_of p num e (length ids), ids, made @ [x])
      | Inr v \<Rightarrow> wa_send_chunks p num sock (made @ [x]) xs (ids @ [or_else (member_at (member_at v ''key'') ''id'') JNull]))"

definition wa_send_live ::
  "platform \<Rightarrow> (string \<Rightarrow> int option) \<Rightarrow> wa_socket option \<Rightarrow> message \<Rightarrow> nat list list \<Rightarrow> exn + (string \<times> json list \<times> nat list list)" where
  "wa_send_live p num sock m chunks =
     (case sock of
        None \<Rightarrow> Inl (Stream_Fault [Fault ''TRANSPORT_ABSENT'' (case delivery m of None \<Rightarrow> [] | Some d \<Rightarrow> dl_request_id d)])
      | Some so \<Rightarrow> Inr (wa_send_chunks p num so [] chunks []))"

definition wa_send ::
  "platform \<Rightarrow> (string \<Rightarrow> int option) \<Rightarrow> whatsapp \<Rightarrow> wa_socket option \<Rightarrow> message \<Rightarrow> (exn + (string \<times> json list \<times> nat list list)) option" where
  "wa_send p num c sock m =
     (case wa_split_body (utf16 (body m)) (nat (whole_number (wa_channel c) ''max_message_chars'' (int max_message_chars))) of
        None \<Rightarrow> None
      | Some chunks \<Rightarrow> Some (wa_send_live p num sock m chunks))"

definition presence_of :: "string \<Rightarrow> string" where
  "presence_of state = (if state = ''composing'' then ''composing'' else ''paused'')"

end
