(* ===== verification/Whatsapp_Live.thy ===== *)
theory Whatsapp_Live
  imports Whatsapp_Adapter
begin

text \<open>
  The connection to WhatsApp (\<open>adapters/whatsapp/{socket,live,latch,auth-state,read}.ts\<close> and the
  connection state of \<open>channel-state.ts\<close>): what is kept on disk while it opens and closes, the latch
  of a device that is gone, the positions and the buffer of what arrives, the key files of the
  pairing. The files lie in the directory of the account beside the runtime's own, and the connection
  state shares its file with the poll block the runtime writes. The library's socket and its downloads
  are given.
\<close>

section \<open>The connection state\<close>

definition connection_states :: "string list" where
  "connection_states = [''open'', ''close'', ''connecting'', ''unknown'']"

definition wa_file :: "platform \<Rightarrow> string \<Rightarrow> string \<Rightarrow> exn + file_key" where
  "wa_file p acct name =
     (let faults = component_faults ''account'' (Some acct) in
      if faults \<noteq> [] then Inl (Stream_Fault faults) else Inr (encode_component p acct, name))"

definition wa_channel_file :: "platform \<Rightarrow> string \<Rightarrow> exn + file_key" where
  "wa_channel_file p acct = wa_file p acct ''whatsapp.channel.json''"

definition connection_block :: "string \<Rightarrow> json \<Rightarrow> json \<Rightarrow> json" where
  "connection_block state at' reason = JObj [(''state'', JStr state), (''at'', at'), (''reason'', reason)]"

definition read_channel_file :: "string \<Rightarrow> file_key \<Rightarrow> box \<Rightarrow> members" where
  "read_channel_file acct k b =
     (case map_of (bx_channel_files b) k of
        Some (Some ms) \<Rightarrow> ms
      | _ \<Rightarrow> [(''account'', JStr acct), (''connection'', connection_block ''unknown'' JNull JNull)])"

definition write_connection_state :: "platform \<Rightarrow> string \<Rightarrow> string \<Rightarrow> json \<Rightarrow> members box_op" where
  "write_connection_state p acct state reason b =
     (if state \<notin> set connection_states then (Inl (Error ''connection state''), b)
      else (case wa_channel_file p acct of
        Inl e \<Rightarrow> (Inl e, b)
      | Inr k \<Rightarrow>
          (let at' = JStr (to_iso p (clock (bx_store b)));
               channel = spread (read_channel_file acct k b)
                 [(''account'', JStr acct), (''connection'', connection_block state at' reason)] in
           (Inr channel, b\<lparr>bx_channel_files := AList.update k (Some channel) (bx_channel_files b)\<rparr>))))"

section \<open>The latch\<close>

definition exit_terminal_auth :: int where
  "exit_terminal_auth = 78"

definition terminal_codes :: "(int \<times> string) list" where
  "terminal_codes =
     [(401, ''the server reports this device as removed; the pairing is gone''),
      (403, ''the server reports this account as forbidden to this device'')]"

definition first_given :: "json option list \<Rightarrow> json option" where
  "first_given vs = (case filter (\<lambda>v. \<not> nullish v) vs of [] \<Rightarrow> None | v # _ \<Rightarrow> v)"

definition terminal_reason :: "platform \<Rightarrow> (string \<Rightarrow> int option) \<Rightarrow> json option \<Rightarrow> (int \<times> string) option" where
  "terminal_reason p num error =
     (if \<not> truthy error then None
      else (case first_given [member_at (member_at error ''output'') ''statusCode'', member_at error ''statusCode'',
                member_at (member_at error ''data'') ''statusCode''] of
              None \<Rightarrow> None
            | Some v \<Rightarrow>
                (case as_fraction p num v of
                   Some (n, d) \<Rightarrow> if d = 1 then map_option (\<lambda>reason. (n, reason)) (map_of terminal_codes n) else None
                 | None \<Rightarrow> None)))"

definition wa_latch_file :: "platform \<Rightarrow> string \<Rightarrow> exn + file_key" where
  "wa_latch_file p acct = wa_file p acct ''whatsapp.latch.json''"

definition wa_write_latch :: "platform \<Rightarrow> string \<Rightarrow> int \<Rightarrow> string \<Rightarrow> string \<Rightarrow> members box_op" where
  "wa_write_latch p acct code' reason auth_dir b =
     (case wa_latch_file p acct of
        Inl e \<Rightarrow> (Inl e, b)
      | Inr k \<Rightarrow>
          (let latched =
             [(''account'', JStr acct), (''latched_at'', JStr (to_iso p (clock (bx_store b)))), (''code'', JInt code'),
              (''reason'', JStr reason), (''auth_dir'', JStr auth_dir),
              (''what_now'', JStr ''the device is unlinked; a person decides what happened, re-pairs, and the next install clears this latch'')] in
           (Inr latched, b\<lparr>bx_latches := AList.update k (Some latched) (bx_latches b)\<rparr>)))"

text \<open>A latch file that is there and is not JSON makes the read throw.\<close>

definition wa_read_latch :: "platform \<Rightarrow> string \<Rightarrow> box \<Rightarrow> exn + members option" where
  "wa_read_latch p acct b =
     bind_res (wa_latch_file p acct) (\<lambda>k.
       case map_of (bx_latches b) k of
         None \<Rightarrow> Inr None | Some None \<Rightarrow> Inl (Error ''SyntaxError'') | Some (Some ms) \<Rightarrow> Inr (Some ms))"

definition wa_clear_latch :: "platform \<Rightarrow> string \<Rightarrow> bool box_op" where
  "wa_clear_latch p acct b =
     (case wa_latch_file p acct of
        Inl e \<Rightarrow> (Inl e, b)
      | Inr k \<Rightarrow>
          (if has (bx_latches b) k then (Inr True, b\<lparr>bx_latches := filter (\<lambda>(j, _). j \<noteq> k) (bx_latches b)\<rparr>)
           else (Inr False, b)))"

definition wa_latch_faults :: "platform \<Rightarrow> string \<Rightarrow> box \<Rightarrow> exn + fault list" where
  "wa_latch_faults p acct b =
     bind_res (wa_read_latch p acct b) (\<lambda>l. Inr (if l = None then [] else [Fault ''CHANNEL_LATCHED'' acct]))"

section \<open>Opening, and what the connection says\<close>

definition is_paired :: "json option \<Rightarrow> bool" where
  "is_paired creds \<longleftrightarrow> member_at creds ''registered'' = Some (JBool True)"

text \<open>The result is whether a socket was opened, and the exit code the process was told, if it was.\<close>

definition open_channel :: "platform \<Rightarrow> string \<Rightarrow> json option \<Rightarrow> string \<Rightarrow> (bool \<times> int option) box_op" where
  "open_channel p acct creds version b =
     (case wa_latch_faults p acct b of
        Inl e \<Rightarrow> (Inl e, b)
      | Inr faults \<Rightarrow>
          if faults \<noteq> [] \<or> \<not> is_paired creds then (Inr (False, Some exit_terminal_auth), b)
          else bind_op (write_connection_state p acct ''connecting'' (JStr (''client version '' @ version)))
                 (\<lambda>_. ret_op (True, None)) b)"

definition on_connection_update ::
  "platform \<Rightarrow> (string \<Rightarrow> int option) \<Rightarrow> string \<Rightarrow> string \<Rightarrow> json option \<Rightarrow> json option \<Rightarrow> int option box_op" where
  "on_connection_update p num acct auth_dir connection error =
     (if connection = Some (JStr ''open'') then
        bind_op (write_connection_state p acct ''open'' JNull) (\<lambda>_. ret_op None)
      else if connection = Some (JStr ''connecting'') then
        bind_op (write_connection_state p acct ''connecting'' JNull) (\<lambda>_. ret_op None)
      else if connection \<noteq> Some (JStr ''close'') then ret_op None
      else (case terminal_reason p num error of
              None \<Rightarrow>
                bind_op (write_connection_state p acct ''close'' (or_else (member_at error ''message'') (JStr ''the connection closed'')))
                  (\<lambda>_. ret_op None)
            | Some (code', reason) \<Rightarrow>
                bind_op (wa_write_latch p acct code' reason auth_dir) (\<lambda>_.
                bind_op (write_connection_state p acct ''close'' (JStr reason)) (\<lambda>_.
                  ret_op (Some exit_terminal_auth)))))"

section \<open>What arrives\<close>

text \<open>The moment of an event in seconds, as a fraction; and its place in the order of the channel.\<close>

definition stamp_of :: "platform \<Rightarrow> (string \<Rightarrow> int option) \<Rightarrow> json option \<Rightarrow> int \<Rightarrow> int \<times> nat" where
  "stamp_of p num event now =
     (let stamp = member_at event ''messageTimestamp'';
          seconds = (case stamp of
              Some (JObj ms) \<Rightarrow> (if nullish (map_of ms ''low'') then None else as_fraction p num (the (map_of ms ''low'')))
            | Some (JArr xs) \<Rightarrow> None
            | Some v \<Rightarrow> as_fraction p num v
            | None \<Rightarrow> None)
      in case seconds of Some (n, d) \<Rightarrow> if 0 < n then (n, d) else (now div 1000, 1) | None \<Rightarrow> (now div 1000, 1))"

definition position_at :: "nat \<Rightarrow> int \<times> nat \<Rightarrow> string" where
  "position_at ordinal seconds =
     pad_start 12 (show_int (fst seconds div int (snd seconds))) @ ''-'' @ pad_start 6 (show_nat ordinal)"

definition wa_arrived ::
  "platform \<Rightarrow> (string \<Rightarrow> int option) \<Rightarrow> int \<Rightarrow> (json \<Rightarrow> string option) \<Rightarrow> nat \<Rightarrow> json \<Rightarrow> wa_item" where
  "wa_arrived p num now download ordinal event =
     (let rc = read_message p num (Some (or_else (member_of event ''message'') (JObj []))) in
      \<lparr>wi_position = Some (position_at ordinal (stamp_of p num (Some event) now)),
       wi_received_at = Some (JStr (to_iso p now)), wi_event = Some event,
       wi_attachments = (case (rc_media rc, download event) of
           (Some m, Some bytes) \<Rightarrow> Some [Fetched bytes [(''mime'', cm_mime m)]] | _ \<Rightarrow> None),
       wi_extra = [], wi_raw = None, wi_wrong_type = None, wi_text = []\<rparr>)"

fun wa_upsert ::
  "platform \<Rightarrow> (string \<Rightarrow> int option) \<Rightarrow> int \<Rightarrow> (json \<Rightarrow> string option) \<Rightarrow> nat \<Rightarrow> json list \<Rightarrow> wa_item list \<times> nat" where
  "wa_upsert p num now download ordinal [] = ([], ordinal)"
| "wa_upsert p num now download ordinal (e # es) =
     (let (its, last_ordinal) = wa_upsert p num now download (ordinal + 1) es in
      (wa_arrived p num now download (ordinal + 1) e # its, last_ordinal))"

section \<open>The buffer\<close>

definition retained_items :: nat where
  "retained_items = 500"

record wa_entry =
  we_items :: "wa_item list"
  we_socket :: bool

definition no_entry :: wa_entry where
  "no_entry = \<lparr>we_items = [], we_socket = False\<rparr>"

definition on_items :: "wa_item list \<Rightarrow> wa_entry \<Rightarrow> wa_entry" where
  "on_items its e =
     (let held = we_items e @ its in
      e\<lparr>we_items := (if retained_items < length held then drop (length held - retained_items) held else held)\<rparr>)"

definition on_close :: "wa_entry \<Rightarrow> wa_entry" where
  "on_close e = e\<lparr>we_socket := False\<rparr>"

text \<open>\<open>opened\<close> is what opening the channel gives: a socket, none, or an exception.\<close>

definition wa_connection :: "whatsapp \<Rightarrow> exn + bool \<Rightarrow> wa_entry \<Rightarrow> (exn, unit, wa_entry) outcome" where
  "wa_connection c opened e =
     (if we_socket e then (Inr (), e)
      else if \<not> truthy (map_of (wa_channel c) ''auth_dir'')
      then (Inl (Stream_Fault [Fault ''CHANNEL_AUTH_DIR_ABSENT'' (''whatsapp:'' @ wa_account c)]), e)
      else (case opened of Inl x \<Rightarrow> (Inl x, e) | Inr so \<Rightarrow> (Inr (), e\<lparr>we_socket := so\<rparr>)))"

definition wa_arrivals :: "whatsapp \<Rightarrow> exn + bool \<Rightarrow> wa_entry \<Rightarrow> (exn, wa_item list, wa_entry) outcome" where
  "wa_arrivals c opened =
     bind_op (wa_connection c opened) (\<lambda>_ e.
       if we_socket e then (Inr (we_items e), e)
       else (Inl (Stream_Fault [Fault ''CHANNEL_NOT_CONNECTED'' (''whatsapp:'' @ wa_account c)]), e))"

section \<open>The key files of the pairing\<close>

definition key_char :: "nat \<Rightarrow> bool" where
  "key_char u \<longleftrightarrow> (48 \<le> u \<and> u \<le> 57) \<or> (65 \<le> u \<and> u \<le> 90) \<or> (97 \<le> u \<and> u \<le> 122) \<or> u = 95 \<or> u = 45"

definition key_file_name :: "string \<Rightarrow> string \<Rightarrow> exn + string" where
  "key_file_name ty i =
     (let safe = map (\<lambda>u. if key_char u then char_of u else CHR ''_'') (utf16 (ty @ ''-'' @ i)) in
      if safe = [] \<or> safe = ''.'' \<or> safe = ''..'' then Inl (Error ''does not name a file'') else Inr (safe @ ''.json''))"

text \<open>A key file holds what the library writes of a value; \<open>read_key\<close> is \<open>None\<close> where it does not parse.\<close>

type_synonym key_files = "(string \<times> string) list"

definition set_key :: "(json \<Rightarrow> string) \<Rightarrow> string \<Rightarrow> string \<times> json option \<Rightarrow> key_files \<Rightarrow> (exn, unit, key_files) outcome" where
  "set_key write_key ty iv files =
     (case key_file_name ty (fst iv) of
        Inl e \<Rightarrow> (Inl e, files)
      | Inr n \<Rightarrow>
          (Inr (), if truthy (snd iv) then AList.update n (write_key (the (snd iv))) files
                   else filter (\<lambda>(m, _). m \<noteq> n) files))"

definition keys_set ::
  "(json \<Rightarrow> string) \<Rightarrow> (string \<times> (string \<times> json option) list) list \<Rightarrow> key_files \<Rightarrow> (exn, unit, key_files) outcome" where
  "keys_set write_key data = fold_op (\<lambda>(ty, ivs). fold_op (set_key write_key ty) ivs) data"

definition get_key ::
  "(string \<Rightarrow> json option) \<Rightarrow> (json \<Rightarrow> json) \<Rightarrow> key_files \<Rightarrow> string \<Rightarrow> string \<Rightarrow> exn + json option" where
  "get_key read_key rebuild files ty i =
     bind_res (key_file_name ty i) (\<lambda>n.
       (let found = (case map_of files n of None \<Rightarrow> None | Some t \<Rightarrow> read_key t);
            value = (if ty = ''app-state-sync-key'' \<and> truthy found then map_option rebuild found else found)
        in Inr (if nullish value then None else value)))"

fun keys_get ::
  "(string \<Rightarrow> json option) \<Rightarrow> (json \<Rightarrow> json) \<Rightarrow> key_files \<Rightarrow> string \<Rightarrow> string list \<Rightarrow> members \<Rightarrow> exn + members" where
  "keys_get read_key rebuild files ty [] found = Inr found"
| "keys_get read_key rebuild files ty (i # is) found =
     bind_res (get_key read_key rebuild files ty i) (\<lambda>v.
       keys_get read_key rebuild files ty is (case v of None \<Rightarrow> found | Some x \<Rightarrow> AList.update i x found))"

section \<open>Reading one chat\<close>

definition phone_number :: "string \<Rightarrow> bool" where
  "phone_number t \<longleftrightarrow> list_all digit t \<and> 8 \<le> length t \<and> length t \<le> 15 \<and> hd t \<noteq> CHR ''0''"

definition jid_shape :: "string \<Rightarrow> bool" where
  "jid_shape t \<longleftrightarrow> CHR ''@'' \<in> set t \<and> after_at t \<in> {phone_server, lid_server, group_server}
     \<and> before_at t \<noteq> [] \<and> CHR ''@'' \<notin> set (before_at t) \<and> list_all (\<lambda>u. \<not> js_space u) (utf16 (before_at t))"

definition chat_jid :: "string \<Rightarrow> string option" where
  "chat_jid t =
     (if phone_number t then Some (t @ ''@s.whatsapp.net'')
      else if jid_shape t then Some (normalise_jid t) else None)"

definition in_chat :: "json \<Rightarrow> string \<Rightarrow> bool" where
  "in_chat event jid \<longleftrightarrow>
     (let key = member_of event ''key'' in
      truthy key \<and> list_ex (\<lambda>v. map_option normalise_jid (text_value v) = Some jid) [member_at key ''remoteJid'', member_at key ''remoteJidAlt''])"

definition plain_text :: "json option \<Rightarrow> string" where
  "plain_text v = (case text_value v of Some t \<Rightarrow> t | None \<Rightarrow> [])"

definition plain_id :: "json option \<Rightarrow> string option" where
  "plain_id v = (case text_value v of Some t \<Rightarrow> if t = [] then None else Some t | None \<Rightarrow> None)"

definition read_sender_of :: "json option \<Rightarrow> string option" where
  "read_sender_of key =
     (if member_at key ''fromMe'' = Some (JBool True) then None
      else case canonical_participant key of
        Some who \<Rightarrow> Some who
      | None \<Rightarrow> (if (case text_value (member_at key ''remoteJid'') of Some j \<Rightarrow> is_group j | None \<Rightarrow> False) then None
                 else canonical_chat_key key))"

record described =
  ds_id :: string
  ds_from_me :: bool
  ds_sender :: "string option"
  ds_sender_name :: "string option"
  ds_at :: string
  ds_kind :: "string option"
  ds_text :: string
  ds_media :: "(string \<times> json \<times> string option) option"
  ds_edit_of :: "string option"
  ds_revoke_of :: "string option"
  ds_reaction_to :: "string option"

definition describe :: "platform \<Rightarrow> (string \<Rightarrow> int option) \<Rightarrow> int \<Rightarrow> json \<Rightarrow> exn + described option" where
  "describe p num now event =
     (let key = member_of event ''key''; message = member_of event ''message''; content = read_message p num message;
          edit = edit_of message; revoke = revoke_of message; (n, d) = stamp_of p num (Some event) now in
      case plain_id (member_at key ''id'') of
        None \<Rightarrow> Inr None
      | Some i \<Rightarrow>
          if is_hd_child message then Inr None
          else bind_res (iso_time p (truncated_seconds n d)) (\<lambda>at'. Inr (Some
            \<lparr>ds_id = i, ds_from_me = (member_at key ''fromMe'' = Some (JBool True)), ds_sender = read_sender_of key,
             ds_sender_name = text_value (member_of event ''pushName''), ds_at = at',
             ds_kind = (if edit \<noteq> None then Some ''edit'' else if revoke \<noteq> None then Some ''revoke'' else rc_kind content),
             ds_text = plain_text (Some (case edit of Some (_, m) \<Rightarrow> rc_text (read_message p num (Some m)) | None \<Rightarrow> rc_text content)),
             ds_media = map_option (\<lambda>m. (let mime = plain_text (Some (cm_mime m)) in if mime = [] then ''application/octet-stream'' else mime,
                 cm_bytes m, cm_file_name m)) (rc_media content),
             ds_edit_of = map_option fst edit, ds_revoke_of = revoke,
             ds_reaction_to = plain_id (Some (rc_reaction_to content))\<rparr>)))"

fun described_in ::
  "platform \<Rightarrow> (string \<Rightarrow> int option) \<Rightarrow> int \<Rightarrow> string \<Rightarrow> json list \<Rightarrow> described list \<Rightarrow> exn + described list" where
  "described_in p num now jid [] seen = Inr seen"
| "described_in p num now jid (e # es) seen =
     (if \<not> in_chat e jid then described_in p num now jid es seen
      else bind_res (describe p num now e) (\<lambda>d.
             described_in p num now jid es
               (case d of None \<Rightarrow> seen | Some x \<Rightarrow> if ds_id x \<in> set (map ds_id seen) then seen else seen @ [x])))"

definition collect_chat :: "platform \<Rightarrow> (string \<Rightarrow> int option) \<Rightarrow> int \<Rightarrow> json list \<Rightarrow> string \<Rightarrow> exn + described list" where
  "collect_chat p num now events jid =
     bind_res (described_in p num now jid events []) (\<lambda>ds. Inr (sort_cmp (\<lambda>a b. locale_compare p (ds_at a) (ds_at b)) ds))"

text \<open>One read on a socket: what arrives, what the connection says, and the end of the wait, in the
  order in which they happen. The first outcome is the one that stands.\<close>

datatype read_event =
    Messages "json list"
  | Connection "json option" "json option"
  | Waited int

datatype read_outcome =
    Chat_Read "described list"
  | Unlinked int string
  | Closed string

record chat_read =
  cr_arrived :: "json list"
  cr_opened :: bool
  cr_ended :: bool
  cr_outcome :: "read_outcome option"

definition first_read :: chat_read where
  "first_read = \<lparr>cr_arrived = [], cr_opened = False, cr_ended = False, cr_outcome = None\<rparr>"

definition close_reason :: "json option \<Rightarrow> string" where
  "close_reason error =
     (case text_value (member_at error ''message'') of
        Some t \<Rightarrow> if t = [] then ''the connection closed'' else takeWhile (\<lambda>c. byte_of c \<noteq> 10) t
      | None \<Rightarrow> ''the connection closed'')"

definition finish_read :: "read_outcome \<Rightarrow> chat_read \<Rightarrow> chat_read" where
  "finish_read x r = (if cr_outcome r = None then r\<lparr>cr_outcome := Some x\<rparr> else r)"

fun read_step :: "platform \<Rightarrow> (string \<Rightarrow> int option) \<Rightarrow> string \<Rightarrow> read_event \<Rightarrow> chat_read \<Rightarrow> chat_read" where
  "read_step p num jid (Messages es) r = r\<lparr>cr_arrived := cr_arrived r @ es\<rparr>"
| "read_step p num jid (Connection state error) r =
     (if state = Some (JStr ''open'') \<and> \<not> cr_opened r then r\<lparr>cr_opened := True\<rparr>
      else if state \<noteq> Some (JStr ''close'') then r
      else finish_read (case terminal_reason p num error of
             Some (code', reason) \<Rightarrow> Unlinked code' reason | None \<Rightarrow> Closed (close_reason error)) r)"
| "read_step p num jid (Waited now) r =
     (if \<not> cr_opened r \<or> cr_outcome r \<noteq> None then r
      else (case collect_chat p num now (cr_arrived r) jid of
              Inl e \<Rightarrow> r\<lparr>cr_ended := True\<rparr>
            | Inr ds \<Rightarrow> finish_read (Chat_Read ds) (r\<lparr>cr_ended := True\<rparr>)))"

definition read_chat :: "platform \<Rightarrow> (string \<Rightarrow> int option) \<Rightarrow> string \<Rightarrow> read_event list \<Rightarrow> chat_read" where
  "read_chat p num jid es = fold (read_step p num jid) es first_read"

end
