(* ===== verification/Whatsapp_Props.thy ===== *)
theory Whatsapp_Props
  imports Whatsapp_Live Telegram_Batch Positions
begin

text \<open>
  What the WhatsApp adapter guarantees: one key for a chat whichever of its two names an event leads
  with, positions that order as their numbers do, what becomes of an item that is not above the
  cursor, what becomes of a batch, and the report of a send.
\<close>

section \<open>Chat keys\<close>

lemma jid_parts [simp]:
  assumes "CHR ''@'' \<notin> set srv"
  shows "after_at (u @ CHR ''@'' # srv) = srv" "before_at (u @ CHR ''@'' # srv) = u"
proof -
  have "takeWhile (\<lambda>c. c \<noteq> CHR ''@'') (rev srv @ CHR ''@'' # rev u) = rev srv"
    using assms by (subst takeWhile_append2) auto
  then show *: "after_at (u @ CHR ''@'' # srv) = srv" by (simp add: after_at_def)
  show "before_at (u @ CHR ''@'' # srv) = u" by (simp add: before_at_def *)
qed

lemma jid_split:
  assumes "CHR ''@'' \<in> set jid"
  shows "CHR ''@'' \<notin> set (after_at jid)"
proof -
  from split_list_last [OF assms] obtain u srv where "jid = u @ CHR ''@'' # srv" "CHR ''@'' \<notin> set srv" by blast
  then show ?thesis by simp
qed

definition user_part :: "string \<Rightarrow> string" where
  "user_part u = takeWhile (\<lambda>c. c \<noteq> CHR ''/'') (takeWhile (\<lambda>c. c \<noteq> CHR '':'') u)"

lemma user_part_twice: "user_part (user_part u) = user_part u"
proof -
  have kept: "takeWhile (\<lambda>c. c \<noteq> CHR '':'') (user_part u) = user_part u"
    "takeWhile (\<lambda>c. c \<noteq> CHR ''/'') (user_part u) = user_part u"
    by (subst takeWhile_eq_all_conv, auto simp: user_part_def dest!: set_takeWhileD)+
  show ?thesis by (simp only: user_part_def [of "user_part u"] kept)
qed

lemma normalise_split:
  "CHR ''@'' \<in> set jid \<Longrightarrow> normalise_jid jid = user_part (before_at jid) @ CHR ''@'' # after_at jid"
  by (simp add: normalise_jid_def user_part_def)

lemma normalise_twice: "normalise_jid (normalise_jid jid) = normalise_jid jid"
proof (cases "CHR ''@'' \<in> set jid")
  case True
  note parts = jid_parts [OF jid_split [OF True], of "user_part (before_at jid)"]
  have "CHR ''@'' \<in> set (normalise_jid jid)" by (simp add: normalise_split [OF True])
  from normalise_split [OF this] show ?thesis by (simp add: normalise_split [OF True] parts user_part_twice)
qed (simp add: normalise_jid_def)

lemma server_normalise [simp]: "server_of (normalise_jid jid) = server_of jid"
proof (cases "CHR ''@'' \<in> set jid")
  case True
  note parts = jid_parts [OF jid_split [OF True], of "user_part (before_at jid)"]
  show ?thesis by (simp add: server_of_def normalise_split [OF True] parts True)
qed (simp add: normalise_jid_def)

lemma is_lid_normalise [simp]: "is_lid (normalise_jid jid) = is_lid jid"
  by (simp add: is_lid_def)

lemma is_lid_not_Nil: "is_lid jid \<Longrightarrow> jid \<noteq> []"
  by (auto simp: is_lid_def server_of_def)

lemma canonical_with_lid:
  assumes "is_lid x" "\<not> is_lid y"
  shows "canonical_of (candidates [Some (JStr x), Some (JStr y)]) = Some (normalise_jid x)"
    "canonical_of (candidates [Some (JStr y), Some (JStr x)]) = Some (normalise_jid x)"
  using assms is_lid_not_Nil [OF assms(1)]
  by (auto simp: canonical_of_def candidates_def List.map_filter_simps text_value_def)

text \<open>A chat has one key. Where an event carries both names of a chat, its key is the linked-id name
  without the device, whichever of the two fields holds it and from whichever device it came; and
  taking the key of a key changes nothing.\<close>

theorem one_key_for_a_chat:
  assumes "member_at key ''remoteJid'' = Some (JStr x)" "member_at key ''remoteJidAlt'' = Some (JStr y)"
    and "member_at key' ''remoteJid'' = Some (JStr y')" "member_at key' ''remoteJidAlt'' = Some (JStr x')"
    and "normalise_jid x = normalise_jid x'" "normalise_jid y = normalise_jid y'" and "is_lid x" "\<not> is_lid y"
  shows "canonical_chat_key key = canonical_chat_key key'
    \<and> canonical_chat_key key = Some (normalise_jid x) \<and> normalise_jid (normalise_jid x) = normalise_jid x"
proof -
  have "is_lid x'" "\<not> is_lid y'"
    using assms(5-8) is_lid_normalise by metis+
  from canonical_with_lid(2) [OF this] canonical_with_lid(1) [OF assms(7,8)] show ?thesis
    by (simp add: canonical_chat_key_def assms(1-5) normalise_twice)
qed

section \<open>Positions\<close>

lemma digits_12_6:
  assumes "i < 10 ^ 12" "j < 10 ^ 6"
  shows "ascii (pad_start 12 (show_nat i))" "ascii (''-'' @ pad_start 6 (show_nat j))"
  using digits_ascii [OF pad_start_facts(2) [of i 12]] digits_ascii [OF pad_start_facts(2) [of j 6]] assms by simp_all

text \<open>The position of an event orders as its second does, and within one second as its number; so the
  order of positions is the order of arrival as long as the process runs, the clock of the server does
  not go back and fewer than a million events come.\<close>

theorem position_order:
  assumes "0 \<le> a" "a < 10 ^ 12" "0 \<le> b" "b < 10 ^ 12" "i < 10 ^ 6" "j < 10 ^ 6"
  shows "js_le (position_at i (a, 1)) (position_at j (b, 1)) \<longleftrightarrow> a < b \<or> a = b \<and> i \<le> j"
proof -
  obtain m n where mn: "a = int m" "b = int n" using assms(1,3) by (metis nonneg_int_cases)
  with assms(2,4) have bounds: "m < 10 ^ 12" "n < 10 ^ 12" by simp_all
  have shown: "show_int (int k) = show_nat k" for k by (simp add: show_int_def)
  note twelve = bounds [THEN pad_start_facts(1)] and
    asc = digits_12_6 [OF bounds(1) assms(5)] digits_12_6 [OF bounds(2) assms(6)]
  have tail: "js_le (''-'' @ pad_start 6 (show_nat i)) (''-'' @ pad_start 6 (show_nat j)) \<longleftrightarrow> i \<le> j"
    using assms(5,6) asc pad_start_le [OF assms(5,6)] by (subst js_le_append) simp_all
  have "js_le (pad_start 12 (show_nat m) @ ''-'' @ pad_start 6 (show_nat i)) (pad_start 12 (show_nat n) @ ''-'' @ pad_start 6 (show_nat j))
      \<longleftrightarrow> (if pad_start 12 (show_nat m) = pad_start 12 (show_nat n)
          then js_le (''-'' @ pad_start 6 (show_nat i)) (''-'' @ pad_start 6 (show_nat j))
          else js_le (pad_start 12 (show_nat m)) (pad_start 12 (show_nat n)))"
    by (rule js_le_append) (use twelve asc in simp_all)
  also have "\<dots> \<longleftrightarrow> m < n \<or> m = n \<and> i \<le> j"
    unfolding tail using pad_start_inject [OF bounds] pad_start_le [OF bounds] by auto
  finally show ?thesis by (simp add: position_at_def mn shown)
qed

section \<open>An item that is not above the cursor\<close>

definition at_or_behind :: "platform \<Rightarrow> string \<Rightarrow> string \<Rightarrow> string \<Rightarrow> store \<Rightarrow> bool" where
  "at_or_behind p cid kind pos s \<longleftrightarrow>
     (\<exists>c at'. store_cursors p cid s = Inr c \<and> cursor_at kind c = Some at' \<and> js_le pos at')"

lemma behind_stays:
  assumes "at_or_behind p cid kind pos s" "grows s s'"
  shows "at_or_behind p cid kind pos s'"
proof -
  from assms(1) obtain f c at' where c: "store_cursor_file p cid = Inr f" "map_of (cursor_files s) f = Some c"
    and at': "cursor_at kind c = Some at'" "js_le pos at'"
    by (auto simp: at_or_behind_def store_cursors_def bind_res_Inr_iff cursor_at_def split: option.splits if_splits)
  from assms(2) c(2) obtain c' where c': "map_of (cursor_files s') f = Some c'" "cursor_le c c'"
    unfolding grows_def by blast
  from c'(2) at'(1) obtain at'' where "cursor_at kind c' = Some at''" "js_le at' at''"
    by (cases "cursor_at kind c'") (auto simp: cursor_le_def cursor_at_def split: if_splits)
  with c(1) c'(1) at'(2) show ?thesis
    by (auto simp: at_or_behind_def store_cursors_def intro: js_le_trans)
qed

lemma advanced_to:
  assumes "store_advance_cursor p cid kind pos s = (Inr c, s')"
  shows "at_or_behind p cid kind pos s'"
proof -
  from assms obtain c0 where c0: "store_cursors p cid s = Inr c0"
    by (auto simp: store_advance_cursor_def split: if_splits sum.splits)
  show ?thesis
  proof (cases "case cursor_at kind c0 of None \<Rightarrow> False | Some at' \<Rightarrow> js_le pos at'")
    case True
    with assms c0 show ?thesis
      by (auto simp: store_advance_cursor_def at_or_behind_def split: if_splits option.splits)
  next
    case False
    have "store_cursor_file p cid = Inr (encode_component p cid @ ''.json'')"
      using c0 by (auto simp: store_cursors_def store_cursor_file_def Let_def split: if_splits)
    with False assms c0 show ?thesis
      by (auto simp: store_advance_cursor_def at_or_behind_def store_cursors_def cursor_at_def set_cursor_def Let_def split: if_splits)
  qed
qed

lemma behind_not_pending:
  assumes "at_or_behind p cid ''message'' (wa_position it) s" "wa_conversation_id_of c it = Inr cid" "wa_kind_of it = ''message''"
  shows "wa_past_cursors p c s it = Inr False"
  using assms by (auto simp: at_or_behind_def wa_past_cursors_def)

lemma filter_res_set: "filter_res f xs = Inr ys \<Longrightarrow> y \<in> set ys \<longleftrightarrow> y \<in> set xs \<and> f y = Inr True"
proof (induction xs arbitrary: ys)
  case (Cons x xs)
  then obtain keep zs where "f x = Inr keep" "filter_res f xs = Inr zs" "ys = (if keep then x # zs else zs)"
    by (auto simp: bind_res_Inr_iff)
  with Cons.IH [of zs] show ?case by auto
qed simp

text \<open>C17. Once a message of a chat is consumed, an item of the chat that is no edit and whose position is
  not above that message's is never handed over again: not at any later time, and whatever is written
  since. So a picture that \<open>listPending\<close> held back for its album is lost as soon as a message after it
  in the chat, which nothing holds back, is consumed; and so is an event the server delivers late.\<close>

theorem left_behind_for_ever:
  assumes "wa_conversation_id_of c a = Inr cid" "wa_conversation_id_of c b = Inr cid"
    and "wa_kind_of a = ''message''" "wa_kind_of b = ''message''" "js_le (wa_position a) (wa_position b)"
    and "wa_consume p c b s = (Inr (), s1)" "grows s1 s2"
    and "wa_list_pending p num (c\<lparr>wa_now := later\<rparr>) s2 its = Inr pending"
  shows "a \<notin> set pending"
proof -
  from assms(2,4,6) obtain cur where "store_advance_cursor p cid ''message'' (wa_position b) s = (Inr cur, s1)"
    by (auto simp: wa_consume_def bind_op_Inr)
  from behind_stays [OF advanced_to [OF this] assms(7)] assms(5)
  have "at_or_behind p cid ''message'' (wa_position a) s2"
    by (auto simp: at_or_behind_def intro: js_le_trans)
  moreover have "wa_conversation_id_of (c\<lparr>wa_now := later\<rparr>) a = Inr cid"
    using assms(1) by (simp add: wa_conversation_id_of_def wa_conversation_def)
  ultimately have "wa_past_cursors p (c\<lparr>wa_now := later\<rparr>) s2 a = Inr False"
    using assms(3) by (intro behind_not_pending)
  with assms(8) show ?thesis
    by (auto simp: wa_list_pending_def Let_def filter_res_set)
qed

end
