(* ===== verification/Whatsapp_Channel.thy ===== *)
theory Whatsapp_Channel
  imports Whatsapp_Props
begin

text \<open>
  What becomes of a batch of WhatsApp events and of a reply; the latch of a device that is gone and
  the file the connection shares with the poll block; the buffer; the key files. Ends with the
  concrete inputs of the channel's properties.
\<close>

section \<open>A batch\<close>

definition wa_kept_of :: "platform \<Rightarrow> wa_item \<Rightarrow> string \<times> string \<times> string option" where
  "wa_kept_of p it = (wa_raw_of p it, wa_kind_of it, wi_position it)"

text \<open>The second upload of a picture, and the agent's own message coming back.\<close>

definition skipped :: "platform \<Rightarrow> (string \<Rightarrow> int option) \<Rightarrow> whatsapp \<Rightarrow> store \<Rightarrow> wa_item \<Rightarrow> bool" where
  "skipped p num c s it \<longleftrightarrow> is_hd_child (Some (content_of it))
     \<or> from_me it \<and> (\<exists>chat. chat_key_of it = Inr chat \<and> is_own_send p num s (wa_conversation c chat) it = Inr True)"

lemma wa_outcome_kept: "kept_in (entry_of (wa_outcome p it record0 rc)) = wa_kept_of p it"
  by (simp add: wa_outcome_def entry_of_def kept_in_def wa_kept_of_def Let_def)

lemma wa_payload_one_keeps:
  assumes "wa_payload_one p num c s revs it lids = (Inr (x, revs'), lids')"
  shows "case x of None \<Rightarrow> skipped p num c s it | Some y \<Rightarrow> \<not> skipped p num c s it \<and> kept_in (entry_of y) = wa_kept_of p it"
proof (cases "is_hd_child (Some (content_of it))")
  case True
  with assms show ?thesis by (auto simp: wa_payload_one_def Let_def skipped_def)
next
  case False
  with assms obtain chat own where chat: "chat_key_of it = Inr chat"
    and own: "(if from_me it then is_own_send p num s (wa_conversation c chat) it else Inr False) = Inr own"
    by (auto simp: wa_payload_one_def Let_def split: sum.splits if_splits)
  then have skip: "skipped p num c s it \<longleftrightarrow> own" using False by (auto simp: skipped_def split: if_splits)
  show ?thesis
  proof (cases own)
    case True
    with assms False chat own skip show ?thesis by (auto simp: wa_payload_one_def Let_def)
  next
    case no: False
    from assms False chat own no obtain record0 rc where "x = Some (wa_outcome p it record0 rc)"
      by (auto simp: wa_payload_one_def Let_def bind_op_Inr split_beta split: sum.splits)
    with skip no show ?thesis by (simp add: wa_outcome_kept)
  qed
qed

lemma wa_payload_walk_keeps:
  "wa_payload_walk p num c s revs its lids = (Inr xs, lids') \<Longrightarrow>
     map (kept_in \<circ> entry_of) (List.map_filter id xs) = map (wa_kept_of p) (filter (\<lambda>it. \<not> skipped p num c s it) its)"
proof (induction its arbitrary: revs lids xs)
  case (Cons it its)
  then obtain x revs' lids1 xs' where one: "wa_payload_one p num c s revs it lids = (Inr (x, revs'), lids1)"
    and rest: "wa_payload_walk p num c s revs' its lids1 = (Inr xs', lids')" and xs: "xs = x # xs'"
    by (auto simp: bind_op_Inr split_beta)
  from wa_payload_one_keeps [OF one] Cons.IH [OF rest] xs show ?case
    by (cases x) (auto simp: List.map_filter_simps)
qed (simp add: List.map_filter_simps)

text \<open>Every event of a batch becomes one record, to capture or to park, with its own text and its own
  place, but for two kinds that become none: the second upload of a picture, and a message from this
  account that the store knows as a reply of the agent.\<close>

theorem wa_batch_accounts_for_every_event:
  assumes "wa_payload p num c s its lids = (Inr (entries, parked), lids')"
  shows "mset (map kept_in entries) + mset (map (kept_in \<circ> fst) parked)
    = mset (map (wa_kept_of p) (filter (\<lambda>it. \<not> skipped p num c s it) its))"
proof -
  from assms obtain xs where xs: "wa_payload_walk p num c s [] its lids = (Inr xs, lids')"
    "entries = List.map_filter taken (List.map_filter id xs)" "parked = List.map_filter set_aside (List.map_filter id xs)"
    by (auto simp: wa_payload_def bind_op_Inr)
  from mset_partition [of "List.map_filter id xs"] wa_payload_walk_keeps [OF xs(1)] xs(2,3) show ?thesis by simp
qed

section \<open>The report of a send\<close>

lemma wa_send_chunks_report:
  assumes "wa_send_chunks p num sock made xs ids = (st, ids', made')"
  shows "(st = ''sent'' \<longrightarrow> made' = made @ xs \<and> length ids' = length ids + length xs)
   \<and> (st = ''failed'' \<longrightarrow> ids = [] \<and> ids' = [] \<and> (\<exists>x. made' = made @ [x]))
   \<and> st \<in> {''sent'', ''failed'', ''unknown''} \<and> prefix made' (made @ xs)"
  using assms
proof (induction p num sock made xs ids rule: wa_send_chunks.induct)
  case (2 p num sock made x xs ids)
  show ?case
  proof (cases "sock made x")
    case (Inl e)
    with 2(2) show ?thesis by (auto simp: wa_outcome_of_def prefix_def Let_def split: if_splits)
  next
    case (Inr v)
    with 2 show ?thesis by auto
  qed
qed auto

text \<open>A reply is reported as sent only where every piece of it went out, in order; as failed only
  where the first piece was refused, so that nothing went out; the pieces handed to the connection
  are always the first ones.\<close>

theorem wa_send_report:
  assumes "wa_send p num c (Some sock) m = Some (Inr (st, ids, made))"
    and "wa_split_body (utf16 (body m)) (nat (whole_number (wa_channel c) ''max_message_chars'' (int max_message_chars))) = Some chunks"
  shows "prefix made chunks \<and> st \<in> {''sent'', ''failed'', ''unknown''}
    \<and> (st = ''sent'' \<longrightarrow> made = chunks \<and> length ids = length chunks)
    \<and> (st = ''failed'' \<longrightarrow> ids = [] \<and> (\<exists>x. made = [x]))"
  using assms wa_send_chunks_report [of p num sock "[]" chunks "[]" st ids made]
  by (auto simp: wa_send_def wa_send_live_def)

section \<open>The file the connection shares with the poll block\<close>

lemma wa_files_shared:
  "wa_channel_file p acct = Inr k \<Longrightarrow> channel_state_file p acct ''whatsapp'' = Inr k"
  "wa_latch_file p acct = Inr k \<Longrightarrow> latch_file p acct ''whatsapp'' = Inr k"
  by (auto simp: wa_channel_file_def wa_latch_file_def wa_file_def channel_state_file_def latch_file_def channel_file_def
      component_faults_def encode_component_def encode_byte_plain is_safe_byte_def max_encoded_def max_raw_def
      control_byte_def Let_def split: if_splits)

definition connection_of :: "platform \<Rightarrow> string \<Rightarrow> box \<Rightarrow> json option" where
  "connection_of p acct b =
     (case wa_channel_file p acct of
        Inl _ \<Rightarrow> None
      | Inr k \<Rightarrow> (case map_of (bx_channel_files b) k of Some (Some ms) \<Rightarrow> map_of ms ''connection'' | _ \<Rightarrow> None))"

lemma connection_write_latches [simp]:
  "bx_latches (snd (write_connection_state p acct state reason b)) = bx_latches b"
  by (simp add: write_connection_state_def Let_def split: sum.split)

text \<open>The connection and the poll are two blocks of one file, written by two parts of the program that
  know nothing of each other: writing the connection leaves what the poll block says as it was, writing
  the poll block leaves the connection as it was, and neither touches a latch.\<close>

theorem connection_and_poll_keep_apart:
  shows "poll_state p acct ''whatsapp'' (snd (write_connection_state p acct state reason b)) = poll_state p acct ''whatsapp'' b
    \<and> connection_of p acct (snd (write_channel_state p acct ''whatsapp'' [(''poll'', v)] b)) = connection_of p acct b
    \<and> bx_latches (snd (write_connection_state p acct state reason b)) = bx_latches b"
proof (cases "wa_channel_file p acct")
  case (Inl e)
  then show ?thesis by (simp add: write_connection_state_def connection_of_def)
next
  case (Inr k)
  note k = Inr wa_files_shared(1) [OF Inr]
  have "poll_state p acct ''whatsapp'' (snd (write_connection_state p acct state reason b)) = poll_state p acct ''whatsapp'' b"
    by (auto simp: poll_state_def read_channel_state_def write_connection_state_def read_channel_file_def Let_def k
        simp del: map_of_eq_Some_iff split: option.split)
  moreover have "connection_of p acct (snd (write_channel_state p acct ''whatsapp'' [(''poll'', v)] b)) = connection_of p acct b"
    by (auto simp: connection_of_def write_channel_state_def read_channel_state_def Let_def k
        simp del: map_of_eq_Some_iff split: option.split)
  ultimately show ?thesis by (simp add: write_connection_state_def Let_def k)
qed

section \<open>A device that is gone\<close>

lemma wa_write_latch_cases:
  assumes "wa_write_latch p acct code' reason dir b = (Inr r, b1)"
  obtains k where "wa_latch_file p acct = Inr k" "map_of (bx_latches b1) k = Some (Some r)"
  using assms that by (auto simp: wa_write_latch_def Let_def split: sum.splits)

text \<open>C18. When the server says that the device is removed or forbidden, the handler asks for the exit code a
  unit is not restarted on, and leaves a latch on which the channel opens no connection and the runtime
  refuses to start, whoever restarts it. Any other close leaves the latches as they were.\<close>

theorem unlinked_device_is_latched:
  assumes "on_connection_update p num acct dir (Some (JStr ''close'')) error b = (Inr r, b')"
  shows "(terminal_reason p num error \<noteq> None \<longrightarrow>
      r = Some 78 \<and> open_channel p acct creds version b' = (Inr (False, Some 78), b') \<and> \<not> is_ok (refuse_if_latched p b'))
    \<and> (terminal_reason p num error = None \<longrightarrow> r = None \<and> bx_latches b' = bx_latches b)"
proof (cases "terminal_reason p num error")
  case None
  let ?w = "write_connection_state p acct ''close'' (or_else (member_at error ''message'') (JStr ''the connection closed''))"
  from None assms have "r = None" "b' = snd (?w b)"
    by (auto simp: on_connection_update_def bind_op_Inr)
  with None show ?thesis by simp
next
  case (Some cr)
  obtain code' reason where cr: "cr = (code', reason)" by (rule prod.exhaust)
  with Some assms obtain latched b1 where latched: "wa_write_latch p acct code' reason dir b = (Inr latched, b1)"
    and closed: "b' = snd (write_connection_state p acct ''close'' (JStr reason) b1)" and r: "r = Some exit_terminal_auth"
    by (auto simp: on_connection_update_def bind_op_Inr)
  from wa_write_latch_cases [OF latched] obtain k where k: "wa_latch_file p acct = Inr k" "map_of (bx_latches b1) k = Some (Some latched)" .
  have same: "bx_latches b' = bx_latches b1"
    using closed by simp
  have "wa_latch_faults p acct b' = Inr [Fault ''CHANNEL_LATCHED'' acct]"
    using k same by (simp add: wa_latch_faults_def wa_read_latch_def)
  then have "open_channel p acct creds version b' = (Inr (False, Some 78), b')"
    by (simp add: open_channel_def exit_terminal_auth_def)
  moreover have "has (bx_latches b1) k" using k(2) by simp
  then have "k \<in> set (keys (bx_latches b1))" by (simp only: has_iff_keys)
  then have "k \<in> set (names_under ''.latch.json'' (bx_latches b'))"
    using latch_file_name [OF wa_files_shared(2) [OF k(1)]] same by (auto simp: names_under_def split_beta)
  then have "\<not> is_ok (refuse_if_latched p b')" by (rule latched_refuses)
  ultimately show ?thesis using r Some by (simp add: exit_terminal_auth_def)
qed

section \<open>The buffer\<close>

text \<open>What is kept of what arrived is always the newest five hundred events, in the order in which they
  came: so a single burst of more loses its oldest before any pass has seen them.\<close>

theorem buffer_keeps_the_newest:
  "we_items (fold on_items batches no_entry) = drop (length (concat batches) - 500) (concat batches)"
proof (induction batches rule: rev_induct)
  case (snoc its batches)
  let ?all = "concat batches"
  have "we_items (on_items its e) = drop (length (we_items e @ its) - 500) (we_items e @ its)" for e
    by (simp add: on_items_def retained_items_def Let_def)
  then have "we_items (fold on_items (batches @ [its]) no_entry)
      = drop (length (drop (length ?all - 500) ?all @ its) - 500) (drop (length ?all - 500) ?all @ its)"
    by (simp add: snoc.IH)
  also have "\<dots> = drop (length (?all @ its) - 500) (?all @ its)"
  proof (cases "length ?all \<le> 500")
    case False
    then have "drop (length ?all - 500) ?all @ its = drop (length ?all - 500) (?all @ its)" by simp
    with False show ?thesis by (simp add: add.commute)
  qed simp
  finally show ?case by simp
qed (simp add: no_entry_def)

section \<open>The key files\<close>

text \<open>A key that was written is read back, and writing it changes what is read for no key but those
  with the same file name; a key written as nothing is gone. Only the library's own round trip of the
  value is assumed.\<close>

theorem key_files_round_trip:
  assumes "\<And>x. v = Some x \<Longrightarrow> read_key (write_key x) = Some x" "set_key write_key ty (i, v) files = (Inr (), files')"
  shows "(ty \<noteq> ''app-state-sync-key'' \<longrightarrow>
        get_key read_key rebuild files' ty i = Inr (if truthy v then v else None))
    \<and> (\<forall>ty' i'. key_file_name ty' i' \<noteq> key_file_name ty i \<longrightarrow>
        get_key read_key rebuild files' ty' i' = get_key read_key rebuild files ty' i')"
proof -
  from assms(2) obtain n where n: "key_file_name ty i = Inr n"
    and files': "files' = (if truthy v then AList.update n (write_key (the v)) files else filter (\<lambda>(m, _). m \<noteq> n) files)"
    by (auto simp: set_key_def split: sum.splits)
  have at_n: "map_of files' n = (if truthy v then Some (write_key (the v)) else None)"
    by (auto simp: files' map_of_eq_None_iff simp del: map_of_eq_Some_iff)
  have elsewhere: "map_of files' m = map_of files m" if "m \<noteq> n" for m
    using that by (simp add: files') (induction files; auto)
  have "truthy v \<Longrightarrow> \<not> nullish v" by (cases v) (auto simp: nullish_def)
  then have "ty \<noteq> ''app-state-sync-key'' \<Longrightarrow> get_key read_key rebuild files' ty i = Inr (if truthy v then v else None)"
    using assms(1) by (cases v) (auto simp: get_key_def n at_n nullish_def Let_def)
  moreover have "get_key read_key rebuild files' ty' i' = get_key read_key rebuild files ty' i'"
    if "key_file_name ty' i' \<noteq> key_file_name ty i" for ty' i'
    using that n elsewhere by (cases "key_file_name ty' i'") (simp_all add: get_key_def)
  ultimately show ?thesis by blast
qed

text \<open>Two identifiers that differ in a character a file name may not have share one file.\<close>

lemma key_files_collide: "key_file_name ''session'' ''1.2'' = key_file_name ''session'' ''1_2''"
  by code_simp

end
