(* ===== verification/Whatsapp_Sample.thy ===== *)
theory Whatsapp_Sample
  imports Whatsapp_Channel
begin

text \<open>
  Concrete events of a WhatsApp channel, and the channel's properties applied to them: a picture of an
  album, a message that follows it in the chat, and the close of a connection whose device is gone.
\<close>

definition no_number :: "string \<Rightarrow> int option" where
  "no_number t = None"

definition sample_whatsapp :: whatsapp where
  "sample_whatsapp = \<lparr>wa_agent = ''sales'', wa_account = ''a'', wa_channel = [], wa_now = 150\<rparr>"

definition wa_event :: "string \<Rightarrow> bool \<Rightarrow> members \<Rightarrow> json" where
  "wa_event i mine message = JObj [(''key'', JObj [(''remoteJid'', JStr ''1@lid''), (''id'', JStr i), (''fromMe'', JBool mine)]),
     (''message'', JObj message)]"

definition wa_item_of :: "string \<Rightarrow> string \<Rightarrow> json \<Rightarrow> wa_item" where
  "wa_item_of pos at' event = \<lparr>wi_position = Some pos, wi_received_at = Some (JStr at'), wi_event = Some event,
     wi_attachments = None, wi_extra = [], wi_raw = None, wi_wrong_type = None, wi_text = []\<rparr>"

definition sample_picture :: wa_item where
  "sample_picture = wa_item_of ''000000000100-000001'' ''100''
     (wa_event ''P'' False [(''imageMessage'', JObj []), (''messageContextInfo'', JObj [(''messageAssociation'',
        JObj [(''associationType'', JInt 1), (''parentMessageKey'', JObj [(''id'', JStr ''ALBUM'')])])])])"

definition sample_note :: wa_item where
  "sample_note = wa_item_of ''000000000101-000002'' ''120'' (wa_event ''N'' False [(''conversation'', JStr ''hi'')])"

theorem one_key_for_a_chat_witness:
  "canonical_chat_key (Some (JObj [(''remoteJid'', JStr ''7:3@lid''), (''remoteJidAlt'', JStr ''44@s.whatsapp.net'')])) = Some ''7@lid''"
  using one_key_for_a_chat [of "Some (JObj [(''remoteJid'', JStr ''7:3@lid''), (''remoteJidAlt'', JStr ''44@s.whatsapp.net'')])"
      "''7:3@lid''" "''44@s.whatsapp.net''"
      "Some (JObj [(''remoteJid'', JStr ''44:1@s.whatsapp.net''), (''remoteJidAlt'', JStr ''7@lid'')])"
      "''44:1@s.whatsapp.net''" "''7@lid''"]
  by (auto simp: member_at_def member_of_def members_of_def is_lid_def server_of_def after_at_def before_at_def normalise_jid_def
      lid_server_def)

theorem position_order_witness:
  "js_le (position_at 9 (100, 1)) (position_at 1 (101, 1)) \<and> \<not> js_le (position_at 2 (101, 1)) (position_at 1 (101, 1))"
  using position_order [of 100 101 9 1] position_order [of 101 101 2 1] by simp

text \<open>The pass that runs while the album may still grow hands over the note alone; after it is consumed
  the picture is never handed over.\<close>

theorem left_behind_for_ever_witness:
  "wa_list_pending sample_platform no_number sample_whatsapp (store_open 0) [sample_picture, sample_note] = Inr [sample_note]
   \<and> (\<exists>pending. wa_list_pending sample_platform no_number (sample_whatsapp\<lparr>wa_now := 9000\<rparr>)
         (snd (wa_consume sample_platform sample_whatsapp sample_note (store_open 0))) [sample_picture, sample_note] = Inr pending
        \<and> sample_picture \<notin> set pending)"
proof
  show "wa_list_pending sample_platform no_number sample_whatsapp (store_open 0) [sample_picture, sample_note] = Inr [sample_note]"
    by code_simp
  let ?run = "wa_consume sample_platform sample_whatsapp sample_note (store_open 0)"
  let ?next = "wa_list_pending sample_platform no_number (sample_whatsapp\<lparr>wa_now := 9000\<rparr>) (snd ?run) [sample_picture, sample_note]"
  have facts: "wa_conversation_id_of sample_whatsapp sample_picture = Inr ''a:1@lid''"
    "wa_conversation_id_of sample_whatsapp sample_note = Inr ''a:1@lid''"
    "wa_kind_of sample_picture = ''message''" "wa_kind_of sample_note = ''message''"
    "js_le (wa_position sample_picture) (wa_position sample_note)"
    by code_simp+
  have "fst ?run = Inr ()" by code_simp
  then have run: "?run = (Inr (), snd ?run)" by (metis prod.collapse)
  have "is_ok ?next" by code_simp
  then obtain pending where "?next = Inr pending" by (auto simp: is_ok_iff)
  with left_behind_for_ever [OF facts run grows_refl this] show "\<exists>pending. ?next = Inr pending \<and> sample_picture \<notin> set pending" by blast
qed

theorem wa_batch_accounts_for_every_event_witness:
  "\<exists>entries parked lids. wa_payload sample_platform no_number sample_whatsapp (store_open 0) [sample_picture, sample_note] None
      = (Inr (entries, parked), lids) \<and> length entries + length parked = 2"
proof -
  let ?r = "wa_payload sample_platform no_number sample_whatsapp (store_open 0) [sample_picture, sample_note] None"
  have "is_ok (fst ?r)" by code_simp
  then obtain entries parked lids where r: "?r = (Inr (entries, parked), lids)"
    by (cases ?r) (auto simp: is_ok_iff)
  have kept: "filter (\<lambda>it. \<not> skipped sample_platform no_number sample_whatsapp (store_open 0) it) [sample_picture, sample_note] = [sample_picture, sample_note]"
  proof -
    have "\<not> from_me sample_picture" "\<not> from_me sample_note" "\<not> is_hd_child (Some (content_of sample_picture))"
      "\<not> is_hd_child (Some (content_of sample_note))" by code_simp+
    then show ?thesis by (simp add: skipped_def)
  qed
  from arg_cong [OF wa_batch_accounts_for_every_event [OF r], of size] have "length entries + length parked = 2"
    unfolding kept by simp
  with r show ?thesis by blast
qed

theorem wa_send_report_witness:
  "\<exists>ids made. wa_send sample_platform no_number sample_whatsapp (Some (\<lambda>made x. Inl (Some (JObj [(''statusCode'', JInt 428)])))) sample_reply
     = Some (Inr (''failed'', ids, made)) \<and> ids = []"
proof -
  let ?r = "wa_send sample_platform no_number sample_whatsapp (Some (\<lambda>made x. Inl (Some (JObj [(''statusCode'', JInt 428)])))) sample_reply"
  have "case ?r of Some (Inr (st, ids, made)) \<Rightarrow> st = ''failed'' | _ \<Rightarrow> False"
    "wa_split_body (utf16 (body sample_reply)) (nat (whole_number (wa_channel sample_whatsapp) ''max_message_chars'' (int max_message_chars)))
      = Some [utf16 (body sample_reply)]" by code_simp+
  then obtain ids made where "?r = Some (Inr (''failed'', ids, made))" by (auto split: option.splits sum.splits)
  with wa_send_report [OF this \<open>wa_split_body _ _ = _\<close>] show ?thesis by simp
qed

theorem unlinked_device_is_latched_witness:
  "\<not> is_ok (refuse_if_latched sample_platform (snd (on_connection_update sample_platform no_number ''a'' ''/auth''
     (Some (JStr ''close'')) (Some (JObj [(''output'', JObj [(''statusCode'', JInt 401)])])) bare_box)))"
proof -
  let ?r = "on_connection_update sample_platform no_number ''a'' ''/auth'' (Some (JStr ''close''))
     (Some (JObj [(''output'', JObj [(''statusCode'', JInt 401)])])) bare_box"
  have "fst ?r = Inr (Some 78)" "terminal_reason sample_platform no_number (Some (JObj [(''output'', JObj [(''statusCode'', JInt 401)])])) \<noteq> None"
    by code_simp+
  then have "?r = (Inr (Some 78), snd ?r)" by (metis prod.collapse)
  from unlinked_device_is_latched [OF this] \<open>terminal_reason _ _ _ \<noteq> None\<close> show ?thesis by blast
qed

text \<open>A library that writes a text as it is.\<close>

definition plain_write :: "json \<Rightarrow> string" where
  "plain_write v = (case v of JStr t \<Rightarrow> t | _ \<Rightarrow> [])"

theorem key_files_round_trip_witness:
  "get_key (\<lambda>t. Some (JStr t)) (\<lambda>v. v) (snd (set_key plain_write ''session'' (''1'', Some (JStr ''k'')) [])) ''session'' ''1''
     = Inr (Some (JStr ''k''))"
proof -
  let ?r = "set_key plain_write ''session'' (''1'', Some (JStr ''k'')) []"
  have "fst ?r = Inr ()" by code_simp
  then have "?r = (Inr (), snd ?r)" by (metis prod.collapse)
  from key_files_round_trip [OF _ this, of "\<lambda>t. Some (JStr t)" "\<lambda>v. v"] show ?thesis by (simp add: plain_write_def)
qed

end
