(* ===== verification/Codex_Wire.thy ===== *)
theory Codex_Wire
  imports Js_Values
begin

text \<open>
  The connection to \<open>codex app-server\<close> (\<open>harness/codex/protocol.ts\<close>): lines of JSON over a pair of
  streams, each answer matched to its request by id. Text on the wire is a list of UTF-16 code units,
  as the decoder of the input stream hands it over in chunks. An operation returns what it did, in
  order, as a list of \<open>effect\<close>s, and the connection after it. What the language's \<open>JSON.parse\<close> reads of
  a line is the argument \<open>parse\<close> (\<open>None\<close> where it throws), and the caller's handler of server requests
  is \<open>answer\<close>, which may throw, return a value or return undefined.
\<close>

section \<open>Framing\<close>

definition parse_limit_bytes :: nat where
  "parse_limit_bytes = 64 * 1024 * 1024"

text \<open>\<open>t.split(u)\<close> for a single code unit.\<close>

fun split_units :: "nat \<Rightarrow> nat list \<Rightarrow> nat list list" where
  "split_units u [] = [[]]"
| "split_units u (x # xs) =
     (if x = u then [] # split_units u xs
      else (x # hd (split_units u xs)) # tl (split_units u xs))"

record splitter =
  sp_buffer :: "nat list"
  sp_limit :: nat

definition new_splitter :: "nat \<Rightarrow> splitter" where
  "new_splitter n = \<lparr>sp_buffer = [], sp_limit = n\<rparr>"

definition complete_lines :: "nat list list \<Rightarrow> nat list list" where
  "complete_lines parts = filter (\<lambda>line. 0 < length line) (map trim_list parts)"

definition push :: "nat list \<Rightarrow> splitter \<Rightarrow> (exn, nat list list, splitter) outcome" where
  "push chunk sp =
     (let whole = sp_buffer sp @ chunk; parts = split_units 10 whole in
      if sp_limit sp < length whole
      then (Inl (Error (''a single protocol line exceeded '' @ show_nat (sp_limit sp) @ '' bytes with no newline'')),
            sp\<lparr>sp_buffer := whole\<rparr>)
      else (Inr (complete_lines (butlast parts)), sp\<lparr>sp_buffer := last parts\<rparr>))"

text \<open>\<open>JSON.stringify\<close> of an object leaves out the members that are undefined.\<close>

type_synonym loose_members = "(string \<times> json option) list"

definition defined_members :: "loose_members \<Rightarrow> members" where
  "defined_members ms = concat (map (\<lambda>(k, v). case v of None \<Rightarrow> [] | Some x \<Rightarrow> [(k, x)]) ms)"

definition encode_json :: "platform \<Rightarrow> loose_members \<Rightarrow> nat list" where
  "encode_json p ms = utf16 (json_text p (JObj (defined_members ms))) @ [10]"

section \<open>What a message is\<close>

datatype classified =
    Malformed json
  | Server_Request json string "json option"
  | Server_Notification string "json option"
  | Error_Answer json json
  | Response json "json option"

definition classify_message :: "json \<Rightarrow> classified" where
  "classify_message message =
     (case message of
        JObj ms \<Rightarrow>
          (let ident = (case map_of ms ''id'' of Some JNull \<Rightarrow> None | v \<Rightarrow> v);
               params = map_of ms ''params'' in
           case text_value (map_of ms ''method'') of
             Some name \<Rightarrow>
               (case ident of
                  Some i \<Rightarrow> Server_Request i name params
                | None \<Rightarrow> Server_Notification name params)
           | None \<Rightarrow>
               (case ident of
                  Some i \<Rightarrow>
                    (case map_of ms ''error'' of
                       Some e \<Rightarrow> Error_Answer i e
                     | None \<Rightarrow> Response i (map_of ms ''result''))
                | None \<Rightarrow> Malformed message))
      | _ \<Rightarrow> Malformed message)"

section \<open>The connection\<close>

datatype rejection =
    Rpc_Error string json     \<comment> \<open>\<open>RpcError\<close>: the method and the error the server answered with\<close>
  | Transport exn             \<comment> \<open>the connection failed\<close>

definition rpc_error_message :: "platform \<Rightarrow> string \<Rightarrow> json \<Rightarrow> string" where
  "rpc_error_message p name err =
     name @ '' failed: '' @
       (let m = member_at (Some err) ''message'' in
        if nullish m then json_text p err else js_string p (the m))"

datatype effect =
    Wire_In "nat list"
  | Sent "nat list"
  | Notified string "json option"
  | Unparsable "nat list"
  | Resolved nat "json option"
  | Rejected nat rejection
  | Refused string exn

record connection =
  next_id :: nat
  pending :: "(nat \<times> string) list"
  conn_splitter :: splitter
  closed :: "exn option"

definition new_connection :: connection where
  "new_connection = \<lparr>next_id = 1, pending = [], conn_splitter = new_splitter parse_limit_bytes, closed = None\<rparr>"

type_synonym 'c did = "effect list \<times> 'c"

text \<open>\<open>send\<close>: the line that is written, and shown to \<open>onWire\<close> without the newline at its end.\<close>

definition sent_line :: "platform \<Rightarrow> loose_members \<Rightarrow> nat list" where
  "sent_line p message = encode_json p ((''jsonrpc'', Some (JStr ''2.0'')) # message)"

definition send :: "platform \<Rightarrow> loose_members \<Rightarrow> effect" where
  "send p message = Sent (sent_line p message)"

text \<open>\<open>pending.get(id)\<close>: the keys are the numbers \<open>request\<close> gave out.\<close>

definition waiting_id :: "json \<Rightarrow> nat option" where
  "waiting_id ident = (case ident of JInt i \<Rightarrow> if 0 \<le> i then Some (nat i) else None | _ \<Rightarrow> None)"

definition waiter_of :: "connection \<Rightarrow> json \<Rightarrow> (nat \<times> string) option" where
  "waiter_of c ident =
     (case waiting_id ident of
        None \<Rightarrow> None
      | Some i \<Rightarrow> map_option (Pair i) (map_of (pending c) i))"

definition settle :: "json \<Rightarrow> (nat \<Rightarrow> string \<Rightarrow> effect) \<Rightarrow> connection \<Rightarrow> connection did" where
  "settle ident outcome c =
     (case waiter_of c ident of
        None \<Rightarrow> ([], c)
      | Some (i, name) \<Rightarrow> ([outcome i name], c\<lparr>pending := AList.delete i (pending c)\<rparr>))"

definition not_answered :: "string \<Rightarrow> json" where
  "not_answered name = JObj [(''code'', JInt (-32601)),
     (''message'', JStr (''carbon's Codex harness does not answer '' @ name))]"

definition reply_to_server :: "(string \<Rightarrow> json option \<Rightarrow> exn + json option) \<Rightarrow> json \<Rightarrow> string \<Rightarrow> json option \<Rightarrow> loose_members" where
  "reply_to_server answer ident name params =
     (case answer name params of
        Inr (Some result) \<Rightarrow> [(''id'', Some ident), (''result'', Some result)]
      | _ \<Rightarrow> [(''id'', Some ident), (''error'', Some (not_answered name))])"

definition dispatch ::
  "platform \<Rightarrow> (string \<Rightarrow> json option \<Rightarrow> exn + json option) \<Rightarrow> classified \<Rightarrow> connection \<Rightarrow> connection did" where
  "dispatch p answer event c =
     (case event of
        Response ident result \<Rightarrow> settle ident (\<lambda>i name. Resolved i result) c
      | Error_Answer ident err \<Rightarrow> settle ident (\<lambda>i name. Rejected i (Rpc_Error name err)) c
      | Server_Notification name params \<Rightarrow> ([Notified name params], c)
      | Server_Request ident name params \<Rightarrow> ([send p (reply_to_server answer ident name params)], c)
      | Malformed message \<Rightarrow> ([Unparsable (utf16 (json_text p message))], c))"

definition fail_all :: "exn \<Rightarrow> connection \<Rightarrow> connection did" where
  "fail_all e c = (map (\<lambda>(i, name). Rejected i (Transport e)) (pending c), c\<lparr>closed := Some e, pending := []\<rparr>)"

definition read_line ::
  "platform \<Rightarrow> (nat list \<Rightarrow> json option) \<Rightarrow> (string \<Rightarrow> json option \<Rightarrow> exn + json option) \<Rightarrow>
   nat list \<Rightarrow> connection \<Rightarrow> connection did" where
  "read_line p parse answer line c =
     (case parse line of
        None \<Rightarrow> ([Wire_In line, Unparsable line], c)
      | Some message \<Rightarrow>
          (case dispatch p answer (classify_message message) c of (es, c') \<Rightarrow> (Wire_In line # es, c')))"

fun walk_did :: "('x \<Rightarrow> 'c \<Rightarrow> 'c did) \<Rightarrow> 'x list \<Rightarrow> 'c \<Rightarrow> 'c did" where
  "walk_did f [] c = ([], c)"
| "walk_did f (x # xs) c =
     (case f x c of (es, c') \<Rightarrow> (case walk_did f xs c' of (fs, c'') \<Rightarrow> (es @ fs, c'')))"

definition read_chunk ::
  "platform \<Rightarrow> (nat list \<Rightarrow> json option) \<Rightarrow> (string \<Rightarrow> json option \<Rightarrow> exn + json option) \<Rightarrow>
   nat list \<Rightarrow> connection \<Rightarrow> connection did" where
  "read_chunk p parse answer chunk c =
     (case push chunk (conn_splitter c) of
        (Inl e, sp) \<Rightarrow> fail_all e (c\<lparr>conn_splitter := sp\<rparr>)
      | (Inr lines, sp) \<Rightarrow> walk_did (read_line p parse answer) lines (c\<lparr>conn_splitter := sp\<rparr>))"

definition notify :: "platform \<Rightarrow> string \<Rightarrow> json option \<Rightarrow> connection \<Rightarrow> connection did" where
  "notify p name params c = ([send p [(''method'', Some (JStr name)), (''params'', params)]], c)"

definition request :: "platform \<Rightarrow> string \<Rightarrow> json option \<Rightarrow> connection \<Rightarrow> connection did" where
  "request p name params c =
     (case closed c of
        Some e \<Rightarrow> ([Refused name e], c)
      | None \<Rightarrow>
          (let i = next_id c in
           ([send p [(''id'', Some (JInt (int i))), (''method'', Some (JStr name)), (''params'', params)]],
            c\<lparr>next_id := Suc i, pending := AList.update i name (pending c)\<rparr>)))"

text \<open>What happens to a connection: a chunk arrives, the input closes, the harness asks or tells.\<close>

datatype wire_event =
    Chunk "nat list"
  | Input_Closed
  | Ask string "json option"
  | Tell string "json option"

definition conn_step ::
  "platform \<Rightarrow> (nat list \<Rightarrow> json option) \<Rightarrow> (string \<Rightarrow> json option \<Rightarrow> exn + json option) \<Rightarrow>
   wire_event \<Rightarrow> connection \<Rightarrow> connection did" where
  "conn_step p parse answer event c =
     (case event of
        Chunk chunk \<Rightarrow> read_chunk p parse answer chunk c
      | Input_Closed \<Rightarrow> fail_all (Error ''the app-server closed its output stream'') c
      | Ask name params \<Rightarrow> request p name params c
      | Tell name params \<Rightarrow> notify p name params c)"

end
