(* ===== verification/Masking.thy ===== *)
theory Masking
  imports Js_Values
begin

text \<open>
  Taking values out of a text: \<open>text.split(value).join(marker)\<close>, and why a value that is taken out stays
  out whatever is masked afterwards. The argument needs only that the marker is bracketed and that the
  value neither has a bracket nor is a part of the word between them; it is made once, in the locale
  \<open>bracketed\<close>, for the marker of either harness.
\<close>

section \<open>Splitting and joining\<close>

text \<open>\<open>text.split(sep)\<close> for a separator that is not empty, and \<open>parts.join(sep)\<close>.\<close>

function split_text :: "'a list \<Rightarrow> 'a list \<Rightarrow> 'a list list" where
  "split_text sep [] = [[]]"
| "split_text sep (x # xs) =
     (if sep \<noteq> [] \<and> starts_with sep (x # xs) then [] # split_text sep (drop (length sep) (x # xs))
      else (x # hd (split_text sep xs)) # tl (split_text sep xs))"
  by pat_completeness auto
termination
  by (relation "measure (length \<circ> snd)") auto

declare split_text.simps(2) [simp del]

fun join_units :: "'a list \<Rightarrow> 'a list list \<Rightarrow> 'a list" where
  "join_units sep [] = []"
| "join_units sep [x] = x"
| "join_units sep (x # y # ys) = x @ sep @ join_units sep (y # ys)"

definition replace_value :: "'a list \<Rightarrow> 'a list \<Rightarrow> 'a list \<Rightarrow> 'a list" where
  "replace_value mark v t = join_units mark (split_text v t)"

lemma split_text_not_Nil [simp]: "split_text v t \<noteq> []"
  by (cases t) (simp_all add: split_text.simps(2))

lemma join_units_Cons: "ps \<noteq> [] \<Longrightarrow> join_units sep (p # ps) = p @ sep @ join_units sep ps"
  by (cases ps) simp_all

lemma replace_value_Nil [simp]: "replace_value mark v [] = []"
  by (simp add: replace_value_def)

lemma replace_value_Cons:
  "replace_value mark v (x # xs) =
     (if v \<noteq> [] \<and> starts_with v (x # xs) then mark @ replace_value mark v (drop (length v) (x # xs))
      else x # replace_value mark v xs)"
proof -
  obtain q qs where q: "split_text v xs = q # qs" by (cases "split_text v xs") auto
  have "join_units mark ((x # q) # qs) = x # join_units mark (q # qs)"
    by (cases qs) simp_all
  with q show ?thesis
    using split_text.simps(2) [of v x xs] by (auto simp: replace_value_def join_units_Cons simp del: join_units.simps)
qed

lemma replace_value_here: "v \<noteq> [] \<Longrightarrow> replace_value mark v (v @ t) = mark @ replace_value mark v t"
  by (cases v) (auto simp: replace_value_Cons starts_with_iff)

lemma replace_value_skip:
  assumes "list_all (\<lambda>x. x \<noteq> hd v) us" and "v \<noteq> []"
  shows "replace_value mark v (us @ t) = us @ replace_value mark v t"
  using assms(1)
proof (induction us)
  case (Cons u us)
  with assms(2) have "\<not> starts_with v ((u # us) @ t)" by (cases v) auto
  with Cons show ?case by (simp add: replace_value_Cons)
qed simp

section \<open>Masked texts\<close>

text \<open>\<open>masked mark xs ys\<close>: \<open>ys\<close> is \<open>xs\<close> with stretches of it given way to the marker.\<close>

inductive masked :: "'a list \<Rightarrow> 'a list \<Rightarrow> 'a list \<Rightarrow> bool" for mark where
  masked_Nil: "masked mark [] []"
| masked_keep: "masked mark xs ys \<Longrightarrow> masked mark (x # xs) (x # ys)"
| masked_hide: "masked mark xs ys \<Longrightarrow> masked mark (gone @ xs) (mark @ ys)"

lemma masked_refl: "masked mark xs xs"
  by (induction xs) (auto intro: masked.intros)

lemma masked_append: "masked mark xs ys \<Longrightarrow> masked mark (zs @ xs) (zs @ ys)"
  by (induction zs) (auto intro: masked.intros)

lemma masked_replace_value: "masked mark t (replace_value mark v t)"
proof (induction "length t" arbitrary: t rule: less_induct)
  case less
  show ?case
  proof (cases t)
    case (Cons x xs)
    show ?thesis
    proof (cases "v \<noteq> [] \<and> starts_with v t")
      case True
      then obtain rest where t: "t = v @ rest" by (auto simp: starts_with_iff)
      with True less.hyps [of rest] have "masked mark (v @ rest) (mark @ replace_value mark v rest)"
        by (auto intro: masked_hide)
      with True t show ?thesis by (simp add: replace_value_here)
    next
      case False
      with less.hyps [of xs] Cons show ?thesis by (auto simp: replace_value_Cons intro: masked_keep)
    qed
  qed (simp add: masked_Nil)
qed

lemma starts_with_append_no: "u \<notin> set v \<Longrightarrow> starts_with v (xs @ u # ys) \<Longrightarrow> starts_with v xs"
  by (induction v xs rule: starts_with.induct) auto

lemma includes_append_no: "u \<notin> set v \<Longrightarrow> js_includes v (xs @ u # ys) \<Longrightarrow> js_includes v xs \<or> js_includes v ys"
proof (induction xs)
  case Nil
  then show ?case by (cases v) auto
next
  case (Cons x xs)
  then show ?case using starts_with_append_no [of u v "x # xs" ys] by auto
qed

lemma includes_suffix: "js_includes v xs \<Longrightarrow> js_includes v (ys @ xs)"
  by (auto simp: includes_iff) (metis append.assoc)

lemma includes_take: "js_includes v (take n t) \<Longrightarrow> js_includes v t"
  unfolding includes_iff by (metis append.assoc append_take_drop_id)

lemma includes_drop: "js_includes v (drop n t) \<Longrightarrow> js_includes v t"
  using includes_suffix [of v "drop n t" "take n t"] by simp

lemma fold_as_functions: "fold g xs t = fold (\<lambda>f. f) (map g xs) t"
  by (induction xs arbitrary: t) simp_all

text \<open>A value the marker \<open>o word c\<close> cannot spell.\<close>

definition unspelled :: "'a list \<Rightarrow> 'a \<Rightarrow> 'a \<Rightarrow> 'a list \<Rightarrow> bool" where
  "unspelled word left right v \<longleftrightarrow> v \<noteq> [] \<and> left \<notin> set v \<and> right \<notin> set v \<and> \<not> js_includes v word"

locale bracketed =
  fixes mark word :: "'a list" and left right :: 'a
  assumes bracketed_mark: "mark = left # word @ [right]"
begin

lemma includes_mark: "js_includes v (mark @ ys) \<Longrightarrow> unspelled word left right v \<Longrightarrow> js_includes v ys"
  using includes_append_no [of left v "[]" "word @ right # ys"] includes_append_no [of right v word ys]
  by (auto simp: bracketed_mark unspelled_def)

lemma masked_starts: "masked mark xs ys \<Longrightarrow> starts_with v ys \<Longrightarrow> left \<notin> set v \<Longrightarrow> starts_with v xs"
proof (induction arbitrary: v rule: masked.induct)
  case (masked_keep xs ys x)
  then show ?case by (cases v) auto
next
  case (masked_hide xs ys gone)
  then show ?case by (cases v) (auto simp: bracketed_mark)
qed simp

lemma masked_includes: "masked mark xs ys \<Longrightarrow> js_includes v ys \<Longrightarrow> unspelled word left right v \<Longrightarrow> js_includes v xs"
proof (induction rule: masked.induct)
  case (masked_keep xs ys x)
  then show ?case
    using masked_starts [OF masked.masked_keep [OF masked_keep.hyps], of v x] by (auto simp: unspelled_def)
next
  case (masked_hide xs ys gone)
  then show ?case by (blast intro: includes_suffix dest: includes_mark)
qed simp

lemma replaced_value_gone:
  assumes "unspelled word left right v"
  shows "\<not> js_includes v (replace_value mark v t)"
proof (induction "length t" arbitrary: t rule: less_induct)
  case less
  show ?case
  proof (cases t)
    case (Cons x xs)
    show ?thesis
    proof (cases "starts_with v t")
      case True
      then obtain rest where t: "t = v @ rest" by (auto simp: starts_with_iff)
      with assms less.hyps [of rest] have "\<not> js_includes v (replace_value mark v rest)" by (auto simp: unspelled_def)
      with assms t show ?thesis by (auto simp: unspelled_def replace_value_here dest: includes_mark)
    next
      case False
      with Cons less.hyps [of xs] have "\<not> js_includes v (replace_value mark v xs)" by simp
      moreover have "\<not> starts_with v (x # replace_value mark v xs)"
        using False Cons assms masked_starts [OF masked_keep [OF masked_replace_value [of mark xs v], of x], of v]
        by (auto simp: unspelled_def)
      ultimately show ?thesis using False Cons by (simp add: replace_value_Cons)
    qed
  qed (use assms in \<open>auto simp: unspelled_def\<close>)
qed

lemma fold_stays_hidden:
  assumes "\<And>f t. f \<in> set fs \<Longrightarrow> masked mark t (f t)" and "unspelled word left right v" and "\<not> js_includes v t"
  shows "\<not> js_includes v (fold (\<lambda>f. f) fs t)"
  using assms(1,3)
proof (induction fs arbitrary: t)
  case (Cons f fs)
  from Cons.prems have "masked mark t (f t)" by simp
  with Cons.prems(2) assms(2) have "\<not> js_includes v (f t)" by (blast dest: masked_includes)
  with Cons.IH [of "f t"] Cons.prems(1) show ?case by simp
qed simp

lemma hidden_values:
  assumes "v \<in> set vs" and "unspelled word left right v"
  shows "\<not> js_includes v (fold (replace_value mark) vs t)"
proof -
  from assms(1) obtain us ws where "vs = us @ v # ws" by (auto simp: in_set_conv_decomp)
  then have "fold (replace_value mark) vs t =
      fold (\<lambda>f. f) (map (replace_value mark) ws) (replace_value mark v (fold (replace_value mark) us t))"
    by (simp add: fold_as_functions [symmetric])
  moreover have "\<not> js_includes v
      (fold (\<lambda>f. f) (map (replace_value mark) ws) (replace_value mark v (fold (replace_value mark) us t)))"
    using replaced_value_gone [OF assms(2)] by (intro fold_stays_hidden) (auto intro: masked_replace_value assms(2))
  ultimately show ?thesis by simp
qed

end

end
