(* ===== verification/Codex_Reasons.thy ===== *)
theory Codex_Reasons
  imports Codex_Wire Masking
begin

text \<open>
  What a native failure says, kept with the credentials taken out (\<open>harness/codex/reasons.ts\<close>), on
  texts as code units. The five regular expressions are written as scanners: a scanner is given the
  unit before a position and the text from there on, and answers how many units of its match are
  kept, how many give way to the marker and how many are kept after it. Each pattern repeats only
  classes that exclude what follows them, except the two that end in a word boundary, where the
  longest run that ends at a boundary is taken, as backtracking finds it.
\<close>

section \<open>Replacing\<close>

definition marker :: "nat list" where
  "marker = map byte_of ''[REDACTED]''"

definition without_value :: "nat list \<Rightarrow> nat list \<Rightarrow> nat list" where
  "without_value v t = replace_value marker v t"

text \<open>\<open>text.replace(/pattern/g, '$1[REDACTED]...')\<close>.\<close>

type_synonym scanner = "nat option \<Rightarrow> nat list \<Rightarrow> (nat \<times> nat \<times> nat) option"

function replace_matches :: "scanner \<Rightarrow> nat option \<Rightarrow> nat list \<Rightarrow> nat list" where
  "replace_matches sc prev [] = []"
| "replace_matches sc prev (x # xs) =
     (case sc prev (x # xs) of
        Some (lead, gone, behind) \<Rightarrow>
          (if lead + gone + behind = 0 then x # replace_matches sc (Some x) xs
           else (let n = lead + gone + behind; found = take n (x # xs) in
             take lead found @ marker @ drop (lead + gone) found
               @ replace_matches sc (Some (last found)) (drop n (x # xs))))
      | None \<Rightarrow> x # replace_matches sc (Some x) xs)"
  by pat_completeness auto
termination
  by (relation "measure (\<lambda>(sc, prev, t). length t)") auto

declare replace_matches.simps(2) [simp del]

section \<open>The patterns\<close>

definition word_unit :: "nat \<Rightarrow> bool" where
  "word_unit u \<longleftrightarrow> (48 \<le> u \<and> u \<le> 57) \<or> (65 \<le> u \<and> u \<le> 90) \<or> u = 95 \<or> (97 \<le> u \<and> u \<le> 122)"

text \<open>\<open>[A-Za-z0-9_-]\<close>.\<close>

definition token_unit :: "nat \<Rightarrow> bool" where
  "token_unit u \<longleftrightarrow> word_unit u \<or> u = 45"

definition first_unit :: "nat list \<Rightarrow> nat option" where
  "first_unit t = (case t of [] \<Rightarrow> None | u # _ \<Rightarrow> Some u)"

text \<open>\<open>\b\<close> between two units, either of which may be missing.\<close>

definition boundary :: "nat option \<Rightarrow> nat option \<Rightarrow> bool" where
  "boundary u v \<longleftrightarrow> (case u of None \<Rightarrow> False | Some x \<Rightarrow> word_unit x) \<noteq> (case v of None \<Rightarrow> False | Some x \<Rightarrow> word_unit x)"

definition lower_unit :: "nat \<Rightarrow> nat" where
  "lower_unit u = (if 65 \<le> u \<and> u \<le> 90 then u + 32 else u)"

definition begins_with :: "string \<Rightarrow> nat list \<Rightarrow> bool" where
  "begins_with w t = (take (length w) t = map byte_of w)"

definition begins_with_any_case :: "string \<Rightarrow> nat list \<Rightarrow> bool" where
  "begins_with_any_case w t = (map lower_unit (take (length w) t) = map byte_of w)"

definition quote_unit :: "nat \<Rightarrow> bool" where
  "quote_unit u \<longleftrightarrow> u = 34 \<or> u = 39"

definition skip_quote :: "nat list \<Rightarrow> nat list" where
  "skip_quote t = (case t of u # us \<Rightarrow> if quote_unit u then us else t | [] \<Rightarrow> t)"

definition secret_unit :: "nat \<Rightarrow> bool" where
  "secret_unit u \<longleftrightarrow> \<not> js_space u \<and> u \<noteq> 44 \<and> u \<noteq> 59 \<and> \<not> quote_unit u"

definition bearer_scan :: scanner where
  "bearer_scan prev t =
     (let spaces = takeWhile js_space (drop 6 t); secret = takeWhile secret_unit (drop (6 + length spaces) t) in
      if boundary prev (first_unit t) \<and> begins_with_any_case ''bearer'' t \<and> spaces \<noteq> [] \<and> secret \<noteq> []
      then Some (6 + length spaces, length secret, 0) else None)"

definition key_names :: "string list" where
  "key_names = [''authorization'', ''api_key'', ''api-key'', ''apikey'', ''access_token'', ''access-token'', ''accesstoken'',
     ''refresh_token'', ''refresh-token'', ''refreshtoken'', ''id_token'', ''id-token'', ''idtoken'',
     ''password'', ''secret'', ''credential'']"

definition keyed_scan :: scanner where
  "keyed_scan prev t =
     (case find (\<lambda>w. begins_with_any_case w t) key_names of
        None \<Rightarrow> None
      | Some w \<Rightarrow>
          (case dropWhile js_space (skip_quote (drop (length w) t)) of
             [] \<Rightarrow> None
           | u # us \<Rightarrow>
               (let rest = skip_quote (dropWhile js_space us);
                    secret = takeWhile (\<lambda>v. secret_unit v \<and> v \<noteq> 125) rest in
                if (u = 58 \<or> u = 61) \<and> secret \<noteq> [] then Some (length t - length rest, length secret, 0) else None)))"

text \<open>The longest end of a run, at least \<open>least\<close> units on from \<open>start\<close>, that is a word boundary.\<close>

definition run_to_boundary :: "nat \<Rightarrow> nat \<Rightarrow> nat list \<Rightarrow> nat option" where
  "run_to_boundary start least t =
     (let run = takeWhile token_unit (drop start t) in
      find (\<lambda>n. boundary (first_unit (drop (start + n - 1) t)) (first_unit (drop (start + n) t)))
        (rev [least..<Suc (length run)]))"

definition secret_key_scan :: scanner where
  "secret_key_scan prev t =
     (if boundary prev (first_unit t) \<and> begins_with ''sk-'' t
      then map_option (\<lambda>n. (0, 3 + n, 0)) (run_to_boundary 3 12 t) else None)"

definition web_token_scan :: scanner where
  "web_token_scan prev t =
     (let a = length (takeWhile token_unit (drop 3 t));
          b = length (takeWhile token_unit (drop (4 + a) t));
          start = 5 + a + b in
      if boundary prev (first_unit t) \<and> begins_with ''eyJ'' t \<and> 0 < a \<and> begins_with ''.'' (drop (3 + a) t)
         \<and> 0 < b \<and> begins_with ''.'' (drop (4 + a + b) t)
      then map_option (\<lambda>n. (0, start + n, 0)) (run_to_boundary start 1 t) else None)"

definition url_scan :: scanner where
  "url_scan prev t =
     (let scheme = (if begins_with_any_case ''https://'' t then 8 else 7);
          run = takeWhile (\<lambda>u. \<not> js_space u \<and> u \<noteq> 47 \<and> u \<noteq> 64) (drop scheme t) in
      if (begins_with_any_case ''https://'' t \<or> begins_with_any_case ''http://'' t)
         \<and> begins_with ''@'' (drop (scheme + length run) t) \<and> 58 \<in> set (butlast (drop 1 run))
      then Some (scheme, length run, 1) else None)"

definition patterns :: "scanner list" where
  "patterns = [bearer_scan, keyed_scan, secret_key_scan, web_token_scan, url_scan]"

section \<open>The two functions\<close>

datatype native_reason =
    Native_Value "json option"
  | Native_Error "nat list" "json option"      \<comment> \<open>an \<open>Error\<close>: its message and its \<open>code\<close>\<close>
  | Native_Rpc "nat list" json                 \<comment> \<open>an \<open>RpcError\<close>: its message and its \<open>rpcError\<close>\<close>

definition reason_text :: "native_reason \<Rightarrow> nat list option" where
  "reason_text r =
     (case r of
        Native_Value (Some (JStr t)) \<Rightarrow> Some (utf16 t)
      | Native_Value v \<Rightarrow> map_option utf16 (text_value (case v of Some (JObj ms) \<Rightarrow> map_of ms ''message'' | _ \<Rightarrow> None))
      | Native_Error message c \<Rightarrow> Some message
      | Native_Rpc message err \<Rightarrow> Some message)"

definition max_reason :: nat where
  "max_reason = 8192"

definition values_to_hide :: "string list \<Rightarrow> nat list list" where
  "values_to_hide credentials =
     sort_cmp (\<lambda>a b. int (length b) - int (length a)) (filter (\<lambda>v. 0 < length v) (map utf16 credentials))"

definition redact :: "string list \<Rightarrow> nat list \<Rightarrow> nat list" where
  "redact credentials t =
     take max_reason (fold (\<lambda>sc. replace_matches sc None) patterns (fold without_value (values_to_hide credentials) t))"

definition redact_native_reason :: "string list \<Rightarrow> native_reason \<Rightarrow> nat list option" where
  "redact_native_reason credentials r = map_option (redact credentials) (reason_text r)"

text \<open>Whose words count: the server's error where the failure carries one. \<close>

definition reporter_of :: "native_reason \<Rightarrow> native_reason" where
  "reporter_of r =
     (case r of
        Native_Rpc message err \<Rightarrow> if truthy (Some err) then Native_Value (Some err) else r
      | Native_Value (Some (JObj ms)) \<Rightarrow>
          if truthy (map_of ms ''rpcError'') then Native_Value (map_of ms ''rpcError'') else r
      | _ \<Rightarrow> r)"

text \<open>\<open>value?.native_code ?? value?.code\<close>; an \<open>Error\<close> has no \<open>native_code\<close>.\<close>

definition outer_code :: "native_reason \<Rightarrow> json option" where
  "outer_code r =
     (case r of
        Native_Value v \<Rightarrow> (if nullish (member_at v ''native_code'') then member_at v ''code'' else member_at v ''native_code'')
      | Native_Error message c \<Rightarrow> c
      | Native_Rpc message err \<Rightarrow> None)"

definition code_of_reason :: "native_reason \<Rightarrow> json option" where
  "code_of_reason r =
     (case reporter_of r of
        Native_Value (Some (JObj ms)) \<Rightarrow> if has ms ''code'' then map_of ms ''code'' else outer_code r
      | _ \<Rightarrow> outer_code r)"

datatype native_code = Code_Number json | Code_Text "nat list" | No_Code

definition native_failure_evidence :: "string list \<Rightarrow> native_reason \<Rightarrow> nat list option \<times> native_code" where
  "native_failure_evidence credentials r =
     (redact_native_reason credentials (reporter_of r),
      (case code_of_reason r of
         Some (JInt i) \<Rightarrow> Code_Number (JInt i)
       | Some (JFloat n d) \<Rightarrow> Code_Number (JFloat n d)
       | Some (JStr t) \<Rightarrow> Code_Text (redact credentials (utf16 t))
       | _ \<Rightarrow> No_Code))"

section \<open>No credential is left\<close>

definition marker_word :: "nat list" where
  "marker_word = map byte_of ''REDACTED''"

text \<open>A text no marker can be a part of: no bracket, and no part of the word between them.\<close>

definition plain :: "nat list \<Rightarrow> bool" where
  "plain v \<longleftrightarrow> unspelled marker_word 91 93 v"

interpretation codex_mask: bracketed marker marker_word 91 93
  by unfold_locales (simp add: marker_def marker_word_def)

lemma masked_replace: "masked marker t (replace_matches sc prev t)"
proof (induction sc prev t rule: replace_matches.induct)
  case (2 sc prev x xs)
  show ?case
  proof (cases "sc prev (x # xs)")
    case None
    with 2 show ?thesis by (simp add: replace_matches.simps(2) masked_keep)
  next
    case (Some m)
    obtain lead gone behind where m: "m = (lead, gone, behind)" by (cases m) auto
    let ?n = "lead + gone + behind" and ?t = "x # xs"
    show ?thesis
    proof (cases "?n = 0")
      case True
      with 2 Some m show ?thesis by (simp add: replace_matches.simps(2) masked_keep)
    next
      case False
      let ?f = "take ?n ?t"
      let ?r = "replace_matches sc (Some (last ?f)) (drop ?n ?t)"
      have "masked marker (drop ?n ?t) ?r" using 2(3) [OF Some m [symmetric] refl _ refl refl] False by simp
      then have "masked marker (take lead ?f @ take gone (drop lead ?f) @ drop (lead + gone) ?f @ drop ?n ?t)
          (take lead ?f @ marker @ drop (lead + gone) ?f @ ?r)"
        by (intro masked_append masked_hide)
      moreover have "take lead ?f @ take gone (drop lead ?f) @ drop (lead + gone) ?f @ drop ?n ?t = ?t"
        by (metis append.assoc append_take_drop_id drop_drop add.commute)
      moreover have "replace_matches sc prev ?t = take lead ?f @ marker @ drop (lead + gone) ?f @ ?r"
        using Some m False unfolding replace_matches.simps(2) Let_def by (simp only: option.case prod.case if_False)
      ultimately show ?thesis by (simp only:)
    qed
  qed
qed (simp add: masked_Nil)

text \<open>A credential the marker cannot spell is nowhere in what is kept, which is bounded.\<close>

lemma no_credential_is_left:
  assumes "credential \<in> set credentials" and "plain (utf16 credential)"
    and "redact_native_reason credentials r = Some t"
  shows "\<not> js_includes (utf16 credential) t \<and> length t \<le> max_reason"
proof -
  let ?v = "utf16 credential"
  from assms(3) obtain s where t: "t = redact credentials s"
    by (auto simp: redact_native_reason_def)
  have "?v \<in> set (values_to_hide credentials)"
    using assms(1,2) by (auto simp: values_to_hide_def plain_def unspelled_def)
  moreover have "without_value = replace_value marker" by (simp add: fun_eq_iff without_value_def)
  ultimately have "\<not> js_includes ?v (fold without_value (values_to_hide credentials) s)"
    using codex_mask.hidden_values assms(2) by (simp add: plain_def)
  then have "\<not> js_includes ?v (fold (\<lambda>sc. replace_matches sc None) patterns (fold without_value (values_to_hide credentials) s))"
    unfolding fold_as_functions [of "\<lambda>sc. replace_matches sc None"]
    using assms(2) by (intro codex_mask.fold_stays_hidden) (auto intro: masked_replace simp: plain_def)
  then show ?thesis
    unfolding t redact_def using includes_take by (metis length_take min.cobounded2 min.commute)
qed

end
