(* ===== verification/Codex_Session.thy ===== *)
theory Codex_Session
  imports Codex_Reasons
begin

text \<open>
  The session with the app-server (\<open>harness/codex/events.ts\<close>, \<open>session.ts\<close>): the events of the
  subscription, the environment of the child, opening and resuming a thread, reading the account.

  An operation that asks the server runs on a \<open>talk\<close>: the answers still to come, in the order the
  requests are made, and what has been asked so far. Where no answer is left the operation is still
  waiting, which is the error \<open>Unanswered\<close>.
\<close>

section \<open>Events\<close>

record harness_event =
  ev_kind :: string
  ev_method :: string
  ev_thread :: json
  ev_turn :: json
  ev_params :: "json option"
  ev_status :: "json option"
  ev_server :: "json option"

definition kind_map :: "(string \<times> string) list" where
  "kind_map = [(''thread/started'', ''thread.started''), (''thread/name/updated'', ''thread.named''),
     (''turn/started'', ''turn.started''), (''turn/completed'', ''turn.completed''),
     (''thread/tokenUsage/updated'', ''turn.token_usage''), (''item/agentMessage/delta'', ''message.delta''),
     (''item/started'', ''item.started''), (''item/completed'', ''item.completed''),
     (''mcpServer/startupStatus/updated'', ''tool_server.status''), (''account/updated'', ''account.updated''),
     (''account/rateLimits/updated'', ''account.rate_limits''), (''hook/started'', ''hook.started''),
     (''hook/completed'', ''hook.completed''), (''error'', ''harness.error'')]"

text \<open>\<open>v?.a?.b\<close>, and the first of several that is not nullish.\<close>

definition inside :: "json option \<Rightarrow> string \<Rightarrow> string \<Rightarrow> json option" where
  "inside v a b = member_at (member_at v a) b"

definition either_of :: "json option \<Rightarrow> json option \<Rightarrow> json" where
  "either_of v w = or_else v (or_else w JNull)"

definition correlate :: "string \<Rightarrow> json option \<Rightarrow> json \<times> json" where
  "correlate name params =
     (let turn = either_of (member_at params ''turnId'') (inside params ''turn'' ''id'') in
      (either_of (member_at params ''threadId'') (inside params ''thread'' ''id''),
       if turn = JNull \<and> starts_with ''item/'' name then or_else (inside params ''item'' ''turnId'') JNull else turn))"

definition map_notification :: "string \<Rightarrow> json option \<Rightarrow> harness_event option" where
  "map_notification name params =
     (case map_of kind_map name of
        None \<Rightarrow> None
      | Some kind \<Rightarrow>
          (let (thread, turn) = correlate name params in
           Some \<lparr>ev_kind = kind, ev_method = name, ev_thread = thread, ev_turn = turn, ev_params = params,
             ev_status =
               (if kind = ''turn.completed'' then Some (or_else (inside params ''turn'' ''status'') JNull)
                else if kind = ''tool_server.status'' then Some (or_else (member_at params ''status'') JNull)
                else None),
             ev_server = (if kind = ''tool_server.status'' then Some (or_else (member_at params ''name'') JNull) else None)\<rparr>))"

record event_stream =
  es_dropped :: "(string \<times> nat) list"
  es_events :: "harness_event list"

definition new_stream :: event_stream where
  "new_stream = \<lparr>es_dropped = [], es_events = []\<rparr>"

definition accept :: "string \<times> json option \<Rightarrow> event_stream \<Rightarrow> event_stream" where
  "accept n st =
     (case map_notification (fst n) (snd n) of
        None \<Rightarrow> st\<lparr>es_dropped := AList.update (fst n)
          ((case map_of (es_dropped st) (fst n) of None \<Rightarrow> 0 | Some k \<Rightarrow> k) + 1) (es_dropped st)\<rparr>
      | Some e \<Rightarrow> st\<lparr>es_events := es_events st @ [e]\<rparr>)"

definition for_turn :: "string \<Rightarrow> json \<Rightarrow> event_stream \<Rightarrow> harness_event list" where
  "for_turn thread turn st =
     filter (\<lambda>e. strict_eq (Some (ev_thread e)) (Some (JStr thread)) \<and> strict_eq (Some (ev_turn e)) (Some turn))
       (es_events st)"

definition dropped_methods :: "platform \<Rightarrow> event_stream \<Rightarrow> (string \<times> nat) list" where
  "dropped_methods p st = sort_cmp (\<lambda>a b. locale_compare p (fst a) (fst b)) (es_dropped st)"

section \<open>The child's environment\<close>

definition inherited :: "string list" where
  "inherited = [''PATH'', ''HOME'', ''LANG'', ''TMPDIR'']"

definition given :: "string option \<Rightarrow> bool" where
  "given t \<longleftrightarrow> t \<noteq> None \<and> t \<noteq> Some []"

definition child_env ::
  "(string \<times> string) list \<Rightarrow> string \<Rightarrow> string option \<Rightarrow> string option \<Rightarrow> (string \<times> string) list \<Rightarrow> (string \<times> string option) list" where
  "child_env own codex_home key_name key extra =
     (let env = concat (map (\<lambda>name. case map_of own name of None \<Rightarrow> [] | Some v \<Rightarrow> [(name, Some v)]) inherited);
          env1 = AList.update ''CODEX_HOME'' (Some codex_home) env;
          env2 = fold (\<lambda>(name, v). AList.update name (Some v)) extra env1
      in (if given key_name then AList.update (the key_name) key env2 else env2))"

definition secret_words :: "string list" where
  "secret_words = [''TOKEN'', ''SECRET'', ''KEY'', ''CREDENTIAL'', ''PASSWORD'', ''CANARY'']"

definition redaction_values :: "string list \<Rightarrow> string option \<Rightarrow> (string \<times> string) list \<Rightarrow> string list" where
  "redaction_values credentials key extra =
     credentials @ (if given key then [the key] else [])
       @ map snd (filter (\<lambda>(name, v). list_ex (\<lambda>w. js_includes w name) secret_words) extra)"

text \<open>\<open>t.trim()\<close>; every white space of the language is one unit.\<close>

definition js_trim :: "string \<Rightarrow> string" where
  "js_trim t =
     (let t1 = drop_units (length (takeWhile js_space (utf16 t))) t in
      take_units (js_length t1 - length (takeWhile js_space (rev (utf16 t1)))) t1)"

section \<open>Asking the server\<close>

datatype harness_error =
    Harness_Fault fault          \<comment> \<open>\<open>HarnessFault\<close>, which keeps its first fault\<close>
  | Request_Failed rejection
  | Thrown exn
  | Unanswered

record talk =
  answers_left :: "(rejection + json option) list"
  asked :: "(string \<times> loose_members) list"

definition ask_server ::
  "string \<Rightarrow> loose_members \<Rightarrow> 'z talk_scheme \<Rightarrow> (harness_error, json option, 'z talk_scheme) outcome" where
  "ask_server name params t =
     (let t' = t\<lparr>asked := asked t @ [(name, params)]\<rparr> in
      case answers_left t of
        [] \<Rightarrow> (Inl Unanswered, t')
      | Inl e # rest \<Rightarrow> (Inl (Request_Failed e), t'\<lparr>answers_left := rest\<rparr>)
      | Inr v # rest \<Rightarrow> (Inr v, t'\<lparr>answers_left := rest\<rparr>))"

definition check :: "bool \<Rightarrow> string \<Rightarrow> string \<Rightarrow> harness_error + unit" where
  "check wrong fault_code what = (if wrong then Inl (Harness_Fault (Fault fault_code what)) else Inr ())"

section \<open>Connecting\<close>

record connect_options =
  co_codex_home :: string
  co_key_path :: "string option"
  co_key_name :: "string option"
  co_extra_env :: "(string \<times> string) list"
  co_credentials :: "string list"
  co_experimental :: bool

record session =
  talk +
  ss_thread :: "json option"
  ss_thread_id :: json
  ss_initialize :: "json option"
  ss_experimental :: bool
  ss_credentials :: "string list"
  ss_env :: "(string \<times> string option) list"
  ss_codex_home :: string
  ss_binary :: string
  ss_told :: "string list"
  ss_stopped :: bool

text \<open>The child on stdio: whether the home exists, and the key file as the file system reads it.\<close>

definition provider_key ::
  "connect_options \<Rightarrow> bool \<Rightarrow> (string \<Rightarrow> exn + string) \<Rightarrow> harness_error + string option" where
  "provider_key o1 home_exists read_file =
     bind_res (check (\<not> home_exists) ''HARNESS_CODEX_HOME_ABSENT'' (co_codex_home o1)) (\<lambda>_.
       if given (co_key_path o1)
       then (case read_file (the (co_key_path o1)) of
               Inl e \<Rightarrow> Inl (Harness_Fault (Fault ''HARNESS_PROVIDER_KEY_UNREADABLE'' (the (co_key_path o1))))
             | Inr t \<Rightarrow>
                 bind_res (check (\<not> given (co_key_name o1)) ''HARNESS_PROVIDER_KEY_ENV_UNNAMED'' (the (co_key_path o1)))
                   (\<lambda>_. Inr (Some (js_trim t))))
       else Inr None)"

definition initialize_params :: "bool \<Rightarrow> loose_members" where
  "initialize_params experimental =
     [(''clientInfo'', Some (JObj [(''name'', JStr ''carbon''), (''version'', JStr ''increment-3'')]))]
     @ (if experimental then [(''capabilities'', Some (JObj [(''experimentalApi'', JBool True)]))] else [])"

text \<open>Where \<open>initialize\<close> fails the child is stopped. The first result is a fault before a child exists.\<close>

definition stop_session :: "session \<Rightarrow> session" where
  "stop_session s = s\<lparr>ss_stopped := True\<rparr>"

definition connect ::
  "connect_options \<Rightarrow> (string \<times> string) list \<Rightarrow> bool \<Rightarrow> (string \<Rightarrow> exn + string) \<Rightarrow> string \<Rightarrow>
   (rejection + json option) list \<Rightarrow> harness_error + (harness_error, unit, session) outcome" where
  "connect o1 own home_exists read_file binary server =
     bind_res (provider_key o1 home_exists read_file) (\<lambda>key.
       (let s = \<lparr>answers_left = server, asked = [], ss_thread = Some JNull, ss_thread_id = JNull,
             ss_initialize = Some JNull, ss_experimental = co_experimental o1,
             ss_credentials = redaction_values (co_credentials o1) key (co_extra_env o1),
             ss_env = child_env own (co_codex_home o1) (co_key_name o1) key (co_extra_env o1),
             ss_codex_home = co_codex_home o1, ss_binary = binary, ss_told = [], ss_stopped = False\<rparr> in
        Inr (catch_op
          (bind_op (ask_server ''initialize'' (initialize_params (co_experimental o1))) (\<lambda>v.
             modify_op (\<lambda>s. s\<lparr>ss_initialize := v, ss_told := ss_told s @ [''initialized'']\<rparr>)))
          (\<lambda>e. case e of Unanswered \<Rightarrow> throw_op e | _ \<Rightarrow> bind_op (modify_op stop_session) (\<lambda>_. throw_op e)) s)))"

section \<open>Threads\<close>

record thread_opening =
  op_cwd :: string
  op_model :: "string option"
  op_effort :: "string option"
  op_sandbox :: "string option"
  op_permissions :: "string option"
  op_unit :: "string option"
  op_config :: "members option"
  op_instructions :: "string option"

definition permission_selection :: "bool \<Rightarrow> string option \<Rightarrow> string option \<Rightarrow> harness_error + unit" where
  "permission_selection experimental permissions sandbox =
     bind_res (check (given permissions \<and> given sandbox) ''HARNESS_PERMISSION_POLICY_CONFLICT'' ''thread.permissions'')
       (\<lambda>_. check (given permissions \<and> \<not> experimental) ''HARNESS_PERMISSION_API_NOT_ENABLED'' ''thread.permissions'')"

definition is_text :: "json option \<Rightarrow> string option \<Rightarrow> bool" where
  "is_text v t = strict_eq v (map_option JStr t)"

definition confirm_permission_profile :: "json option \<Rightarrow> string option \<Rightarrow> harness_error + unit" where
  "confirm_permission_profile reply permissions =
     check (given permissions \<and> \<not> is_text (inside reply ''activePermissionProfile'' ''id'') permissions)
       ''HARNESS_PERMISSION_PROFILE_NOT_CONFIRMED'' ''thread.activePermissionProfile''"

definition configuration_with_effort :: "members option \<Rightarrow> string option \<Rightarrow> members option" where
  "configuration_with_effort config effort =
     (if config \<noteq> None \<or> given effort
      then Some (spread (case config of None \<Rightarrow> [] | Some ms \<Rightarrow> ms)
             (if given effort then [(''model_reasoning_effort'', JStr (the effort))] else []))
      else None)"

definition when_given :: "string \<Rightarrow> string option \<Rightarrow> loose_members" where
  "when_given name t = (if given t then [(name, map_option JStr t)] else [])"

definition opening_params :: "thread_opening \<Rightarrow> loose_members" where
  "opening_params o1 =
     [(''cwd'', Some (JStr (op_cwd o1))), (''model'', map_option JStr (op_model o1)),
      (''approvalPolicy'', Some (JStr ''never'')), (''ephemeral'', Some (JBool False))]
     @ when_given ''sandbox'' (op_sandbox o1) @ when_given ''permissions'' (op_permissions o1)
     @ (if op_instructions o1 \<noteq> None then [(''developerInstructions'', map_option JStr (op_instructions o1))] else [])
     @ (case configuration_with_effort (op_config o1) (op_effort o1) of
          None \<Rightarrow> [] | Some ms \<Rightarrow> [(''config'', Some (JObj ms))])"

definition opening_faults :: "thread_opening \<Rightarrow> json option \<Rightarrow> json \<Rightarrow> fault list" where
  "opening_faults o1 started thread =
     (if \<not> truthy (Some thread) then [Fault ''HARNESS_THREAD_ID_ABSENT'' ''thread/start''] else [])
     @ (if given (op_model o1) \<and> \<not> is_text (member_at started ''model'') (op_model o1)
        then [Fault ''HARNESS_MODEL_NOT_CONFIRMED'' ''thread/start.model''] else [])
     @ (if given (op_effort o1) \<and> \<not> is_text (member_at started ''reasoningEffort'') (op_effort o1)
        then [Fault ''HARNESS_EFFORT_NOT_CONFIRMED'' ''thread/start.reasoningEffort''] else [])
     @ (if \<not> is_text (member_at started ''approvalPolicy'') (Some ''never'')
        then [Fault ''HARNESS_APPROVAL_POLICY_NOT_NEVER'' ''thread/start.approvalPolicy''] else [])"

definition thread_record :: "string option \<Rightarrow> string \<Rightarrow> session \<Rightarrow> loose_members" where
  "thread_record unit_id now s =
     (let read = (\<lambda>k. Some (or_else (member_at (ss_thread s) k) JNull)) in
      [(''unit_id'', map_option JStr unit_id), (''thread_id'', Some (ss_thread_id s)), (''model'', read ''model''),
       (''effort'', read ''reasoningEffort''), (''cwd'', read ''cwd''), (''approval_policy'', read ''approvalPolicy''),
       (''sandbox'', read ''sandbox'')]
      @ (if truthy (member_at (ss_thread s) ''activePermissionProfile'')
         then [(''active_permission_profile'', member_at (ss_thread s) ''activePermissionProfile'')] else [])
      @ [(''codex_home'', Some (JStr (ss_codex_home s))), (''binary'', Some (JStr (ss_binary s))),
         (''started_at'', Some (JStr now))])"

definition open_thread :: "thread_opening \<Rightarrow> string \<Rightarrow> session \<Rightarrow> (harness_error, loose_members, session) outcome" where
  "open_thread o1 now =
     bind_op (read_op (\<lambda>s. permission_selection (ss_experimental s) (op_permissions o1) (op_sandbox o1))) (\<lambda>_.
     bind_op (ask_server ''thread/start'' (opening_params o1)) (\<lambda>started.
     (let thread = or_else (inside started ''thread'' ''id'') JNull in
      bind_op (modify_op (\<lambda>s. s\<lparr>ss_thread := started, ss_thread_id := thread\<rparr>)) (\<lambda>_.
      bind_op (read_op (\<lambda>s. confirm_permission_profile started (op_permissions o1))) (\<lambda>_.
      (case opening_faults o1 started thread of
         f # fs \<Rightarrow> throw_op (Harness_Fault f)
       | [] \<Rightarrow>
           bind_op (if given (op_unit o1)
                    then ask_server ''thread/name/set'' [(''threadId'', Some thread), (''name'', map_option JStr (op_unit o1))]
                    else ret_op None) (\<lambda>_.
           get_op (thread_record (op_unit o1) now))))))))"

definition resume_params :: "string \<Rightarrow> thread_opening \<Rightarrow> loose_members" where
  "resume_params thread o1 =
     [(''threadId'', Some (JStr thread))] @ when_given ''cwd'' (Some (op_cwd o1)) @ when_given ''model'' (op_model o1)
     @ when_given ''sandbox'' (op_sandbox o1) @ when_given ''permissions'' (op_permissions o1)
     @ (if op_instructions o1 \<noteq> None then [(''developerInstructions'', map_option JStr (op_instructions o1))] else [])
     @ (case configuration_with_effort (op_config o1) (op_effort o1) of
          None \<Rightarrow> [] | Some ms \<Rightarrow> [(''config'', Some (JObj ms))])"

definition resume_thread :: "string \<Rightarrow> thread_opening \<Rightarrow> session \<Rightarrow> (harness_error, json option, session) outcome" where
  "resume_thread thread o1 =
     bind_op (read_op (\<lambda>s. permission_selection (ss_experimental s) (op_permissions o1) (op_sandbox o1))) (\<lambda>_.
     bind_op (ask_server ''thread/resume'' (resume_params thread o1)) (\<lambda>resumed.
     bind_op (read_op (\<lambda>s. confirm_permission_profile resumed (op_permissions o1))) (\<lambda>_.
     bind_op (modify_op (\<lambda>s. s\<lparr>ss_thread := resumed,
         ss_thread_id := or_else (inside resumed ''thread'' ''id'') (JStr thread)\<rparr>)) (\<lambda>_.
     ret_op resumed))))"

end
