(* ===== verification/Codex_Turn.thy ===== *)
theory Codex_Turn
  imports Codex_Session
begin

text \<open>
  One turn (\<open>harness/codex/turn.ts\<close>): the sandbox policy, \<open>turn/start\<close>, the wait for the completion, and
  what is read off it. What happens around the requests is a list of \<open>happening\<close>s in the order they
  reach the process: a notification of the server, the end of the child, the timer.
\<close>

section \<open>Policies\<close>

definition network_check :: "json option \<Rightarrow> harness_error + unit" where
  "network_check access =
     check (\<not> (case access of Some (JBool b) \<Rightarrow> True | _ \<Rightarrow> False))
       ''HARNESS_NETWORK_ACCESS_UNSTATED'' ''sandboxPolicy.networkAccess''"

definition is_array :: "json option \<Rightarrow> bool" where
  "is_array v = (case v of Some (JArr xs) \<Rightarrow> True | _ \<Rightarrow> False)"

definition workspace_write_policy :: "json option \<Rightarrow> json option \<Rightarrow> harness_error + loose_members" where
  "workspace_write_policy roots access =
     bind_res (check (\<not> is_array roots) ''HARNESS_WRITABLE_ROOTS_ABSENT'' ''sandboxPolicy.writableRoots'') (\<lambda>_.
     bind_res (network_check access) (\<lambda>_.
       Inr [(''type'', Some (JStr ''workspaceWrite'')), (''writableRoots'', roots), (''networkAccess'', access),
         (''excludeSlashTmp'', Some (JBool False)), (''excludeTmpdirEnvVar'', Some (JBool True))]))"

definition read_only_policy :: "json option \<Rightarrow> harness_error + loose_members" where
  "read_only_policy access =
     bind_res (network_check access) (\<lambda>_. Inr [(''type'', Some (JStr ''readOnly'')), (''networkAccess'', access)])"

definition policy_for :: "string \<Rightarrow> json option \<Rightarrow> json option \<Rightarrow> harness_error + loose_members" where
  "policy_for mode roots access =
     (if mode = ''workspace-write'' then workspace_write_policy roots access
      else if mode = ''read-only'' then read_only_policy access
      else Inl (Harness_Fault (Fault ''HARNESS_SANDBOX_MODE_REFUSED'' mode)))"

section \<open>Waiting for the completion\<close>

datatype happening =
    Arrived string "json option"
  | Child_Exited
  | Timer_Fired

definition heard :: "happening list \<Rightarrow> event_stream \<Rightarrow> event_stream" where
  "heard hs st = fold (\<lambda>h st. case h of Arrived name params \<Rightarrow> accept (name, params) st | _ \<Rightarrow> st) hs st"

definition turn_subject :: "platform \<Rightarrow> string \<Rightarrow> json \<Rightarrow> string" where
  "turn_subject p thread turn_id = thread @ '':'' @ js_string p turn_id"

definition completes :: "string \<Rightarrow> json \<Rightarrow> harness_event \<Rightarrow> bool" where
  "completes thread turn_id e \<longleftrightarrow>
     ev_kind e = ''turn.completed'' \<and> strict_eq (Some (ev_thread e)) (Some (JStr thread))
     \<and> strict_eq (inside (ev_params e) ''turn'' ''id'') (Some turn_id)"

text \<open>\<open>None\<close>: still waiting. A bound of zero milliseconds, or none, sets no timer.\<close>

fun awaiting :: "platform \<Rightarrow> string \<Rightarrow> json \<Rightarrow> bool \<Rightarrow> happening list \<Rightarrow> (harness_error + json option) option" where
  "awaiting p thread turn_id timed [] = None"
| "awaiting p thread turn_id timed (Arrived name params # hs) =
     (case map_notification name params of
        Some e \<Rightarrow>
          (if completes thread turn_id e then Some (Inr (member_at (ev_params e) ''turn'')) else awaiting p thread turn_id timed hs)
      | None \<Rightarrow> awaiting p thread turn_id timed hs)"
| "awaiting p thread turn_id timed (Child_Exited # hs) =
     Some (Inl (Harness_Fault (Fault ''HARNESS_CHILD_EXITED_MID_TURN'' (turn_subject p thread turn_id))))"
| "awaiting p thread turn_id timed (Timer_Fired # hs) =
     (if timed then Some (Inl (Harness_Fault (Fault ''HARNESS_TURN_TIMED_OUT'' (turn_subject p thread turn_id))))
      else awaiting p thread turn_id timed hs)"

definition await_completion ::
  "platform \<Rightarrow> event_stream \<Rightarrow> string \<Rightarrow> json \<Rightarrow> bool \<Rightarrow> happening list \<Rightarrow> (harness_error + json option) option" where
  "await_completion p st thread turn_id timed hs =
     (case find (\<lambda>e. ev_kind e = ''turn.completed'') (for_turn thread turn_id st) of
        Some e \<Rightarrow> Some (Inr (member_at (ev_params e) ''turn''))
      | None \<Rightarrow> awaiting p thread turn_id timed hs)"

section \<open>What a turn did\<close>

text \<open>\<open>item?.item ?? item\<close>, and the items the record carries.\<close>

definition bare_item :: "json \<Rightarrow> json" where
  "bare_item item = or_else (member_at (Some item) ''item'') item"

definition carried_items :: "json option \<Rightarrow> json list" where
  "carried_items turn = map bare_item (elements_of (member_at turn ''items''))"

definition streamed_items :: "harness_event list \<Rightarrow> json list" where
  "streamed_items es =
     map the (filter truthy (map (\<lambda>e. member_at (ev_params e) ''item'') (filter (\<lambda>e. ev_kind e = ''item.completed'') es)))"

text \<open>The second part is the \<open>itemsView\<close> the detail names where there is no action record.\<close>

definition items_from :: "json option \<Rightarrow> harness_event list \<Rightarrow> json list \<times> json option" where
  "items_from turn es =
     (if is_text (member_at turn ''itemsView'') (Some ''full'') then (carried_items turn, None)
      else if streamed_items es \<noteq> [] then (streamed_items es, None)
      else ([], Some (or_else (member_at turn ''itemsView'') JNull)))"

text \<open>\<open>part?.text ?? ''\<close> as \<open>join\<close> writes it: null and undefined are empty.\<close>

definition joined_text :: "platform \<Rightarrow> json list \<Rightarrow> string" where
  "joined_text p vs = concat (map (\<lambda>v. if v = JNull then [] else js_string p v) vs)"

definition message_text :: "platform \<Rightarrow> json \<Rightarrow> exn + string" where
  "message_text p item =
     (case member_at (Some item) ''text'' of
        Some (JStr t) \<Rightarrow> Inr t
      | _ \<Rightarrow>
          (case or_else (member_at (Some item) ''content'') (JArr []) of
             JArr parts \<Rightarrow> Inr (joined_text p (map (\<lambda>part. or_else (member_at (Some part) ''text'') (JStr [])) parts))
           | _ \<Rightarrow> Inl Type_Error))"

definition agent_message_from :: "platform \<Rightarrow> json option \<Rightarrow> harness_event list \<Rightarrow> exn + string option" where
  "agent_message_from p turn es =
     bind_res (map_res (message_text p)
         (filter (\<lambda>item. is_text (member_at (Some item) ''type'') (Some ''agentMessage'')) (carried_items turn))) (\<lambda>texts.
       (let texts1 = filter (\<lambda>t. 0 < length t) texts;
            delta = joined_text p (map (\<lambda>e. or_else (member_at (ev_params e) ''delta'')
                (or_else (member_at (ev_params e) ''text'') (JStr [])))
              (filter (\<lambda>e. ev_kind e = ''message.delta'') es)) in
        Inr (if texts1 \<noteq> [] then Some (last texts1) else if 0 < length delta then Some delta else None)))"

definition is_object :: "json option \<Rightarrow> bool" where
  "is_object v = (case v of Some (JObj ms) \<Rightarrow> True | Some (JArr xs) \<Rightarrow> True | _ \<Rightarrow> False)"

definition token_usage_from :: "harness_event list \<Rightarrow> (string \<times> json) list option" where
  "token_usage_from es =
     (case rev (filter (\<lambda>e. ev_kind e = ''turn.token_usage'') es) of
        [] \<Rightarrow> None
      | e # _ \<Rightarrow>
          (let total = inside (ev_params e) ''tokenUsage'' ''total'';
               part = (\<lambda>k. or_else (member_at total k) JNull) in
           if is_object total
           then Some [(''input'', part ''inputTokens''), (''cached'', part ''cachedInputTokens''),
             (''output'', part ''outputTokens''), (''reasoning'', part ''reasoningOutputTokens'')]
           else None))"

definition input_items :: "json option \<Rightarrow> harness_error + json" where
  "input_items input =
     (case input of
        Some (JStr t) \<Rightarrow> Inr (JArr [JObj [(''type'', JStr ''text''), (''text'', JStr t)]])
      | Some (JArr xs) \<Rightarrow> Inr (JArr xs)
      | _ \<Rightarrow> Inl (Harness_Fault (Fault ''HARNESS_INPUT_UNSUPPORTED'' ''turn/start.input'')))"

section \<open>The turn\<close>

record turn_options =
  tu_thread :: "string option"
  tu_input :: "json option"
  tu_effort :: "string option"
  tu_policy :: "json option"
  tu_permissions :: "string option"
  tu_message_id :: "string option"
  tu_model :: "string option"
  tu_timed :: bool

definition turn_refusal :: "bool \<Rightarrow> turn_options \<Rightarrow> harness_error + unit" where
  "turn_refusal experimental o1 =
     bind_res (check (\<not> given (tu_thread o1)) ''HARNESS_THREAD_ID_ABSENT'' ''turn/start.threadId'') (\<lambda>_.
     bind_res (check (given (tu_permissions o1) \<and> truthy (tu_policy o1)) ''HARNESS_PERMISSION_POLICY_CONFLICT'' ''turn/start'') (\<lambda>_.
     bind_res (check (given (tu_permissions o1) \<and> \<not> experimental) ''HARNESS_PERMISSION_API_NOT_ENABLED'' ''turn/start.permissions'') (\<lambda>_.
     check (\<not> truthy (tu_policy o1) \<and> \<not> given (tu_permissions o1)) ''HARNESS_SANDBOX_POLICY_ABSENT'' ''turn/start.sandboxPolicy'')))"

definition turn_params :: "turn_options \<Rightarrow> json \<Rightarrow> loose_members" where
  "turn_params o1 items =
     [(''threadId'', map_option JStr (tu_thread o1)), (''input'', Some items), (''approvalPolicy'', Some (JStr ''never''))]
     @ (if given (tu_permissions o1) then when_given ''permissions'' (tu_permissions o1)
        else [(''sandboxPolicy'', tu_policy o1)])
     @ when_given ''effort'' (tu_effort o1) @ when_given ''model'' (tu_model o1)
     @ when_given ''clientUserMessageId'' (tu_message_id o1)"

record turn_error =
  te_reason :: "nat list option"
  te_code :: "(json + nat list) option"
  te_details :: "nat list option"

text \<open>The error of a completed turn: \<open>code\<close>, else \<open>codexErrorInfo\<close> as text, both only of an object.\<close>

definition redacted_value :: "string list \<Rightarrow> json option \<Rightarrow> nat list option" where
  "redacted_value credentials v = redact_native_reason credentials (Native_Value v)"

definition turn_error_of :: "platform \<Rightarrow> string list \<Rightarrow> json option \<Rightarrow> turn_error option" where
  "turn_error_of p credentials err =
     (if nullish err then None
      else Some \<lparr>te_reason = redacted_value credentials err,
        te_code =
          (case member_at err ''code'' of
             Some c \<Rightarrow> Some (Inl c)
           | None \<Rightarrow>
               (case member_at err ''codexErrorInfo'' of
                  Some info \<Rightarrow> map_option Inr (redacted_value credentials (Some (JStr (json_text p info))))
                | None \<Rightarrow> None)),
        te_details =
          (case member_at err ''additionalDetails'' of
             Some d \<Rightarrow> redacted_value credentials (Some d) | None \<Rightarrow> None)\<rparr>)"

record turn_report =
  tr_thread :: string
  tr_turn :: json
  tr_message_id :: "string option"
  tr_status :: "json option"
  tr_started_at :: json
  tr_completed_at :: json
  tr_duration :: json
  tr_error :: "turn_error option"
  tr_items :: "json list"
  tr_items_view :: json
  tr_items_detail :: "json option"
  tr_message :: "string option"
  tr_usage :: "(string \<times> json) list option"
  tr_events :: "string list"

definition turn_report_of ::
  "platform \<Rightarrow> string list \<Rightarrow> string \<Rightarrow> json \<Rightarrow> string option \<Rightarrow> json option \<Rightarrow> harness_event list \<Rightarrow> harness_error + turn_report" where
  "turn_report_of p credentials thread turn_id msg_id completed es =
     (if nullish completed then Inl (Thrown Type_Error)
      else
        (let read = (\<lambda>k. or_else (member_at completed k) JNull); (items, detail) = items_from completed es in
         case agent_message_from p completed es of
           Inl e \<Rightarrow> Inl (Thrown e)
         | Inr spoken \<Rightarrow>
             Inr \<lparr>tr_thread = thread, tr_turn = turn_id, tr_message_id = msg_id, tr_status = member_at completed ''status'',
               tr_started_at = read ''startedAt'', tr_completed_at = read ''completedAt'', tr_duration = read ''durationMs'',
               tr_error = turn_error_of p credentials (member_at completed ''error''), tr_items = items,
               tr_items_view = read ''itemsView'', tr_items_detail = detail, tr_message = spoken,
               tr_usage = token_usage_from es, tr_events = map ev_kind es\<rparr>))"

text \<open>What is heard between the request and the run of its continuation is \<open>during\<close>, what comes after
  \<open>later\<close>, up to the moment the wait ends and the turn goes on.\<close>

definition turn ::
  "platform \<Rightarrow> turn_options \<Rightarrow> event_stream \<Rightarrow> happening list \<Rightarrow> happening list \<Rightarrow> session \<Rightarrow>
   (harness_error, turn_report, session) outcome" where
  "turn p o1 st during later =
     bind_op (read_op (\<lambda>s. turn_refusal (ss_experimental s) o1)) (\<lambda>_.
     bind_op (read_op (\<lambda>s. input_items (tu_input o1))) (\<lambda>items.
     bind_op (ask_server ''turn/start'' (turn_params o1 items)) (\<lambda>started.
     (let turn_id = or_else (inside started ''turn'' ''id'') JNull; thread = the (tu_thread o1); st1 = heard during st in
      if \<not> truthy (Some turn_id) then throw_op (Harness_Fault (Fault ''HARNESS_TURN_ID_ABSENT'' ''turn/start''))
      else (case await_completion p st1 thread turn_id (tu_timed o1) later of
              None \<Rightarrow> throw_op Unanswered
            | Some (Inl e) \<Rightarrow> throw_op e
            | Some (Inr completed) \<Rightarrow>
                read_op (\<lambda>s. turn_report_of p (ss_credentials s) thread turn_id (tu_message_id o1) completed
                   (for_turn thread turn_id (heard later st1))))))))"

section \<open>Steering and interrupting\<close>

definition steer :: "string \<Rightarrow> string \<Rightarrow> json option \<Rightarrow> string option \<Rightarrow> session \<Rightarrow> (harness_error, json option, session) outcome" where
  "steer thread expected input msg_id =
     bind_op (read_op (\<lambda>s. input_items input)) (\<lambda>items.
       ask_server ''turn/steer''
         ([(''threadId'', Some (JStr thread)), (''expectedTurnId'', Some (JStr expected)), (''input'', Some items)]
          @ when_given ''clientUserMessageId'' msg_id))"

definition interrupt :: "string \<Rightarrow> string \<Rightarrow> session \<Rightarrow> (harness_error, json option, session) outcome" where
  "interrupt thread turn_id =
     ask_server ''turn/interrupt'' [(''threadId'', Some (JStr thread)), (''turnId'', Some (JStr turn_id))]"

definition native_rpc_code :: "harness_error \<Rightarrow> json option" where
  "native_rpc_code e =
     (case e of
        Request_Failed (Rpc_Error name err) \<Rightarrow>
          (case member_at (Some err) ''code'' of
             Some (JInt i) \<Rightarrow> Some (JInt i) | Some (JFloat n d) \<Rightarrow> Some (JFloat n d) | _ \<Rightarrow> None)
      | _ \<Rightarrow> None)"

definition terminal_turn_status :: "json option \<Rightarrow> string \<Rightarrow> string option" where
  "terminal_turn_status v expected =
     (if \<not> is_text (member_at v ''id'') (Some expected) then None
      else (case member_at v ''status'' of
              Some (JStr t) \<Rightarrow> if t \<in> set [''completed'', ''interrupted'', ''failed''] then Some t else None
            | _ \<Rightarrow> None))"

definition read_thread_turns :: "json option \<Rightarrow> string \<Rightarrow> json list" where
  "read_thread_turns thread_read thread =
     (let t = member_at thread_read ''thread'' in
      if is_text (member_at t ''id'') (Some thread) then elements_of (member_at t ''turns'') else [])"

definition latest_status :: "string \<Rightarrow> string \<Rightarrow> harness_event list \<Rightarrow> string option" where
  "latest_status thread expected es =
     fold (\<lambda>e status.
       if ev_kind e = ''turn.completed'' \<and> strict_eq (Some (ev_thread e)) (Some (JStr thread))
          \<and> strict_eq (Some (ev_turn e)) (Some (JStr expected))
       then (case terminal_turn_status (member_at (ev_params e) ''turn'') expected of None \<Rightarrow> status | t \<Rightarrow> t)
       else status) es None"

datatype delivery = Definitely_Not_Delivered | Uncertain

definition classify_steer_failure ::
  "harness_error \<Rightarrow> string \<Rightarrow> string \<Rightarrow> json option \<Rightarrow> harness_event list \<Rightarrow> delivery \<times> string option \<times> json option" where
  "classify_steer_failure e thread expected thread_read es =
     (let rpc = native_rpc_code e;
          rejection = ((case e of Request_Failed (Rpc_Error name err) \<Rightarrow> name = ''turn/steer'' | _ \<Rightarrow> False)
            \<and> rpc = Some (JInt (-32600)));
          read = find (\<lambda>v. terminal_turn_status (Some v) expected \<noteq> None) (read_thread_turns thread_read thread);
          status = (case terminal_turn_status read expected of
              None \<Rightarrow> latest_status thread expected es | t \<Rightarrow> t) in
      (if rejection \<and> status \<noteq> None then Definitely_Not_Delivered else Uncertain, status, rpc))"

end
