(* ===== verification/Codex_Account.thy ===== *)
theory Codex_Account
  imports Codex_Session
begin

text \<open>
  The account the harness is signed in to (\<open>harness/codex/session.ts\<close>, from \<open>readAccount\<close> on): two
  requests that are bounded in time, of which each session holds at most one of each kind.
  A number of the wire is a JSON number; what a request comes to within the bound is given.
\<close>

section \<open>Reading the answers\<close>

definition count_value :: "json option \<Rightarrow> json option" where
  "count_value v = (case v of Some (JInt i) \<Rightarrow> v | Some (JFloat n d) \<Rightarrow> v | _ \<Rightarrow> None)"

definition flag_value :: "json option \<Rightarrow> bool option" where
  "flag_value v = (case v of Some (JBool b) \<Rightarrow> Some b | _ \<Rightarrow> None)"

definition object_value :: "json option \<Rightarrow> bool" where
  "object_value v = (case v of Some (JObj ms) \<Rightarrow> True | Some (JArr xs) \<Rightarrow> True | _ \<Rightarrow> False)"

record rate_window =
  rw_used :: "json option"
  rw_minutes :: "json option"
  rw_resets :: "json option"

record rate_credits =
  rc_has :: "bool option"
  rc_unlimited :: "bool option"
  rc_balance :: "string option"

record rate_limits =
  rl_account :: "string option"
  rl_id :: "string option"
  rl_name :: "string option"
  rl_plan :: "string option"
  rl_primary :: "rate_window option"
  rl_secondary :: "rate_window option"
  rl_credits :: "rate_credits option"
  rl_reached :: "string option"

definition window_from :: "json option \<Rightarrow> rate_window option" where
  "window_from v =
     (if object_value v
      then Some \<lparr>rw_used = count_value (member_at v ''usedPercent''),
        rw_minutes = count_value (member_at v ''windowDurationMins''), rw_resets = count_value (member_at v ''resetsAt'')\<rparr>
      else None)"

definition credits_from :: "json option \<Rightarrow> rate_credits option" where
  "credits_from v =
     (if object_value v
      then Some \<lparr>rc_has = flag_value (member_at v ''hasCredits''), rc_unlimited = flag_value (member_at v ''unlimited''),
        rc_balance = text_value (member_at v ''balance'')\<rparr>
      else None)"

definition rate_limits_from :: "json option \<Rightarrow> json option \<Rightarrow> rate_limits option" where
  "rate_limits_from snapshot owner =
     (if object_value snapshot
      then Some \<lparr>rl_account = text_value owner, rl_id = text_value (member_at snapshot ''limitId''),
        rl_name = text_value (member_at snapshot ''limitName''), rl_plan = text_value (member_at snapshot ''planType''),
        rl_primary = window_from (member_at snapshot ''primary''), rl_secondary = window_from (member_at snapshot ''secondary''),
        rl_credits = credits_from (member_at snapshot ''credits''),
        rl_reached = text_value (member_at snapshot ''rateLimitReachedType'')\<rparr>
      else None)"

record account_identity =
  ac_type :: "string option"
  ac_email :: "string option"
  ac_plan :: "string option"

definition account_from :: "json option \<Rightarrow> account_identity option" where
  "account_from v =
     (if object_value v
      then Some \<lparr>ac_type = text_value (member_at v ''type''), ac_email = text_value (member_at v ''email''),
        ac_plan = text_value (member_at v ''planType'')\<rparr>
      else None)"

text \<open>\<open>/\/(\d+\.\d+\.\d+[^\s;()]*)/\<close>: the first slash a version follows.\<close>

definition number_dot :: "nat list \<Rightarrow> (nat list \<times> nat list) option" where
  "number_dot t =
     (let ds = takeWhile (\<lambda>u. 48 \<le> u \<and> u \<le> 57) t; rest = drop (length ds) t in
      if ds \<noteq> [] \<and> begins_with ''.'' rest then Some (ds @ [46], drop 1 rest) else None)"

definition version_at :: "nat list \<Rightarrow> nat list option" where
  "version_at t =
     (case number_dot t of
        None \<Rightarrow> None
      | Some (major, t1) \<Rightarrow>
          (case number_dot t1 of
             None \<Rightarrow> None
           | Some (minor, t2) \<Rightarrow>
               (if takeWhile (\<lambda>u. 48 \<le> u \<and> u \<le> 57) t2 = [] then None
                else Some (major @ minor @ takeWhile (\<lambda>u. \<not> js_space u \<and> u \<notin> {59, 40, 41}) t2))))"

fun version_in :: "nat list \<Rightarrow> nat list option" where
  "version_in [] = None"
| "version_in (u # us) =
     (if u = 47 then (case version_at us of None \<Rightarrow> version_in us | v \<Rightarrow> v) else version_in us)"

definition version_from :: "json option \<Rightarrow> nat list option" where
  "version_from result =
     (case text_value (member_at result ''userAgent'') of None \<Rightarrow> None | Some t \<Rightarrow> version_in (utf16 t))"

section \<open>Asking\<close>

datatype failure_kind = Rejected_Answer | Timed_Out | Not_Sent | Still_Pending

datatype account_answer =
    Answered_In_Time "json option"
  | Rejected_In_Time native_reason
  | No_Answer_Yet
  | Send_Threw native_reason

datatype account_failure =
    Request_Failure failure_kind native_reason    \<comment> \<open>\<open>AccountRequestFailure\<close> and its \<open>original\<close>\<close>
  | Rejection native_reason

text \<open>The methods whose last request is unanswered, and the requests the connection holds.\<close>

record account_desk =
  busy :: "string list"
  held_requests :: "string list"

definition null_reason :: native_reason where
  "null_reason = Native_Value (Some JNull)"

definition ask_account ::
  "string \<Rightarrow> account_answer \<Rightarrow> account_desk \<Rightarrow> (account_failure, json option, account_desk) outcome" where
  "ask_account name answer d =
     (if name \<in> set (busy d) then (Inl (Request_Failure Still_Pending null_reason), d)
      else (case answer of
              Send_Threw r \<Rightarrow> (Inl (Request_Failure Not_Sent r), d)
            | Answered_In_Time v \<Rightarrow> (Inr v, d)
            | Rejected_In_Time r \<Rightarrow> (Inl (Rejection r), d)
            | No_Answer_Yet \<Rightarrow>
                (Inl (Request_Failure Timed_Out null_reason),
                 d\<lparr>busy := name # busy d, held_requests := name # held_requests d\<rparr>)))"

text \<open>The server answers, or the connection fails, after the bound: the request is let go.\<close>

definition settle_account :: "string \<Rightarrow> account_desk \<Rightarrow> account_desk" where
  "settle_account name d = d\<lparr>busy := removeAll name (busy d), held_requests := remove1 name (held_requests d)\<rparr>"

record account_error =
  ae_method :: string
  ae_kind :: failure_kind
  ae_rpc_code :: "int option"
  ae_reason :: "nat list option"
  ae_native_code :: "json option"

definition max_safe_integer :: int where
  "max_safe_integer = 9007199254740991"

definition failure_of :: "string \<Rightarrow> account_failure \<Rightarrow> string list \<Rightarrow> account_error" where
  "failure_of name f credentials =
     (let number = (case f of Rejection (Native_Rpc message err) \<Rightarrow> member_at (Some err) ''code'' | _ \<Rightarrow> None) in
      \<lparr>ae_method = name,
       ae_kind = (case f of Request_Failure k r \<Rightarrow> k | Rejection r \<Rightarrow> Rejected_Answer),
       ae_rpc_code = (case number of Some (JInt i) \<Rightarrow> if \<bar>i\<bar> \<le> max_safe_integer then Some i else None | _ \<Rightarrow> None),
       ae_reason = redact_native_reason credentials
         (case f of Request_Failure k r \<Rightarrow> r
          | Rejection (Native_Rpc message err) \<Rightarrow> Native_Value (Some err) | Rejection r \<Rightarrow> r),
       ae_native_code = (case number of
           Some (JInt i) \<Rightarrow> number | Some (JFloat n e) \<Rightarrow> number | Some (JStr t) \<Rightarrow> number | _ \<Rightarrow> None)\<rparr>)"

record account_read =
  ar_observed :: string
  ar_version :: "nat list option"
  ar_account :: "account_identity option"
  ar_auth :: "bool option"
  ar_limits :: "rate_limits option"
  ar_errors :: "account_error list"

definition account_method :: string where
  "account_method = ''account/read''"

definition limits_method :: string where
  "limits_method = ''account/rateLimits/read''"

definition read_account ::
  "json option \<Rightarrow> string \<Rightarrow> session \<Rightarrow> account_answer \<Rightarrow> account_answer \<Rightarrow> account_desk \<Rightarrow>
   (harness_error, account_read, account_desk) outcome" where
  "read_account bound now s first second d =
     (case check (\<not> (case count_value bound of Some (JInt i) \<Rightarrow> 0 < i | Some (JFloat n e) \<Rightarrow> 0 < n | _ \<Rightarrow> False))
            ''HARNESS_ACCOUNT_READ_UNBOUNDED'' ''readAccount.timeoutMs'' of
        Inl e \<Rightarrow> (Inl e, d)
      | Inr _ \<Rightarrow>
          (case ask_account account_method first d of (who, d1) \<Rightarrow>
           (case ask_account limits_method second d1 of (allowance, d2) \<Rightarrow>
             (Inr \<lparr>ar_observed = now, ar_version = version_from (ss_initialize s),
                ar_account = (case who of Inl f \<Rightarrow> None | Inr v \<Rightarrow> account_from (member_at v ''account'')),
                ar_auth = (case who of Inl f \<Rightarrow> None | Inr v \<Rightarrow> flag_value (member_at v ''requiresOpenaiAuth'')),
                ar_limits = (case allowance of Inl f \<Rightarrow> None
                   | Inr v \<Rightarrow> rate_limits_from (member_at v ''rateLimits'') (member_at v ''accountId'')),
                ar_errors = (case who of Inl f \<Rightarrow> [failure_of account_method f (ss_credentials s)] | Inr v \<Rightarrow> [])
                  @ (case allowance of Inl f \<Rightarrow> [failure_of limits_method f (ss_credentials s)] | Inr v \<Rightarrow> [])\<rparr>, d2))))"

section \<open>One of each\<close>

datatype desk_event =
    Read_Account "json option" string session account_answer account_answer
  | Late_Answer string

definition desk_step :: "desk_event \<Rightarrow> account_desk \<Rightarrow> account_desk" where
  "desk_step e d =
     (case e of
        Read_Account bound now s first second \<Rightarrow> snd (read_account bound now s first second d)
      | Late_Answer name \<Rightarrow> settle_account name d)"

definition desk_ok :: "account_desk \<Rightarrow> bool" where
  "desk_ok d \<longleftrightarrow> distinct (held_requests d) \<and> set (held_requests d) = set (busy d)
     \<and> set (held_requests d) \<subseteq> {account_method, limits_method}"

lemma ask_account_ok:
  assumes "desk_ok d" and "name \<in> {account_method, limits_method}"
  shows "desk_ok (snd (ask_account name answer d))"
proof (cases answer)
  case No_Answer_Yet
  with assms show ?thesis by (auto simp: ask_account_def desk_ok_def)
qed (use assms in \<open>auto simp: ask_account_def\<close>)

lemma read_account_ok: "desk_ok d \<Longrightarrow> desk_ok (snd (read_account bound now s first second d))"
proof -
  assume d: "desk_ok d"
  obtain r d1 where 1: "ask_account account_method first d = (r, d1)" by fastforce
  obtain q d2 where 2: "ask_account limits_method second d1 = (q, d2)" by fastforce
  have "desk_ok d1" using ask_account_ok [OF d, of account_method first] 1 by simp
  then have "desk_ok d2" using ask_account_ok [of d1 limits_method second] 2 by simp
  with d 1 2 show ?thesis by (simp add: read_account_def split: sum.split)
qed

lemma settle_account_ok: "desk_ok d \<Longrightarrow> desk_ok (settle_account name d)"
  by (auto simp: desk_ok_def settle_account_def distinct_remove1)

theorem one_account_request_of_each_kind:
  "length (held_requests (fold desk_step es \<lparr>busy = [], held_requests = []\<rparr>)) \<le> 2
   \<and> distinct (held_requests (fold desk_step es \<lparr>busy = [], held_requests = []\<rparr>))"
proof -
  let ?d = "fold desk_step es \<lparr>busy = [], held_requests = []\<rparr>"
  have keep: "desk_ok (fold desk_step es d)" if "desk_ok d" for d
    using that
    by (induction es arbitrary: d)
       (auto simp: desk_step_def intro: read_account_ok settle_account_ok split: desk_event.split)
  have ok: "desk_ok ?d" by (rule keep) (simp add: desk_ok_def)
  then have "set (held_requests ?d) \<subseteq> {account_method, limits_method}" unfolding desk_ok_def by blast
  then have "card (set (held_requests ?d)) \<le> card {account_method, limits_method}"
    by (rule card_mono [rotated]) simp
  moreover have "card {account_method, limits_method} \<le> 2" by (simp add: account_method_def limits_method_def)
  moreover from ok have "distinct (held_requests ?d)" by (simp add: desk_ok_def)
  ultimately show ?thesis using distinct_card [of "held_requests ?d"] by simp
qed

end
