(* ===== verification/Codex_Tools.thy ===== *)
theory Codex_Tools
  imports Codex_Session
begin

text \<open>
  The tool servers as the harness sees them (\<open>harness/codex/tools.ts\<close>): the \<open>config.toml\<close> rendered from
  the declaration, every page of the status list, the servers that hold release; and the small reads
  and refusals beside them (\<open>inject.ts\<close>, \<open>skills.ts\<close>, \<open>hooks.ts\<close>).
\<close>

section \<open>Rendering the declaration\<close>

record tool_entry =
  tn_name :: "string option"
  tn_kind :: "string option"
  tn_secrets :: "string list"
  tn_transport :: "string option"
  tn_command :: "string option"
  tn_cwd :: "string option"
  tn_url :: "string option"
  tn_required :: bool

record tool_declaration =
  td_servers :: "tool_entry list"
  td_secrets :: "string list"
  td_records :: bool

definition provider_proxy_kind :: string where
  "provider_proxy_kind = ''provider_proxy''"

text \<open>\<open>JSON.stringify\<close> of a text quotes it; a bare key is left as it is.\<close>

definition toml_key :: "string \<Rightarrow> string" where
  "toml_key name =
     (if name \<noteq> [] \<and> list_all (\<lambda>u. u < 128 \<and> token_unit u) (utf16 name) then name else json_quote name)"

definition toml_string :: "string \<Rightarrow> string" where
  "toml_string t = json_quote t"

definition header_lines :: "string list" where
  "header_lines =
     [''# Rendered by carbon from the agent declaration. Every value here comes from'',
      ''# carbon.agent.json; nothing is hand-edited on the box, because the next install'',
      ''# overwrites this file. Model, effort, sandbox and approval policy are not here:'',
      ''# they are sent over the app-server protocol at thread/start and on every turn.'', []]"

definition server_subject :: "string \<Rightarrow> string \<Rightarrow> string" where
  "server_subject name part = ''tool_servers.'' @ name @ part"

definition approval_line :: string where
  "approval_line = ''default_tools_approval_mode = '' @ toml_string ''approve''"

definition stdio_block :: "string \<Rightarrow> string \<Rightarrow> string option \<Rightarrow> string list" where
  "stdio_block name command cwd =
     [''[mcp_servers.'' @ toml_key name @ '']'', ''command = '' @ toml_string command]
     @ (if given cwd then [''cwd = '' @ toml_string (the cwd)] else [])
     @ [''enabled = true'', approval_line, [], ''[mcp_servers.'' @ toml_key name @ ''.env]'', []]"

definition http_block :: "string \<Rightarrow> string \<Rightarrow> string list" where
  "http_block name url =
     [''[mcp_servers.'' @ toml_key name @ '']'', ''url = '' @ toml_string url, ''enabled = true'', approval_line, []]"

definition secret_faults :: "string list \<Rightarrow> string \<Rightarrow> tool_entry \<Rightarrow> fault list" where
  "secret_faults declared name server =
     map (\<lambda>ref. Fault ''TOOL_SERVER_SECRET_UNDECLARED'' (server_subject name ''.secret_refs''))
       (filter (\<lambda>ref. ref \<notin> set declared) (tn_secrets server))"

text \<open>A server that is not the proxy: the faults of its transport, or its lines.\<close>

definition transport_block :: "string \<Rightarrow> tool_entry \<Rightarrow> fault + string list" where
  "transport_block name server =
     (if tn_transport server = Some ''stdio'' then
        (if \<not> given (tn_command server) then Inl (Fault ''TOOL_SERVER_COMMAND_ABSENT'' (server_subject name []))
         else if \<not> starts_with ''/'' (the (tn_command server))
         then Inl (Fault ''TOOL_SERVER_COMMAND_RELATIVE'' (server_subject name ''.command''))
         else if tn_secrets server \<noteq> [] then Inl (Fault ''TOOL_SERVER_STDIO_HOLDS_SECRET'' (server_subject name []))
         else Inr (stdio_block name (the (tn_command server)) (tn_cwd server)))
      else if tn_transport server = Some ''http'' then
        (if \<not> given (tn_url server) then Inl (Fault ''TOOL_SERVER_URL_ABSENT'' (server_subject name []))
         else Inr (http_block name (the (tn_url server))))
      else Inl (Fault ''TOOL_SERVER_TRANSPORT_UNKNOWN'' (server_subject name ''.transport'')))"

definition render_server ::
  "string list \<Rightarrow> tool_entry \<Rightarrow> string list \<times> string list \<times> fault list \<Rightarrow> string list \<times> string list \<times> fault list" where
  "render_server declared server acc =
     (case acc of (seen, lines, faults) \<Rightarrow>
        if \<not> given (tn_name server) then (seen, lines, faults @ [Fault ''TOOL_SERVER_UNNAMED'' ''tool_servers[]''])
        else
          (let name = the (tn_name server) in
           if name \<in> set seen
           then (seen, lines, faults @ [Fault ''TOOL_SERVER_NAME_REPEATED'' (server_subject name [])])
           else if tn_kind server = Some provider_proxy_kind then (seen @ [name], lines, faults)
           else
             (case transport_block name server of
                Inl f \<Rightarrow> (seen @ [name], lines, faults @ secret_faults declared name server @ [f])
              | Inr ls \<Rightarrow> (seen @ [name], lines @ ls, faults @ secret_faults declared name server))))"

text \<open>\<open>.replace(/\n{3,}/g, '\n\n').trimEnd() + '\n'\<close>, on the text: no other white space ends a line.\<close>

fun squeeze :: "nat \<Rightarrow> string \<Rightarrow> string" where
  "squeeze n [] = []"
| "squeeze n (c # s) =
     (if c = CHR 10 then (if n < 2 then c # squeeze (Suc n) s else squeeze n s) else c # squeeze 0 s)"

definition ascii_space :: "char \<Rightarrow> bool" where
  "ascii_space c \<longleftrightarrow> byte_of c < 128 \<and> js_space (byte_of c)"

definition trim_end_text :: "string \<Rightarrow> string" where
  "trim_end_text s = rev (dropWhile ascii_space (rev s))"

definition render_config_toml :: "tool_declaration \<Rightarrow> bool \<Rightarrow> string \<times> fault list" where
  "render_config_toml d header =
     (case fold (render_server (td_secrets d)) (td_servers d) ([], if header then header_lines else [], []) of
        (seen, lines, faults) \<Rightarrow> (trim_end_text (squeeze 0 (join [CHR 10] lines)) @ [CHR 10], faults))"

definition write_config_toml :: "tool_declaration \<Rightarrow> string option \<Rightarrow> bool \<times> fault list \<times> string option" where
  "write_config_toml d file0 =
     (case render_config_toml d True of
        (toml, faults) \<Rightarrow> if faults \<noteq> [] then (False, faults, file0) else (True, [], Some toml))"

section \<open>What the app-server reports\<close>

record tool_status =
  ts_name :: "string option"
  ts_state :: "string option"

record status_page =
  pg_data :: "tool_status list"
  pg_next :: "string option"

text \<open>The pages the server answers with, in the order it is asked; \<open>None\<close> where it has not answered
  the last request yet. The second part is the cursor of each request.\<close>

fun list_pages :: "string option \<Rightarrow> status_page list \<Rightarrow> tool_status list option \<times> string option list" where
  "list_pages cursor [] = (None, [cursor])"
| "list_pages cursor (page # pages) =
     (if given (pg_next page)
      then (case list_pages (pg_next page) pages of
              (found, cursors) \<Rightarrow> (map_option ((@) (pg_data page)) found, cursor # cursors))
      else (Some (pg_data page), [cursor]))"

definition list_tool_server_status :: "status_page list \<Rightarrow> tool_status list option" where
  "list_tool_server_status pages = fst (list_pages None pages)"

definition required_servers :: "tool_declaration \<Rightarrow> string option list" where
  "required_servers d =
     remdups (map tn_name (filter (\<lambda>s. tn_required s \<and> tn_kind s \<noteq> Some provider_proxy_kind) (td_servers d))
       @ (if td_records d then [Some ''carbon-records''] else []))"

definition server_text :: "string option \<Rightarrow> string" where
  "server_text name = (case name of None \<Rightarrow> ''undefined'' | Some t \<Rightarrow> t)"

definition status_fault :: "tool_status list \<Rightarrow> string option \<Rightarrow> fault list" where
  "status_fault statuses name =
     (case map_of (rev (map (\<lambda>s. (ts_name s, s)) statuses)) name of
        None \<Rightarrow> [Fault ''TOOL_SERVER_REQUIRED_ABSENT'' (server_subject (server_text name) [])]
      | Some status \<Rightarrow>
          (case ts_state status of
             None \<Rightarrow> [Fault ''TOOL_SERVER_STATE_UNAVAILABLE'' (server_subject (server_text name) [])]
           | Some state \<Rightarrow>
               (if state \<noteq> ''connected''
                then [Fault ''TOOL_SERVER_REQUIRED_DOWN'' (server_subject (server_text name) [])] else [])))"

text \<open>\<open>[...required].sort()\<close>: by code units, an undefined name last.\<close>

definition name_order :: "string option \<Rightarrow> string option \<Rightarrow> int" where
  "name_order a b =
     (case (a, b) of
        (Some x, Some y) \<Rightarrow> if x = y then 0 else if js_le x y then -1 else 1
      | (None, Some y) \<Rightarrow> 1 | (Some x, None) \<Rightarrow> -1 | (None, None) \<Rightarrow> 0)"

definition holds_release :: "tool_declaration \<Rightarrow> tool_status list \<Rightarrow> fault list" where
  "holds_release d statuses = concat (map (status_fault statuses) (sort_cmp name_order (required_servers d)))"

section \<open>The subscription\<close>

text \<open>The handlers of tool-server events, oldest first: \<open>onEvent\<close> calls the one before it and then its
  own. What a subscription returns puts back the chain it found.\<close>

definition on_tool_server_status :: "'h \<Rightarrow> 'h list \<Rightarrow> 'h list \<times> ('h list \<Rightarrow> 'h list)" where
  "on_tool_server_status handler chain = (chain @ [handler], \<lambda>later. chain)"

definition handlers_called :: "harness_event \<Rightarrow> 'h list \<Rightarrow> 'h list" where
  "handlers_called e chain = (if ev_kind e = ''tool_server.status'' then chain else [])"

section \<open>Mid-turn messages, skills, hooks\<close>

record inject_request =
  ir_thread :: "string option"
  ir_turn :: "string option"
  ir_message :: "string option"
  ir_length :: "nat option"
  ir_arrived :: string

definition inject ::
  "string option \<Rightarrow> string option \<Rightarrow> string option \<Rightarrow> json option \<Rightarrow> string option \<Rightarrow> string \<Rightarrow>
   inject_request list \<Rightarrow> (bool \<times> inject_request \<times> fault) \<times> inject_request list" where
  "inject thread turn_id msg_id content arrived now log =
     (let r = \<lparr>ir_thread = thread, ir_turn = turn_id, ir_message = msg_id,
            ir_length = map_option js_length (text_value content),
            ir_arrived = (case arrived of None \<Rightarrow> now | Some t \<Rightarrow> t)\<rparr> in
      ((False, r, Fault ''HARNESS_MID_TURN_INJECTION_REFUSED''
          (if given msg_id then ''message '' @ the msg_id else ''a message'')), log @ [r]))"

text \<open>What \<open>for ... of v ?? []\<close> walks; a text, which it would walk too, is no answer of the protocol.\<close>

definition iterated :: "json option \<Rightarrow> harness_error + json list" where
  "iterated v =
     (case v of None \<Rightarrow> Inr [] | Some JNull \<Rightarrow> Inr [] | Some (JArr xs) \<Rightarrow> Inr xs | _ \<Rightarrow> Inl (Thrown Type_Error))"

definition part_or_null :: "json \<Rightarrow> string \<Rightarrow> json" where
  "part_or_null v k = or_else (member_at (Some v) k) JNull"

definition skills_of_entry :: "json \<Rightarrow> harness_error + (json \<times> json \<times> json) list \<times> (json \<times> json) list" where
  "skills_of_entry entry =
     (let cwd = part_or_null entry ''cwd'' in
      bind_res (iterated (member_at (Some entry) ''skills'')) (\<lambda>skills.
      bind_res (iterated (member_at (Some entry) ''errors'')) (\<lambda>errors.
        Inr (map (\<lambda>skill. (part_or_null skill ''name'', part_or_null skill ''path'', cwd)) skills,
             map (Pair cwd) errors))))"

definition list_skills ::
  "string list \<Rightarrow> session \<Rightarrow> (harness_error, (json \<times> json \<times> json) list \<times> (json \<times> json) list, session) outcome" where
  "list_skills cwds =
     bind_op (read_op (\<lambda>s. check (cwds = []) ''HARNESS_SKILLS_CWDS_ABSENT'' ''skills/list.cwds'')) (\<lambda>_.
     bind_op (ask_server ''skills/list'' [(''cwds'', Some (JArr (map JStr cwds)))]) (\<lambda>response.
     read_op (\<lambda>s. bind_res (iterated (member_at response ''data'')) (\<lambda>entries.
       bind_res (map_res skills_of_entry entries) (\<lambda>parts.
         Inr (concat (map fst parts), concat (map snd parts)))))))"

definition list_hooks :: "string list \<Rightarrow> session \<Rightarrow> (harness_error, json option, session) outcome" where
  "list_hooks cwds =
     bind_op (read_op (\<lambda>s. check (cwds = [] \<or> list_ex (\<lambda>c. \<not> starts_with ''/'' c) cwds)
       ''HARNESS_HOOK_CWDS_ABSENT'' ''hooks/list.cwds'')) (\<lambda>_.
     ask_server ''hooks/list'' [(''cwds'', Some (JArr (map JStr cwds)))])"

definition compact_thread :: "string option \<Rightarrow> session \<Rightarrow> (harness_error, json option, session) outcome" where
  "compact_thread thread =
     bind_op (read_op (\<lambda>s. check (\<not> given thread) ''HARNESS_COMPACT_THREAD_ABSENT'' ''thread/compact/start.threadId'')) (\<lambda>_.
     ask_server ''thread/compact/start'' [(''threadId'', map_option JStr thread)])"

section \<open>What a written configuration grants\<close>

definition server_lines :: "tool_entry \<Rightarrow> string list" where
  "server_lines server =
     (if tn_kind server = Some provider_proxy_kind then []
      else (case transport_block (the (tn_name server)) server of Inl f \<Rightarrow> [] | Inr ls \<Rightarrow> ls))"

definition keeps_no_secret :: "tool_entry \<Rightarrow> bool" where
  "keeps_no_secret server \<longleftrightarrow>
     tn_kind server = Some provider_proxy_kind \<or> tn_transport server \<noteq> Some ''stdio'' \<or> tn_secrets server = []"

lemma transport_block_secrets: "transport_block name server = Inr ls \<Longrightarrow> keeps_no_secret server"
  by (auto simp: transport_block_def keeps_no_secret_def split: if_splits)

lemma render_server_faultless:
  assumes "render_server declared server (seen, lines, faults) = (seen', lines', [])"
  shows "faults = [] \<and> given (tn_name server) \<and> the (tn_name server) \<notin> set seen \<and> seen' = seen @ [the (tn_name server)]
    \<and> lines' = lines @ server_lines server \<and> keeps_no_secret server"
  using assms transport_block_secrets
  by (auto simp: render_server_def server_lines_def keeps_no_secret_def Let_def split: if_splits sum.splits)

lemma render_servers_faultless:
  "fold (render_server declared) servers (seen, lines, faults) = (seen', lines', []) \<Longrightarrow> distinct seen \<Longrightarrow>
     faults = [] \<and> seen' = seen @ map (the \<circ> tn_name) servers \<and> distinct seen'
     \<and> lines' = lines @ concat (map server_lines servers) \<and> list_all keeps_no_secret servers"
proof (induction servers arbitrary: seen lines faults)
  case (Cons server servers)
  obtain seen1 lines1 faults1 where 1: "render_server declared server (seen, lines, faults) = (seen1, lines1, faults1)"
    by (cases "render_server declared server (seen, lines, faults)") auto
  with Cons.prems(1) have 2: "fold (render_server declared) servers (seen1, lines1, faults1) = (seen', lines', [])" by simp
  have "distinct seen1"
    using 1 Cons.prems(2) by (auto simp: render_server_def Let_def split: if_splits sum.splits)
  from Cons.IH [OF 2 this] have r: "faults1 = [] \<and> seen' = seen1 @ map (the \<circ> tn_name) servers \<and> distinct seen'
      \<and> lines' = lines1 @ concat (map server_lines servers) \<and> list_all keeps_no_secret servers" .
  with 1 have "render_server declared server (seen, lines, faults) = (seen1, lines1, [])" by simp
  note s = render_server_faultless [OF this]
  from r have "distinct seen'" by blast
  moreover from r s have "seen' = seen @ map (the \<circ> tn_name) (server # servers)" by simp
  ultimately show ?case using r s by auto
qed auto

text \<open>A configuration that was written is the header and, in the order of the declaration, the block of
  each server; no two servers share a name and no server started for the agent holds a secret.\<close>

theorem written_config_is_the_declaration:
  assumes "write_config_toml d before_it = (True, faults, after_it)"
  shows "after_it = Some (trim_end_text (squeeze 0 (join [CHR 10] (header_lines @ concat (map server_lines (td_servers d))))) @ [CHR 10])
    \<and> distinct (map tn_name (td_servers d)) \<and> list_all keeps_no_secret (td_servers d)"
proof -
  obtain seen lines fs where *: "fold (render_server (td_secrets d)) (td_servers d) ([], header_lines, []) = (seen, lines, fs)"
    by (cases "fold (render_server (td_secrets d)) (td_servers d) ([], header_lines, [])") auto
  with assms have fs: "fs = []"
    and after: "after_it = Some (trim_end_text (squeeze 0 (join [CHR 10] lines)) @ [CHR 10])"
    by (auto simp: write_config_toml_def render_config_toml_def split: if_splits)
  from * fs have r: "seen = map (the \<circ> tn_name) (td_servers d) \<and> distinct seen
      \<and> lines = header_lines @ concat (map server_lines (td_servers d)) \<and> list_all keeps_no_secret (td_servers d)"
    by (auto dest: render_servers_faultless)
  then have "distinct (map (the \<circ> tn_name) (td_servers d))" by metis
  then have "distinct (map the (map tn_name (td_servers d)))" by simp
  then have "distinct (map tn_name (td_servers d))" unfolding distinct_map by blast
  with r after show ?thesis by simp
qed

theorem written_config_is_the_declaration_witness:
  "let d = \<lparr>td_servers = [\<lparr>tn_name = Some ''a'', tn_kind = None, tn_secrets = [], tn_transport = Some ''stdio'',
       tn_command = Some ''/b'', tn_cwd = None, tn_url = None, tn_required = True\<rparr>], td_secrets = [], td_records = False\<rparr> in
   fst (write_config_toml d None) \<and> list_all keeps_no_secret (td_servers d)"
proof -
  let ?d = "\<lparr>td_servers = [\<lparr>tn_name = Some ''a'', tn_kind = None, tn_secrets = [], tn_transport = Some ''stdio'',
       tn_command = Some ''/b'', tn_cwd = None, tn_url = None, tn_required = True\<rparr>], td_secrets = [], td_records = False\<rparr>"
  have "fst (write_config_toml ?d None)"
    by (simp add: write_config_toml_def render_config_toml_def render_server_def given_def transport_block_def
        secret_faults_def provider_proxy_kind_def Let_def)
  then obtain fs after where *: "write_config_toml ?d None = (True, fs, after)"
    by (cases "write_config_toml ?d None") auto
  from written_config_is_the_declaration [OF this] * show ?thesis by (simp add: Let_def)
qed

section \<open>What holds release\<close>

lemma concat_map_empty: "concat (map f xs) = [] \<longleftrightarrow> (\<forall>x\<in>set xs. f x = [])"
  by (induction xs) auto

text \<open>Release is not held exactly when the last status of every required server is connected.\<close>

theorem release_is_held_for_every_required_server:
  "holds_release d statuses = [] \<longleftrightarrow>
     list_all (\<lambda>name. \<exists>s. map_of (rev (map (\<lambda>s. (ts_name s, s)) statuses)) name = Some s \<and> ts_state s = Some ''connected'')
       (required_servers d)"
proof -
  have "status_fault statuses name = [] \<longleftrightarrow>
      (\<exists>s. map_of (rev (map (\<lambda>s. (ts_name s, s)) statuses)) name = Some s \<and> ts_state s = Some ''connected'')" for name
    by (auto simp: status_fault_def split: option.splits)
  then show ?thesis
    by (simp add: holds_release_def concat_map_empty list_all_iff)
qed

text \<open>The pages are read to the last one.\<close>

theorem every_page_is_read:
  assumes "list_all (\<lambda>page. given (pg_next page)) pages" and "\<not> given (pg_next last_page)"
  shows "list_tool_server_status (pages @ last_page # rest) = Some (concat (map pg_data pages) @ pg_data last_page)"
proof -
  have "fst (list_pages cursor (pages @ last_page # rest)) = Some (concat (map pg_data pages) @ pg_data last_page)" for cursor
    using assms(1)
  proof (induction pages arbitrary: cursor)
    case (Cons page pages)
    from Cons.prems have g: "given (pg_next page)" and gs: "list_all (\<lambda>page. given (pg_next page)) pages" by simp_all
    show ?case using g Cons.IH [OF gs, of "pg_next page"]
      by (cases "list_pages (pg_next page) (pages @ last_page # rest)") simp
  qed (simp add: assms(2))
  then show ?thesis by (simp add: list_tool_server_status_def)
qed

text \<open>The first to leave takes away whoever came after.\<close>

theorem leaving_drops_later_handlers:
  "let (chain1, leave1) = on_tool_server_status (1 :: nat) []; (chain2, leave2) = on_tool_server_status 2 chain1 in
   chain2 = [1, 2] \<and> leave1 chain2 = []"
  by (simp add: on_tool_server_status_def)

end
