(* ===== verification/Codex_Install.thy ===== *)
theory Codex_Install
  imports Codex_Tools
begin

text \<open>
  The methods the harness uses and the pinned protocol schema (\<open>harness/codex/methods.ts\<close>), and the
  installation of a release (\<open>install.ts\<close>). A directory is a tree of named entries; bytes are lists of
  characters; the release verifier, the unpacking of the archive's compression and the binary's
  schema generator are programs outside the repository's own code and are arguments.
\<close>

section \<open>Methods\<close>

definition requests_by_operation :: "(string \<times> string list) list" where
  "requests_by_operation =
     [(''start'', [''initialize'', ''thread/start'', ''thread/name/set'', ''thread/resume'']),
      (''turn'', [''turn/start'', ''turn/steer'', ''turn/interrupt'']),
      (''tools'', [''mcpServerStatus/list'']), (''skills'', [''skills/list'']),
      (''hooks'', [''hooks/list'', ''thread/compact/start'']),
      (''account'', [''account/read'', ''account/rateLimits/read'']), (''recovery'', [''thread/read''])]"

definition notifications :: "string list" where
  "notifications =
     [''thread/started'', ''thread/name/updated'', ''turn/started'', ''turn/completed'', ''thread/tokenUsage/updated'',
      ''item/started'', ''item/completed'', ''item/agentMessage/delta'', ''item/commandExecution/outputDelta'',
      ''mcpServer/startupStatus/updated'', ''account/updated'', ''account/rateLimits/updated'', ''hook/started'',
      ''hook/completed'', ''error'']"

definition client_notifications :: "string list" where
  "client_notifications = [''initialized'']"

definition text_order :: "string \<Rightarrow> string \<Rightarrow> int" where
  "text_order a b = (if a = b then 0 else if js_le a b then -1 else 1)"

definition all_sent_requests :: "string list" where
  "all_sent_requests = sort_cmp text_order (remdups (concat (map snd requests_by_operation)))"

definition all_listened_notifications :: "string list" where
  "all_listened_notifications = sort_cmp text_order notifications"

text \<open>\<open>(optionalField(...) ?? []).map(...)\<close>: what is no list has no \<open>map\<close> and throws.\<close>

definition method_of_shape :: "json \<Rightarrow> string list" where
  "method_of_shape shape =
     (case inside (member_at (Some shape) ''properties'') ''method'' ''enum'' of
        Some (JArr (JStr t # rest)) \<Rightarrow> [t]
      | Some (JStr t) \<Rightarrow> (if t = [] then [] else [take_units 1 t])
      | _ \<Rightarrow> [])"

definition methods_named :: "json \<Rightarrow> string \<Rightarrow> exn + string list" where
  "methods_named document name =
     (case or_else (inside (member_at (Some document) ''definitions'') name ''oneOf'') (JArr []) of
        JArr shapes \<Rightarrow> Inr (concat (map method_of_shape shapes))
      | _ \<Rightarrow> Inl Type_Error)"

definition absent_methods :: "string \<Rightarrow> string list \<Rightarrow> string list \<Rightarrow> fault list" where
  "absent_methods schema_name names present =
     map (\<lambda>name. Fault ''HARNESS_METHOD_ABSENT'' (schema_name @ '':'' @ name)) (filter (\<lambda>name. name \<notin> set present) names)"

definition assert_methods_exist :: "json \<Rightarrow> string \<Rightarrow> exn + fault list" where
  "assert_methods_exist document schema_name =
     bind_res (methods_named document ''ClientRequest'') (\<lambda>requests.
     bind_res (methods_named document ''ClientNotification'') (\<lambda>told.
     bind_res (methods_named document ''ServerNotification'') (\<lambda>heard_names.
     bind_res (methods_named document ''ServerRequest'') (\<lambda>_.
       Inr (absent_methods schema_name all_sent_requests requests
         @ absent_methods schema_name client_notifications told
         @ absent_methods schema_name all_listened_notifications heard_names)))))"

section \<open>The digest of a bundle\<close>

datatype tree_entry =
    File_Entry string string                      \<comment> \<open>name and bytes\<close>
  | Folder string "tree_entry list"
  | Other_Entry string

fun entry_name :: "tree_entry \<Rightarrow> string" where
  "entry_name (File_Entry name bytes) = name"
| "entry_name (Folder name es) = name"
| "entry_name (Other_Entry name) = name"

text \<open>The files under a directory, by their paths relative to it, with their bytes, in the order of the
  walk, which sorts the entries of every directory it enters.\<close>

definition by_name :: "platform \<Rightarrow> tree_entry \<Rightarrow> tree_entry \<Rightarrow> int" where
  "by_name p a b = locale_compare p (entry_name a) (entry_name b)"

function files_of :: "platform \<Rightarrow> string \<Rightarrow> tree_entry \<Rightarrow> (string \<times> string) list" where
  "files_of p lead (File_Entry name bytes) = [(lead @ name, bytes)]"
| "files_of p lead (Folder name es) = concat (map (files_of p (lead @ name @ ''/'')) (sort_cmp (by_name p) es))"
| "files_of p lead (Other_Entry name) = []"
  by pat_completeness auto
termination
  by (relation "measure (\<lambda>(p, lead, e). size e)") (auto simp: less_Suc_eq_le intro: size_list_estimation')

definition files_in :: "platform \<Rightarrow> tree_entry list \<Rightarrow> (string \<times> string) list" where
  "files_in p dir = concat (map (files_of p []) (sort_cmp (by_name p) dir))"

definition manifest_line :: "platform \<Rightarrow> string \<times> string \<Rightarrow> string" where
  "manifest_line p f = sha256_hex p (snd f) @ ''  '' @ fst f"

text \<open>The lines are sorted by the path once more, from unit 66 on: after the digest and two spaces.\<close>

definition manifest_lines :: "platform \<Rightarrow> tree_entry list \<Rightarrow> string list" where
  "manifest_lines p dir =
     sort_cmp (\<lambda>a b. locale_compare p (drop 66 a) (drop 66 b)) (map (manifest_line p) (files_in p dir))"

definition bundle_manifest :: "platform \<Rightarrow> tree_entry list \<Rightarrow> string" where
  "bundle_manifest p dir = join [CHR 0x0A] (manifest_lines p dir) @ [CHR 0x0A]"

definition bundle_sha256 :: "platform \<Rightarrow> tree_entry list \<Rightarrow> string" where
  "bundle_sha256 p dir = sha256_hex p (bundle_manifest p dir)"

section \<open>The archive\<close>

text \<open>\<open>s.replace(/\0.*$/, '')\<close>: the first zero byte after which no line ends.\<close>

definition line_end :: "char \<Rightarrow> bool" where
  "line_end c \<longleftrightarrow> c = CHR 0x0A \<or> c = CHR 0x0D"

fun strip_nul :: "string \<Rightarrow> string" where
  "strip_nul [] = []"
| "strip_nul (c # s) = (if byte_of c = 0 \<and> \<not> list_ex line_end s then [] else c # strip_nul s)"

definition octal :: "char \<Rightarrow> bool" where
  "octal c \<longleftrightarrow> 48 \<le> byte_of c \<and> byte_of c \<le> 55"

text \<open>\<open>parseInt(s, 8)\<close>, \<open>None\<close> for NaN.\<close>

definition parse_octal :: "string \<Rightarrow> int option" where
  "parse_octal s =
     (let t = dropWhile ascii_space s;
          minus = (t \<noteq> [] \<and> hd t = CHR ''-'');
          u = (if t \<noteq> [] \<and> (hd t = CHR ''-'' \<or> hd t = CHR ''+'') then tl t else t);
          ds = takeWhile octal u;
          n = int (foldl (\<lambda>acc c. 8 * acc + (byte_of c - 48)) 0 ds) in
      if ds = [] then None else Some (if minus then - n else n))"

definition single_file_from_tar :: "(string \<Rightarrow> exn + string) \<Rightarrow> string \<Rightarrow> exn + string \<times> string" where
  "single_file_from_tar gunzip archive =
     bind_res (gunzip archive) (\<lambda>tar.
       (let size = parse_octal (filter (\<lambda>c. byte_of c \<noteq> 0 \<and> c \<noteq> CHR '' '') (take 12 (drop 124 tar))) in
        case size of
          None \<Rightarrow> Inl (Error ''the archive has no readable first member'')
        | Some n \<Rightarrow>
            (if n \<le> 0 then Inl (Error ''the archive has no readable first member'')
             else Inr (strip_nul (take 100 tar), take (nat n) (drop 512 tar)))))"

section \<open>The schema\<close>

definition schema_document_name :: string where
  "schema_document_name = ''codex_app_server_protocol.schemas.json''"

record disk =
  written :: "(string \<times> string) list"
  schema_dirs :: "(string \<times> tree_entry list) list"

definition dir_at :: "disk \<Rightarrow> string \<Rightarrow> tree_entry list" where
  "dir_at d path = (case map_of (schema_dirs d) path of None \<Rightarrow> [] | Some es \<Rightarrow> es)"

definition put_dir :: "string \<Rightarrow> tree_entry list \<Rightarrow> disk \<Rightarrow> disk" where
  "put_dir path es d = d\<lparr>schema_dirs := AList.update path es (schema_dirs d)\<rparr>"

definition put_entry :: "tree_entry \<Rightarrow> tree_entry list \<Rightarrow> tree_entry list" where
  "put_entry e es = filter (\<lambda>x. entry_name x \<noteq> entry_name e) es @ [e]"

record generated_schema =
  gs_document :: string
  gs_document_sha :: string
  gs_bundle_sha :: string
  gs_files :: nat

text \<open>What the generator leaves in a directory, given what was in it; the manifest is written beside
  it afterwards. The document's bytes are kept for the check that reads it again.\<close>

definition manifest_name :: string where
  "manifest_name = ''MANIFEST.sha256''"

definition generate_protocol_schema ::
  "platform \<Rightarrow> (string \<Rightarrow> tree_entry list \<Rightarrow> exn + tree_entry list) \<Rightarrow> string \<Rightarrow> string \<Rightarrow>
   disk \<Rightarrow> (harness_error, generated_schema, disk) outcome" where
  "generate_protocol_schema p generate binary path d =
     (case generate binary (dir_at d path) of
        Inl e \<Rightarrow> (Inl (Thrown e), d)
      | Inr es \<Rightarrow>
          (case find (\<lambda>e. entry_name e = schema_document_name) es of
             None \<Rightarrow> (Inl (Harness_Fault (Fault ''HARNESS_SCHEMA_DOCUMENT_ABSENT'' (path @ ''/'' @ schema_document_name))), put_dir path es d)
           | Some (File_Entry name bytes) \<Rightarrow>
               (Inr \<lparr>gs_document = bytes, gs_document_sha = sha256_hex p bytes, gs_bundle_sha = bundle_sha256 p es,
                  gs_files = length (manifest_lines p es)\<rparr>,
                put_dir path (put_entry (File_Entry manifest_name (bundle_manifest p es)) es) d)
           | Some _ \<Rightarrow> (Inl (Thrown Io_Error), put_dir path (put_entry (File_Entry manifest_name (bundle_manifest p es)) es) d)))"

definition pin_fault :: "string \<Rightarrow> string \<Rightarrow> json option \<Rightarrow> string \<Rightarrow> fault list" where
  "pin_fault fault_code what expected got =
     (if truthy expected \<and> expected \<noteq> Some (JStr got) then [Fault fault_code what] else [])"

definition check_protocol_schema ::
  "(string \<Rightarrow> json option) \<Rightarrow> generated_schema \<Rightarrow> json \<Rightarrow> harness_error + fault list" where
  "check_protocol_schema parse g pin =
     (let moved = pin_fault ''HARNESS_PROTOCOL_SCHEMA_MOVED'' ''protocol schema bundle''
            (member_at (Some pin) ''bundle_sha256'') (gs_bundle_sha g)
          @ pin_fault ''HARNESS_PROTOCOL_DOCUMENT_MOVED'' schema_document_name
            (member_at (Some pin) ''document_sha256'') (gs_document_sha g) in
      case parse (gs_document g) of
        None \<Rightarrow> Inl (Thrown (Error ''SyntaxError''))
      | Some document \<Rightarrow>
          (case assert_methods_exist document schema_document_name of
             Inl e \<Rightarrow> Inl (Thrown e)
           | Inr absent \<Rightarrow> Inr (moved @ absent)))"

section \<open>The operation\<close>

record install_args =
  ia_version :: "string option"
  ia_tag :: "string option"
  ia_asset :: "string option"
  ia_sha :: "string option"
  ia_dest :: "string option"
  ia_cache :: "string option"
  ia_offline_asset :: "string option"
  ia_offline_bundle :: "string option"
  ia_pin :: "json option"

record machine =
  m_verify :: "string option list \<Rightarrow> string + json"
  m_parse :: "string \<Rightarrow> json option"
  m_read :: "string \<Rightarrow> exn + string"
  m_gunzip :: "string \<Rightarrow> exn + string"
  m_generate :: "string \<Rightarrow> tree_entry list \<Rightarrow> exn + tree_entry list"
  m_pinned :: json

datatype install_result =
    Installed string json generated_schema     \<comment> \<open>binary path, signed digest, schema\<close>
  | Refused_By_Verifier "json list"
  | Not_Installed "fault list"

definition missing_arguments :: "install_args \<Rightarrow> fault list" where
  "missing_arguments a =
     map (\<lambda>(name, v). Fault ''MISSING_ARGUMENT'' name)
       (filter (\<lambda>(name, v). \<not> given v)
          [(''version'', ia_version a), (''tag'', ia_tag a), (''asset'', ia_asset a), (''artifactSha256'', ia_sha a),
           (''dest'', ia_dest a), (''cache'', ia_cache a)])"

definition verify_args :: "install_args \<Rightarrow> string option list" where
  "verify_args a =
     [Some ''--tag'', ia_tag a, Some ''--asset'', ia_asset a, Some ''--sha256'', ia_sha a, Some ''--out'', ia_cache a]
     @ (if given (ia_offline_asset a)
        then [Some ''--offline-asset'', ia_offline_asset a, Some ''--offline-bundle'', ia_offline_bundle a] else [])"

definition reported_faults :: "(string \<Rightarrow> json option) \<Rightarrow> string \<Rightarrow> json list" where
  "reported_faults parse stdout =
     map the (filter truthy (map parse (filter (\<lambda>l. l \<noteq> []) (split_on (CHR 0x0A) stdout))))"

definition asset_path :: "install_args \<Rightarrow> string" where
  "asset_path a = (case ia_offline_asset a of Some t \<Rightarrow> t | None \<Rightarrow> the (ia_cache a) @ ''/'' @ the (ia_asset a))"

definition version_dir :: "install_args \<Rightarrow> string" where
  "version_dir a = the (ia_dest a) @ ''/'' @ the (ia_version a)"

definition unpack :: "platform \<Rightarrow> machine \<Rightarrow> install_args \<Rightarrow> json \<Rightarrow> harness_error + fault + string" where
  "unpack p m a verdict =
     (case bind_res (m_read m (asset_path a)) (single_file_from_tar (m_gunzip m)) of
        Inl e \<Rightarrow> Inl (Thrown e)
      | Inr (name, bytes) \<Rightarrow>
          (if verdict = JNull then Inl (Thrown Type_Error)
           else if member_at (Some verdict) ''signed_blob_sha256'' \<noteq> Some (JStr (sha256_hex p bytes))
           then Inr (Inl (Fault ''HARNESS_BINARY_DIGEST_MISMATCH'' name))
           else Inr (Inr bytes)))"

definition install :: "platform \<Rightarrow> machine \<Rightarrow> install_args \<Rightarrow> disk \<Rightarrow> (harness_error, install_result, disk) outcome" where
  "install p m a d =
     (if missing_arguments a \<noteq> [] then (Inr (Not_Installed (missing_arguments a)), d)
      else (case m_verify m (verify_args a) of
         Inl stdout \<Rightarrow>
           (Inr (if reported_faults (m_parse m) stdout \<noteq> [] then Refused_By_Verifier (reported_faults (m_parse m) stdout)
                 else Not_Installed [Fault ''HARNESS_RELEASE_UNVERIFIED'' (the (ia_asset a))]), d)
       | Inr verdict \<Rightarrow>
           (case unpack p m a verdict of
              Inl e \<Rightarrow> (Inl e, d)
            | Inr (Inl f) \<Rightarrow> (Inr (Not_Installed [f]), d)
            | Inr (Inr bytes) \<Rightarrow>
                (let binary = version_dir a @ ''/codex'';
                     d1 = d\<lparr>written := AList.update binary bytes (written d)\<rparr> in
                 case generate_protocol_schema p (m_generate m) bytes (version_dir a @ ''/protocol-schema'') d1 of
                   (Inl e, d2) \<Rightarrow> (Inl e, d2)
                 | (Inr g, d2) \<Rightarrow>
                     (case check_protocol_schema (m_parse m) g (or_else (ia_pin a) (m_pinned m)) of
                        Inl e \<Rightarrow> (Inl e, d2)
                      | Inr (f # fs) \<Rightarrow> (Inr (Not_Installed (f # fs)), d2)
                      | Inr [] \<Rightarrow> (Inr (Installed binary (JStr (sha256_hex p bytes)) g), d2))))))"

section \<open>What an installation has shown\<close>

lemma absent_methods_none: "absent_methods schema_name names present = [] \<longleftrightarrow> set names \<subseteq> set present"
  by (auto simp: absent_methods_def filter_empty_conv)

lemma check_protocol_schema_none:
  assumes "check_protocol_schema parse g pin = Inr []"
  shows "(\<not> truthy (member_at (Some pin) ''bundle_sha256'') \<or> member_at (Some pin) ''bundle_sha256'' = Some (JStr (gs_bundle_sha g)))
    \<and> (\<not> truthy (member_at (Some pin) ''document_sha256'') \<or> member_at (Some pin) ''document_sha256'' = Some (JStr (gs_document_sha g)))
    \<and> (\<exists>document names. parse (gs_document g) = Some document \<and> methods_named document ''ClientRequest'' = Inr names
         \<and> set all_sent_requests \<subseteq> set names)"
  using assms
  by (auto simp: check_protocol_schema_def pin_fault_def assert_methods_exist_def absent_methods_none bind_res_Inr_iff
      split: option.splits sum.splits if_splits)

lemma generate_keeps_files: "generate_protocol_schema p gen binary path d = (r, d') \<Longrightarrow> written d' = written d"
  by (auto simp: generate_protocol_schema_def put_dir_def split: sum.splits option.splits tree_entry.splits)

lemma generate_digests:
  "generate_protocol_schema p gen binary path d = (Inr g, d') \<Longrightarrow> gs_document_sha g = sha256_hex p (gs_document g)"
  by (auto simp: generate_protocol_schema_def split: sum.splits option.splits tree_entry.splits)

text \<open>C23. An installation that succeeded wrote the bytes the verifier signed, its document is the pinned one
  where one is pinned, and every request the harness sends is in it.\<close>

theorem installed_is_verified:
  assumes "install p m a d = (Inr (Installed binary digest g), d')"
  shows "(\<exists>verdict bytes. m_verify m (verify_args a) = Inr verdict
        \<and> member_at (Some verdict) ''signed_blob_sha256'' = Some digest \<and> digest = JStr (sha256_hex p bytes)
        \<and> map_of (written d') binary = Some bytes)
    \<and> (\<not> truthy (member_at (Some (or_else (ia_pin a) (m_pinned m))) ''document_sha256'')
       \<or> member_at (Some (or_else (ia_pin a) (m_pinned m))) ''document_sha256'' = Some (JStr (sha256_hex p (gs_document g))))
    \<and> (\<exists>document names. m_parse m (gs_document g) = Some document \<and> methods_named document ''ClientRequest'' = Inr names
         \<and> set all_sent_requests \<subseteq> set names)"
proof -
  obtain verdict where v: "m_verify m (verify_args a) = Inr verdict"
    using assms by (auto simp: install_def split: if_splits sum.splits)
  obtain bytes where b: "unpack p m a verdict = Inr (Inr bytes)"
    using assms v by (auto simp: install_def split: if_splits sum.splits)
  define d1 where "d1 = d\<lparr>written := AList.update (version_dir a @ ''/codex'') bytes (written d)\<rparr>"
  obtain g1 where g: "generate_protocol_schema p (m_generate m) bytes (version_dir a @ ''/protocol-schema'') d1 = (Inr g1, d')"
    and c: "check_protocol_schema (m_parse m) g1 (or_else (ia_pin a) (m_pinned m)) = Inr []"
    and e: "g1 = g" "binary = version_dir a @ ''/codex''" "digest = JStr (sha256_hex p bytes)"
    using assms v b by (auto simp: install_def d1_def Let_def split: if_splits sum.splits prod.splits list.splits)
  have "member_at (Some verdict) ''signed_blob_sha256'' = Some digest"
    using b e by (auto simp: unpack_def split: sum.splits if_splits)
  moreover have "map_of (written d') binary = Some bytes"
    using generate_keeps_files [OF g] e by (simp add: d1_def)
  ultimately show ?thesis
    using v e check_protocol_schema_none [OF c] generate_digests [OF g] by auto
qed

text \<open>A release the verifier refuses, or whose binary is not the signed one, leaves the disk as it was.\<close>

theorem unverified_writes_nothing:
  assumes "(\<exists>out. m_verify m (verify_args a) = Inl out)
    \<or> (\<exists>verdict f. m_verify m (verify_args a) = Inr verdict \<and> unpack p m a verdict = Inr (Inl f))"
  shows "snd (install p m a d) = d \<and> (\<exists>fs r. fst (install p m a d) = Inr (Not_Installed fs) \<or> fst (install p m a d) = Inr (Refused_By_Verifier r))"
  using assms by (auto simp: install_def split: if_splits)

section \<open>What the digest of a bundle covers\<close>

definition clean_paths :: "platform \<Rightarrow> tree_entry list \<Rightarrow> bool" where
  "clean_paths p dir \<longleftrightarrow> list_all (\<lambda>f. CHR 0x0A \<notin> set (fst f)) (files_in p dir)"

lemma split_join: "xs \<noteq> [] \<Longrightarrow> list_all (\<lambda>x. d \<notin> set x) xs \<Longrightarrow> split_on d (join [d] xs) = xs"
proof (induction xs)
  case (Cons x xs)
  then show ?case by (cases xs) (auto simp: split_on_plain split_on_append_sep)
qed simp

lemma hex_lower_no_newline: "list_all hex_lower h \<Longrightarrow> CHR 0x0A \<notin> set h"
  by (auto simp: list_all_iff hex_lower_def)

lemma manifest_lines_clean:
  assumes "digests (sha256_hex p)" and "clean_paths p dir"
  shows "list_all (\<lambda>l. CHR 0x0A \<notin> set l) (manifest_lines p dir)"
  using assms hex_lower_no_newline
  by (fastforce simp: manifest_lines_def manifest_line_def digests_def clean_paths_def list_all_iff)

lemma manifest_determines_lines:
  assumes "digests (sha256_hex p)" and "clean_paths p dir1" and "clean_paths p dir2"
    and "bundle_manifest p dir1 = bundle_manifest p dir2"
  shows "set (manifest_lines p dir1) = set (manifest_lines p dir2)"
proof -
  have eq: "join [CHR 0x0A] (manifest_lines p dir1) = join [CHR 0x0A] (manifest_lines p dir2)"
    using assms(4) by (simp add: bundle_manifest_def)
  have ne: "join [CHR 0x0A] (manifest_lines p dir) = [] \<longleftrightarrow> manifest_lines p dir = []" for dir
  proof -
    have "l \<noteq> []" if "l \<in> set (manifest_lines p dir)" for l
      using that by (auto simp: manifest_lines_def manifest_line_def)
    then show ?thesis by (cases "manifest_lines p dir" rule: list.exhaust) (auto elim: join.elims)
  qed
  show ?thesis
  proof (cases "manifest_lines p dir1 = []")
    case True
    with eq ne [of dir1] ne [of dir2] have "manifest_lines p dir2 = []" by simp
    with True show ?thesis by simp
  next
    case False
    with eq ne [of dir1] ne [of dir2] have "manifest_lines p dir2 \<noteq> []" by simp
    with False eq show ?thesis
      using split_join [OF False manifest_lines_clean [OF assms(1,2)]] split_join [OF _ manifest_lines_clean [OF assms(1,3)]]
      by metis
  qed
qed

lemma line_determines_file:
  assumes "digests (sha256_hex p)" and "manifest_line p f = manifest_line p g"
  shows "fst f = fst g \<and> sha256_hex p (snd f) = sha256_hex p (snd g)"
  using assms by (auto simp: manifest_line_def digests_def)

theorem bundle_digest_covers_every_file:
  assumes "digests (sha256_hex p)" and "clean_paths p dir1" and "clean_paths p dir2"
    and "inj_on (sha256_hex p) (insert (bundle_manifest p dir1) (insert (bundle_manifest p dir2)
           (snd ` set (files_in p dir1) \<union> snd ` set (files_in p dir2))))"
    and "bundle_sha256 p dir1 = bundle_sha256 p dir2"
  shows "set (files_in p dir1) = set (files_in p dir2)"
proof -
  have m: "bundle_manifest p dir1 = bundle_manifest p dir2"
    using assms(4,5) by (auto simp: bundle_sha256_def dest: inj_onD)
  have sub: "set (files_in p a) \<subseteq> set (files_in p b)"
    if "set (manifest_lines p a) = set (manifest_lines p b)"
      and "inj_on (sha256_hex p) (snd ` set (files_in p a) \<union> snd ` set (files_in p b))" for a b
  proof
    fix f assume f: "f \<in> set (files_in p a)"
    then have "manifest_line p f \<in> set (manifest_lines p b)"
      using that(1) by (auto simp: manifest_lines_def)
    then obtain g where g: "g \<in> set (files_in p b)" "manifest_line p f = manifest_line p g"
      by (auto simp: manifest_lines_def)
    with line_determines_file [OF assms(1) g(2)] f that(2) have "f = g"
      by (auto simp: prod_eq_iff dest!: inj_onD)
    with g show "f \<in> set (files_in p b)" by simp
  qed
  have lines: "set (manifest_lines p dir1) = set (manifest_lines p dir2)"
    by (rule manifest_determines_lines [OF assms(1,2,3) m])
  have inj: "inj_on (sha256_hex p) (snd ` set (files_in p dir1) \<union> snd ` set (files_in p dir2))"
    using assms(4) by (rule inj_on_subset) auto
  show ?thesis
    using sub [OF lines inj] sub [OF lines [symmetric]] inj by (auto simp: Un_commute)
qed

section \<open>Installing twice\<close>

lemma files_of_under: "f \<in> set (files_of p lead e) \<Longrightarrow> \<exists>t. fst f = lead @ t"
proof (induction p lead e arbitrary: f rule: files_of.induct)
  case (2 p lead name es)
  from 2(2) obtain e where e: "e \<in> set (sort_cmp (by_name p) es)" "f \<in> set (files_of p (lead @ name @ ''/'') e)"
    by (simp only: files_of.simps set_concat set_map) blast
  from 2(1) [OF e] obtain t where "fst f = (lead @ name @ ''/'') @ t" ..
  then show ?case by simp
qed simp_all

lemma manifest_at_top:
  "(manifest_name, bytes) \<in> set (files_in p dir) \<longleftrightarrow> File_Entry manifest_name bytes \<in> set dir"
proof -
  have "(manifest_name, bytes) \<in> set (files_of p [] e) \<longleftrightarrow> e = File_Entry manifest_name bytes" for e
  proof (cases e)
    case (Folder name es)
    have "manifest_name \<noteq> name @ ''/'' @ t" for t
    proof
      assume "manifest_name = name @ ''/'' @ t"
      then have "CHR ''/'' \<in> set manifest_name" by (metis append_Cons in_set_conv_decomp)
      then show False by (simp add: manifest_name_def)
    qed
    with Folder show ?thesis
      using files_of_under [of "(manifest_name, bytes)" p "name @ ''/''"] by auto
  qed auto
  then show ?thesis by (auto simp: files_in_def)
qed

text \<open>The manifest of the first installation is one of the files the second one covers, where the
  generator leaves other files alone.\<close>

theorem second_bundle_differs:
  assumes "digests (sha256_hex p)" and "File_Entry schema_document_name doc \<in> set es"
    and "list_all (\<lambda>e. entry_name e \<noteq> manifest_name) es"
    and "generate binary (dir_at d path) = Inr es"
    and "generate_protocol_schema p generate binary path d = (Inr g, d1)"
    and "generate binary (dir_at d1 path) = Inr (dir_at d1 path)"
    and "generate_protocol_schema p generate binary path d1 = (Inr g1, d2)"
    and "clean_paths p es" and "clean_paths p (dir_at d1 path)"
    and "inj_on (sha256_hex p) (insert (bundle_manifest p es) (insert (bundle_manifest p (dir_at d1 path))
           (snd ` set (files_in p es) \<union> snd ` set (files_in p (dir_at d1 path)))))"
  shows "gs_bundle_sha g1 \<noteq> gs_bundle_sha g"
proof
  assume eq: "gs_bundle_sha g1 = gs_bundle_sha g"
  have g: "gs_bundle_sha g = bundle_sha256 p es"
    and d1: "dir_at d1 path = put_entry (File_Entry manifest_name (bundle_manifest p es)) es"
    using assms(4,5)
    by (auto simp: generate_protocol_schema_def dir_at_def put_dir_def split: option.splits tree_entry.splits)
  have "gs_bundle_sha g1 = bundle_sha256 p (dir_at d1 path)"
    using assms(6,7) by (auto simp: generate_protocol_schema_def split: option.splits tree_entry.splits)
  with g eq have "bundle_sha256 p es = bundle_sha256 p (dir_at d1 path)" by simp
  from bundle_digest_covers_every_file [OF assms(1,8,9,10) this]
  have "set (files_in p es) = set (files_in p (dir_at d1 path))" .
  moreover have "(manifest_name, bundle_manifest p es) \<in> set (files_in p (dir_at d1 path))"
    by (simp add: manifest_at_top d1 put_entry_def)
  moreover have "(manifest_name, b) \<notin> set (files_in p es)" for b
    using assms(3) by (auto simp: manifest_at_top list_all_iff)
  ultimately show False by blast
qed

end
