(* ===== verification/Codex_Wire_Props.thy ===== *)
theory Codex_Wire_Props
  imports Codex_Wire
begin

text \<open>
  What the connection promises: the chunks a stream is cut into do not matter, a request is settled
  once and by an answer that carries its id, and every request of the server is answered.
\<close>

section \<open>Walks\<close>

lemma walk_did_append:
  "walk_did f (xs @ ys) c =
     (case walk_did f xs c of (es, c') \<Rightarrow> (case walk_did f ys c' of (fs, c'') \<Rightarrow> (es @ fs, c'')))"
  by (induction xs arbitrary: c) (simp_all split: prod.split)

text \<open>A law of every step holds of the walk: \<open>Q log c\<close> is carried along the log so far.\<close>

lemma walk_did_invariant:
  assumes "\<And>log x c es c'. Q log c \<Longrightarrow> x \<in> set xs \<Longrightarrow> f x c = (es, c') \<Longrightarrow> Q (log @ es) c'" and "Q log c"
  shows "Q (log @ fst (walk_did f xs c)) (snd (walk_did f xs c))"
  using assms
proof (induction xs arbitrary: log c)
  case (Cons x xs)
  obtain es c' where x: "f x c = (es, c')" by fastforce
  obtain fs c'' where xs: "walk_did f xs c' = (fs, c'')" by fastforce
  from Cons.prems x have "Q (log @ es) c'" by fastforce
  with Cons.IH [of "log @ es" c'] Cons.prems(1) xs have "Q ((log @ es) @ fs) c''" by fastforce
  with x xs show ?case by simp
qed simp

section \<open>Framing\<close>

lemma split_units_not_Nil [simp]: "split_units u xs \<noteq> []"
  by (cases xs) simp_all

lemma split_units_append:
  "split_units u (xs @ ys) = butlast (split_units u xs) @ split_units u (last (split_units u xs) @ ys)"
proof (induction xs)
  case (Cons x xs)
  obtain q qs where q: "split_units u xs = q # qs" by (cases "split_units u xs") auto
  show ?case
  proof (cases "x = u")
    case True
    with Cons show ?thesis by simp
  next
    case False
    with Cons.IH q show ?thesis
      by (cases "qs = []") auto
  qed
qed simp

lemma length_last_split: "length (last (split_units u xs)) \<le> length xs"
proof (induction xs)
  case (Cons x xs)
  obtain q qs where q: "split_units u xs = q # qs" by (cases "split_units u xs") auto
  with Cons show ?case by (cases "qs = []") (auto simp: le_SucI)
qed simp

lemma butlast_split_append:
  "butlast (split_units u (xs @ ys)) = butlast (split_units u xs) @ butlast (split_units u (last (split_units u xs) @ ys))"
  by (subst split_units_append) (simp add: butlast_append)

lemma last_split_append: "last (split_units u (xs @ ys)) = last (split_units u (last (split_units u xs) @ ys))"
  by (subst split_units_append) simp

lemma push_whole:
  "length (sp_buffer sp @ chunk) \<le> sp_limit sp \<Longrightarrow>
     push chunk sp = (Inr (complete_lines (butlast (split_units 10 (sp_buffer sp @ chunk)))),
       sp\<lparr>sp_buffer := last (split_units 10 (sp_buffer sp @ chunk))\<rparr>)"
  by (simp add: push_def Let_def)

lemma push_push:
  assumes "length (sp_buffer sp @ a @ b) \<le> sp_limit sp"
  shows "push (a @ b) sp =
    (case push a sp of (Inr ls, sp') \<Rightarrow> (case push b sp' of (Inr ms, sp'') \<Rightarrow> (Inr (ls @ ms), sp'')))"
proof -
  let ?t = "last (split_units 10 (sp_buffer sp @ a))"
  have "length ?t \<le> length (sp_buffer sp @ a)" by (rule length_last_split)
  with assms have "length (?t @ b) \<le> sp_limit sp" by simp
  with assms show ?thesis
    using butlast_split_append [of 10 "sp_buffer sp @ a" b] last_split_append [of 10 "sp_buffer sp @ a" b]
    by (simp add: push_whole complete_lines_def)
qed

text \<open>The lines of a stream do not depend on the chunks it arrives in.\<close>

lemma read_line_splitter: "read_line p parse answer line (c\<lparr>conn_splitter := sp\<rparr>) =
   (case read_line p parse answer line c of (es, c') \<Rightarrow> (es, c'\<lparr>conn_splitter := sp\<rparr>))"
  by (simp add: read_line_def dispatch_def settle_def waiter_of_def
      split: option.split classified.split prod.split)

lemma walk_lines_splitter: "walk_did (read_line p parse answer) ls (c\<lparr>conn_splitter := sp\<rparr>) =
   (case walk_did (read_line p parse answer) ls c of (es, c') \<Rightarrow> (es, c'\<lparr>conn_splitter := sp\<rparr>))"
proof (induction ls arbitrary: c)
  case (Cons l ls)
  obtain es c' where 1: "read_line p parse answer l c = (es, c')" by fastforce
  obtain fs c'' where 2: "walk_did (read_line p parse answer) ls c' = (fs, c'')" by fastforce
  from 1 2 Cons [of c'] show ?case by (simp add: read_line_splitter)
qed simp

lemma walk_lines_keeps_splitter: "conn_splitter (snd (walk_did (read_line p parse answer) ls c)) = conn_splitter c"
  using walk_lines_splitter [of p parse answer ls "conn_splitter c" c]
  by (cases "walk_did (read_line p parse answer) ls c") (auto dest: arg_cong [where f = conn_splitter])

lemma read_read:
  assumes "length (sp_buffer (conn_splitter c) @ a @ b) \<le> sp_limit (conn_splitter c)"
  shows "read_chunk p parse answer (a @ b) c =
    (case read_chunk p parse answer a c of (es, c') \<Rightarrow>
       (case read_chunk p parse answer b c' of (fs, c'') \<Rightarrow> (es @ fs, c'')))"
proof -
  let ?w = "walk_did (read_line p parse answer)"
  have la: "length (sp_buffer (conn_splitter c) @ a) \<le> sp_limit (conn_splitter c)" using assms by simp
  obtain ls sp where a: "push a (conn_splitter c) = (Inr ls, sp)"
    using push_whole [OF la] by simp
  have lb: "length (sp_buffer sp @ b) \<le> sp_limit sp"
    using a assms length_last_split [of 10 "sp_buffer (conn_splitter c) @ a"] by (auto simp: push_whole [OF la])
  obtain ms sp2 where b: "push b sp = (Inr ms, sp2)"
    using push_whole [OF lb] by simp
  from a b have ab: "push (a @ b) (conn_splitter c) = (Inr (ls @ ms), sp2)"
    by (simp add: push_push [OF assms])
  obtain es c1 where 1: "?w ls (c\<lparr>conn_splitter := sp\<rparr>) = (es, c1)" by fastforce
  have sp: "conn_splitter c1 = sp"
    using walk_lines_keeps_splitter [of p parse answer ls "c\<lparr>conn_splitter := sp\<rparr>"] 1 by simp
  have "?w ls (c\<lparr>conn_splitter := sp2\<rparr>) = (es, c1\<lparr>conn_splitter := sp2\<rparr>)"
    using walk_lines_splitter [of p parse answer ls sp2 "c\<lparr>conn_splitter := sp\<rparr>"] 1 by simp
  with a b ab 1 sp show ?thesis
    by (simp add: read_chunk_def walk_did_append split: prod.split)
qed


section \<open>Requests and their answers\<close>

fun settled_by :: "effect \<Rightarrow> nat list" where
  "settled_by (Resolved i v) = [i]"
| "settled_by (Rejected i r) = [i]"
| "settled_by _ = []"

definition settled :: "effect list \<Rightarrow> nat list" where
  "settled es = concat (map settled_by es)"

lemma settled_simps [simp]: "settled [] = []" "settled (e # es) = settled_by e @ settled es"
  "settled (es @ fs) = settled es @ settled fs"
  by (simp_all add: settled_def)

text \<open>The numbers given out so far are those settled and those waiting, each once.\<close>

definition accounted :: "effect list \<Rightarrow> connection \<Rightarrow> bool" where
  "accounted log c \<longleftrightarrow>
     distinct (settled log @ keys (pending c)) \<and> set (settled log @ keys (pending c)) = {1..<next_id c}
     \<and> 1 \<le> next_id c \<and> (closed c = None \<or> pending c = [])"

lemma keys_delete: "keys (AList.delete k al) = filter (\<lambda>x. x \<noteq> k) (keys al)"
  by (induction al) auto

lemma settle_accounted:
  assumes "accounted log c" and "settle ident outcome c = (es, c')" and "\<And>i name. settled_by (outcome i name) = [i]"
  shows "accounted (log @ es) c'"
proof (cases "waiter_of c ident")
  case (Some w)
  obtain i name where w: "w = (i, name)" by fastforce
  with Some have i: "i \<in> set (keys (pending c))"
    by (auto simp: waiter_of_def split: option.splits dest!: map_of_SomeD intro: rev_image_eqI)
  from assms(2) Some w have es: "es = [outcome i name]" and c': "c' = c\<lparr>pending := AList.delete i (pending c)\<rparr>"
    by (auto simp: settle_def)
  from i have "pending c \<noteq> []" by auto
  with i assms(1,3) show ?thesis
    by (auto simp: accounted_def es c' keys_delete)
qed (use assms in \<open>auto simp: settle_def\<close>)

lemma accounted_quiet: "settled es = [] \<Longrightarrow> accounted (log @ es) c = accounted log c"
  by (simp add: accounted_def)

lemma accounted_skip: "settled_by e = [] \<Longrightarrow> accounted (log @ e # es) c = accounted (log @ es) c"
  by (simp add: accounted_def)

lemma accounted_frame:
  "pending c' = pending c \<Longrightarrow> next_id c' = next_id c \<Longrightarrow> closed c' = closed c \<Longrightarrow> accounted log c' = accounted log c"
  by (simp add: accounted_def)

lemma dispatch_accounted:
  assumes "accounted log c" and "dispatch p answer event c = (es, c')"
  shows "accounted (log @ es) c'"
proof (cases event)
  case (Error_Answer ident err)
  with assms show ?thesis by (auto simp: dispatch_def elim!: settle_accounted)
next
  case (Response ident result)
  with assms show ?thesis by (auto simp: dispatch_def elim!: settle_accounted)
qed (use assms in \<open>auto simp: dispatch_def send_def accounted_quiet\<close>)

lemma read_line_accounted:
  assumes "accounted log c" and "read_line p parse answer line c = (es, c')"
  shows "accounted (log @ es) c'"
proof (cases "parse line")
  case None
  with assms show ?thesis by (auto simp: read_line_def accounted_quiet)
next
  case (Some message)
  obtain fs c'' where d: "dispatch p answer (classify_message message) c = (fs, c'')" by fastforce
  with assms Some dispatch_accounted [OF assms(1) d] show ?thesis
    by (auto simp: read_line_def accounted_skip)
qed

lemma fail_all_accounted:
  assumes "accounted log c" and "fail_all e c = (es, c')"
  shows "accounted (log @ es) c'"
proof -
  have "settled (map (\<lambda>(i, name). Rejected i (Transport e)) ps) = keys ps" for ps :: "(nat \<times> string) list"
    by (induction ps) auto
  with assms show ?thesis by (auto simp: fail_all_def accounted_def simp del: set_map)
qed

lemma read_chunk_accounted:
  assumes "accounted log c" and "read_chunk p parse answer chunk c = (es, c')"
  shows "accounted (log @ es) c'"
proof (cases "push chunk (conn_splitter c)")
  case (Pair r sp)
  let ?c = "c\<lparr>conn_splitter := sp\<rparr>"
  from assms(1) have *: "accounted log ?c" by (simp add: accounted_def)
  show ?thesis
  proof (cases r)
    case (Inl e)
    with Pair assms(2) * show ?thesis by (auto simp: read_chunk_def elim: fail_all_accounted)
  next
    case (Inr ls)
    have "accounted (log @ fst (walk_did (read_line p parse answer) ls ?c)) (snd (walk_did (read_line p parse answer) ls ?c))"
      using * by (rule walk_did_invariant [rotated]) (rule read_line_accounted)
    with Pair Inr assms(2) show ?thesis by (simp add: read_chunk_def)
  qed
qed

lemma request_accounted:
  assumes "accounted log c" and "request p name params c = (es, c')"
  shows "accounted (log @ es) c'"
proof (cases "closed c")
  case None
  have "next_id c \<notin> set (keys (pending c))" "next_id c \<notin> set (settled log)"
    using assms(1) by (auto simp: accounted_def)
  moreover have "{1..<Suc (next_id c)} = insert (next_id c) {1..<next_id c}"
    using assms(1) by (auto simp: accounted_def)
  ultimately show ?thesis
    using None assms by (auto simp: request_def Let_def send_def accounted_def keys_update simp del: set_map)
qed (use assms in \<open>auto simp: request_def accounted_quiet\<close>)

lemma conn_step_accounted:
  assumes "accounted log c" and "conn_step p parse answer event c = (es, c')"
  shows "accounted (log @ es) c'"
  using assms
  by (cases event)
     (auto simp: conn_step_def notify_def send_def accounted_quiet
        elim: read_chunk_accounted fail_all_accounted request_accounted)

definition run_connection ::
  "platform \<Rightarrow> (nat list \<Rightarrow> json option) \<Rightarrow> (string \<Rightarrow> json option \<Rightarrow> exn + json option) \<Rightarrow> wire_event list \<Rightarrow> connection did" where
  "run_connection p parse answer events = walk_did (conn_step p parse answer) events new_connection"

text \<open>C19. Whatever arrives, the numbers given out are those settled and those waiting, each exactly once; and
  once the connection has failed nothing waits.\<close>

theorem every_request_settles_once:
  "distinct (settled (fst (run_connection p parse answer events)) @ keys (pending (snd (run_connection p parse answer events))))
   \<and> set (settled (fst (run_connection p parse answer events)) @ keys (pending (snd (run_connection p parse answer events))))
     = {1..<next_id (snd (run_connection p parse answer events))}
   \<and> (closed (snd (run_connection p parse answer events)) = None
      \<or> pending (snd (run_connection p parse answer events)) = [])"
proof -
  have "accounted ([] @ fst (run_connection p parse answer events)) (snd (run_connection p parse answer events))"
    unfolding run_connection_def
    by (rule walk_did_invariant, erule (1) conn_step_accounted)
       (simp add: accounted_def new_connection_def)
  then show ?thesis by (simp add: accounted_def)
qed

section \<open>Answers are matched by id alone\<close>

text \<open>What became of request \<open>i\<close>, and the messages that carry its id.\<close>

definition fate :: "nat \<Rightarrow> effect list \<Rightarrow> effect list" where
  "fate i es = filter (\<lambda>e. settled_by e = [i]) es"

definition answers :: "nat \<Rightarrow> json \<Rightarrow> bool" where
  "answers i message =
     (case classify_message message of
        Response ident v \<Rightarrow> waiting_id ident = Some i
      | Error_Answer ident e \<Rightarrow> waiting_id ident = Some i
      | _ \<Rightarrow> False)"

definition receive_all :: "platform \<Rightarrow> (string \<Rightarrow> json option \<Rightarrow> exn + json option) \<Rightarrow> json list \<Rightarrow> connection \<Rightarrow> connection did" where
  "receive_all p answer = walk_did (\<lambda>message. dispatch p answer (classify_message message))"

lemma map_of_delete: "map_of (AList.delete k al) j = (if j = k then None else map_of al j)"
  by (simp add: delete_conv')

lemma other_message:
  assumes "\<not> answers i message" and "dispatch p answer (classify_message message) c = (es, c')"
  shows "fate i es = [] \<and> map_of (pending c') i = map_of (pending c) i"
  using assms
  by (cases "classify_message message")
     (auto simp: answers_def dispatch_def settle_def waiter_of_def send_def fate_def map_of_delete
        split: option.splits if_splits)

lemma own_message:
  assumes "answers i message" and "dispatch p answer (classify_message message) c = (es, c')"
    and "dispatch p answer (classify_message message) d = (fs, d')" and "map_of (pending c) i = map_of (pending d) i"
  shows "fate i es = fate i fs \<and> map_of (pending c') i = map_of (pending d') i"
  using assms
  by (cases "classify_message message")
     (auto simp: answers_def dispatch_def settle_def waiter_of_def fate_def map_of_delete split: option.splits)

lemma fate_append [simp]: "fate i (es @ fs) = fate i es @ fate i fs"
  by (simp add: fate_def)

lemma receive_own:
  "map_of (pending c) i = map_of (pending d) i \<Longrightarrow>
     fate i (fst (receive_all p answer ms c)) = fate i (fst (receive_all p answer (filter (answers i) ms) d))"
proof (induction ms arbitrary: c d)
  case (Cons m ms)
  obtain es c' where c: "dispatch p answer (classify_message m) c = (es, c')" by fastforce
  obtain fs d' where d: "dispatch p answer (classify_message m) d = (fs, d')" by fastforce
  show ?case
  proof (cases "answers i m")
    case True
    from own_message [OF True c d Cons.prems] Cons.IH [of c' d'] True c d show ?thesis
      by (simp add: receive_all_def split_beta)
  next
    case False
    from other_message [OF False c] Cons.prems have "map_of (pending c') i = map_of (pending d) i" by simp
    from Cons.IH [OF this] other_message [OF False c] False c show ?thesis
      by (simp add: receive_all_def split_beta)
  qed
qed (simp add: receive_all_def fate_def)

text \<open>What becomes of a request is decided by the messages that carry its id, whatever else arrives
  among them.\<close>

theorem answered_by_its_id:
  "fate i (fst (receive_all p answer ms c)) = fate i (fst (receive_all p answer (filter (answers i) ms) c))"
  by (rule receive_own) simp

section \<open>Every request of the server is answered\<close>

fun lines_sent :: "effect \<Rightarrow> nat list list" where
  "lines_sent (Sent line) = [line]"
| "lines_sent _ = []"

definition reply_line :: "platform \<Rightarrow> (string \<Rightarrow> json option \<Rightarrow> exn + json option) \<Rightarrow> json \<Rightarrow> nat list list" where
  "reply_line p answer message =
     (case classify_message message of
        Server_Request ident name params \<Rightarrow> [sent_line p (reply_to_server answer ident name params)]
      | _ \<Rightarrow> [])"

text \<open>Every request of the server is answered, in order, and nothing else is sent on a message.\<close>

theorem server_requests_are_answered:
  "concat (map lines_sent (fst (receive_all p answer ms c))) = concat (map (reply_line p answer) ms)"
proof (induction ms arbitrary: c)
  case (Cons m ms)
  obtain es c' where d: "dispatch p answer (classify_message m) c = (es, c')" by fastforce
  then have "concat (map lines_sent es) = reply_line p answer m"
    by (cases "classify_message m")
       (auto simp: dispatch_def reply_line_def send_def settle_def split: option.splits)
  with d Cons.IH [of c'] show ?case by (simp add: receive_all_def split_beta)
qed (simp add: receive_all_def)

end
