(* ===== verification/Codex_Props.thy ===== *)
theory Codex_Props
  imports Codex_Turn Codex_Account Codex_Install Codex_Wire_Props
begin

text \<open>
  What the harness guarantees of a session, a thread and a turn.
\<close>

lemma check_Inr [simp]: "check wrong c w = Inr u \<longleftrightarrow> \<not> wrong"
  by (cases u) (simp add: check_def)

lemma ask_server_asks:
  "ask_server name params t = (r, t') \<Longrightarrow> asked t' = asked t @ [(name, params)]"
  by (auto simp: ask_server_def Let_def split: list.splits sum.splits)

lemma ask_server_session:
  "ask_server name params (s :: session) = (r, s') \<Longrightarrow>
     ss_thread s' = ss_thread s \<and> ss_thread_id s' = ss_thread_id s \<and> ss_credentials s' = ss_credentials s
     \<and> ss_env s' = ss_env s"
  by (auto simp: ask_server_def Let_def split: list.splits sum.splits)

section \<open>Secrets\<close>

lemma set_keys_update: "set (keys (AList.update k v al)) = insert k (set (keys al))"
  unfolding keys_update by (cases "k \<in> set (keys al)") (simp_all only: if_True if_False set_append insert_absorb list.set Un_insert_right Un_empty_right)

lemma keys_fold_update: "set (keys (fold (\<lambda>(name, v). AList.update name (Some v)) extra env)) = set (keys env) \<union> set (keys extra)"
proof (induction extra arbitrary: env)
  case (Cons e extra)
  obtain k v where "e = (k, v)" by fastforce
  with Cons show ?case by (auto simp: set_keys_update simp del: set_map)
qed simp

lemma child_env_names:
  "set (keys (child_env own home key_name key extra)) \<subseteq>
     set inherited \<union> {''CODEX_HOME''} \<union> set (keys extra) \<union> (if given key_name then {the key_name} else {})"
proof -
  let ?env = "concat (map (\<lambda>name. case map_of own name of None \<Rightarrow> [] | Some v \<Rightarrow> [(name, Some v)]) inherited)"
  have 1: "set (keys ?env) \<subseteq> set inherited" by (auto split: option.splits)
  show ?thesis
    unfolding child_env_def Let_def
    using 1 by (cases "given key_name") (auto simp only: if_True if_False set_keys_update keys_fold_update)
qed

lemma connect_session:
  assumes "connect o1 own home_exists read_file binary server = Inr (r, s)"
  shows "\<exists>key. provider_key o1 home_exists read_file = Inr key
    \<and> ss_credentials s = redaction_values (co_credentials o1) key (co_extra_env o1)
    \<and> ss_env s = child_env own (co_codex_home o1) (co_key_name o1) key (co_extra_env o1)"
  using assms
  by (auto simp: connect_def Let_def bind_res_Inr_iff catch_op_def bind_op_def stop_session_def throw_op_def
      split: prod.splits sum.splits harness_error.splits dest!: ask_server_session)


section \<open>Threads\<close>

text \<open>A thread that was opened is the one the declaration asks for: the server named its id and confirmed
  the model, the effort, the permissions profile and that nobody is asked for an approval.\<close>

theorem opened_thread_is_confirmed:
  assumes "open_thread o1 now s = (Inr thread, s')"
  shows "truthy (Some (ss_thread_id s')) \<and> thread = thread_record (op_unit o1) now s'
    \<and> is_text (member_at (ss_thread s') ''approvalPolicy'') (Some ''never'')
    \<and> (\<not> given (op_model o1) \<or> is_text (member_at (ss_thread s') ''model'') (op_model o1))
    \<and> (\<not> given (op_effort o1) \<or> is_text (member_at (ss_thread s') ''reasoningEffort'') (op_effort o1))
    \<and> (\<not> given (op_permissions o1) \<or> is_text (inside (ss_thread s') ''activePermissionProfile'' ''id'') (op_permissions o1))
    \<and> asked s' = asked s @ (''thread/start'', opening_params o1) #
        (if given (op_unit o1)
         then [(''thread/name/set'', [(''threadId'', Some (ss_thread_id s')), (''name'', map_option JStr (op_unit o1))])]
         else [])"
proof -
  from assms obtain started s1 where a: "ask_server ''thread/start'' (opening_params o1) s = (Inr started, s1)"
    by (auto simp: open_thread_def bind_op_def split: prod.splits sum.splits)
  let ?thread = "or_else (inside started ''thread'' ''id'') JNull"
  let ?s = "s1\<lparr>ss_thread := started, ss_thread_id := ?thread\<rparr>"
  from assms a have c: "\<not> (given (op_permissions o1)
      \<and> \<not> is_text (inside started ''activePermissionProfile'' ''id'') (op_permissions o1))"
    by (auto simp: open_thread_def bind_op_def Let_def confirm_permission_profile_def check_def
        split: prod.splits sum.splits if_splits)
  from assms a have f: "opening_faults o1 started ?thread = []"
    by (auto simp: open_thread_def bind_op_def Let_def throw_op_def split: prod.splits sum.splits list.splits)
  have s': "\<exists>r. (if given (op_unit o1)
        then ask_server ''thread/name/set'' [(''threadId'', Some ?thread), (''name'', map_option JStr (op_unit o1))]
        else ret_op None) ?s = (Inr r, s') \<and> thread = thread_record (op_unit o1) now s'"
    using assms a c f
    by (auto simp: open_thread_def bind_op_def Let_def get_op_def split: prod.splits sum.splits list.splits)
  have facts: "asked s' = asked ?s @ (if given (op_unit o1)
         then [(''thread/name/set'', [(''threadId'', Some ?thread), (''name'', map_option JStr (op_unit o1))])] else [])
      \<and> ss_thread s' = started \<and> ss_thread_id s' = ?thread"
  proof (cases "given (op_unit o1)")
    case True
    with s' obtain r where
      "ask_server ''thread/name/set'' [(''threadId'', Some ?thread), (''name'', map_option JStr (op_unit o1))] ?s = (Inr r, s')"
      by auto
    from ask_server_asks [OF this] ask_server_session [OF this] True show ?thesis by simp
  qed (use s' in auto)
  with s' show ?thesis
    using ask_server_asks [OF a] c f by (auto simp: opening_faults_def split: if_splits)
qed

section \<open>Turns\<close>

text \<open>C22. Whatever becomes of a turn, what it sends is nothing or one \<open>turn/start\<close> that names its thread, asks
  for no approval and carries exactly one of a sandbox policy and a permissions profile.\<close>

theorem turn_is_fenced:
  assumes "turn p o1 st during later s = (r, s')" and "asked s' \<noteq> asked s"
  shows "\<exists>params. asked s' = asked s @ [(''turn/start'', params)]
    \<and> map_of params ''approvalPolicy'' = Some (Some (JStr ''never''))
    \<and> map_of params ''threadId'' = Some (map_option JStr (tu_thread o1)) \<and> given (tu_thread o1)
    \<and> (if given (tu_permissions o1)
       then ss_experimental s \<and> \<not> truthy (tu_policy o1) \<and> map_of params ''sandboxPolicy'' = None
         \<and> map_of params ''permissions'' = Some (map_option JStr (tu_permissions o1))
       else truthy (tu_policy o1) \<and> map_of params ''sandboxPolicy'' = Some (tu_policy o1) \<and> map_of params ''permissions'' = None)"
proof -
  have ok: "turn_refusal (ss_experimental s) o1 = Inr ()"
  proof (rule ccontr)
    assume "turn_refusal (ss_experimental s) o1 \<noteq> Inr ()"
    then obtain e where "turn_refusal (ss_experimental s) o1 = Inl e"
      by (cases "turn_refusal (ss_experimental s) o1") auto
    with assms show False by (simp add: turn_def bind_op_def)
  qed
  obtain items where i: "input_items (tu_input o1) = Inr items"
    using assms ok by (cases "input_items (tu_input o1)") (auto simp: turn_def bind_op_def)
  obtain q s1 where a: "ask_server ''turn/start'' (turn_params o1 items) s = (q, s1)" by fastforce
  have "s' = s1"
    using assms(1) ok i a
    by (auto simp: turn_def bind_op_def Let_def throw_op_def split: sum.splits option.splits if_splits)
  with ask_server_asks [OF a] have "asked s' = asked s @ [(''turn/start'', turn_params o1 items)]" by simp
  moreover have "given (tu_thread o1)"
    "\<not> (given (tu_permissions o1) \<and> truthy (tu_policy o1))"
    "given (tu_permissions o1) \<Longrightarrow> ss_experimental s" "truthy (tu_policy o1) \<or> given (tu_permissions o1)"
    using ok by (auto simp: turn_refusal_def bind_res_Inr_iff)
  ultimately show ?thesis
    by (auto simp: turn_params_def when_given_def)
qed

text \<open>Unless the completion says that its view is full, the items are those streamed.\<close>

theorem summary_is_never_the_record:
  assumes "\<not> is_text (member_at turn_value ''itemsView'') (Some ''full'')"
  shows "fst (items_from turn_value es) = streamed_items es
    \<and> (snd (items_from turn_value es) = None \<longleftrightarrow> streamed_items es \<noteq> [])"
  using assms by (auto simp: items_from_def)

text \<open>What counts as evidence that the turn had ended.\<close>

definition ended_in_stream :: "string \<Rightarrow> string \<Rightarrow> harness_event \<Rightarrow> bool" where
  "ended_in_stream thread expected e \<longleftrightarrow>
     ev_kind e = ''turn.completed'' \<and> strict_eq (Some (ev_thread e)) (Some (JStr thread))
     \<and> strict_eq (Some (ev_turn e)) (Some (JStr expected))
     \<and> terminal_turn_status (member_at (ev_params e) ''turn'') expected \<noteq> None"

lemma latest_status_iff: "latest_status thread expected es \<noteq> None \<longleftrightarrow> list_ex (ended_in_stream thread expected) es"
proof -
  let ?f = "\<lambda>e status.
       if ev_kind e = ''turn.completed'' \<and> strict_eq (Some (ev_thread e)) (Some (JStr thread))
          \<and> strict_eq (Some (ev_turn e)) (Some (JStr expected))
       then (case terminal_turn_status (member_at (ev_params e) ''turn'') expected of None \<Rightarrow> status | t \<Rightarrow> t)
       else status"
  have "fold ?f es st \<noteq> None \<longleftrightarrow> st \<noteq> None \<or> list_ex (ended_in_stream thread expected) es" for st
  proof (induction es arbitrary: st)
    case (Cons e es)
    have "?f e st \<noteq> None \<longleftrightarrow> st \<noteq> None \<or> ended_in_stream thread expected e"
      by (auto simp: ended_in_stream_def split: option.split)
    with Cons [of "?f e st"] show ?case unfolding fold_simps list_ex_iff list.set by blast
  qed simp
  then show ?thesis by (simp only: latest_status_def) blast
qed

text \<open>A steered message counts as not delivered exactly where the server rejected the request as invalid
  and the stream or the thread as read shows that the very turn had ended.\<close>

theorem steer_is_lost_only_on_evidence:
  "fst (classify_steer_failure e thread expected thread_read es) = Definitely_Not_Delivered \<longleftrightarrow>
     (\<exists>err. e = Request_Failed (Rpc_Error ''turn/steer'' err) \<and> member_at (Some err) ''code'' = Some (JInt (-32600)))
     \<and> (list_ex (ended_in_stream thread expected) es
        \<or> list_ex (\<lambda>v. terminal_turn_status (Some v) expected \<noteq> None) (read_thread_turns thread_read thread))"
proof -
  have read: "terminal_turn_status (find (\<lambda>v. terminal_turn_status (Some v) expected \<noteq> None) vs) expected \<noteq> None
      \<longleftrightarrow> list_ex (\<lambda>v. terminal_turn_status (Some v) expected \<noteq> None) vs" for vs
  proof (induction vs)
    case Nil
    show ?case by (simp add: terminal_turn_status_def member_at_def is_text_def)
  qed auto
  have rpc: "((case e of Request_Failed (Rpc_Error name err) \<Rightarrow> name = ''turn/steer'' | _ \<Rightarrow> False)
        \<and> native_rpc_code e = Some (JInt (-32600)))
      \<longleftrightarrow> (\<exists>err. e = Request_Failed (Rpc_Error ''turn/steer'' err) \<and> member_at (Some err) ''code'' = Some (JInt (-32600)))"
    by (auto simp: native_rpc_code_def split: harness_error.splits rejection.splits option.splits json.splits)
  have status: "(case terminal_turn_status (find (\<lambda>v. terminal_turn_status (Some v) expected \<noteq> None)
          (read_thread_turns thread_read thread)) expected of None \<Rightarrow> latest_status thread expected es | Some t \<Rightarrow> Some t) \<noteq> None
      \<longleftrightarrow> list_ex (ended_in_stream thread expected) es
        \<or> list_ex (\<lambda>v. terminal_turn_status (Some v) expected \<noteq> None) (read_thread_turns thread_read thread)"
    using read [of "read_thread_turns thread_read thread"] latest_status_iff [of thread expected es]
    by (auto split: option.splits)
  show ?thesis
    unfolding classify_steer_failure_def Let_def fst_conv rpc [symmetric] status [symmetric]
    by simp
qed

text \<open>A completion is an event of this thread and this turn; the end of the child is not one.\<close>

lemma awaiting_completion:
  "awaiting p thread turn_id timed hs = Some (Inr v) \<Longrightarrow>
     \<exists>name params e. Arrived name params \<in> set hs \<and> map_notification name params = Some e
       \<and> completes thread turn_id e \<and> v = member_at (ev_params e) ''turn''"
  by (induction p thread turn_id timed hs rule: awaiting.induct)
     (auto split: option.splits if_splits; blast)+

end
