(* ===== verification/Codex_Sample.thy ===== *)
theory Codex_Sample
  imports Codex_Props
begin

text \<open>
  The harness on concrete inputs: each theorem of the theories before it that has hypotheses,
  applied where they hold.
\<close>

section \<open>Inputs\<close>

definition harness_session :: "(rejection + json option) list \<Rightarrow> session" where
  "harness_session server =
     \<lparr>answers_left = server, asked = [], ss_thread = Some JNull, ss_thread_id = JNull, ss_initialize = Some JNull,
      ss_experimental = False, ss_credentials = [], ss_env = [], ss_codex_home = ''/home'', ss_binary = ''/codex'',
      ss_told = [], ss_stopped = False\<rparr>"

definition harness_opening :: thread_opening where
  "harness_opening =
     \<lparr>op_cwd = ''/w'', op_model = Some ''m'', op_effort = None, op_sandbox = Some ''read-only'', op_permissions = None,
      op_unit = Some ''u'', op_config = None, op_instructions = None\<rparr>"

definition harness_started :: json where
  "harness_started = JObj [(''thread'', JObj [(''id'', JStr ''t'')]), (''model'', JStr ''m''), (''approvalPolicy'', JStr ''never'')]"

definition harness_turn :: turn_options where
  "harness_turn =
     \<lparr>tu_thread = Some ''t'', tu_input = Some (JStr ''hello''), tu_effort = None, tu_policy = Some (JObj []),
      tu_permissions = None, tu_message_id = None, tu_model = None, tu_timed = False\<rparr>"

definition key_options :: connect_options where
  "key_options =
     \<lparr>co_codex_home = ''/home'', co_key_path = Some ''/key'', co_key_name = Some ''API_KEY'', co_extra_env = [],
      co_credentials = [], co_experimental = False\<rparr>"

text \<open>A digest that tells texts of different lengths apart.\<close>

definition length_digest :: "string \<Rightarrow> string" where
  "length_digest s = replicate (length s mod 65) (CHR ''a'') @ replicate (64 - length s mod 65) (CHR ''b'')"

definition length_platform :: platform where
  "length_platform =
     \<lparr>sha256_hex = length_digest, date_parse = \<lambda>t. None, to_iso = \<lambda>i. [], locale_compare = \<lambda>a b. 0,
      number_text = \<lambda>n d. [], problem_text = \<lambda>f. [], fix_text = \<lambda>f. []\<rparr>"

lemma length_platform_hash: "sha256_hex length_platform = length_digest"
  by (simp add: length_platform_def)

lemma length_digests: "digests (sha256_hex length_platform)"
proof -
  have "length s mod 65 \<le> 64" for s :: string
    using mod_less_divisor [of 65 "length s"] by simp
  then show ?thesis
    by (auto simp: digests_def length_platform_def length_digest_def list_all_iff hex_lower_def)
qed

lemma length_digest_differs: "length s mod 65 \<noteq> length t mod 65 \<Longrightarrow> length_digest s \<noteq> length_digest t"
proof
  assume "length s mod 65 \<noteq> length t mod 65" and "length_digest s = length_digest t"
  moreover have "length (filter (\<lambda>c. c = CHR ''a'') (length_digest u)) = length u mod 65" for u
    by (simp add: length_digest_def filter_replicate)
  ultimately show False by metis
qed

lemma length_digest_inj:
  assumes "length a mod 65 \<noteq> length b mod 65" "length a mod 65 \<noteq> length c mod 65" "length b mod 65 \<noteq> length c mod 65"
  shows "inj_on length_digest {a, b, c}"
  using assms [THEN length_digest_differs] by (auto simp: inj_on_def)

definition shape_of :: "string \<Rightarrow> json" where
  "shape_of name = JObj [(''properties'', JObj [(''method'', JObj [(''enum'', JArr [JStr name])])])]"

definition full_schema :: json where
  "full_schema = JObj [(''definitions'', JObj
     [(''ClientRequest'', JObj [(''oneOf'', JArr (map shape_of all_sent_requests))]),
      (''ClientNotification'', JObj [(''oneOf'', JArr (map shape_of client_notifications))]),
      (''ServerNotification'', JObj [(''oneOf'', JArr (map shape_of all_listened_notifications))])])]"

lemma method_of_shape_of: "concat (map (method_of_shape \<circ> shape_of) names) = names"
  by (induction names)
     (simp_all add: method_of_shape_def shape_of_def inside_def member_at_def member_of_def members_of_def)

lemma full_schema_methods:
  "methods_named full_schema ''ClientRequest'' = Inr all_sent_requests"
  "assert_methods_exist full_schema schema_name = Inr []"
  by (simp_all add: assert_methods_exist_def methods_named_def full_schema_def inside_def member_at_def member_of_def
      members_of_def or_else_def nullish_def method_of_shape_of absent_methods_def)

definition sample_archive :: string where
  "sample_archive = replicate 124 (CHR 0x00) @ ''1'' @ replicate 387 (CHR 0x00) @ ''x''"

definition sample_document :: tree_entry where
  "sample_document = File_Entry schema_document_name ''{}''"

text \<open>A generator that writes its document and leaves every other file alone.\<close>

definition leaves_others :: "string \<Rightarrow> tree_entry list \<Rightarrow> exn + tree_entry list" where
  "leaves_others binary old = Inr (if old = [] then [sample_document] else old)"

definition sample_machine :: machine where
  "sample_machine =
     \<lparr>m_verify = \<lambda>args. Inr (JObj [(''signed_blob_sha256'', JStr (length_digest ''x''))]), m_parse = \<lambda>t. Some full_schema,
      m_read = \<lambda>path. Inr [], m_gunzip = \<lambda>archive. Inr sample_archive, m_generate = leaves_others, m_pinned = JObj []\<rparr>"

definition sample_install :: install_args where
  "sample_install =
     \<lparr>ia_version = Some ''1'', ia_tag = Some ''t'', ia_asset = Some ''a'', ia_sha = Some ''s'', ia_dest = Some ''/d'',
      ia_cache = Some ''/c'', ia_offline_asset = None, ia_offline_bundle = None, ia_pin = None\<rparr>"

definition empty_disk :: disk where
  "empty_disk = \<lparr>written = [], schema_dirs = []\<rparr>"

section \<open>The theorems\<close>



theorem opened_thread_is_confirmed_witness:
  "let (r, s) = open_thread harness_opening ''now'' (harness_session [Inr (Some harness_started), Inr None]) in
   is_ok r \<and> is_text (member_at (ss_thread s) ''model'') (Some ''m'')"
proof -
  have ok: "is_ok (fst (open_thread harness_opening ''now'' (harness_session [Inr (Some harness_started), Inr None])))"
    by code_simp
  then obtain thread s where
    r: "open_thread harness_opening ''now'' (harness_session [Inr (Some harness_started), Inr None]) = (Inr thread, s)"
    by (cases "open_thread harness_opening ''now'' (harness_session [Inr (Some harness_started), Inr None])")
       (auto simp: is_ok_iff)
  from opened_thread_is_confirmed [OF r] r show ?thesis
    by (simp add: harness_opening_def given_def)
qed

theorem turn_is_fenced_witness:
  "\<forall>p st. \<exists>params. asked (snd (turn p harness_turn st [] [] (harness_session []))) = [(''turn/start'', params)]
     \<and> map_of params ''approvalPolicy'' = Some (Some (JStr ''never''))
     \<and> map_of params ''sandboxPolicy'' = Some (Some (JObj []))"
proof (intro allI)
  fix p st
  obtain r s where t: "turn p harness_turn st [] [] (harness_session []) = (r, s)" by fastforce
  moreover have "asked s \<noteq> asked (harness_session [])"
    using t by (auto simp: turn_def harness_turn_def harness_session_def turn_refusal_def check_def given_def
        input_items_def ask_server_def bind_op_def Let_def)
  ultimately show "\<exists>params. asked (snd (turn p harness_turn st [] [] (harness_session []))) = [(''turn/start'', params)]
     \<and> map_of params ''approvalPolicy'' = Some (Some (JStr ''never''))
     \<and> map_of params ''sandboxPolicy'' = Some (Some (JObj []))"
    using turn_is_fenced [OF t] by (auto simp: harness_turn_def harness_session_def given_def)
qed

theorem summary_is_never_the_record_witness:
  "fst (items_from (Some (JObj [(''itemsView'', JStr ''summary''), (''items'', JArr [JStr ''last''])])) []) = []"
  using summary_is_never_the_record [of "Some (JObj [(''itemsView'', JStr ''summary''), (''items'', JArr [JStr ''last''])])" "[]"]
  by (simp add: is_text_def member_at_def member_of_def members_of_def streamed_items_def)

theorem installed_is_verified_witness:
  "\<exists>binary digest g d. install length_platform sample_machine sample_install empty_disk = (Inr (Installed binary digest g), d)
     \<and> map_of (written d) binary = Some ''x''"
proof -
  have u: "unpack length_platform sample_machine sample_install (JObj [(''signed_blob_sha256'', JStr (length_digest ''x''))])
      = Inr (Inr ''x'')"
    by (simp add: unpack_def sample_machine_def sample_archive_def single_file_from_tar_def parse_octal_def octal_def
        ascii_space_def js_space_def length_platform_def member_at_def member_of_def members_of_def asset_path_def sample_install_def Let_def)
  have "\<exists>binary digest g d. install length_platform sample_machine sample_install empty_disk = (Inr (Installed binary digest g), d)
     \<and> map_of (written d) binary = Some ''x''"
    using u
    by (simp add: Let_def install_def sample_install_def missing_arguments_def given_def sample_machine_def generate_protocol_schema_def
        leaves_others_def sample_document_def dir_at_def empty_disk_def check_protocol_schema_def pin_fault_def
        full_schema_methods or_else_def nullish_def member_at_def member_of_def members_of_def put_dir_def)
  then obtain binary digest g d where
    i: "install length_platform sample_machine sample_install empty_disk = (Inr (Installed binary digest g), d)"
    "map_of (written d) binary = Some ''x''" by blast
  from installed_is_verified [OF i(1)] i show ?thesis by auto
qed

lemma sample_files:
  "files_in p [sample_document] = [(schema_document_name, ''{}'')]"
  "set (files_in p (put_entry (File_Entry manifest_name t) [sample_document])) =
     {(schema_document_name, ''{}''), (manifest_name, t)}"
  by (auto simp: files_in_def sample_document_def put_entry_def schema_document_name_def manifest_name_def)

lemma sample_bytes:
  "snd ` set (files_in p [sample_document]) \<union> snd ` set (files_in p (put_entry (File_Entry manifest_name t) [sample_document]))
   = {''{}'', t}"
  by (auto simp: sample_files)

lemma length_sample_manifest: "length (bundle_manifest length_platform [sample_document]) = 105"
  by (simp add: bundle_manifest_def manifest_lines_def manifest_line_def sample_files length_platform_def length_digest_def
      schema_document_name_def)

lemma length_second_manifest:
  "length (bundle_manifest length_platform (put_entry (File_Entry manifest_name t) [sample_document])) = 187"
  by (simp add: bundle_manifest_def manifest_lines_def manifest_line_def files_in_def put_entry_def sample_document_def
      by_name_def length_platform_def length_digest_def schema_document_name_def manifest_name_def)

theorem second_bundle_differs_witness:
  "\<exists>g d g1 d1. generate_protocol_schema length_platform leaves_others ''x'' ''/s'' empty_disk = (Inr g, d)
     \<and> generate_protocol_schema length_platform leaves_others ''x'' ''/s'' d = (Inr g1, d1)
     \<and> gs_bundle_sha g1 \<noteq> gs_bundle_sha g"
proof -
  let ?m = "bundle_manifest length_platform [sample_document]"
  let ?es = "put_entry (File_Entry manifest_name ?m) [sample_document]"
  define d where "d = put_dir ''/s'' ?es empty_disk"
  have dir: "dir_at empty_disk ''/s'' = []" "dir_at d ''/s'' = ?es"
    by (simp_all add: dir_at_def put_dir_def empty_disk_def d_def)
  have found: "find (\<lambda>e. entry_name e = schema_document_name) [sample_document] = Some (File_Entry schema_document_name ''{}'')"
    "find (\<lambda>e. entry_name e = schema_document_name) ?es = Some (File_Entry schema_document_name ''{}'')" "?es \<noteq> []"
    by (simp_all add: sample_document_def put_entry_def manifest_name_def schema_document_name_def)
  obtain g where g: "generate_protocol_schema length_platform leaves_others ''x'' ''/s'' empty_disk = (Inr g, d)"
    using found by (simp add: generate_protocol_schema_def leaves_others_def dir d_def)
  obtain g1 d1 where g1: "generate_protocol_schema length_platform leaves_others ''x'' ''/s'' d = (Inr g1, d1)"
    using found by (simp add: generate_protocol_schema_def leaves_others_def dir)
  have lengths: "length ?m mod 65 = 40" "length (bundle_manifest length_platform ?es) mod 65 = 57" "length ''{}'' mod 65 = 2"
    by (simp_all add: length_sample_manifest length_second_manifest)
  have inj: "inj_on (sha256_hex length_platform) (insert ?m (insert (bundle_manifest length_platform (dir_at d ''/s''))
      (snd ` set (files_in length_platform [sample_document]) \<union> snd ` set (files_in length_platform (dir_at d ''/s'')))))"
  proof -
    have "insert m (insert m2 {t, m}) = {m, m2, t}" for m m2 t :: string by blast
    then show ?thesis
      using length_digest_inj [of ?m "bundle_manifest length_platform ?es" "''{}''"] lengths
      unfolding dir(2) sample_bytes length_platform_hash by (simp only:)
  qed
  have names: "CHR 0x0A \<notin> set schema_document_name" "CHR 0x0A \<notin> set manifest_name" "schema_document_name \<noteq> manifest_name"
    by (simp_all add: schema_document_name_def manifest_name_def)
  have clean: "clean_paths length_platform [sample_document]" "clean_paths length_platform (dir_at d ''/s'')"
    using names by (simp_all only: clean_paths_def dir sample_files list_all_iff) auto
  have gen: "leaves_others ''x'' (dir_at empty_disk ''/s'') = Inr [sample_document]"
    "leaves_others ''x'' (dir_at d ''/s'') = Inr (dir_at d ''/s'')"
    using found(3) by (simp_all add: leaves_others_def dir)
  have doc: "File_Entry schema_document_name ''{}'' \<in> set [sample_document]"
    "list_all (\<lambda>e. entry_name e \<noteq> manifest_name) [sample_document]"
    using names by (simp_all add: sample_document_def)
  have "gs_bundle_sha g1 \<noteq> gs_bundle_sha g"
    by (rule second_bundle_differs [OF length_digests doc gen(1) g gen(2) g1 clean inj])
  with g g1 show ?thesis by blast
qed

end
