(* ===== verification/Program_Result.thy ===== *)
theory Program_Result
  imports Masking Reply_Tool
begin

text \<open>
  What the program harness takes from its handler (\<open>harness/program/index.ts\<close>): one JSON document on
  stdout, checked member by member and rebuilt from what was checked. \<open>JSON.parse\<close> of the decoded
  bytes is the argument \<open>parse\<close> (\<open>None\<close> where it throws), the working directory of the process is
  \<open>cwd\<close>. A number that JSON writes beyond the range of a double is outside the model.
\<close>

section \<open>Paths\<close>

text \<open>\<open>path.relative(from, to)\<close> of two resolved paths, segment by segment.\<close>

fun path_relative :: "string list \<Rightarrow> string list \<Rightarrow> string list" where
  "path_relative (a # as) (b # bs) =
     (if a = b then path_relative as bs else replicate (Suc (length as)) ''..'' @ b # bs)"
| "path_relative as bs = replicate (length as) ''..'' @ bs"

definition contained :: "string list \<Rightarrow> string list \<Rightarrow> bool" where
  "contained root candidate =
     (let rel = join ''/'' (path_relative root candidate) in
      rel = [] \<or> \<not> starts_with ''..'' rel \<and> \<not> starts_with ''/'' rel)"

definition is_absolute :: "string \<Rightarrow> bool" where
  "is_absolute t = starts_with ''/'' t"

definition under_work :: "string list \<Rightarrow> string \<Rightarrow> string \<Rightarrow> bool" where
  "under_work cwd work given = contained (path_resolve cwd [work]) (path_resolve cwd [given])"

section \<open>The members of a result\<close>

record program_reply =
  pr_conversation :: "json option"
  pr_request :: "json option"
  pr_text :: string
  pr_attachments :: "string list option"
  pr_job :: "string option"
  pr_move :: "string option"

datatype program_disposition = Program_Reply | Program_No_Reply | Program_Missing_Case

record program_body =
  pb_disposition :: program_disposition
  pb_replies :: "program_reply list"
  pb_observations :: "(string \<times> string) list"
  pb_timings :: "(string \<times> json) list"

definition invalid :: "string \<Rightarrow> exn + 'a" where
  "invalid subj = Inl (Program_Fault (Fault ''PROGRAM_RESPONSE_INVALID'' subj))"

definition validate_attachments :: "string list \<Rightarrow> string \<Rightarrow> json \<Rightarrow> exn + string list" where
  "validate_attachments cwd work v =
     (case v of
        JArr xs \<Rightarrow>
          if 100 < length xs then invalid ''replies[0].attachments''
          else map_res (\<lambda>x. case x of
                   JStr t \<Rightarrow> if is_absolute t \<and> under_work cwd work t then Inr t else invalid ''replies[0].attachments''
                 | _ \<Rightarrow> invalid ''replies[0].attachments'') xs
      | _ \<Rightarrow> invalid ''replies[0].attachments'')"

definition optional_string :: "members \<Rightarrow> string \<Rightarrow> exn + string option" where
  "optional_string ms name =
     (case map_of ms name of
        None \<Rightarrow> Inr None
      | Some (JStr t) \<Rightarrow> Inr (Some t)
      | Some _ \<Rightarrow> invalid (''replies[0].'' @ name))"

definition reply_text_ok :: "json option \<Rightarrow> bool" where
  "reply_text_ok v = (case v of Some (JStr t) \<Rightarrow> 1 \<le> js_length t \<and> js_length t \<le> 10000 | _ \<Rightarrow> False)"

definition validate_reply :: "string list \<Rightarrow> json option \<Rightarrow> string \<Rightarrow> json \<Rightarrow> exn + program_reply" where
  "validate_reply cwd envelope work reply =
     (case reply of
        JObj ms \<Rightarrow>
          if nullish envelope then Inl Type_Error
          else if \<not> strict_eq (map_of ms ''conversation_id'') (member_at envelope ''conversation_id'')
          then invalid ''replies[0].conversation_id''
          else if \<not> strict_eq (map_of ms ''request_id'') (member_at envelope ''release_id'')
          then invalid ''replies[0].request_id''
          else if \<not> reply_text_ok (map_of ms ''text'') then invalid ''replies[0].text''
          else
            bind_res (case map_of ms ''attachments'' of
                        None \<Rightarrow> Inr None
                      | Some v \<Rightarrow> bind_res (validate_attachments cwd work v) (\<lambda>xs. Inr (Some xs)))
              (\<lambda>atts. bind_res (optional_string ms ''about_job'') (\<lambda>job.
                 bind_res (optional_string ms ''about_move'') (\<lambda>move.
                   Inr \<lparr>pr_conversation = map_of ms ''conversation_id'', pr_request = map_of ms ''request_id'',
                        pr_text = the (text_value (map_of ms ''text'')), pr_attachments = atts,
                        pr_job = job, pr_move = move\<rparr>)))
      | _ \<Rightarrow> invalid ''replies[0]'')"

text \<open>\<open>typeof item === 'object'\<close> of a value that is not null: a list passes here and has no \<open>name\<close>.\<close>

definition is_record :: "json \<Rightarrow> bool" where
  "is_record v = (case v of JObj _ \<Rightarrow> True | JArr _ \<Rightarrow> True | _ \<Rightarrow> False)"

definition name_ok :: "json option \<Rightarrow> bool" where
  "name_ok v = (case v of Some (JStr t) \<Rightarrow> 1 \<le> js_length t \<and> js_length t \<le> 64 | _ \<Rightarrow> False)"

definition one_observation :: "json \<Rightarrow> exn + string \<times> string" where
  "one_observation item =
     (if \<not> is_record item then invalid ''observations''
      else if \<not> name_ok (member_of item ''name'') then invalid ''observations.name''
      else (case (text_value (member_of item ''name''), text_value (member_of item ''detail'')) of
              (Some name, Some detail) \<Rightarrow>
                if 500 < js_length detail then invalid ''observations.detail'' else Inr (name, detail)
            | _ \<Rightarrow> invalid ''observations.detail''))"

definition duration_ok :: "json option \<Rightarrow> bool" where
  "duration_ok v = (case v of Some (JInt i) \<Rightarrow> 0 \<le> i | Some (JFloat n d) \<Rightarrow> 0 \<le> n | _ \<Rightarrow> False)"

definition one_timing :: "json \<Rightarrow> exn + string \<times> json" where
  "one_timing item =
     (if \<not> is_record item then invalid ''timings''
      else if \<not> name_ok (member_of item ''name'') then invalid ''timings.name''
      else if \<not> duration_ok (member_of item ''ms'') then invalid ''timings.ms''
      else Inr (the (text_value (member_of item ''name'')), the (member_of item ''ms'')))"

definition validate_rows :: "string \<Rightarrow> (json \<Rightarrow> exn + 'a) \<Rightarrow> json \<Rightarrow> exn + 'a list" where
  "validate_rows subj one v =
     (case v of JArr xs \<Rightarrow> if 32 < length xs then invalid subj else map_res one xs | _ \<Rightarrow> invalid subj)"

definition validate_observations :: "json \<Rightarrow> exn + (string \<times> string) list" where
  "validate_observations = validate_rows ''observations'' one_observation"

definition validate_timings :: "json \<Rightarrow> exn + (string \<times> json) list" where
  "validate_timings = validate_rows ''timings'' one_timing"

section \<open>The result\<close>

definition dispositions :: "(string \<times> program_disposition) list" where
  "dispositions = [(''reply'', Program_Reply), (''no_reply'', Program_No_Reply), (''missing_case'', Program_Missing_Case)]"

definition disposition_in :: "members \<Rightarrow> program_disposition option" where
  "disposition_in ms = (case map_of ms ''disposition'' of Some (JStr t) \<Rightarrow> map_of dispositions t | _ \<Rightarrow> None)"

definition validate_result :: "string list \<Rightarrow> json option \<Rightarrow> string \<Rightarrow> json \<Rightarrow> exn + program_body" where
  "validate_result cwd envelope work doc =
     (case doc of
        JObj ms \<Rightarrow>
          if map_of ms ''schema'' \<noteq> Some (JStr ''carbon.program-result.v1'') then invalid ''schema''
          else (case (disposition_in ms, map_of ms ''replies'') of
              (None, _) \<Rightarrow> invalid ''disposition''
            | (Some dis, Some (JArr replies)) \<Rightarrow>
                if length replies \<noteq> (if dis = Program_Reply then 1 else 0) then invalid ''replies''
                else bind_res (map_res (validate_reply cwd envelope work) replies) (\<lambda>rs.
                  bind_res (validate_observations (or_else (map_of ms ''observations'') (JArr []))) (\<lambda>obs.
                  bind_res (validate_timings (or_else (map_of ms ''timings'') (JArr []))) (\<lambda>tms.
                    Inr \<lparr>pb_disposition = dis, pb_replies = rs, pb_observations = obs, pb_timings = tms\<rparr>)))
            | (Some dis, _) \<Rightarrow> invalid ''replies'')
      | _ \<Rightarrow> invalid ''stdout'')"

definition parse_program_result ::
  "string list \<Rightarrow> (nat list \<Rightarrow> json option) \<Rightarrow> nat list \<Rightarrow> json option \<Rightarrow> string \<Rightarrow> exn + program_body" where
  "parse_program_result cwd parse t envelope work =
     (case parse t of None \<Rightarrow> invalid ''stdout'' | Some doc \<Rightarrow> validate_result cwd envelope work doc)"

section \<open>What a result that was taken looks like\<close>

definition fenced_attachments :: "string list \<Rightarrow> string \<Rightarrow> string list option \<Rightarrow> bool" where
  "fenced_attachments cwd work atts =
     (case atts of None \<Rightarrow> True
      | Some xs \<Rightarrow> length xs \<le> 100 \<and> list_all (\<lambda>t. is_absolute t \<and> under_work cwd work t) xs)"

definition fenced_reply :: "string list \<Rightarrow> json option \<Rightarrow> string \<Rightarrow> program_reply \<Rightarrow> bool" where
  "fenced_reply cwd envelope work r \<longleftrightarrow>
     \<not> nullish envelope
     \<and> strict_eq (pr_conversation r) (member_at envelope ''conversation_id'')
     \<and> strict_eq (pr_request r) (member_at envelope ''release_id'')
     \<and> 1 \<le> js_length (pr_text r) \<and> js_length (pr_text r) \<le> 10000
     \<and> fenced_attachments cwd work (pr_attachments r)"

definition short_name :: "string \<Rightarrow> bool" where
  "short_name t \<longleftrightarrow> 1 \<le> js_length t \<and> js_length t \<le> 64"

definition fenced_body :: "string list \<Rightarrow> json option \<Rightarrow> string \<Rightarrow> program_body \<Rightarrow> bool" where
  "fenced_body cwd envelope work b \<longleftrightarrow>
     length (pb_replies b) = (if pb_disposition b = Program_Reply then 1 else 0)
     \<and> list_all (fenced_reply cwd envelope work) (pb_replies b)
     \<and> length (pb_observations b) \<le> 32
     \<and> list_all (\<lambda>(n, detail). short_name n \<and> js_length detail \<le> 500) (pb_observations b)
     \<and> length (pb_timings b) \<le> 32
     \<and> list_all (\<lambda>(n, t). short_name n \<and> duration_ok (Some t)) (pb_timings b)"

text \<open>The document a handler prints for such a result.\<close>

definition optional_member :: "string \<Rightarrow> json option \<Rightarrow> members" where
  "optional_member name v = (case v of None \<Rightarrow> [] | Some x \<Rightarrow> [(name, x)])"

definition reply_document :: "program_reply \<Rightarrow> json" where
  "reply_document r = JObj
     (optional_member ''conversation_id'' (pr_conversation r) @ optional_member ''request_id'' (pr_request r)
      @ [(''text'', JStr (pr_text r))]
      @ optional_member ''attachments'' (map_option (JArr \<circ> map JStr) (pr_attachments r))
      @ optional_member ''about_job'' (map_option JStr (pr_job r))
      @ optional_member ''about_move'' (map_option JStr (pr_move r)))"

definition disposition_text :: "program_disposition \<Rightarrow> string" where
  "disposition_text dis =
     (case dis of Program_Reply \<Rightarrow> ''reply'' | Program_No_Reply \<Rightarrow> ''no_reply'' | Program_Missing_Case \<Rightarrow> ''missing_case'')"

definition result_document :: "program_body \<Rightarrow> json" where
  "result_document b = JObj
     [(''schema'', JStr ''carbon.program-result.v1''), (''disposition'', JStr (disposition_text (pb_disposition b))),
      (''replies'', JArr (map reply_document (pb_replies b))),
      (''observations'', JArr (map (\<lambda>(n, detail). JObj [(''name'', JStr n), (''detail'', JStr detail)]) (pb_observations b))),
      (''timings'', JArr (map (\<lambda>(n, t). JObj [(''name'', JStr n), (''ms'', t)]) (pb_timings b)))]"

section \<open>Lemmas\<close>

lemma invalid_not_Inr [simp]: "invalid s \<noteq> Inr x" "Inr x \<noteq> invalid s"
  by (simp_all add: invalid_def)

lemma join_head: "join ''/'' (w # ws) = w @ (if ws = [] then [] else CHR ''/'' # join ''/'' ws)"
  by (cases ws) simp_all

lemma relative_climbs: "path_relative root c = ws \<Longrightarrow> (\<exists>zs. c = root @ zs \<and> ws = zs) \<or> (\<exists>vs. ws = ''..'' # vs)"
proof (induction root arbitrary: c)
  case (Cons a root)
  then show ?case by (cases c) (auto split: if_splits)
qed simp

lemma contained_below:
  assumes "contained root c"
  shows "\<exists>zs. c = root @ zs"
proof -
  have "\<not> (\<exists>vs. path_relative root c = ''..'' # vs)"
    using assms by (auto simp: contained_def Let_def join_head)
  with relative_climbs [of root c] show ?thesis by blast
qed

lemma relative_below [simp]: "path_relative root (root @ zs) = zs"
  by (induction root) (cases zs, simp_all)

text \<open>A name that begins with two dots is refused although it does not climb.\<close>

lemma relative_self [simp]: "path_relative root root = []"
  using relative_below [of root "[]"] by simp

lemma contained_iff:
  assumes "no_slash zs"
  shows "contained root (root @ zs) \<longleftrightarrow> zs = [] \<or> \<not> starts_with ''..'' (hd zs)"
proof (cases zs)
  case (Cons z rest)
  with assms obtain c u where z: "z = c # u" and c: "c \<noteq> CHR ''/''" by (cases z) auto
  then show ?thesis using Cons assms
    by (cases u) (auto simp: contained_def Let_def join_head)
qed (simp add: contained_def Let_def)

lemma map_res_Inr_iff: "map_res f xs = Inr ys \<longleftrightarrow> list_all2 (\<lambda>x y. f x = Inr y) xs ys"
proof (induction xs arbitrary: ys)
  case (Cons x xs)
  show ?case
  proof (cases ys)
    case (Cons y ys')
    then show ?thesis using Cons.IH [of ys'] by (auto split: sum.splits)
  qed (auto split: sum.splits)
qed auto

lemma list_all2_right: "list_all2 Q xs ys \<Longrightarrow> (\<And>x y. Q x y \<Longrightarrow> P y) \<Longrightarrow> list_all P ys \<and> length ys = length xs"
  by (induction rule: list_all2_induct) auto

lemma validate_attachments_fenced:
  assumes "validate_attachments cwd work v = Inr xs"
  shows "fenced_attachments cwd work (Some xs)"
  using assms unfolding validate_attachments_def fenced_attachments_def
  by (auto simp: map_res_Inr_iff split: json.splits if_splits dest!: list_all2_right
        [where P = "\<lambda>t. is_absolute t \<and> under_work cwd work t"])

lemma validate_reply_fenced: "validate_reply cwd envelope work v = Inr r \<Longrightarrow> fenced_reply cwd envelope work r"
  unfolding validate_reply_def fenced_reply_def
  by (auto simp: bind_res_Inr_iff reply_text_ok_def text_value_def fenced_attachments_def
      split: json.splits if_splits option.splits dest: validate_attachments_fenced)

lemma one_observation_short:
  "one_observation v = Inr (n, detail) \<Longrightarrow> short_name n \<and> js_length detail \<le> 500"
  unfolding one_observation_def short_name_def name_ok_def text_value_def
  by (auto split: if_splits option.splits json.splits)

lemma one_timing_short: "one_timing v = Inr (n, t) \<Longrightarrow> short_name n \<and> duration_ok (Some t)"
  unfolding one_timing_def short_name_def name_ok_def text_value_def duration_ok_def
  by (auto split: if_splits option.splits json.splits)

lemma validate_rows_all:
  assumes "validate_rows s one v = Inr xs" and "\<And>v x. one v = Inr x \<Longrightarrow> P x"
  shows "length xs \<le> 32 \<and> list_all P xs"
  using assms unfolding validate_rows_def
  by (auto simp: map_res_Inr_iff split: json.splits if_splits dest!: list_all2_right [where P = P])

lemma validate_result_fenced:
  assumes "validate_result cwd envelope work doc = Inr b"
  shows "fenced_body cwd envelope work b"
proof -
  from assms obtain ms dis replies rs obs tms where
    len: "length replies = (if dis = Program_Reply then 1 else 0)"
    and rs: "map_res (validate_reply cwd envelope work) replies = Inr rs"
    and obs: "validate_observations (or_else (map_of ms ''observations'') (JArr [])) = Inr obs"
    and tms: "validate_timings (or_else (map_of ms ''timings'') (JArr [])) = Inr tms"
    and b: "b = \<lparr>pb_disposition = dis, pb_replies = rs, pb_observations = obs, pb_timings = tms\<rparr>"
    unfolding validate_result_def
    by (auto simp: bind_res_Inr_iff Let_def split: json.splits option.splits if_split_asm simp del: length_0_conv) force+
  from rs have "list_all (fenced_reply cwd envelope work) rs \<and> length rs = length replies"
    using list_all2_right [of "\<lambda>x y. validate_reply cwd envelope work x = Inr y" replies rs] validate_reply_fenced
    by (simp add: map_res_Inr_iff)
  moreover have "length obs \<le> 32 \<and> list_all (\<lambda>(n, detail). short_name n \<and> js_length detail \<le> 500) obs"
    using obs unfolding validate_observations_def by (rule validate_rows_all) (auto dest: one_observation_short)
  moreover have "length tms \<le> 32 \<and> list_all (\<lambda>(n, t). short_name n \<and> duration_ok (Some t)) tms"
    using tms unfolding validate_timings_def by (rule validate_rows_all) (auto dest: one_timing_short)
  ultimately show ?thesis using len by (simp add: fenced_body_def b)
qed

lemma fenced_attachments_accepted:
  "fenced_attachments cwd work (Some xs) \<Longrightarrow> validate_attachments cwd work (JArr (map JStr xs)) = Inr xs"
  using map_res_all_ok [of "map JStr xs" _ "\<lambda>x. the (text_value (Some x))"]
  by (auto simp: fenced_attachments_def validate_attachments_def map_res_Inr_iff list_all2_map1 list_all_iff
      intro: list.rel_refl_strong)

lemma fenced_reply_accepted:
  assumes "fenced_reply cwd envelope work r"
  shows "validate_reply cwd envelope work (reply_document r) = Inr r"
proof -
  obtain conv req t atts job move where r: "r = \<lparr>pr_conversation = conv, pr_request = req, pr_text = t,
      pr_attachments = atts, pr_job = job, pr_move = move\<rparr>" by (cases r) auto
  define ms where "ms = optional_member ''conversation_id'' conv @ optional_member ''request_id'' req
      @ [(''text'', JStr t)] @ optional_member ''attachments'' (map_option (JArr \<circ> map JStr) atts)
      @ optional_member ''about_job'' (map_option JStr job) @ optional_member ''about_move'' (map_option JStr move)"
  have "map_of ms ''conversation_id'' = conv" "map_of ms ''request_id'' = req" "map_of ms ''text'' = Some (JStr t)"
    "map_of ms ''attachments'' = map_option (JArr \<circ> map JStr) atts"
    "map_of ms ''about_job'' = map_option JStr job" "map_of ms ''about_move'' = map_option JStr move"
    unfolding ms_def optional_member_def by (simp_all split: option.split)
  moreover have "reply_document r = JObj ms" by (simp add: r ms_def reply_document_def)
  ultimately show ?thesis using assms fenced_attachments_accepted [of cwd work]
    by (cases atts; cases job; cases move)
      (simp_all add: r validate_reply_def fenced_reply_def reply_text_ok_def optional_string_def text_value_def)
qed

lemma fenced_result_accepted:
  assumes "fenced_body cwd envelope work b"
  shows "validate_result cwd envelope work (result_document b) = Inr b"
proof -
  have "map_res one_observation (map (\<lambda>(n, detail). JObj [(''name'', JStr n), (''detail'', JStr detail)]) (pb_observations b))
      = Inr (pb_observations b)"
    using assms by (auto simp: map_res_Inr_iff list_all2_map1 list_all_iff fenced_body_def short_name_def
        one_observation_def is_record_def name_ok_def member_of_def members_of_def text_value_def intro!: list.rel_refl_strong)
  moreover have "map_res one_timing (map (\<lambda>(n, t). JObj [(''name'', JStr n), (''ms'', t)]) (pb_timings b)) = Inr (pb_timings b)"
    using assms by (auto simp: map_res_Inr_iff list_all2_map1 list_all_iff fenced_body_def short_name_def
        one_timing_def is_record_def name_ok_def member_of_def members_of_def text_value_def intro!: list.rel_refl_strong)
  moreover have "map_res (validate_reply cwd envelope work) (map reply_document (pb_replies b)) = Inr (pb_replies b)"
    using assms by (auto simp: map_res_Inr_iff list_all2_map1 list_all_iff fenced_body_def fenced_reply_accepted
        intro!: list.rel_refl_strong)
  moreover have "disposition_in ms = Some (pb_disposition b)"
    if "map_of ms ''disposition'' = Some (JStr (disposition_text (pb_disposition b)))" for ms
    using that by (cases "pb_disposition b") (simp_all add: disposition_in_def disposition_text_def dispositions_def)
  ultimately show ?thesis
    using assms by (simp add: result_document_def validate_result_def fenced_body_def validate_observations_def
        validate_timings_def validate_rows_def or_else_def nullish_def)
qed

section \<open>The typed result\<close>

text \<open>C24. A handler's output is taken as a result only in the declared shape: one reply for the disposition
  \<open>reply\<close> and none for another, for the conversation and the release of the envelope, within the bounds,
  and every attachment resolves to a path under the work directory.\<close>

theorem parsed_result_is_fenced:
  assumes "parse_program_result cwd parse t envelope work = Inr b"
  shows "fenced_body cwd envelope work b
    \<and> list_all (\<lambda>r. \<forall>given \<in> set (case pr_attachments r of None \<Rightarrow> [] | Some xs \<Rightarrow> xs).
        \<exists>rest. path_resolve cwd [given] = path_resolve cwd [work] @ rest) (pb_replies b)"
proof -
  from assms obtain doc where "validate_result cwd envelope work doc = Inr b"
    by (auto simp: parse_program_result_def split: option.splits)
  then have fb: "fenced_body cwd envelope work b" by (rule validate_result_fenced)
  moreover have "\<exists>rest. path_resolve cwd [given] = path_resolve cwd [work] @ rest"
    if "r \<in> set (pb_replies b)" and "given \<in> set (case pr_attachments r of None \<Rightarrow> [] | Some xs \<Rightarrow> xs)" for r given
  proof -
    from fb that(1) have "fenced_attachments cwd work (pr_attachments r)"
      by (simp add: fenced_body_def list_all_iff fenced_reply_def)
    with that(2) have "under_work cwd work given"
      by (auto simp: fenced_attachments_def list_all_iff split: option.splits)
    then show ?thesis unfolding under_work_def by (rule contained_below)
  qed
  ultimately show ?thesis by (simp add: list_all_iff)
qed

text \<open>C25. And nothing else is asked of it: the document of any result of that shape is parsed to that
  result, with no member lost.\<close>

theorem fenced_result_round_trip:
  assumes "fenced_body cwd envelope work b" and "parse t = Some (result_document b)"
  shows "parse_program_result cwd parse t envelope work = Inr b"
  using fenced_result_accepted [OF assms(1)] assms(2) by (simp add: parse_program_result_def)

end
