(* ===== verification/Program_Sandbox.thy ===== *)
theory Program_Sandbox
  imports Program_Result Release_Rules
begin

text \<open>
  What the program harness lets its child see (\<open>harness/program/index.ts\<close>): the entrypoint inside the
  pinned checkout, the mounts of the sandbox, and the secrets that are delivered through the environment
  and taken out of every text. The host is a parameter: its file system (the calls of \<open>node:fs\<close>, \<open>None\<close>
  where they throw), its environment and its answer to the probe of \<open>bwrap\<close>. The declaration has passed its
  schema, so what the code walks as a list is one.
\<close>

section \<open>The host\<close>

datatype file_kind = Regular_File | Directory | Symbolic_Link | Other_File

record host =
  h_env :: "(string \<times> string) list"
  h_cwd :: "string list"
  h_realpath :: "string \<Rightarrow> string list option"
  h_lstat :: "string \<Rightarrow> file_kind option"
  h_stat :: "string \<Rightarrow> file_kind option"
  h_read :: "string \<Rightarrow> string option"
  h_has_setpriv :: bool
  h_runs :: "string list \<Rightarrow> bool"

definition program_refused :: "string \<Rightarrow> string \<Rightarrow> exn + 'a" where
  "program_refused c subj = Inl (Program_Fault (Fault c subj))"

lemma program_refused_not_Inr [simp]: "program_refused c s \<noteq> Inr x" "Inr x \<noteq> program_refused c s"
  by (simp_all add: program_refused_def)

section \<open>The entrypoint\<close>

definition alnum :: "char \<Rightarrow> bool" where
  "alnum c \<longleftrightarrow> (48 \<le> byte_of c \<and> byte_of c \<le> 57) \<or> (65 \<le> byte_of c \<and> byte_of c \<le> 90) \<or> (97 \<le> byte_of c \<and> byte_of c \<le> 122)"

text \<open>\<open>[A-Za-z0-9][A-Za-z0-9._-]*\<close>, and the whole pattern on the parts between slashes.\<close>

definition entry_part :: "string \<Rightarrow> bool" where
  "entry_part w \<longleftrightarrow> w \<noteq> [] \<and> alnum (hd w) \<and> list_all (\<lambda>c. alnum c \<or> c = CHR ''.'' \<or> c = CHR ''_'' \<or> c = CHR ''-'') w"

definition entrypoint_pattern :: "string \<Rightarrow> bool" where
  "entrypoint_pattern t =
     (let parts = split_on (CHR ''/'') t in
      list_all entry_part parts \<and> (ends_with ''.mjs'' (last parts) \<or> ends_with ''.ts'' (last parts)))"

definition climbs :: "string \<Rightarrow> bool" where
  "climbs t \<longleftrightarrow> ''..'' \<in> set (split_on (CHR ''/'') (map (\<lambda>c. if c = CHR 0x5C then CHR ''/'' else c) t))"

fun walk_parts :: "host \<Rightarrow> string \<Rightarrow> string list \<Rightarrow> string list \<Rightarrow> exn + string list" where
  "walk_parts h entrypoint at [] = Inr at"
| "walk_parts h entrypoint at (part # parts) =
     (let next = push_segment at part in
      case h_lstat h (path_text next) of
        None \<Rightarrow> program_refused ''PROGRAM_ENTRYPOINT_MISSING'' entrypoint
      | Some Symbolic_Link \<Rightarrow> program_refused ''PROGRAM_ENTRYPOINT_SYMLINK'' entrypoint
      | Some _ \<Rightarrow> walk_parts h entrypoint next parts)"

definition resolve_entrypoint :: "platform \<Rightarrow> host \<Rightarrow> json option \<Rightarrow> json option \<Rightarrow> exn + string list" where
  "resolve_entrypoint p h checkout entrypoint =
     (case text_value entrypoint of
        None \<Rightarrow> program_refused ''PROGRAM_ENTRYPOINT_REFUSED'' (string_of p entrypoint)
      | Some t \<Rightarrow>
          if is_absolute t \<or> climbs t \<or> \<not> entrypoint_pattern t
          then program_refused ''PROGRAM_ENTRYPOINT_REFUSED'' t
          else (case h_realpath h (string_of p checkout) of
              None \<Rightarrow> program_refused ''PROGRAM_ENTRYPOINT_UNPINNED'' (string_of p checkout)
            | Some pin \<Rightarrow>
                bind_res (walk_parts h t pin (split_on (CHR ''/'') t)) (\<lambda>at.
                  case h_stat h (path_text at) of
                    None \<Rightarrow> Inl Io_Error
                  | Some kind \<Rightarrow>
                      if kind \<noteq> Regular_File then program_refused ''PROGRAM_ENTRYPOINT_ESCAPES'' t
                      else (case h_realpath h (path_text at) of
                          None \<Rightarrow> Inl Io_Error
                        | Some real \<Rightarrow>
                            if \<not> contained pin real then program_refused ''PROGRAM_ENTRYPOINT_ESCAPES'' t else Inr at))))"

section \<open>The environment of the child\<close>

definition program_inherited :: "string list" where
  "program_inherited = [''PATH'', ''HOME'', ''LANG'', ''TMPDIR'']"

definition program_env :: "host \<Rightarrow> (string \<times> string) list \<Rightarrow> (string \<times> string) list" where
  "program_env h secrets =
     fold (\<lambda>(k, v). AList.update k v) secrets
       (concat (map (\<lambda>n. case map_of (h_env h) n of None \<Rightarrow> [] | Some v \<Rightarrow> [(n, v)]) program_inherited))"

section \<open>The deny list\<close>

text \<open>The lines of a text as \<open>^\<close> and \<open>$\<close> see them under the flag m.\<close>

function js_lines :: "string \<Rightarrow> string list" where
  "js_lines [] = [[]]"
| "js_lines (c # s) =
     (if c = CHR 0x0A \<or> c = CHR 0x0D then [] # js_lines s
      else if starts_with [CHR 0xE2, CHR 0x80, CHR 0xA8] (c # s) \<or> starts_with [CHR 0xE2, CHR 0x80, CHR 0xA9] (c # s)
      then [] # js_lines (drop 2 s)
      else (c # hd (js_lines s)) # tl (js_lines s))"
  by pat_completeness auto
termination
  by (relation "measure length") auto

declare js_lines.simps(2) [simp del]

definition deny_read_of :: "string \<Rightarrow> string option" where
  "deny_read_of line =
     (if starts_with ''deny_read = ['' line \<and> ends_with '']'' line \<and> 14 \<le> length line
      then Some (butlast (drop 13 line)) else None)"

function quoted_texts :: "string \<Rightarrow> string list" where
  "quoted_texts t =
     (case dropWhile (\<lambda>c. c \<noteq> CHR 0x22) t of
        [] \<Rightarrow> []
      | q # rest \<Rightarrow>
          (case dropWhile (\<lambda>c. c \<noteq> CHR 0x22) rest of
             [] \<Rightarrow> [] | r # behind \<Rightarrow> takeWhile (\<lambda>c. c \<noteq> CHR 0x22) rest # quoted_texts behind))"
  by pat_completeness auto
termination
proof (relation "measure length")
  fix t :: string and q rest r behind
  assume q: "dropWhile (\<lambda>c. c \<noteq> CHR 0x22) t = q # rest" and r: "dropWhile (\<lambda>c. c \<noteq> CHR 0x22) rest = r # behind"
  from length_dropWhile_le [of _ t] q have "Suc (length rest) \<le> length t" by (metis length_Cons)
  moreover from length_dropWhile_le [of _ rest] r have "Suc (length behind) \<le> length rest" by (metis length_Cons)
  ultimately show "(behind, t) \<in> measure length" by simp
qed simp

declare quoted_texts.simps [simp del]

definition deny_paths :: "host \<Rightarrow> deny_gate \<Rightarrow> exn + string list" where
  "deny_paths h g =
     (case h_read h (dg_file g) of
        None \<Rightarrow> program_refused ''PROGRAM_SANDBOX_UNAVAILABLE'' (dg_file g)
      | Some t \<Rightarrow>
          (case find (\<lambda>l. deny_read_of l \<noteq> None) (js_lines t) of
             None \<Rightarrow> program_refused ''PROGRAM_SANDBOX_UNAVAILABLE'' (dg_file g)
           | Some l \<Rightarrow>
               (let paths = quoted_texts (the (deny_read_of l)) in
                if paths = [] \<or> \<not> list_all is_absolute paths
                then program_refused ''PROGRAM_SANDBOX_UNAVAILABLE'' (dg_file g) else Inr paths)))"

section \<open>The sandbox\<close>

record sandbox =
  sb_launcher :: "string list"
  sb_store_roots :: "string list list"
  sb_protected_roots :: "string list list"
  sb_secrets_dir :: "string list"

definition launcher_argv :: "host \<Rightarrow> string list" where
  "launcher_argv h = (if h_has_setpriv h then [''setpriv'', ''--no-new-privs'', ''bwrap''] else [''bwrap''])"

text \<open>\<open>[...new Set(xs)]\<close>.\<close>

definition each_once :: "'a list \<Rightarrow> 'a list" where
  "each_once xs = rev (remdups (rev xs))"

definition probe_args :: "string list" where
  "probe_args = [''--die-with-parent'', ''--unshare-pid'', ''--dev-bind'', ''/'', ''/'', ''--proc'', ''/proc'', ''/bin/true'']"

definition build_sandbox :: "host \<Rightarrow> deny_gate option \<Rightarrow> string option \<Rightarrow> string \<Rightarrow> string \<Rightarrow> exn + sandbox" where
  "build_sandbox h gate store_dir work checkout =
     (case gate of
        None \<Rightarrow> program_refused ''PROGRAM_SANDBOX_UNAVAILABLE'' ''sandboxDeny''
      | Some g \<Rightarrow>
          (let resolved = (\<lambda>t. path_resolve (h_cwd h) [t]);
               root = resolved (dg_root g);
               store_roots = [(case store_dir of None \<Rightarrow> root @ [''store''] | Some d \<Rightarrow> resolved d), root @ [''store'']] in
           bind_res (deny_paths h g) (\<lambda>denied.
             let roots = each_once (map resolved denied @ [root @ [''codex-home''], root @ [''secrets'']] @ store_roots) in
             case find (\<lambda>own. list_ex (\<lambda>one. contained one own) roots) [resolved work, resolved checkout] of
               Some own \<Rightarrow> program_refused ''PROGRAM_SANDBOX_UNAVAILABLE'' (path_text own)
             | None \<Rightarrow>
                 if \<not> h_runs h (launcher_argv h @ probe_args)
                 then program_refused ''PROGRAM_SANDBOX_UNAVAILABLE'' ''bwrap''
                 else Inr \<lparr>sb_launcher = launcher_argv h, sb_store_roots = store_roots,
                           sb_protected_roots = roots, sb_secrets_dir = root @ [''secrets'']\<rparr>)))"

text \<open>\<open>fs.existsSync\<close>, and the mounts that hide what exists.\<close>

definition existing_masks :: "host \<Rightarrow> sandbox \<Rightarrow> string list list" where
  "existing_masks h sb = filter (\<lambda>one. h_stat h (path_text one) \<noteq> None) (sb_protected_roots sb)"

definition mask_args :: "host \<Rightarrow> string list list \<Rightarrow> string list" where
  "mask_args h masks =
     concat (map (\<lambda>mask. if h_stat h (path_text mask) = Some Directory then [''--tmpfs'', path_text mask]
                         else [''--ro-bind'', ''/dev/null'', path_text mask]) masks)"

text \<open>\<open>xs.flatMap(f)\<close> of a value that is not a list yields the value itself; reading a member of null throws.\<close>

definition flat_items :: "json option \<Rightarrow> json list" where
  "flat_items v = (case v of Some (JArr xs) \<Rightarrow> xs | None \<Rightarrow> [] | Some JNull \<Rightarrow> [] | Some x \<Rightarrow> [x])"

definition envelope_attachments :: "json option \<Rightarrow> exn + json list" where
  "envelope_attachments envelope =
     (case or_else (member_at envelope ''messages'') (JArr []) of
        JArr ms \<Rightarrow>
          if JNull \<in> set ms then Inl Type_Error
          else (let items = concat (map (\<lambda>m. flat_items (member_of m ''attachments'')) ms) in
                if JNull \<in> set items then Inl Type_Error else Inr items)
      | _ \<Rightarrow> Inl Type_Error)"

definition binds_back :: "host \<Rightarrow> sandbox \<Rightarrow> string list list \<Rightarrow> string \<Rightarrow> string list option" where
  "binds_back h sb masks given =
     (case h_realpath h given of
        None \<Rightarrow> None
      | Some real \<Rightarrow>
          if h_stat h (path_text real) \<noteq> Some Regular_File then None
          else if real \<noteq> path_resolve (h_cwd h) [given] \<or> \<not> list_ex (\<lambda>one. contained one real) (sb_store_roots sb) then None
          else if \<not> list_ex (\<lambda>mask. contained mask real) masks then None else Some real)"

fun attachment_binds :: "host \<Rightarrow> sandbox \<Rightarrow> string list list \<Rightarrow> string list \<Rightarrow> json list \<Rightarrow> string list list" where
  "attachment_binds h sb masks seen [] = []"
| "attachment_binds h sb masks seen (a # rest) =
     (case text_value (member_of a ''path'') of
        None \<Rightarrow> attachment_binds h sb masks seen rest
      | Some given \<Rightarrow>
          if \<not> is_absolute given \<or> given \<in> set seen then attachment_binds h sb masks seen rest
          else (case binds_back h sb masks given of
                  None \<Rightarrow> attachment_binds h sb masks (given # seen) rest
                | Some real \<Rightarrow> real # attachment_binds h sb masks (given # seen) rest))"

definition bind_args :: "string list list \<Rightarrow> string list" where
  "bind_args reals = concat (map (\<lambda>real. [''--ro-bind'', path_text real, path_text real]) reals)"

definition attachment_args :: "host \<Rightarrow> sandbox \<Rightarrow> string list list \<Rightarrow> json option \<Rightarrow> exn + string list" where
  "attachment_args h sb masks envelope =
     bind_res (envelope_attachments envelope) (\<lambda>items. Inr (bind_args (attachment_binds h sb masks [] items)))"

definition sandboxed_spawn ::
  "host \<Rightarrow> sandbox \<Rightarrow> string \<Rightarrow> string list \<Rightarrow> json option \<Rightarrow> string list \<Rightarrow> exn + string \<times> string list" where
  "sandboxed_spawn h sb command args envelope extra =
     (let masks = existing_masks h sb in
      bind_res (attachment_args h sb masks envelope) (\<lambda>back.
        Inr (hd (sb_launcher sb),
             tl (sb_launcher sb) @ [''--die-with-parent'', ''--unshare-pid''] @ extra
             @ [''--dev-bind'', ''/'', ''/'', ''--proc'', ''/proc''] @ mask_args h masks @ back @ command # args)))"

end
