(* ===== verification/Program_Secrets.thy ===== *)
theory Program_Secrets
  imports Program_Sandbox
begin

text \<open>
  The secrets of a program turn (\<open>harness/program/index.ts\<close>): which of the declared secrets another
  consumer holds, what is read for the child, and how what was read is taken out of every text the
  harness keeps. A secret is the text of its file; what is searched and replaced is code units.
\<close>

section \<open>Who holds a secret\<close>

text \<open>\<open>path.normalize\<close>, and \<open>path.basename\<close>, which ignores slashes at the end.\<close>

definition normal_push :: "bool \<Rightarrow> string list \<Rightarrow> string \<Rightarrow> string list" where
  "normal_push absolute acc seg =
     (if seg = [] \<or> seg = ''.'' then acc
      else if seg = ''..'' then
        (if acc \<noteq> [] \<and> last acc \<noteq> ''..'' then butlast acc else if absolute then acc else acc @ [seg])
      else acc @ [seg])"

definition path_normalize :: "string \<Rightarrow> string" where
  "path_normalize t =
     (if t = [] then ''.''
      else (let absolute = starts_with ''/'' t; trailing = ends_with ''/'' t;
                w = join ''/'' (foldl (normal_push absolute) [] (split_on (CHR ''/'') t)) in
            if w = [] then (if absolute then ''/'' else if trailing then ''./'' else ''.'')
            else (if absolute then ''/'' else []) @ w @ (if trailing then ''/'' else [])))"

definition path_base :: "string \<Rightarrow> string" where
  "path_base t = base_name (rev (dropWhile (\<lambda>c. c = CHR ''/'') (rev t)))"

definition declared_list :: "json \<Rightarrow> string \<Rightarrow> json list" where
  "declared_list decl name = elements_of (member_of decl name)"

definition secret_path :: "json \<Rightarrow> string option" where
  "secret_path s = text_value (member_of s ''path'')"

definition backup_secret_files :: "string list" where
  "backup_secret_files = [''r2-backup-box.json'', ''restic-password'']"

text \<open>\<open>names.has(v)\<close>; \<open>undefined\<close> has been deleted from the names.\<close>

definition has_name :: "json list \<Rightarrow> json option \<Rightarrow> bool" where
  "has_name ns v = list_ex (\<lambda>n. strict_eq v (Some n)) ns"

definition defined :: "'a option list \<Rightarrow> 'a list" where
  "defined vs = concat (map (\<lambda>v. case v of None \<Rightarrow> [] | Some x \<Rightarrow> [x]) vs)"

definition consumer_names :: "json \<Rightarrow> json list" where
  "consumer_names decl = defined
     (concat (map (\<lambda>c. [member_at (member_of c ''transport'') ''netrc_ref'', member_at (member_of c ''transport'') ''bot_token_ref''])
        (declared_list decl ''channels''))
      @ [member_at (member_of decl ''provider'') ''api_key_ref'']
      @ map (\<lambda>s. member_of s ''name'')
          (filter (\<lambda>s. case secret_path s of None \<Rightarrow> False | Some t \<Rightarrow> path_base t \<in> set backup_secret_files)
             (declared_list decl ''secrets'')))"

definition held_paths :: "json \<Rightarrow> string list" where
  "held_paths decl = map path_normalize (defined (map secret_path
     (filter (\<lambda>s. has_name (consumer_names decl) (member_of s ''name'')) (declared_list decl ''secrets''))))"

definition other_consumer_secret_names :: "json \<Rightarrow> json list" where
  "other_consumer_secret_names decl = consumer_names decl
     @ defined (map (\<lambda>s. member_of s ''name'')
         (filter (\<lambda>s. case secret_path s of None \<Rightarrow> False | Some t \<Rightarrow> path_normalize t \<in> set (held_paths decl))
            (declared_list decl ''secrets'')))"

section \<open>Reading them\<close>

text \<open>\<open>.replace(/\r?\n$/, '')\<close>.\<close>

definition strip_line_end :: "string \<Rightarrow> string" where
  "strip_line_end t =
     (if ends_with [CHR 0x0D, CHR 0x0A] t then butlast (butlast t)
      else if ends_with [CHR 0x0A] t then butlast t else t)"

definition secret_subject :: "string \<Rightarrow> string" where
  "secret_subject ref = ''harness.secret_refs.'' @ ref"

definition read_secret_file :: "host \<Rightarrow> string \<Rightarrow> string \<Rightarrow> exn + string" where
  "read_secret_file h file ref =
     (case (h_lstat h file, h_read h file) of
        (Some kind, Some t) \<Rightarrow>
          if kind = Symbolic_Link \<or> strip_line_end t = []
          then program_refused ''PROGRAM_SECRET_UNREADABLE'' (secret_subject ref) else Inr (strip_line_end t)
      | _ \<Rightarrow> program_refused ''PROGRAM_SECRET_UNREADABLE'' (secret_subject ref))"

definition lower_letter :: "char \<Rightarrow> bool" where
  "lower_letter c \<longleftrightarrow> 97 \<le> byte_of c \<and> byte_of c \<le> 122"

text \<open>\<open>/^[a-z][a-z0-9_]{0,63}$/\<close>.\<close>

definition secret_ref_pattern :: "string \<Rightarrow> bool" where
  "secret_ref_pattern t \<longleftrightarrow> t \<noteq> [] \<and> lower_letter (hd t) \<and> length t \<le> 64
     \<and> list_all (\<lambda>c. lower_letter c \<or> digit c \<or> c = CHR ''_'') t"

definition secret_env_prefix :: string where
  "secret_env_prefix = ''CARBON_SECRET_''"

definition secret_env_name :: "string \<Rightarrow> string" where
  "secret_env_name ref = secret_env_prefix @ map (\<lambda>c. if lower_letter c then char_of (byte_of c - 32) else c) ref"

definition one_secret :: "platform \<Rightarrow> host \<Rightarrow> json \<Rightarrow> string list \<Rightarrow> json \<Rightarrow> exn + string \<times> string" where
  "one_secret p h decl secrets_dir ref =
     (let subj = secret_subject (js_string p ref) in
      if has_name (other_consumer_secret_names decl) (Some ref) then program_refused ''PROGRAM_SECRET_CHANNEL_REFUSED'' subj
      else (case (ref, find (\<lambda>s. strict_eq (member_of s ''name'') (Some ref)) (declared_list decl ''secrets'')) of
          (JStr name, Some s) \<Rightarrow>
            (case secret_path s of
               None \<Rightarrow> program_refused ''PROGRAM_SECRET_REFUSED'' subj
             | Some file \<Rightarrow>
                 if \<not> secret_ref_pattern name \<or> \<not> is_absolute file then program_refused ''PROGRAM_SECRET_REFUSED'' subj
                 else if \<not> contained secrets_dir (path_resolve (h_cwd h) [file]) \<or> path_resolve (h_cwd h) [file] = secrets_dir
                 then program_refused ''PROGRAM_SECRET_REFUSED'' subj
                 else bind_res (read_secret_file h file name) (\<lambda>v. Inr (name, v)))
        | _ \<Rightarrow> program_refused ''PROGRAM_SECRET_REFUSED'' subj))"

definition load_secrets :: "platform \<Rightarrow> host \<Rightarrow> json \<Rightarrow> string list \<Rightarrow> exn + (string \<times> string) list \<times> string list" where
  "load_secrets p h decl secrets_dir =
     (case member_at (member_of decl ''harness'') ''secret_refs'' of
        None \<Rightarrow> Inr ([], [])
      | Some (JArr refs) \<Rightarrow>
          bind_res (map_res (one_secret p h decl secrets_dir) refs) (\<lambda>rows.
            Inr (fold (\<lambda>(name, v). AList.update (secret_env_name name) v) rows [], map snd rows))
      | Some _ \<Rightarrow> program_refused ''PROGRAM_SECRET_REFUSED'' ''harness.secret_refs'')"

section \<open>Taking them out\<close>

definition redacted_mark :: "nat list" where
  "redacted_mark = map byte_of ''[redacted]''"

definition redacted_word :: "nat list" where
  "redacted_word = map byte_of ''redacted''"

text \<open>\<open>new Set([value, JSON.stringify(value).slice(1, -1)])\<close>.\<close>

definition secret_forms :: "string \<Rightarrow> nat list list" where
  "secret_forms v = each_once [utf16 v, utf16 (butlast (tl (json_quote v)))]"

definition redact_secrets :: "nat list \<Rightarrow> string list \<Rightarrow> nat list" where
  "redact_secrets t values = fold (replace_value redacted_mark) (concat (map secret_forms values)) t"

section \<open>Lemmas\<close>

interpretation program_mask: bracketed redacted_mark redacted_word 91 93
  by unfold_locales (simp add: redacted_mark_def redacted_word_def)

lemma in_defined: "x \<in> set (defined vs) \<longleftrightarrow> Some x \<in> set vs"
  by (auto simp: defined_def split: option.splits)

lemma set_each_once [simp]: "set (each_once xs) = set xs"
  by (simp add: each_once_def)

lemma has_name_text: "has_name ns (Some (JStr t)) \<longleftrightarrow> JStr t \<in> set ns"
  by (auto simp: has_name_def list_ex_iff)

text \<open>A text the marker \<open>[redacted]\<close> cannot spell.\<close>

definition plain_secret :: "string \<Rightarrow> bool" where
  "plain_secret v \<longleftrightarrow> unspelled redacted_word 91 93 (utf16 v)"

lemma redacted_is_gone:
  "v \<in> set values \<Longrightarrow> plain_secret v \<Longrightarrow> \<not> js_includes (utf16 v) (redact_secrets t values)"
  unfolding redact_secrets_def plain_secret_def
  by (rule program_mask.hidden_values) (auto simp: secret_forms_def)

text \<open>A delivered secret is one the declaration names, at a regular file of the secrets directory that no
  other consumer holds under any name.\<close>

lemma one_secret_own:
  assumes "one_secret p h decl dir ref = Inr (name, v)"
  shows "ref = JStr name \<and> secret_ref_pattern name \<and> v \<noteq> []
    \<and> (\<exists>s fl t. s \<in> set (declared_list decl ''secrets'') \<and> member_of s ''name'' = Some (JStr name)
         \<and> secret_path s = Some fl \<and> (\<exists>w rest. path_resolve (h_cwd h) [fl] = dir @ w # rest)
         \<and> h_lstat h fl \<noteq> Some Symbolic_Link \<and> h_read h fl = Some t \<and> v = strip_line_end t
         \<and> path_normalize fl \<notin> set (held_paths decl))
    \<and> JStr name \<notin> set (consumer_names decl)"
proof -
  from assms obtain s fl where ref: "ref = JStr name" and free: "\<not> has_name (other_consumer_secret_names decl) (Some ref)"
    and found: "find (\<lambda>s. strict_eq (member_of s ''name'') (Some ref)) (declared_list decl ''secrets'') = Some s"
    and fl: "secret_path s = Some fl" and pat: "secret_ref_pattern name"
    and inside: "contained dir (path_resolve (h_cwd h) [fl])" "path_resolve (h_cwd h) [fl] \<noteq> dir"
    and content: "read_secret_file h fl name = Inr v"
    unfolding one_secret_def Let_def
    by (auto simp: bind_res_Inr_iff split: if_splits json.splits option.splits)
  from content obtain t where t: "h_lstat h fl \<noteq> Some Symbolic_Link" "h_read h fl = Some t" "v = strip_line_end t" "v \<noteq> []"
    unfolding read_secret_file_def by (auto split: option.splits if_splits)
  from find_Some_set [OF found] have s: "s \<in> set (declared_list decl ''secrets'')" "strict_eq (member_of s ''name'') (Some ref)"
    by auto
  then have named: "member_of s ''name'' = Some (JStr name)"
    using ref by (cases "member_of s ''name''") (auto elim: strict_eq.elims)
  from free ref have free': "JStr name \<notin> set (other_consumer_secret_names decl)" by (simp add: has_name_text)
  then have "path_normalize fl \<notin> set (held_paths decl)" and own: "JStr name \<notin> set (consumer_names decl)"
    using s(1) named fl by (force simp: other_consumer_secret_names_def in_defined split: option.splits)+
  moreover from contained_below [OF inside(1)] inside(2) obtain w rest
    where "path_resolve (h_cwd h) [fl] = dir @ w # rest" by (metis append.right_neutral neq_Nil_conv)
  ultimately show ?thesis using ref pat t s(1) named fl by blast
qed

lemma load_secrets_rows:
  assumes "load_secrets p h decl dir = Inr (env, values)"
  shows "\<exists>rows. values = map snd rows \<and> env = fold (\<lambda>(name, v). AList.update (secret_env_name name) v) rows []
    \<and> (\<forall>(name, v) \<in> set rows. one_secret p h decl dir (JStr name) = Inr (name, v))"
proof (cases "member_at (member_of decl ''harness'') ''secret_refs''")
  case None
  with assms show ?thesis by (intro exI [of _ "[]"]) (simp add: load_secrets_def)
next
  case (Some refs)
  with assms obtain xs rows where rows: "map_res (one_secret p h decl dir) xs = Inr rows"
    and e: "env = fold (\<lambda>(name, v). AList.update (secret_env_name name) v) rows []" and v: "values = map snd rows"
    by (auto simp: load_secrets_def bind_res_Inr_iff split: json.splits)
  have "one_secret p h decl dir (JStr name) = Inr (name, w)" if "(name, w) \<in> set rows" for name w
    using map_res_Inr_set [OF rows that] one_secret_own by fastforce
  with e v show ?thesis by blast
qed

lemma secret_env_entries:
  "kv \<in> set (fold (\<lambda>(name, v). AList.update (secret_env_name name) v) rows env) \<Longrightarrow>
     kv \<in> set env \<or> (\<exists>(name, v) \<in> set rows. kv = (secret_env_name name, v))"
proof (induction rows arbitrary: env)
  case (Cons r rows)
  obtain name v where r: "r = (name, v)" by (cases r)
  have upd: "kv \<in> set (AList.update k w al) \<Longrightarrow> kv \<in> set al \<or> kv = (k, w)" for k w al
    by (induction al) (auto split: if_splits)
  from Cons.prems Cons.IH [of "AList.update (secret_env_name name) v env"] upd r show ?case by fastforce
qed simp

end
