(* ===== verification/Utf8.thy ===== *)
theory Utf8
  imports Js_Values
begin

text \<open>
  Bytes and code units: decoding UTF-8 as \<open>Buffer.toString\<close> does, malformed bytes included, and encoding
  code units as \<open>Buffer.from(text, 'utf8')\<close> does, where a surrogate without its pair becomes U+FFFD.
\<close>

section \<open>Decoding\<close>

text \<open>\<open>Buffer.toString('utf8')\<close>: a sequence that is cut or malformed gives one U+FFFD for what of it is
  well-formed so far. The arguments are the bytes still needed, the bounds of the next one and the code
  point so far.\<close>

definition units_of_point :: "nat \<Rightarrow> nat list" where
  "units_of_point cp =
     (if cp < 65536 then [cp] else [55296 + (cp - 65536) div 1024, 56320 + (cp - 65536) mod 1024])"

function utf8_units :: "nat \<Rightarrow> nat \<times> nat \<Rightarrow> nat \<Rightarrow> nat list \<Rightarrow> nat list" where
  "utf8_units 0 bounds cp [] = []"
| "utf8_units (Suc n) bounds cp [] = [65533]"
| "utf8_units 0 bounds cp (b # bs) =
     (if b < 128 then b # utf8_units 0 (128, 191) 0 bs
      else if 194 \<le> b \<and> b \<le> 223 then utf8_units 1 (128, 191) (b - 192) bs
      else if 224 \<le> b \<and> b \<le> 239
      then utf8_units 2 (if b = 224 then 160 else 128, if b = 237 then 159 else 191) (b - 224) bs
      else if 240 \<le> b \<and> b \<le> 244
      then utf8_units 3 (if b = 240 then 144 else 128, if b = 244 then 143 else 191) (b - 240) bs
      else 65533 # utf8_units 0 (128, 191) 0 bs)"
| "utf8_units (Suc n) bounds cp (b # bs) =
     (if b < fst bounds \<or> snd bounds < b then 65533 # utf8_units 0 (128, 191) 0 (b # bs)
      else if n = 0 then units_of_point (64 * cp + b mod 64) @ utf8_units 0 (128, 191) 0 bs
      else utf8_units n (128, 191) (64 * cp + b mod 64) bs)"
  by pat_completeness auto
termination
  by (relation "measure (\<lambda>(n, bounds, cp, bs). 2 * length bs + (if n = 0 then 0 else 1))") auto

definition decoded :: "nat list \<Rightarrow> nat list" where
  "decoded bytes = utf8_units 0 (128, 191) 0 bytes"

lemma decoded_ascii: "list_all (\<lambda>b. b < 128) bytes \<Longrightarrow> decoded bytes = bytes"
proof -
  have "list_all (\<lambda>b. b < 128) bytes \<Longrightarrow> utf8_units 0 bounds cp bytes = bytes" for bounds cp
    by (induction bytes arbitrary: bounds cp) simp_all
  then show "list_all (\<lambda>b. b < 128) bytes \<Longrightarrow> decoded bytes = bytes" by (simp add: decoded_def)
qed

section \<open>Encoding\<close>

definition utf8_of_point :: "nat \<Rightarrow> nat list" where
  "utf8_of_point cp =
     (if cp < 128 then [cp]
      else if cp < 2048 then [192 + cp div 64, 128 + cp mod 64]
      else if cp < 65536 then [224 + cp div 4096, 128 + cp div 64 mod 64, 128 + cp mod 64]
      else [240 + cp div 262144, 128 + cp div 4096 mod 64, 128 + cp div 64 mod 64, 128 + cp mod 64])"

definition high_surrogate :: "nat \<Rightarrow> bool" where
  "high_surrogate u \<longleftrightarrow> 55296 \<le> u \<and> u < 56320"

definition low_surrogate :: "nat \<Rightarrow> bool" where
  "low_surrogate u \<longleftrightarrow> 56320 \<le> u \<and> u < 57344"

fun encoded :: "nat list \<Rightarrow> nat list" where
  "encoded [] = []"
| "encoded (u # us) =
     (if high_surrogate u then
        (case us of
           v # vs \<Rightarrow> if low_surrogate v then utf8_of_point (65536 + (u - 55296) * 1024 + (v - 56320)) @ encoded vs
                     else [239, 191, 189] @ encoded us
         | [] \<Rightarrow> [239, 191, 189])
      else if low_surrogate u then [239, 191, 189] @ encoded us
      else utf8_of_point u @ encoded us)"

text \<open>The text a list of code units stands for, as the development holds texts.\<close>

definition text_of :: "nat list \<Rightarrow> string" where
  "text_of us = map char_of (encoded us)"

lemma encoded_ascii: "list_all (\<lambda>u. u < 128) us \<Longrightarrow> encoded us = us"
  by (induction us) (auto simp: high_surrogate_def low_surrogate_def utf8_of_point_def)

lemma text_of_ascii: "ascii t \<Longrightarrow> text_of (map byte_of t) = t"
  by (simp add: text_of_def encoded_ascii ascii_def list_all_iff o_def)

end
