(* ===== verification/Program_Turn.thy ===== *)
theory Program_Turn
  imports Program_Secrets Utf8
begin

text \<open>
  A turn of the program harness (\<open>harness/program/index.ts\<close>): the handler is spawned in the sandbox and
  what it does is a sequence of events, each answered by one step; the first thing that ends the run
  settles it. The bytes of stdout and stderr are kept as they come and decoded when the child has closed.
  Then the session: connecting, its threads, its turn, and the tool servers it reports.
\<close>

section \<open>The run of a handler\<close>

definition output_cap :: nat where "output_cap = 1024 * 1024"
definition stderr_tail :: nat where "stderr_tail = 500"
definition stderr_window :: nat where "stderr_window = 8192"

text \<open>What the child does, and the timer.\<close>

datatype child_event =
    Out_Data "nat list"
  | Err_Data "nat list"
  | Child_Error string
  | Child_Closed "int option"   \<comment> \<open>\<open>None\<close>: a signal ended it, the code is null\<close>
  | Time_Over

text \<open>How a run ends; a reported fault quotes a text of the child in its problem.\<close>

datatype handler_end =
    Handled program_body
  | Run_Refused exn
  | Reported fault "nat list"

record handler_context =
  hc_cwd :: "string list"
  hc_parse :: "nat list \<Rightarrow> json option"
  hc_entry :: string
  hc_work :: string
  hc_envelope :: "json option"
  hc_values :: "string list"

record handler_run =
  hr_stdout :: "nat list"
  hr_stderr :: "nat list"
  hr_cut :: bool
  hr_end :: "handler_end option"
  hr_kills :: nat

definition new_run :: handler_run where
  "new_run = \<lparr>hr_stdout = [], hr_stderr = [], hr_cut = False, hr_end = None, hr_kills = 0\<rparr>"

definition settle_run :: "handler_end \<Rightarrow> handler_run \<Rightarrow> handler_run" where
  "settle_run e r = (if hr_end r \<noteq> None then r else r\<lparr>hr_end := Some e, hr_kills := hr_kills r + 1\<rparr>)"

text \<open>\<open>buffer.subarray(-n)\<close> and \<open>text.slice(-n)\<close>.\<close>

definition last_of :: "nat \<Rightarrow> 'a list \<Rightarrow> 'a list" where
  "last_of n xs = drop (length xs - n) xs"

definition longest_value :: "string list \<Rightarrow> nat" where
  "longest_value vs = fold max (map length vs) 0"

definition shown_stderr :: "handler_context \<Rightarrow> handler_run \<Rightarrow> nat list" where
  "shown_stderr c r =
     (let gone = (if hr_cut r then longest_value (hc_values c) else 0) in
      last_of stderr_tail (redact_secrets (decoded (drop gone (hr_stderr r))) (hc_values c)))"

definition closed_end :: "handler_context \<Rightarrow> int option \<Rightarrow> handler_run \<Rightarrow> handler_end" where
  "closed_end c exit_code r =
     (if exit_code \<noteq> Some 0 then Reported (Fault ''PROGRAM_HANDLER_EXITED'' (hc_entry c)) (shown_stderr c r)
      else (let t = decoded (hr_stdout r) in
        if redact_secrets t (hc_values c) \<noteq> t
        then Run_Refused (Program_Fault (Fault ''PROGRAM_RESPONSE_INVALID'' ''stdout''))
        else (case parse_program_result (hc_cwd c) (hc_parse c) t (hc_envelope c) (hc_work c) of
                Inl e \<Rightarrow> Run_Refused e | Inr b \<Rightarrow> Handled b)))"

fun run_step :: "handler_context \<Rightarrow> child_event \<Rightarrow> handler_run \<Rightarrow> handler_run" where
  "run_step c (Out_Data chunk) r =
     (let r1 = r\<lparr>hr_stdout := hr_stdout r @ chunk\<rparr> in
      if output_cap < length (hr_stdout r1)
      then settle_run (Reported (Fault ''PROGRAM_OUTPUT_TOO_LARGE'' (hc_entry c)) []) r1 else r1)"
| "run_step c (Err_Data chunk) r =
     (let both = hr_stderr r @ chunk in
      r\<lparr>hr_cut := hr_cut r \<or> stderr_window < length both, hr_stderr := last_of stderr_window both\<rparr>)"
| "run_step c (Child_Error message) r =
     settle_run (Reported (Fault ''PROGRAM_HANDLER_EXITED'' (hc_entry c)) (redact_secrets (utf16 message) (hc_values c))) r"
| "run_step c (Child_Closed exit_code) r = settle_run (closed_end c exit_code r) r"
| "run_step c Time_Over r = settle_run (Reported (Fault ''PROGRAM_TURN_TIMED_OUT'' (hc_entry c)) []) r"

section \<open>The session\<close>

record prepared_entry =
  pe_kind :: file_kind
  pe_time :: int
  pe_content :: string

text \<open>What stands at \<open>work/prepared\<close>.\<close>

datatype prepared_place = No_Place | Not_A_Directory | Place "(string \<times> prepared_entry) list"

record program_session =
  pg_entrypoint :: "string list"
  pg_work :: "string list"
  pg_timeout :: "json option"
  pg_declaration :: json
  pg_sandbox :: sandbox
  pg_last_spawn :: "(string \<times> string list) option"
  pg_prepare_entrypoint :: "string list option"
  pg_pinned :: bool
  pg_stopped :: bool
  pg_place :: prepared_place

definition assert_timeout :: "json option \<Rightarrow> string \<Rightarrow> exn + unit" where
  "assert_timeout v subj =
     (if (case v of Some (JInt i) \<Rightarrow> 1000 \<le> i | Some (JFloat n d) \<Rightarrow> 1000 * int d \<le> n | _ \<Rightarrow> False) then Inr ()
      else program_refused ''PROGRAM_TURN_TIMEOUT_ABSENT'' subj)"

text \<open>A child is spawned with its arguments, its directory and its whole environment; \<open>process.execPath\<close>
  is \<open>node\<close>. The values of the secrets go along for the texts that are cleaned of them.\<close>

record child_spawn =
  cs_command :: string
  cs_args :: "string list"
  cs_cwd :: "string list"
  cs_env :: "(string \<times> string) list"

definition handler_spawn ::
  "platform \<Rightarrow> host \<Rightarrow> string \<Rightarrow> json option \<Rightarrow> program_session \<Rightarrow> exn + child_spawn \<times> string list" where
  "handler_spawn p h node envelope s =
     bind_res (load_secrets p h (pg_declaration s) (sb_secrets_dir (pg_sandbox s))) (\<lambda>(env, values).
       bind_res (sandboxed_spawn h (pg_sandbox s) node [path_text (pg_entrypoint s)] envelope []) (\<lambda>(cmd, args).
         Inr (\<lparr>cs_command = cmd, cs_args = args, cs_cwd = pg_work s, cs_env = program_env h env\<rparr>, values)))"

definition context_of ::
  "host \<Rightarrow> (nat list \<Rightarrow> json option) \<Rightarrow> json option \<Rightarrow> string list \<Rightarrow> program_session \<Rightarrow> handler_context" where
  "context_of h parse envelope values s =
     \<lparr>hc_cwd = h_cwd h, hc_parse = parse, hc_entry = path_text (pg_entrypoint s),
      hc_work = path_text (pg_work s), hc_envelope = envelope, hc_values = values\<rparr>"

text \<open>The events are those of the child, until whoever waits stops looking; \<open>None\<close> is a run that has not
  ended yet.\<close>

definition run_handler ::
  "platform \<Rightarrow> host \<Rightarrow> (nat list \<Rightarrow> json option) \<Rightarrow> string \<Rightarrow> json option \<Rightarrow> json option \<Rightarrow> child_event list
     \<Rightarrow> program_session \<Rightarrow> handler_end option \<times> program_session" where
  "run_handler p h parse node envelope timeout events s =
     (case bind_res (assert_timeout timeout ''turn.timeoutMs'') (\<lambda>_. handler_spawn p h node envelope s) of
        Inl e \<Rightarrow> (Some (Run_Refused e), s)
      | Inr (spawn, values) \<Rightarrow>
          (hr_end (fold (run_step (context_of h parse envelope values s)) events new_run),
           s\<lparr>pg_last_spawn := Some (cs_command spawn, cs_args spawn)\<rparr>))"

section \<open>Threads and turns\<close>

definition program_thread :: "string \<Rightarrow> string" where
  "program_thread unit_id = ''program:'' @ unit_id"

definition resume_program_thread :: "string \<Rightarrow> string \<Rightarrow> exn + string" where
  "resume_program_thread unit_id thread_id =
     (if thread_id \<noteq> program_thread unit_id then program_refused ''PROGRAM_THREAD_IDENTITY'' thread_id
      else Inr thread_id)"

record program_turn =
  pt_thread_id :: string
  pt_turn_id :: string
  pt_completed_at :: int
  pt_program :: program_body

datatype program_turn_end = Turn_Done program_turn | Turn_Failed handler_end | Turn_Running

definition take_program_turn ::
  "platform \<Rightarrow> host \<Rightarrow> (nat list \<Rightarrow> json option) \<Rightarrow> string \<Rightarrow> int \<Rightarrow> string \<Rightarrow> string \<Rightarrow> json option \<Rightarrow> json option
     \<Rightarrow> child_event list \<Rightarrow> program_session \<Rightarrow> program_turn_end \<times> program_session" where
  "take_program_turn p h parse node now thread_id client_id input timeout events s =
     (case input of
        Some (JStr _) \<Rightarrow> (Turn_Failed (Run_Refused (Program_Fault (Fault ''PROGRAM_INPUT_REFUSED'' thread_id))), s)
      | Some (JArr _) \<Rightarrow> (Turn_Failed (Run_Refused (Program_Fault (Fault ''PROGRAM_INPUT_REFUSED'' thread_id))), s)
      | _ \<Rightarrow>
          (let (e, s1) = run_handler p h parse node input (if nullish timeout then pg_timeout s else timeout) events s in
           ((case e of
               None \<Rightarrow> Turn_Running
             | Some (Handled b) \<Rightarrow> Turn_Done \<lparr>pt_thread_id = thread_id, pt_turn_id = ''program:'' @ client_id,
                                              pt_completed_at = now div 1000, pt_program = b\<rparr>
             | Some other \<Rightarrow> Turn_Failed other), s1)))"

section \<open>Tool servers\<close>

definition list_program_servers :: "json \<Rightarrow> (string \<times> string option) list" where
  "list_program_servers decl =
     [(reply_server_name, Some ''connected'')]
     @ (if member_at (member_of decl ''teaching'') ''enabled'' = Some (JBool True)
        then [(teach_server_name, Some ''connected'')] else [])
     @ (if member_at (member_of decl ''records'') ''enabled'' = Some (JBool True) then [(records_server_name, None)] else [])
     @ concat (map (\<lambda>server.
         (if member_of server ''kind'' = Some (JStr ''provider_proxy'')
             \<or> strict_eq (member_of server ''name'') (member_at (member_of decl ''provider'') ''api_key_via'') then []
          else (case text_value (member_of server ''name'') of
                  Some n \<Rightarrow> if n = [] then [] else [(n, None)] | None \<Rightarrow> [])))
         (declared_list decl ''tool_servers''))"

definition program_required_servers :: "json \<Rightarrow> string list" where
  "program_required_servers decl = concat (map (\<lambda>server.
     (if truthy (member_of server ''required'') \<and> member_of server ''kind'' \<noteq> Some (JStr ''provider_proxy'')
      then (case text_value (member_of server ''name'') of Some n \<Rightarrow> if n = [] then [] else [n] | None \<Rightarrow> []) else []))
     (declared_list decl ''tool_servers''))"

text \<open>The map built of the statuses keeps the last of a name.\<close>

definition program_holds_release :: "json \<Rightarrow> (string \<times> string option) list \<Rightarrow> fault list" where
  "program_holds_release decl statuses =
     map (\<lambda>n. Fault ''TOOL_SERVER_STATE_UNAVAILABLE'' (''tool_servers.'' @ n))
       (filter (\<lambda>n. map_of (rev statuses) n \<noteq> Some (Some ''connected'')) (sorted_names (program_required_servers decl)))"

definition program_policy_for :: "string option \<Rightarrow> json" where
  "program_policy_for mode =
     JObj [(''type'', JStr ''program''), (''mode'', case mode of None \<Rightarrow> JNull | Some m \<Rightarrow> JStr m)]"

section \<open>Lemmas\<close>

lemma settle_run_end: "hr_end r = Some e \<Longrightarrow> settle_run e' r = r"
  by (simp add: settle_run_def)

lemma settled_stays: "hr_end r = Some e \<Longrightarrow> hr_end (fold (run_step c) evs r) = Some e"
proof (induction evs arbitrary: r)
  case (Cons ev evs)
  from Cons.prems have "hr_end (run_step c ev r) = Some e" by (cases ev) (simp_all add: settle_run_def Let_def)
  with Cons.IH show ?case by simp
qed simp

lemma not_in_last: "\<not> js_includes v t \<Longrightarrow> \<not> js_includes v (last_of n t)"
  unfolding last_of_def using includes_drop by blast

text \<open>What a step settles with, where nothing was settled before.\<close>

definition keeps_secret :: "string \<Rightarrow> nat list \<Rightarrow> handler_end \<Rightarrow> bool" where
  "keeps_secret v t e =
     (case e of Handled b \<Rightarrow> \<not> js_includes (utf16 v) t | Run_Refused x \<Rightarrow> True | Reported f shown \<Rightarrow> \<not> js_includes (utf16 v) shown)"

lemma closed_end_keeps:
  assumes "v \<in> set (hc_values c)" and "plain_secret v"
  shows "keeps_secret v (decoded (hr_stdout r)) (closed_end c x r)"
proof -
  have gone: "\<not> js_includes (utf16 v) (redact_secrets t (hc_values c))" for t using redacted_is_gone [OF assms] .
  then have "redact_secrets t (hc_values c) = t \<Longrightarrow> \<not> js_includes (utf16 v) t" for t by metis
  then show ?thesis using gone
    by (auto simp: closed_end_def keeps_secret_def shown_stderr_def Let_def not_in_last split: sum.splits)
qed

lemma run_step_keeps:
  assumes "v \<in> set (hc_values c)" and "plain_secret v" and "hr_end r = None" and "hr_end (run_step c ev r) = Some e"
  shows "keeps_secret v (decoded (hr_stdout r)) e"
proof -
  have "utf16 v \<noteq> []" using assms(2) by (simp add: plain_secret_def unspelled_def)
  then show ?thesis
    using assms closed_end_keeps [OF assms(1,2)] redacted_is_gone [OF assms(1,2)]
    by (cases ev) (auto simp: settle_run_def Let_def keeps_secret_def split: if_splits)
qed

end
