(* ===== verification/Program_Prepare.thy ===== *)
theory Program_Prepare
  imports Program_Turn Codex_Reasons
begin

text \<open>
  Preparing at capture (\<open>harness/program/index.ts\<close>): one optional child that may leave artifacts under
  \<open>work/prepared\<close>. The directory is held by a descriptor, so it is the value \<open>pg_place\<close> of the session,
  its entries in the order \<open>readdir\<close> lists them. An unlink of an entry of that directory succeeds, and a
  rename fails only onto a directory; the name of a temporary file is the argument \<open>tmp\<close>.
\<close>

section \<open>Names\<close>

definition prepare_max_artifacts :: nat where "prepare_max_artifacts = 16"
definition prepare_artifact_bytes :: nat where "prepare_artifact_bytes = 256 * 1024"
definition prepare_keep_ms :: int where "prepare_keep_ms = 60 * 60 * 1000"
definition prepare_keep_files :: nat where "prepare_keep_files = 64"

text \<open>\<open>/^[0-9a-f]{64}$/\<close>.\<close>

definition sha256_pattern :: "string \<Rightarrow> bool" where
  "sha256_pattern t \<longleftrightarrow> length t = 64 \<and> list_all hex_lower t"

definition name_unit :: "nat \<Rightarrow> bool" where
  "name_unit u \<longleftrightarrow> word_unit u \<or> u = 45"

definition name_char :: "char \<Rightarrow> bool" where
  "name_char c \<longleftrightarrow> alnum c \<or> c = CHR ''_'' \<or> c = CHR ''-''"

definition safe_name :: "string \<Rightarrow> string" where
  "safe_name t = take 80 (map (\<lambda>u. if name_unit u then char_of u else CHR ''_'') (utf16 t))"

definition prepared_name :: "string \<Rightarrow> string \<Rightarrow> string \<Rightarrow> string" where
  "prepared_name message_text revision_text sha =
     safe_name message_text @ ''.r'' @ revision_text @ ''.'' @ sha @ ''.json''"

text \<open>\<open>PREPARED_NAME\<close>, on the parts between dots: no class of the pattern has a dot.\<close>

definition prepared_pattern :: "string \<Rightarrow> bool" where
  "prepared_pattern n =
     (case split_on (CHR ''.'') n of
        a # r # x # j # others \<Rightarrow>
          a \<noteq> [] \<and> length a \<le> 80 \<and> list_all name_char a
          \<and> r \<noteq> [] \<and> hd r = CHR ''r'' \<and> digits_text (tl r) \<and> sha256_pattern x \<and> j = ''json''
          \<and> (case others of
               [] \<Rightarrow> True
             | [d, y, t] \<Rightarrow> digits_text d \<and> length y = 16 \<and> list_all hex_lower y \<and> t = ''tmp''
             | _ \<Rightarrow> False)
      | _ \<Rightarrow> False)"

section \<open>What is sent\<close>

record sent_attachment =
  sa_sha256 :: string
  sa_path :: string
  sa_mime :: json
  sa_bytes :: json
  sa_filename :: json

record sent_message =
  sm_source_id :: string
  sm_revision :: int
  sm_attachments :: "sent_attachment list"

definition preparable_attachment :: "json \<Rightarrow> sent_attachment list" where
  "preparable_attachment a =
     (case (text_value (member_of a ''path''), text_value (member_of a ''sha256'')) of
        (Some path, Some sha) \<Rightarrow>
          if member_of a ''download_failed'' \<noteq> Some (JBool True) \<and> sha256_pattern sha
          then [\<lparr>sa_sha256 = sha, sa_path = path, sa_mime = or_else (member_of a ''mime'') JNull,
                 sa_bytes = or_else (member_of a ''bytes'') JNull, sa_filename = or_else (member_of a ''filename'') JNull\<rparr>]
          else []
      | _ \<Rightarrow> [])"

definition preparable :: "json list \<Rightarrow> sent_message list" where
  "preparable messages = concat (map (\<lambda>m.
     (let atts = concat (map preparable_attachment (declared_list m ''attachments'')) in
      case (text_value (member_of m ''source_message_id''), member_of m ''revision'') of
        (Some mid, Some (JInt rv)) \<Rightarrow>
          if atts \<noteq> [] then [\<lparr>sm_source_id = mid, sm_revision = rv, sm_attachments = atts\<rparr>] else []
      | _ \<Rightarrow> [])) messages)"

section \<open>The directory\<close>

definition pin_work :: "host \<Rightarrow> string list \<Rightarrow> bool" where
  "pin_work h work =
     (case h_realpath h (path_text work) of None \<Rightarrow> False | Some real \<Rightarrow> h_stat h (path_text real) = Some Directory)"

definition open_prepared ::
  "host \<Rightarrow> bool \<Rightarrow> program_session \<Rightarrow> (exn, (string \<times> prepared_entry) list, program_session) outcome" where
  "open_prepared h create s =
     (if pg_stopped s then (Inl (Error ''session is stopped''), s)
      else (let s1 = s\<lparr>pg_pinned := pg_pinned s \<or> pin_work h (pg_work s)\<rparr> in
        if \<not> pg_pinned s1 then (Inl (Error ''work is not a pinned directory''), s1)
        else (case pg_place s1 of
                Place es \<Rightarrow> (Inr es, s1)
              | Not_A_Directory \<Rightarrow> (Inl (Error ''work/prepared is not a real directory''), s1)
              | No_Place \<Rightarrow>
                  if create then (Inr [], s1\<lparr>pg_place := Place []\<rparr>)
                  else (Inl (Error ''work/prepared is not a real directory''), s1))))"

definition remove_if_ours :: "string \<Rightarrow> (string \<times> prepared_entry) list \<Rightarrow> (string \<times> prepared_entry) list" where
  "remove_if_ours n es =
     (if prepared_pattern n \<and> map_option pe_kind (map_of es n) = Some Regular_File then AList.delete n es else es)"

definition our_rows :: "(string \<times> prepared_entry) list \<Rightarrow> (string \<times> prepared_entry) list" where
  "our_rows es =
     sort_cmp (\<lambda>a b. pe_time (snd b) - pe_time (snd a))
       (filter (\<lambda>(n, e). prepared_pattern n \<and> pe_kind e = Regular_File) es)"

definition swept_names :: "int \<Rightarrow> (string \<times> prepared_entry) list \<Rightarrow> string list" where
  "swept_names now es =
     concat (map (\<lambda>(i, n, e). if prepare_keep_files \<le> i \<or> prepare_keep_ms < now - pe_time e then [n] else [])
       (enumerate 0 (our_rows es)))"

definition swept :: "int \<Rightarrow> (string \<times> prepared_entry) list \<Rightarrow> (string \<times> prepared_entry) list" where
  "swept now es = fold remove_if_ours (swept_names now es) es"

definition sweep_prepared :: "host \<Rightarrow> int \<Rightarrow> program_session \<Rightarrow> program_session" where
  "sweep_prepared h now s =
     (case open_prepared h False s of
        (Inl e, s1) \<Rightarrow> s1
      | (Inr es, s1) \<Rightarrow> s1\<lparr>pg_place := Place (swept now es)\<rparr>)"

definition discard_prepared :: "host \<Rightarrow> string list \<Rightarrow> program_session \<Rightarrow> program_session" where
  "discard_prepared h files s =
     (if files = [] then s
      else (case open_prepared h False s of
              (Inl e, s1) \<Rightarrow> s1
            | (Inr es, s1) \<Rightarrow> s1\<lparr>pg_place := Place (fold remove_if_ours (map path_base files) es)\<rparr>))"

section \<open>Artifacts\<close>

definition artifact_key :: "string \<Rightarrow> string \<Rightarrow> string \<Rightarrow> string" where
  "artifact_key message_text revision_text sha = message_text @ newline @ revision_text @ newline @ sha"

definition allowed_keys :: "sent_message list \<Rightarrow> string list" where
  "allowed_keys sent = concat (map (\<lambda>m. map (\<lambda>a. artifact_key (sm_source_id m) (show_int (sm_revision m)) (sa_sha256 a))
     (sm_attachments m)) sent)"

definition artifact_content :: "platform \<Rightarrow> json \<Rightarrow> string" where
  "artifact_content p row = json_text p (JObj (defined_members
     [(''schema'', Some (JStr ''carbon.program-prepared.v1'')), (''source_message_id'', member_of row ''source_message_id''),
      (''revision'', member_of row ''revision''), (''sha256'', member_of row ''sha256''),
      (''body'', Some (or_else (member_of row ''body'') JNull))]))"

fun bind_rows :: "platform \<Rightarrow> string list \<Rightarrow> string list \<Rightarrow> json list \<Rightarrow> exn + (string \<times> string) list" where
  "bind_rows p permitted seen [] = Inr []"
| "bind_rows p permitted seen (row # rows) =
     (if row = JNull then Inl Type_Error
      else (let mid = string_of p (member_of row ''source_message_id''); rv = string_of p (member_of row ''revision'');
                sha = string_of p (member_of row ''sha256''); name = artifact_key mid rv sha in
        if name \<notin> set permitted \<or> name \<in> set seen then Inl (Error ''prepare artifact is not bound to a unique attachment it was given'')
        else if prepare_artifact_bytes < length (artifact_content p row) then Inl (Error ''prepare artifact is over its size bound'')
        else bind_res (bind_rows p permitted (name # seen) rows) (\<lambda>bound.
          Inr ((prepared_name mid rv sha, artifact_content p row) # bound))))"

definition bind_artifacts ::
  "platform \<Rightarrow> (nat list \<Rightarrow> json option) \<Rightarrow> nat list \<Rightarrow> sent_message list \<Rightarrow> exn + (string \<times> string) list" where
  "bind_artifacts p parse t sent =
     (case parse t of
        None \<Rightarrow> Inl (Error ''SyntaxError'')
      | Some doc \<Rightarrow>
          if member_of doc ''schema'' \<noteq> Some (JStr ''carbon.program-prepare-result.v1'') then Inl (Error ''prepare result'')
          else (case member_of doc ''artifacts'' of
             Some (JArr rows) \<Rightarrow>
               if prepare_max_artifacts < length rows then Inl (Error ''prepare result'')
               else bind_rows p (allowed_keys sent) [] rows
           | _ \<Rightarrow> Inl (Error ''prepare result'')))"

text \<open>A temporary file is created, written and renamed over the name; what fails takes the artifacts
  written so far away again.\<close>

definition write_artifact ::
  "(string \<Rightarrow> string) \<Rightarrow> int \<Rightarrow> string \<times> string \<Rightarrow> (string \<times> prepared_entry) list \<Rightarrow> exn + (string \<times> prepared_entry) list" where
  "write_artifact tmp now = (\<lambda>(n, content) es.
     if has es (tmp n) then Inl (Error ''prepared temp refused'')
     else if map_option pe_kind (map_of es n) = Some Directory then Inl (Error ''EISDIR'')
     else Inr (AList.update n \<lparr>pe_kind = Regular_File, pe_time = now, pe_content = content\<rparr> es))"

fun write_artifacts ::
  "(string \<Rightarrow> string) \<Rightarrow> int \<Rightarrow> string list \<Rightarrow> (string \<times> string) list \<Rightarrow> (string \<times> prepared_entry) list
     \<Rightarrow> (exn, string list, (string \<times> prepared_entry) list) outcome" where
  "write_artifacts tmp now files [] es = (Inr files, es)"
| "write_artifacts tmp now files (item # items) es =
     (case write_artifact tmp now item es of
        Inl e \<Rightarrow> (Inl e, fold remove_if_ours files es)
      | Inr es1 \<Rightarrow> write_artifacts tmp now (files @ [fst item]) items es1)"

section \<open>The run\<close>

datatype prepare_status = Prepare_Ready "string list" | Prepare_Failed exn | Prepare_Timeout | Prepare_Cancelled | Prepare_Absent

datatype prepare_event = Prepare_Data "nat list" | Prepare_Error string | Prepare_Closed "int option" | Prepare_Time_Over | Prepare_Abort
  | Session_Stopped

record prepare_run =
  pr_stdout :: "nat list"
  pr_end :: "prepare_status option"
  pr_session :: program_session

definition finish_prepare :: "prepare_status \<Rightarrow> prepare_run \<Rightarrow> prepare_run" where
  "finish_prepare st r = (if pr_end r \<noteq> None then r else r\<lparr>pr_end := Some st\<rparr>)"

definition prepared_file :: "program_session \<Rightarrow> string \<Rightarrow> string" where
  "prepared_file s n = path_text (pg_work s @ [''prepared'', n])"

definition prepare_closed ::
  "platform \<Rightarrow> host \<Rightarrow> (nat list \<Rightarrow> json option) \<Rightarrow> (string \<Rightarrow> string) \<Rightarrow> int \<Rightarrow> sent_message list \<Rightarrow> nat list
     \<Rightarrow> program_session \<Rightarrow> prepare_status \<times> program_session" where
  "prepare_closed p h parse tmp now sent out s =
     (case bind_artifacts p parse (decoded out) sent of
        Inl e \<Rightarrow> (Prepare_Failed e, s)
      | Inr bound \<Rightarrow>
          (case open_prepared h True s of
             (Inl e, s1) \<Rightarrow> (Prepare_Failed e, s1)
           | (Inr es, s1) \<Rightarrow>
               (case write_artifacts tmp now [] bound es of
                  (Inl e, es1) \<Rightarrow> (Prepare_Failed e, s1\<lparr>pg_place := Place es1\<rparr>)
                | (Inr files, es1) \<Rightarrow> (Prepare_Ready (map (prepared_file s1) files), s1\<lparr>pg_place := Place es1\<rparr>))))"

fun prepare_step ::
  "platform \<Rightarrow> host \<Rightarrow> (nat list \<Rightarrow> json option) \<Rightarrow> (string \<Rightarrow> string) \<Rightarrow> int \<Rightarrow> sent_message list
     \<Rightarrow> prepare_event \<Rightarrow> prepare_run \<Rightarrow> prepare_run" where
  "prepare_step p h parse tmp now sent (Prepare_Data chunk) r =
     (let r1 = r\<lparr>pr_stdout := pr_stdout r @ chunk\<rparr> in
      if output_cap < length (pr_stdout r1) then finish_prepare (Prepare_Failed (Error ''prepare stdout over cap'')) r1 else r1)"
| "prepare_step p h parse tmp now sent (Prepare_Error message) r = finish_prepare (Prepare_Failed (Error message)) r"
| "prepare_step p h parse tmp now sent (Prepare_Closed exit_code) r =
     (if pr_end r \<noteq> None then r
      else if pg_stopped (pr_session r) then finish_prepare Prepare_Cancelled r
      else if exit_code \<noteq> Some 0 then finish_prepare (Prepare_Failed (Error ''prepare exited'')) r
      else (let (st, s1) = prepare_closed p h parse tmp now sent (pr_stdout r) (pr_session r) in
            finish_prepare st (r\<lparr>pr_session := s1\<rparr>)))"
| "prepare_step p h parse tmp now sent Prepare_Time_Over r = finish_prepare Prepare_Timeout r"
| "prepare_step p h parse tmp now sent Prepare_Abort r = finish_prepare Prepare_Cancelled r"
| "prepare_step p h parse tmp now sent Session_Stopped r =
     r\<lparr>pr_session := (pr_session r)\<lparr>pg_stopped := True, pg_pinned := False\<rparr>\<rparr>"

text \<open>The envelope of a prepare names only what is sent.\<close>

definition prepare_envelope :: "program_session \<Rightarrow> sent_message list \<Rightarrow> json" where
  "prepare_envelope s sent = JObj
     [(''schema'', JStr ''carbon.program-prepare.v1''), (''work'', JStr (path_text (pg_work s))),
      (''messages'', JArr (map (\<lambda>m. JObj
         [(''source_message_id'', JStr (sm_source_id m)), (''revision'', JInt (sm_revision m)),
          (''attachments'', JArr (map (\<lambda>a. JObj
             [(''sha256'', JStr (sa_sha256 a)), (''path'', JStr (sa_path a)), (''mime'', sa_mime a),
              (''bytes'', sa_bytes a), (''filename'', sa_filename a)]) (sm_attachments m)))]) sent))]"

definition prepare ::
  "platform \<Rightarrow> host \<Rightarrow> (nat list \<Rightarrow> json option) \<Rightarrow> string \<Rightarrow> (string \<Rightarrow> string) \<Rightarrow> int \<Rightarrow> json list \<Rightarrow> bool
     \<Rightarrow> prepare_event list \<Rightarrow> program_session \<Rightarrow> exn + (prepare_status option \<times> child_spawn option \<times> program_session)" where
  "prepare p h parse node tmp now messages aborted events s =
     (let sent = preparable messages in
      case pg_prepare_entrypoint s of
        None \<Rightarrow> Inr (Some Prepare_Absent, None, s)
      | Some entrypoint \<Rightarrow>
          if sent = [] then Inr (Some Prepare_Absent, None, s)
          else if pg_stopped s \<or> aborted then Inr (Some Prepare_Cancelled, None, s)
          else (let s1 = sweep_prepared h now s in
            bind_res (sandboxed_spawn h (pg_sandbox s1) node [path_text entrypoint] (Some (prepare_envelope s1 sent)) [''--unshare-net''])
              (\<lambda>(cmd, args).
                let r = fold (prepare_step p h parse tmp now sent) events \<lparr>pr_stdout = [], pr_end = None, pr_session = s1\<rparr> in
                Inr (pr_end r, Some \<lparr>cs_command = cmd, cs_args = args, cs_cwd = pg_work s1, cs_env = program_env h []\<rparr>, pr_session r))))"

section \<open>Connecting\<close>

definition connect_program ::
  "platform \<Rightarrow> host \<Rightarrow> json option \<Rightarrow> string option \<Rightarrow> json option \<Rightarrow> deny_gate option \<Rightarrow> string option \<Rightarrow> int
     \<Rightarrow> prepared_place \<Rightarrow> exn + program_session" where
  "connect_program p h checkout work declaration gate store_dir now place =
     (let decl = or_else declaration (JObj []);
          max_turn = member_at (member_of decl ''limits'') ''max_turn_ms'';
          prepare_entry = member_at (member_of decl ''harness'') ''prepare_entrypoint'';
          at_work = path_resolve (h_cwd h) [case work of None \<Rightarrow> [] | Some w \<Rightarrow> w] in
      bind_res (assert_timeout max_turn ''limits.max_turn_ms'') (\<lambda>_.
      bind_res (resolve_entrypoint p h checkout (member_at (member_of decl ''harness'') ''entrypoint'')) (\<lambda>entry.
      bind_res (build_sandbox h gate store_dir (path_text at_work) (string_of p checkout)) (\<lambda>sb.
      bind_res (if prepare_entry = None then Inr None
                else bind_res (resolve_entrypoint p h checkout prepare_entry) (\<lambda>at. Inr (Some at))) (\<lambda>prep.
        Inr (sweep_prepared h now
          \<lparr>pg_entrypoint = entry, pg_work = at_work, pg_timeout = max_turn, pg_declaration = decl, pg_sandbox = sb,
           pg_last_spawn = None, pg_prepare_entrypoint = prep, pg_pinned = pin_work h at_work, pg_stopped = False,
           pg_place = place\<rparr>))))))"

text \<open>\<open>stop()\<close>; the children it kills are outside the session's value.\<close>

definition stop_program :: "program_session \<Rightarrow> program_session" where
  "stop_program s = s\<lparr>pg_stopped := True, pg_pinned := False\<rparr>"

end
