(* ===== verification/Program_Props.thy ===== *)
theory Program_Props
  imports Program_Prepare
begin

text \<open>
  The properties of the program harness: the entrypoint is in the checkout, what the sandbox hides and what
  comes back, whose secrets the child is given and that none of them is in what is reported, how far the
  prepared artifacts are bound, and what the sweep leaves.
\<close>

section \<open>The entrypoint\<close>

lemma push_plain [simp]: "plain_segment w \<Longrightarrow> push_segment acc w = acc @ [w]"
  by (auto simp: plain_segment_def push_segment_def)

lemma entry_part_plain:
  assumes "entry_part w"
  shows "plain_segment w"
proof -
  have "CHR ''/'' \<notin> set w" using assms by (auto simp: entry_part_def list_all_iff alnum_def)
  moreover from assms obtain c cs where "w = c # cs" "alnum c" by (cases w) (auto simp: entry_part_def)
  ultimately show ?thesis by (auto simp: plain_segment_def alnum_def)
qed

lemma walk_parts_result:
  "walk_parts h t at parts = Inr at' \<Longrightarrow> list_all plain_segment parts \<Longrightarrow>
     at' = at @ parts \<and> (\<forall>n < length parts. \<exists>kind. h_lstat h (path_text (at @ take (Suc n) parts)) = Some kind \<and> kind \<noteq> Symbolic_Link)"
proof (induction parts arbitrary: at)
  case (Cons w parts)
  then obtain kind where k: "h_lstat h (path_text (at @ [w])) = Some kind" "kind \<noteq> Symbolic_Link"
    and rest: "walk_parts h t (at @ [w]) parts = Inr at'"
    by (auto simp: Let_def split: option.splits file_kind.splits)
  from Cons.IH [OF rest] Cons.prems(2) have IH: "at' = (at @ [w]) @ parts"
    "\<And>n. n < length parts \<Longrightarrow> \<exists>kind. h_lstat h (path_text ((at @ [w]) @ take (Suc n) parts)) = Some kind \<and> kind \<noteq> Symbolic_Link"
    by auto
  have "\<exists>kind. h_lstat h (path_text (at @ take (Suc n) (w # parts))) = Some kind \<and> kind \<noteq> Symbolic_Link"
    if "n < length (w # parts)" for n
    using k IH(2) [of "n - 1"] that by (cases n) auto
  with IH(1) show ?case by simp
qed simp

text \<open>C26. An entrypoint that resolves is the declared parts under the real path of the checkout: none of them
  climbs, no step of the way is a symbolic link, and what stands there is a regular file whose own real
  path is below the checkout.\<close>

theorem entrypoint_stays_in_checkout:
  assumes "resolve_entrypoint p h checkout entrypoint = Inr at"
  shows "\<exists>t pin real. entrypoint = Some (JStr t) \<and> h_realpath h (string_of p checkout) = Some pin
    \<and> at = pin @ split_on (CHR ''/'') t \<and> list_all plain_segment (split_on (CHR ''/'') t)
    \<and> (\<forall>n < length (split_on (CHR ''/'') t).
         \<exists>kind. h_lstat h (path_text (pin @ take (Suc n) (split_on (CHR ''/'') t))) = Some kind \<and> kind \<noteq> Symbolic_Link)
    \<and> h_stat h (path_text at) = Some Regular_File
    \<and> h_realpath h (path_text at) = Some (pin @ real)"
proof -
  from assms obtain t pin real where e: "text_value entrypoint = Some t" and pat: "entrypoint_pattern t"
    and pin: "h_realpath h (string_of p checkout) = Some pin"
    and walk: "walk_parts h t pin (split_on (CHR ''/'') t) = Inr at"
    and kind: "h_stat h (path_text at) = Some Regular_File"
    and real: "h_realpath h (path_text at) = Some real" "contained pin real"
    unfolding resolve_entrypoint_def by (auto simp: bind_res_Inr_iff split: option.splits if_splits)
  from e have "entrypoint = Some (JStr t)" by (auto simp: text_value_def split: option.splits json.splits)
  moreover from pat have "list_all plain_segment (split_on (CHR ''/'') t)"
    by (auto simp: entrypoint_pattern_def Let_def list_all_iff intro: entry_part_plain)
  moreover from contained_below [OF real(2)] obtain rest where "real = pin @ rest" ..
  ultimately show ?thesis using walk_parts_result [OF walk] pin kind real(1) by blast
qed

section \<open>The sandbox\<close>

lemma attachment_binds_own:
  "real \<in> set (attachment_binds h sb masks seen items) \<Longrightarrow>
     \<exists>a \<in> set items. \<exists>given. text_value (member_of a ''path'') = Some given \<and> binds_back h sb masks given = Some real"
  by (induction h sb masks seen items rule: attachment_binds.induct) (auto split: option.splits if_splits)

lemma binds_back_regular:
  "binds_back h sb masks given = Some real \<Longrightarrow>
     h_stat h (path_text real) = Some Regular_File \<and> real = path_resolve (h_cwd h) [given]
     \<and> (\<exists>store \<in> set (sb_store_roots sb). \<exists>rest. real = store @ rest)"
  unfolding binds_back_def
  by (auto simp: list_ex_iff split: option.splits if_splits dest: contained_below)

lemma build_sandbox_roots:
  assumes "build_sandbox h (Some g) store_dir work checkout = Inr sb"
  defines "root \<equiv> path_resolve (h_cwd h) [dg_root g]"
  shows "{root @ [''codex-home''], root @ [''secrets'']} \<union> set (sb_store_roots sb) \<subseteq> set (sb_protected_roots sb)
    \<and> sb_secrets_dir sb = root @ [''secrets'']
    \<and> set (sb_store_roots sb) = {case store_dir of None \<Rightarrow> root @ [''store''] | Some d \<Rightarrow> path_resolve (h_cwd h) [d], root @ [''store'']}
    \<and> (\<exists>denied. deny_paths h g = Inr denied \<and> (\<lambda>t. path_resolve (h_cwd h) [t]) ` set denied \<subseteq> set (sb_protected_roots sb))
    \<and> (\<forall>own \<in> {path_resolve (h_cwd h) [work], path_resolve (h_cwd h) [checkout]}. \<forall>one \<in> set (sb_protected_roots sb). \<not> contained one own)"
  using assms(1) unfolding build_sandbox_def root_def
  by (auto simp: bind_res_Inr_iff Let_def list_ex_iff split: option.splits if_splits)

definition release_attachment :: "json option \<Rightarrow> string \<Rightarrow> bool" where
  "release_attachment envelope given =
     (case envelope_attachments envelope of Inl e \<Rightarrow> False
      | Inr items \<Rightarrow> list_ex (\<lambda>a. text_value (member_of a ''path'') = Some given) items)"


section \<open>The secrets\<close>

lemma program_env_entries:
  "kv \<in> set (program_env h secrets) \<Longrightarrow>
     kv \<in> set secrets \<or> (fst kv \<in> set program_inherited \<and> map_of (h_env h) (fst kv) = Some (snd kv))"
proof -
  have upd: "kv \<in> set (AList.update k w al) \<Longrightarrow> kv \<in> set al \<or> kv = (k, w)" for k w and al :: "(string \<times> string) list"
    by (induction al) (auto split: if_splits)
  have "kv \<in> set (fold (\<lambda>(k, v). AList.update k v) xs al) \<Longrightarrow> kv \<in> set xs \<or> kv \<in> set al"
    for xs and al :: "(string \<times> string) list"
  proof (induction xs arbitrary: al)
    case (Cons x xs)
    from Cons.prems Cons.IH upd show ?case by (cases x) fastforce
  qed simp
  then show "kv \<in> set (program_env h secrets) \<Longrightarrow> ?thesis"
    unfolding program_env_def by (fastforce split: option.splits)
qed


lemma run_settles_at:
  "hr_end (fold (run_step c) evs r) = Some e \<Longrightarrow> hr_end r = None \<Longrightarrow>
     \<exists>r' ev. hr_end r' = None \<and> hr_end (run_step c ev r') = Some e"
proof (induction evs arbitrary: r)
  case (Cons ev evs)
  show ?case
  proof (cases "hr_end (run_step c ev r)")
    case None
    with Cons show ?thesis by simp
  next
    case (Some e')
    with settled_stays [OF this, where evs = evs] Cons.prems have "e' = e" by simp
    with Some Cons.prems(2) show ?thesis by blast
  qed
qed simp

lemma handled_is_parsed:
  "hr_end r = None \<Longrightarrow> hr_end (run_step c ev r) = Some (Handled b) \<Longrightarrow>
     parse_program_result (hc_cwd c) (hc_parse c) (decoded (hr_stdout r)) (hc_envelope c) (hc_work c) = Inr b"
  by (cases ev) (auto simp: settle_run_def closed_end_def Let_def split: if_splits sum.splits)

text \<open>C29. A secret that was delivered, and that the marker cannot spell, is neither in the output a result was
  taken from nor in what a failed turn reports.\<close>

theorem no_secret_leaves_the_turn:
  assumes "handler_spawn p h node envelope s = Inr (spawn, values)" and "v \<in> set values" and "plain_secret v"
    and "run_handler p h parse node envelope timeout events s = (Some e, s')"
  shows "case e of
      Handled b \<Rightarrow> (\<exists>out. parse_program_result (h_cwd h) parse out envelope (path_text (pg_work s)) = Inr b \<and> \<not> js_includes (utf16 v) out)
    | Run_Refused x \<Rightarrow> True
    | Reported f shown \<Rightarrow> \<not> js_includes (utf16 v) shown"
proof (cases "assert_timeout timeout ''turn.timeoutMs''")
  case (Inl x)
  with assms(4) show ?thesis by (auto simp: run_handler_def)
next
  case (Inr u)
  let ?c = "context_of h parse envelope values s"
  from assms(1,4) Inr have "hr_end (fold (run_step ?c) events new_run) = Some e"
    by (auto simp: run_handler_def)
  then obtain r ev where open_run: "hr_end r = None" and last_step: "hr_end (run_step ?c ev r) = Some e"
    using run_settles_at [of ?c events new_run e] by (auto simp: new_run_def)
  have "keeps_secret v (decoded (hr_stdout r)) e"
    using run_step_keeps [of v ?c r ev e] assms(2,3) open_run last_step by (simp add: context_of_def)
  then show ?thesis
    using handled_is_parsed [of r ?c ev] open_run last_step
    by (cases e) (auto simp: keeps_secret_def context_of_def)
qed

text \<open>A run whose timer fires, or whose child closes, has ended, and whatever comes later leaves the end as it is.\<close>

theorem turn_ends_once:
  assumes "handler_spawn p h node envelope s = Inr (spawn, values)" and "assert_timeout timeout ''turn.timeoutMs'' = Inr ()"
    and "ev = Time_Over \<or> ev = Child_Closed exit_code"
  shows "\<exists>e. fst (run_handler p h parse node envelope timeout (before_it @ ev # after_it) s) = Some e
    \<and> fst (run_handler p h parse node envelope timeout (before_it @ [ev]) s) = Some e"
proof -
  let ?c = "context_of h parse envelope values s"
  let ?r = "fold (run_step ?c) before_it new_run"
  have "\<exists>e. hr_end (run_step ?c ev ?r) = Some e"
    using assms(3) by (cases "hr_end ?r") (auto simp: settle_run_def)
  then obtain e where e: "hr_end (run_step ?c ev ?r) = Some e" ..
  with settled_stays [OF e, where evs = after_it] show ?thesis
    using assms(1,2) by (simp add: run_handler_def)
qed

section \<open>What the redaction leaves\<close>

text \<open>The values are taken out in the order of the references: a secret that begins another one, listed
  before it, leaves the rest of the longer secret in the text.\<close>

theorem prefix_secret_leaves_the_rest:
  "redact_secrets (utf16 ''key=abcdef'') [''abc'', ''abcdef''] = utf16 ''key=[redacted]def''"
  by (simp add: redact_secrets_def secret_forms_def utf16_ascii json_quote_def json_char_def each_once_def
      replace_value_Cons redacted_mark_def)

lemma drop_first: "n \<le> length xs \<Longrightarrow> drop n (xs @ ys) = drop n xs @ ys"
  by simp

text \<open>C30. What a cut window loses at its front need not be the tail it wants to lose: of a secret of 2000 bytes
  written five times, the window keeps the end of the first and all of the others; the 2000 bytes that go
  reach into the second, and its last 192 bytes are reported.\<close>

theorem cut_window_shows_a_tail:
  assumes "v = CHR ''x'' # replicate 1999 (CHR ''a'')" and "hc_values c = [v]"
  shows "hr_end (fold (run_step c) [Err_Data (map byte_of (v @ v @ v @ v @ v)), Child_Closed (Some 1)] new_run)
    = Some (Reported (Fault ''PROGRAM_HANDLER_EXITED'' (hc_entry c))
        (map byte_of (drop 1808 v) @ redacted_mark @ redacted_mark @ redacted_mark))"
proof -
  let ?b = "map byte_of v :: nat list"
  let ?tail = "replicate 192 97 :: nat list"
  have len: "length v = 2000" and asc: "ascii v" by (simp_all add: assms(1) ascii_def list_all_iff)
  have tail: "drop 1808 ?b = ?tail" by (simp add: assms(1) drop_map drop_Cons')
  have u: "utf16 v = ?b" using asc by (rule utf16_ascii)
  have "json_char (CHR ''x'') = ''x''" "json_char (CHR ''a'') = ''a''" by (simp_all add: json_char_def)
  then have quoted_self: "butlast (tl (json_quote v)) = v"
    by (simp add: json_quote_def assms(1) map_replicate concat_replicate_single)
  have forms: "secret_forms v = [?b]" by (simp add: secret_forms_def quoted_self u each_once_def)
  have hidden: "replace_value redacted_mark ?b (?tail @ ?b @ ?b @ ?b) = ?tail @ redacted_mark @ redacted_mark @ redacted_mark"
  proof -
    have ne: "?b \<noteq> []" using len by auto
    have hd: "hd ?b = 120" by (simp add: assms(1))
    have "replace_value redacted_mark ?b (?b @ ?b @ ?b) = redacted_mark @ redacted_mark @ redacted_mark"
      using replace_value_here [OF ne, of redacted_mark "?b @ ?b"] replace_value_here [OF ne, of redacted_mark ?b]
        replace_value_here [OF ne, of redacted_mark "[]"] by simp
    then show ?thesis using replace_value_skip [of ?b ?tail redacted_mark "?b @ ?b @ ?b"] ne hd by (simp add: list_all_iff)
  qed
  have window: "last_of stderr_window (?b @ ?b @ ?b @ ?b @ ?b) = ?tail @ ?b @ ?b @ ?b @ ?b"
    using len tail by (simp add: last_of_def stderr_window_def drop_first)
  have dropped: "drop 2000 (?tail @ ?b @ ?b @ ?b @ ?b) = ?tail @ ?b @ ?b @ ?b"
    using len tail by (simp add: drop_first)
  have ascii_bytes: "list_all (\<lambda>b. b < 128) (?tail @ ?b @ ?b @ ?b)"
    using asc by (auto simp: ascii_def list_all_iff)
  have shown: "last_of stderr_tail (?tail @ redacted_mark @ redacted_mark @ redacted_mark) =
      ?tail @ redacted_mark @ redacted_mark @ redacted_mark"
    by (simp add: last_of_def stderr_tail_def redacted_mark_def)
  have cut: "stderr_window < length (?b @ ?b @ ?b @ ?b @ ?b)" using len by (simp add: stderr_window_def)
  let ?r = "run_step c (Err_Data (?b @ ?b @ ?b @ ?b @ ?b)) new_run"
  have r: "hr_stderr ?r = ?tail @ ?b @ ?b @ ?b @ ?b" "hr_cut ?r" "hr_end ?r = None"
    using cut window by (simp_all add: new_run_def Let_def del: length_append append.assoc)
  have "shown_stderr c ?r = ?tail @ redacted_mark @ redacted_mark @ redacted_mark"
    unfolding shown_stderr_def Let_def
    using r assms(2) len dropped shown hidden decoded_ascii [OF ascii_bytes]
    by (simp add: longest_value_def redact_secrets_def forms del: run_step.simps append.assoc)
  with r(3) tail show ?thesis by (simp add: settle_run_def closed_end_def drop_map del: run_step.simps(2))
qed

end
