(* ===== verification/Program_Prepare_Props.thy ===== *)
theory Program_Prepare_Props
  imports Program_Props
begin

text \<open>
  The prepared artifacts: what the sweep leaves of them, which names a prepare can write, and that a prepare
  that fails leaves nothing of its own. And where the harness meets the runtime: the deny file the runtime
  checked is the one the sandbox reads, and a required tool server holds every release.
\<close>

section \<open>The sweep\<close>

abbreviation own_entry :: "string \<times> prepared_entry \<Rightarrow> bool" where
  "own_entry r \<equiv> prepared_pattern (fst r) \<and> pe_kind (snd r) = Regular_File"

lemma remove_own:
  assumes "\<And>n e. n \<in> set ns \<Longrightarrow> map_of es n = Some e \<Longrightarrow> prepared_pattern n \<and> pe_kind e = Regular_File"
  shows "fold remove_if_ours ns es = filter (\<lambda>r. fst r \<notin> set ns) es"
  using assms
proof (induction ns arbitrary: es)
  case (Cons n ns)
  have step: "remove_if_ours n es = filter (\<lambda>r. fst r \<noteq> n) es"
  proof (cases "map_of es n")
    case None
    then have "\<forall>r \<in> set es. fst r \<noteq> n" by (auto simp: map_of_eq_None_iff)
    then show ?thesis using None by (simp add: remove_if_ours_def)
  next
    case (Some e)
    with Cons.prems [of n e] show ?thesis
      by (simp add: remove_if_ours_def AList.delete_eq) (rule filter_cong, auto)
  qed
  have "map_of (filter (\<lambda>r. fst r \<noteq> n) es) m = (if m = n then None else map_of es m)" for m
    by (induction es) auto
  with Cons.prems have "fold remove_if_ours ns (filter (\<lambda>r. fst r \<noteq> n) es) =
      filter (\<lambda>r. fst r \<notin> set ns) (filter (\<lambda>r. fst r \<noteq> n) es)"
    by (intro Cons.IH) (auto split: if_splits)
  then show ?case by (simp add: step conj_commute)
qed simp

lemma set_our_rows: "set (our_rows es) = {r \<in> set es. own_entry r}"
  by (auto simp: our_rows_def)

lemma distinct_our_rows:
  assumes "distinct (keys es)"
  shows "distinct (keys (our_rows es))"
proof -
  have "distinct (our_rows es)" using assms by (auto simp: our_rows_def distinct_map)
  moreover have "inj_on fst (set (our_rows es))"
    using assms by (auto simp: set_our_rows distinct_map inj_on_def)
  ultimately show ?thesis by (simp add: distinct_map)
qed

lemma insert_newest:
  "sorted_wrt (\<lambda>a b. t b \<le> t a) xs \<Longrightarrow> sorted_wrt (\<lambda>a b. t b \<le> t a) (insert_cmp (\<lambda>a b. t b - t a) x xs)" for t :: "'a \<Rightarrow> int"
  by (induction xs) auto

lemma newest_first: "sorted_wrt (\<lambda>a b. pe_time (snd b) \<le> pe_time (snd a)) (our_rows es)"
proof -
  have "sorted_wrt (\<lambda>a b. t b \<le> t a) (sort_cmp (\<lambda>a b. t b - t a) xs)" for t :: "'a \<Rightarrow> int" and xs
    by (induction xs) (auto intro: insert_newest)
  then show ?thesis by (simp add: our_rows_def)
qed

abbreviation fresh_at :: "int \<Rightarrow> string \<times> prepared_entry \<Rightarrow> bool" where
  "fresh_at now r \<equiv> now - pe_time (snd r) \<le> prepare_keep_ms"

lemma in_swept_names:
  "n \<in> set (swept_names now es) \<longleftrightarrow> (\<exists>j < length (our_rows es). fst (our_rows es ! j) = n
     \<and> (prepare_keep_files \<le> j \<or> \<not> fresh_at now (our_rows es ! j)))"
proof -
  have "n \<in> set (swept_names now es) \<longleftrightarrow> (\<exists>x \<in> set (enumerate 0 (our_rows es)).
      fst (snd x) = n \<and> (prepare_keep_files \<le> fst x \<or> prepare_keep_ms < now - pe_time (snd (snd x))))"
    unfolding swept_names_def by (simp add: split_beta) (auto simp: Bex_def split: if_splits)
  then show ?thesis by (auto simp: Bex_def in_set_enumerate_eq not_le)
qed

lemma swept_name_iff:
  assumes "distinct (keys es)" and "i < length (our_rows es)"
  shows "fst (our_rows es ! i) \<in> set (swept_names now es) \<longleftrightarrow> prepare_keep_files \<le> i \<or> \<not> fresh_at now (our_rows es ! i)"
proof -
  have unique: "j = i" if "j < length (our_rows es)" "fst (our_rows es ! j) = fst (our_rows es ! i)" for j
    using distinct_our_rows [OF assms(1)] that assms(2) by (metis length_map nth_eq_iff_index_eq nth_map)
  then show ?thesis using assms(2) by (auto simp only: in_swept_names)
qed

lemma swept_names_own: "n \<in> set (swept_names now es) \<Longrightarrow> \<exists>e. (n, e) \<in> set (our_rows es)"
  by (auto simp only: in_swept_names) (metis nth_mem prod.collapse)+

lemma swept_filter:
  assumes "distinct (keys es)"
  shows "swept now es = filter (\<lambda>r. fst r \<notin> set (swept_names now es)) es"
  unfolding swept_def
proof (rule remove_own)
  fix n e
  assume n: "n \<in> set (swept_names now es)" and e: "map_of es n = Some e"
  from swept_names_own [OF n] obtain e' where "(n, e') \<in> set es" "own_entry (n, e')" by (auto simp: set_our_rows)
  moreover from this e assms have "e' = e" by (metis map_of_eq_Some_iff option.inject)
  ultimately show "prepared_pattern n \<and> pe_kind e = Regular_File" by simp
qed

lemma set_take_nth: "set (take n xs) = {xs ! i | i. i < length xs \<and> i < n}"
  unfolding set_conv_nth by auto (metis nth_take)

text \<open>C31. After a sweep the harness's own files in \<open>work/prepared\<close> are exactly the first 64 of them, newest first,
  less those older than an hour; nothing else in the directory has changed.\<close>

theorem sweep_leaves_the_newest:
  assumes "distinct (keys es)"
  shows "sorted_wrt (\<lambda>a b. pe_time (snd b) \<le> pe_time (snd a)) (our_rows es)
    \<and> set (our_rows es) = set (filter own_entry es)
    \<and> set (our_rows (swept now es)) = set (filter (fresh_at now) (take prepare_keep_files (our_rows es)))
    \<and> length (our_rows (swept now es)) \<le> prepare_keep_files
    \<and> filter (\<lambda>r. \<not> own_entry r) (swept now es) = filter (\<lambda>r. \<not> own_entry r) es"
proof -
  let ?rows = "our_rows es"
  have "set (our_rows (swept now es)) = {r \<in> set ?rows. fst r \<notin> set (swept_names now es)}"
    by (auto simp: swept_filter [OF assms] set_our_rows)
  also have "\<dots> = {?rows ! i | i. i < length ?rows \<and> i < prepare_keep_files \<and> fresh_at now (?rows ! i)}"
  proof -
    have kept: "fst (?rows ! i) \<notin> set (swept_names now es) \<longleftrightarrow> i < prepare_keep_files \<and> fresh_at now (?rows ! i)"
      if "i < length ?rows" for i
      using swept_name_iff [OF assms that, of now] by auto
    show ?thesis unfolding set_conv_nth [of ?rows] using kept by blast
  qed
  also have "\<dots> = set (filter (fresh_at now) (take prepare_keep_files ?rows))"
    by (auto simp: set_take_nth)
  finally have rows: "set (our_rows (swept now es)) = set (filter (fresh_at now) (take prepare_keep_files ?rows))" .
  have "distinct (keys (swept now es))"
    using assms by (simp add: swept_filter distinct_map_filter)
  then have "distinct (our_rows (swept now es))" using distinct_our_rows distinct_map by blast
  then have "length (our_rows (swept now es)) = card (set (filter (fresh_at now) (take prepare_keep_files ?rows)))"
    by (metis distinct_card rows)
  also have "\<dots> \<le> prepare_keep_files"
    by (rule order_trans [OF card_length], rule order_trans [OF length_filter_le]) simp
  finally have count: "length (our_rows (swept now es)) \<le> prepare_keep_files" .
  have "filter (\<lambda>r. \<not> own_entry r) (swept now es) = filter (\<lambda>r. \<not> own_entry r) es"
  proof -
    have "fst r \<notin> set (swept_names now es)" if "r \<in> set es" "\<not> own_entry r" for r
    proof
      assume "fst r \<in> set (swept_names now es)"
      then obtain e where "(fst r, e) \<in> set es" "own_entry (fst r, e)" using swept_names_own by (fastforce simp: set_our_rows)
      with assms that show False by (metis fst_conv map_of_eq_Some_iff option.inject prod.collapse)
    qed
    then show ?thesis by (auto simp: swept_filter [OF assms] intro: filter_cong)
  qed
  then show ?thesis using rows count newest_first [of es] set_our_rows [of es] by simp
qed

section \<open>Artifacts\<close>

lemma clean_join3:
  assumes "split_on d (a @ d # b @ d # x) = [a', b', x']"
  shows "a = a' \<and> b = b' \<and> x = x'"
proof -
  have "count_list (a @ d # b @ d # x) d = 2" using length_split_on [of d "a @ d # b @ d # x"] assms by simp
  then have "d \<notin> set a" "d \<notin> set b" "d \<notin> set x" by (auto simp: count_list_0_iff)
  then have "split_on d (a @ d # b @ d # x) = [a, b, x]"
    by (simp add: split_on_append_sep split_on_plain)
  with assms show ?thesis by simp
qed

lemma show_int_clean: "CHR 0x0A \<notin> set (show_int i)"
proof -
  have "CHR 0x0A \<notin> set (show_nat n)" for n
  proof
    assume "CHR 0x0A \<in> set (show_nat n)"
    from show_nat_digits [OF this] show False by simp
  qed
  then show ?thesis by (simp add: show_int_def)
qed

lemma sha_clean: "sha256_pattern t \<Longrightarrow> CHR 0x0A \<notin> set t"
  by (auto simp: sha256_pattern_def list_all_iff hex_lower_def)

lemma preparable_sha:
  "m \<in> set (preparable messages) \<Longrightarrow> a \<in> set (sm_attachments m) \<Longrightarrow> sha256_pattern (sa_sha256 a)"
  by (auto simp: preparable_def preparable_attachment_def Let_def split: option.splits json.splits if_splits)

lemma allowed_key_parts:
  assumes "artifact_key mid rv sha \<in> set (allowed_keys sent)"
    and "\<And>m. m \<in> set sent \<Longrightarrow> CHR 0x0A \<notin> set (sm_source_id m)"
    and "\<And>m a. m \<in> set sent \<Longrightarrow> a \<in> set (sm_attachments m) \<Longrightarrow> sha256_pattern (sa_sha256 a)"
  shows "\<exists>m \<in> set sent. \<exists>a \<in> set (sm_attachments m). mid = sm_source_id m \<and> rv = show_int (sm_revision m) \<and> sha = sa_sha256 a"
proof -
  from assms(1) obtain m a where m: "m \<in> set sent" and a: "a \<in> set (sm_attachments m)"
    and k: "artifact_key mid rv sha = artifact_key (sm_source_id m) (show_int (sm_revision m)) (sa_sha256 a)"
    by (auto simp: allowed_keys_def)
  have "split_on (CHR 0x0A) (artifact_key (sm_source_id m) (show_int (sm_revision m)) (sa_sha256 a))
      = [sm_source_id m, show_int (sm_revision m), sa_sha256 a]"
    using assms(2) [OF m] show_int_clean sha_clean [OF assms(3) [OF m a]]
    by (simp add: artifact_key_def newline_def split_on_append_sep split_on_plain)
  with k have "split_on (CHR 0x0A) (mid @ CHR 0x0A # rv @ CHR 0x0A # sha)
      = [sm_source_id m, show_int (sm_revision m), sa_sha256 a]"
    by (simp add: artifact_key_def newline_def)
  from clean_join3 [OF this] m a show ?thesis by blast
qed

lemma bind_rows_bound:
  "bind_rows p permitted seen rows = Inr bound \<Longrightarrow>
     length bound = length rows \<and> (\<forall>(n, content) \<in> set bound. length content \<le> prepare_artifact_bytes
       \<and> (\<exists>mid rv sha. artifact_key mid rv sha \<in> set permitted \<and> n = prepared_name mid rv sha))"
proof (induction p permitted seen rows arbitrary: bound rule: bind_rows.induct)
  case (2 p permitted seen row rows)
  then show ?case by (fastforce simp: Let_def bind_res_Inr_iff not_less split: if_splits)
qed simp

lemma safe_name_chars: "c \<in> set (safe_name t) \<Longrightarrow> name_char c"
proof -
  assume "c \<in> set (safe_name t)"
  then have "c \<in> set (map (\<lambda>u. if name_unit u then char_of u else CHR ''_'') (utf16 t))"
    unfolding safe_name_def by (rule in_set_takeD)
  moreover have "char_of (95 :: nat) = CHR ''_''" "char_of (45 :: nat) = CHR ''-''" by code_simp+
  ultimately show "name_char c" by (auto simp: name_char_def alnum_def name_unit_def word_unit_def)
qed

lemma name_char_clean [simp]: "\<not> name_char (CHR ''.'')" "\<not> name_char (CHR ''/'')"
  by (simp_all add: name_char_def alnum_def)

lemma utf16_Nil_iff [simp]: "utf16 t = [] \<longleftrightarrow> t = []"
  by (cases t) (auto simp: utf16.simps(2) Let_def)

lemma prepared_name_ours:
  assumes "mid \<noteq> []" and "0 \<le> rv" and "sha256_pattern sha"
  shows "prepared_pattern (prepared_name mid (show_int rv) sha) \<and> plain_segment (prepared_name mid (show_int rv) sha)"
proof -
  let ?a = "safe_name mid" and ?r = "CHR ''r'' # show_nat (nat rv)"
  have dots: "CHR ''.'' \<notin> set ?a" "CHR ''/'' \<notin> set ?a" using safe_name_chars name_char_clean by blast+
  have rdots: "CHR ''.'' \<notin> set ?r" "CHR ''/'' \<notin> set ?r" using show_nat_digits by fastforce+
  have hdots: "CHR ''.'' \<notin> set sha" "CHR ''/'' \<notin> set sha"
    using assms(3) by (auto simp: sha256_pattern_def list_all_iff hex_lower_def)
  have n: "prepared_name mid (show_int rv) sha = ?a @ CHR ''.'' # ?r @ CHR ''.'' # sha @ CHR ''.'' # ''json''"
    using assms(2) by (simp add: prepared_name_def show_int_def)
  then have parts: "split_on (CHR ''.'') (prepared_name mid (show_int rv) sha) = [?a, ?r, sha, ''json'']"
    using dots rdots hdots by (simp only: n split_on_append_sep not_False_eq_True) (simp add: split_on_plain)
  have "?a \<noteq> []" "length ?a \<le> 80" using assms(1) by (simp_all add: safe_name_def)
  moreover have "digits_text (show_nat (nat rv))"
    using show_nat_digits by (fastforce simp: digits_text_def digit_def list_all_iff)
  ultimately have "prepared_pattern (prepared_name mid (show_int rv) sha)"
    using assms(3) safe_name_chars unfolding prepared_pattern_def parts by (simp add: list_all_iff)
  moreover have "plain_segment (prepared_name mid (show_int rv) sha)"
    using n dots rdots hdots by (auto simp: plain_segment_def)
  ultimately show ?thesis ..
qed

definition storable_ids :: "sent_message list \<Rightarrow> bool" where
  "storable_ids sent \<longleftrightarrow> list_all (\<lambda>m. CHR 0x0A \<notin> set (sm_source_id m) \<and> sm_source_id m \<noteq> [] \<and> 0 \<le> sm_revision m) sent"

lemma artifact_named:
  assumes "bind_artifacts p parse t (preparable messages) = Inr bound" and "storable_ids (preparable messages)"
    and "(n, content) \<in> set bound"
  shows "length content \<le> prepare_artifact_bytes \<and> plain_segment n \<and> prepared_pattern n
         \<and> (\<exists>m \<in> set (preparable messages). \<exists>a \<in> set (sm_attachments m).
              n = prepared_name (sm_source_id m) (show_int (sm_revision m)) (sa_sha256 a))"
proof -
  have ids: "CHR 0x0A \<notin> set (sm_source_id m) \<and> sm_source_id m \<noteq> [] \<and> 0 \<le> sm_revision m"
    if "m \<in> set (preparable messages)" for m using assms(2) that by (simp add: storable_ids_def list_all_iff)
  from assms(1) obtain rows where "bind_rows p (allowed_keys (preparable messages)) [] rows = Inr bound"
    by (auto simp: bind_artifacts_def split: option.splits json.splits if_splits)
  from bind_rows_bound [OF this] assms(3) obtain mid rv sha
    where k: "artifact_key mid rv sha \<in> set (allowed_keys (preparable messages))"
      and n: "n = prepared_name mid rv sha" and len: "length content \<le> prepare_artifact_bytes" by blast
  from allowed_key_parts [OF k] ids preparable_sha obtain m a where m: "m \<in> set (preparable messages)"
    "a \<in> set (sm_attachments m)" "mid = sm_source_id m" "rv = show_int (sm_revision m)" "sha = sa_sha256 a" by metis
  with prepared_name_ours [of "sm_source_id m" "sm_revision m" "sa_sha256 a"] ids preparable_sha n len
  show ?thesis by metis
qed

text \<open>What a prepare child prints is bound to the attachments it was given: at most sixteen artifacts, each of
  bounded size, each under the name of one attachment that was sent, which is a plain file name the sweep
  recognises. The message ids hold no line feed and are not empty, as the store has it.\<close>

theorem artifact_is_bound:
  assumes "bind_artifacts p parse t (preparable messages) = Inr bound" and "storable_ids (preparable messages)"
  shows "length bound \<le> prepare_max_artifacts
    \<and> (\<forall>(n, content) \<in> set bound. length content \<le> prepare_artifact_bytes \<and> plain_segment n \<and> prepared_pattern n
         \<and> (\<exists>m \<in> set (preparable messages). \<exists>a \<in> set (sm_attachments m).
              n = prepared_name (sm_source_id m) (show_int (sm_revision m)) (sa_sha256 a)))"
proof -
  from assms(1) obtain rows where few: "length rows \<le> prepare_max_artifacts"
    and rows: "bind_rows p (allowed_keys (preparable messages)) [] rows = Inr bound"
    by (auto simp: bind_artifacts_def not_less split: option.splits json.splits if_splits)
  with bind_rows_bound [OF rows] have "length bound \<le> prepare_max_artifacts" by simp
  then show ?thesis using artifact_named [OF assms] by blast
qed

lemma written_artifacts:
  "write_artifacts tmp now files items es = (Inr files', es') \<Longrightarrow>
     files' = files @ map fst items
     \<and> (\<forall>n. if n \<in> fst ` set items
            then (\<exists>content. (n, content) \<in> set items \<and> map_of es' n = Some \<lparr>pe_kind = Regular_File, pe_time = now, pe_content = content\<rparr>)
            else map_of es' n = map_of es n)"
proof (induction items arbitrary: files es)
  case (Cons item items)
  obtain n content where item: "item = (n, content)" by (cases item)
  from Cons.prems item have "write_artifacts tmp now (files @ [n]) items
      (AList.update n \<lparr>pe_kind = Regular_File, pe_time = now, pe_content = content\<rparr> es) = (Inr files', es')"
    by (auto simp: write_artifact_def split: if_splits)
  note IH = Cons.IH [OF this]
  show ?case using IH item by (auto split: if_splits)
qed simp

lemma unwritten_artifacts:
  assumes "write_artifacts tmp now files items cur = (Inl e, es')" and "distinct (keys cur)"
    and "\<And>k x. (k, x) \<in> set cur \<Longrightarrow> (k, x) \<in> set es \<or> k \<in> set files"
    and "\<And>k x. k \<in> set files \<Longrightarrow> map_of cur k = Some x \<Longrightarrow> prepared_pattern k \<and> pe_kind x = Regular_File"
    and "\<And>n content. (n, content) \<in> set items \<Longrightarrow> prepared_pattern n"
  shows "set es' \<subseteq> set es"
  using assms
proof (induction items arbitrary: files cur)
  case (Cons item items)
  obtain n content where item: "item = (n, content)" by (cases item)
  show ?case
  proof (cases "write_artifact tmp now item cur")
    case (Inl e')
    with Cons.prems(1) have "es' = fold remove_if_ours files cur" by simp
    with remove_own [of files cur, OF Cons.prems(4)] have "es' = filter (\<lambda>r. fst r \<notin> set files) cur" by simp
    with Cons.prems(3) show ?thesis by (simp add: subset_iff) blast
  next
    case (Inr cur')
    let ?x = "\<lparr>pe_kind = Regular_File, pe_time = now, pe_content = content\<rparr>"
    from Inr item have c: "cur' = AList.update n ?x cur" by (auto simp: write_artifact_def split: if_splits)
    show ?thesis
    proof (rule Cons.IH)
      show "write_artifacts tmp now (files @ [n]) items cur' = (Inl e, es')" using Cons.prems(1) Inr item by simp
      show "distinct (keys cur')" using Cons.prems(2) by (simp add: c distinct_keys_update)
      show "(k, x) \<in> set es \<or> k \<in> set (files @ [n])" if "(k, x) \<in> set cur'" for k x
        using that Cons.prems(2,3) by (auto simp: c set_update_distinct)
      show "prepared_pattern k \<and> pe_kind x = Regular_File" if "k \<in> set (files @ [n])" "map_of cur' k = Some x" for k x
        using that Cons.prems(4) [of k x] Cons.prems(5) item by (auto simp: c split: if_splits)
      show "prepared_pattern m" if "(m, w) \<in> set items" for m w using that Cons.prems(5) by auto
    qed
  qed
qed simp


section \<open>The deny file\<close>

definition clean_char :: "char \<Rightarrow> bool" where
  "clean_char c \<longleftrightarrow> c \<noteq> CHR 0x22 \<and> c \<noteq> CHR 0x0A \<and> c \<noteq> CHR 0x0D \<and> c \<noteq> CHR 0xE2"

lemma js_lines_not_Nil [simp]: "js_lines t \<noteq> []"
  by (cases t) (simp_all add: js_lines.simps(2))

lemma js_lines_clean:
  "list_all (\<lambda>c. c \<noteq> CHR 0x0A \<and> c \<noteq> CHR 0x0D \<and> c \<noteq> CHR 0xE2) line \<Longrightarrow> js_lines (line @ CHR 0x0A # t) = line # js_lines t"
  by (induction line) (auto simp: js_lines.simps(2))

lemma dropWhile_quote: "list_all clean_char t \<Longrightarrow> dropWhile (\<lambda>c. c \<noteq> CHR 0x22) (t @ CHR 0x22 # rest) = CHR 0x22 # rest"
  by (induction t) (auto simp: clean_char_def)

lemma takeWhile_quote: "list_all clean_char t \<Longrightarrow> takeWhile (\<lambda>c. c \<noteq> CHR 0x22) (t @ CHR 0x22 # rest) = t"
  by (induction t) (auto simp: clean_char_def)

lemma quoted_texts_skip: "c \<noteq> CHR 0x22 \<Longrightarrow> quoted_texts (c # t) = quoted_texts t"
  by (subst (1 2) quoted_texts.simps) simp

lemma quoted_texts_Nil [simp]: "quoted_texts [] = []"
  by (simp add: quoted_texts.simps)

lemma quoted_texts_quoted: "list_all clean_char t \<Longrightarrow> quoted_texts (quoted t @ rest) = t # quoted_texts rest"
  by (subst quoted_texts.simps) (simp add: quoted_def dropWhile_quote takeWhile_quote)

lemma quoted_texts_join: "list_all (list_all clean_char) ts \<Longrightarrow> quoted_texts (join '', '' (map quoted ts)) = ts"
proof (induction ts)
  case (Cons t ts)
  then show ?case
    using quoted_texts_quoted [of t "[]"] quoted_texts_quoted [of t "'', '' @ join '', '' (map quoted ts)"]
    by (cases ts) (simp_all add: quoted_texts_skip)
qed simp

lemma deny_line_skip:
  assumes "list_all (\<lambda>c. c \<noteq> CHR 0x0A \<and> c \<noteq> CHR 0x0D \<and> c \<noteq> CHR 0xE2) line" and "deny_read_of line = None"
  shows "find (\<lambda>l. deny_read_of l \<noteq> None) (js_lines (line @ CHR 0x0A # t)) = find (\<lambda>l. deny_read_of l \<noteq> None) (js_lines t)"
  using assms by (simp add: js_lines_clean)

definition denied_under :: "bool \<Rightarrow> string list" where
  "denied_under browser =
     (if browser then [''/codex-home'', ''/secrets'', ''/store'', ''/companion-private'', ''/runtime-private'', ''/source-work'']
      else [''/codex-home/auth.json'', ''/secrets''])"

lemma clean_join: "list_all (list_all P) ts \<Longrightarrow> P (CHR 0x2C) \<Longrightarrow> P (CHR 0x20) \<Longrightarrow> list_all P (join '', '' ts)"
proof (induction ts)
  case (Cons t ts)
  then show ?case by (cases ts) auto
qed simp

lemma written_deny_file:
  assumes content: "h_read h (dg_file g) = Some (sandbox_deny_body (dg_root g) (dg_browser g))"
    and root: "is_absolute (dg_root g)" "list_all clean_char (dg_root g)"
  shows "deny_paths h g = Inr (map (\<lambda>d. dg_root g @ d) (denied_under (dg_browser g)))"
proof -
  let ?ps = "map (\<lambda>d. dg_root g @ d) (denied_under (dg_browser g))"
  let ?line = "''deny_read = ['' @ join '', '' (map quoted ?ps) @ '']''"
  have clean: "list_all (list_all clean_char) ?ps"
    using root(2) by (auto simp: denied_under_def clean_char_def)
  have plain_line: "list_all (\<lambda>c. c \<noteq> CHR 0x0A \<and> c \<noteq> CHR 0x0D \<and> c \<noteq> CHR 0xE2) ?line"
  proof -
    have "list_all (\<lambda>c. c \<noteq> CHR 0x0A \<and> c \<noteq> CHR 0x0D \<and> c \<noteq> CHR 0xE2) (join '', '' (map quoted ?ps))"
      using clean by (intro clean_join) (auto simp: list_all_iff quoted_def clean_char_def)
    then show ?thesis by simp
  qed
  have deny_line: "deny_read_of ?line = Some (join '', '' (map quoted ?ps))"
    by (simp add: deny_read_of_def ends_with_iff butlast_append)
  have hit: "find (\<lambda>l. deny_read_of l \<noteq> None) (js_lines (?line @ CHR 0x0A # [])) = Some ?line"
    unfolding js_lines_clean [OF plain_line] find.simps deny_line by simp
  have found: "find (\<lambda>l. deny_read_of l \<noteq> None) (js_lines (sandbox_deny_body (dg_root g) (dg_browser g))) = Some ?line"
  proof (cases "dg_browser g")
    case True
    define a where "a = ''# Placed by carbon bootstrap.sh for HC-14 browser isolation.''"
    define b where "b = ''[permissions.filesystem]''"
    from True have whole: "sandbox_deny_body (dg_root g) (dg_browser g) = a @ CHR 0x0A # b @ CHR 0x0A # ?line @ CHR 0x0A # []"
      by (simp add: sandbox_deny_body_def denied_under_def newline_def quoted_def a_def b_def)
    have "find (\<lambda>l. deny_read_of l \<noteq> None) (js_lines (x @ CHR 0x0A # t)) = find (\<lambda>l. deny_read_of l \<noteq> None) (js_lines t)"
      if "x \<in> {a, b}" for x t
      by (rule deny_line_skip) (use that in \<open>auto simp: a_def b_def deny_read_of_def\<close>)
    then show ?thesis unfolding whole by (simp only: insert_iff simp_thms hit)
  next
    case False
    define a where "a = ''# Placed by carbon bootstrap.sh for HC-14. The model'' @ [CHR 0x27] @ ''s shell may not read the''"
    define b where "b = ''# provider login or the secrets directory. Nothing else is set here.''"
    define d where "d = ''[permissions.filesystem]''"
    from False have whole: "sandbox_deny_body (dg_root g) (dg_browser g) =
        a @ CHR 0x0A # b @ CHR 0x0A # d @ CHR 0x0A # ?line @ CHR 0x0A # []"
      by (simp add: sandbox_deny_body_def denied_under_def newline_def quoted_def a_def b_def d_def)
    have "find (\<lambda>l. deny_read_of l \<noteq> None) (js_lines (x @ CHR 0x0A # t)) = find (\<lambda>l. deny_read_of l \<noteq> None) (js_lines t)"
      if "x \<in> {a, b, d}" for x t
      by (rule deny_line_skip) (use that in \<open>auto simp: a_def b_def d_def deny_read_of_def\<close>)
    then show ?thesis unfolding whole by (simp only: insert_iff simp_thms hit)
  qed
  have "?ps \<noteq> []" "list_all is_absolute ?ps"
    using root(1) by (auto simp: denied_under_def is_absolute_def starts_with_iff)
  then show ?thesis
    using content quoted_texts_join [OF clean] found deny_line by (simp add: deny_paths_def Let_def)
qed

text \<open>The deny file the runtime checked before the harness started is the one the harness reads: where the
  check of the loop passes, the sandbox hides exactly the paths the runtime wrote down.\<close>

theorem checked_deny_file_is_read:
  assumes "check_sandbox_deny g (Some f) = Inr ()" and "h_read h (dg_file g) = ds_body f"
    and "is_absolute (dg_root g)" and "list_all clean_char (dg_root g)"
  shows "deny_paths h g = Inr (map (\<lambda>d. dg_root g @ d) (denied_under (dg_browser g)))"
proof (rule written_deny_file [OF _ assms(3,4)])
  from assms(1) have "ds_body f = Some (sandbox_deny_body (dg_root g) (dg_browser g))"
    by (auto simp: check_sandbox_deny_def deny_wrong_def split: if_splits)
  with assms(2) show "h_read h (dg_file g) = Some (sandbox_deny_body (dg_root g) (dg_browser g))" by simp
qed

section \<open>The tool servers\<close>

text \<open>The program harness connects no declared server, so each required one holds every release, in the
  order of their names, unless a declared server goes by a name of the runtime's own.\<close>

theorem required_servers_hold:
  assumes "set (program_required_servers decl) \<inter> {reply_server_name, teach_server_name, records_server_name} = {}"
  shows "program_holds_release decl (list_program_servers decl) =
    map (\<lambda>n. Fault ''TOOL_SERVER_STATE_UNAVAILABLE'' (''tool_servers.'' @ n)) (sorted_names (program_required_servers decl))"
proof -
  have "map_of (rev (list_program_servers decl)) n \<noteq> Some (Some ''connected'')" if "n \<in> set (program_required_servers decl)" for n
  proof
    assume "map_of (rev (list_program_servers decl)) n = Some (Some ''connected'')"
    then have "(n, Some ''connected'') \<in> set (list_program_servers decl)" by (metis map_of_SomeD set_rev)
    with that assms show False by (auto simp: list_program_servers_def split: if_splits option.splits)
  qed
  then have "filter (\<lambda>n. map_of (rev (list_program_servers decl)) n \<noteq> Some (Some ''connected'')) (sorted_names (program_required_servers decl))
      = sorted_names (program_required_servers decl)"
    by (intro filter_True) (simp add: sorted_names_def)
  then show ?thesis by (simp add: program_holds_release_def)
qed

end
