(* ===== verification/Program_Sample.thy ===== *)
theory Program_Sample
  imports Program_Prepare_Props
begin

text \<open>
  The program harness on concrete inputs: each of its theorems that has hypotheses, applied where they hold.
\<close>

section \<open>Inputs\<close>

text \<open>A host with a checkout at \<open>/co\<close>, whose real path is \<open>/pin\<close>, an agent directory \<open>/a\<close> with a secret, and
  one captured file in its store.\<close>

definition box_kind :: "string \<Rightarrow> file_kind option" where
  "box_kind t =
     (if t \<in> {''/pin/run.ts'', ''/a/secrets/k'', ''/a/store/f''} then Some Regular_File
      else if t \<in> {''/a/secrets'', ''/a/store'', ''/w''} then Some Directory else None)"

definition box_host :: host where
  "box_host =
     \<lparr>h_env = [(''PATH'', ''/bin''), (''OTHER'', ''x'')], h_cwd = [],
      h_realpath = \<lambda>t. if t = ''/co'' then Some [''pin''] else Some (path_resolve [] [t]),
      h_lstat = box_kind, h_stat = box_kind,
      h_read = \<lambda>t. if t = ''/a/secrets/k'' then Some (''sesame'' @ [CHR 0x0A])
                   else if t = ''/etc/deny'' then Some (sandbox_deny_body ''/a'' False) else None,
      h_has_setpriv = False, h_runs = \<lambda>argv. True\<rparr>"

definition box_gate :: deny_gate where
  "box_gate = \<lparr>dg_file = ''/etc/deny'', dg_root = ''/a'', dg_owner = 0, dg_browser = False\<rparr>"

definition box_deny :: deny_stat where
  "box_deny = \<lparr>ds_symlink = False, ds_is_file = True, ds_uid = 0, ds_mode = 420, ds_body = Some (sandbox_deny_body ''/a'' False)\<rparr>"

definition box_sandbox :: sandbox where
  "box_sandbox =
     \<lparr>sb_launcher = [''bwrap''], sb_store_roots = [[''a'', ''store''], [''a'', ''store'']],
      sb_protected_roots = [[''a'', ''codex-home'', ''auth.json''], [''a'', ''secrets''], [''a'', ''codex-home''], [''a'', ''store'']],
      sb_secrets_dir = [''a'', ''secrets'']\<rparr>"

definition box_envelope :: json where
  "box_envelope = JObj
     [(''conversation_id'', JStr ''c''), (''release_id'', JStr ''r''),
      (''messages'', JArr [JObj [(''attachments'', JArr [JObj [(''path'', JStr ''/a/store/f'')]])]])]"

definition box_reply :: program_body where
  "box_reply =
     \<lparr>pb_disposition = Program_Reply,
      pb_replies = [\<lparr>pr_conversation = Some (JStr ''c''), pr_request = Some (JStr ''r''), pr_text = ''done'',
                     pr_attachments = Some [''/w/out.pdf''], pr_job = None, pr_move = None\<rparr>],
      pb_observations = [(''seen'', ''one'')], pb_timings = [(''all'', JInt 5)]\<rparr>"

definition box_declaration :: json where
  "box_declaration = JObj
     [(''harness'', JObj [(''secret_refs'', JArr [JStr ''k''])]),
      (''secrets'', JArr [JObj [(''name'', JStr ''k''), (''path'', JStr ''/a/secrets/k'')]]),
      (''tool_servers'', JArr [JObj [(''name'', JStr ''search''), (''required'', JBool True)]])]"

definition box_session :: program_session where
  "box_session =
     \<lparr>pg_entrypoint = [''pin'', ''run.ts''], pg_work = [''w''], pg_timeout = Some (JInt 5000), pg_declaration = box_declaration,
      pg_sandbox = box_sandbox, pg_last_spawn = None, pg_prepare_entrypoint = Some [''pin'', ''prepare.ts''],
      pg_pinned = True, pg_stopped = False, pg_place = Place []\<rparr>"

definition box_platform :: platform where
  "box_platform =
     \<lparr>sha256_hex = \<lambda>t. [], date_parse = \<lambda>t. None, to_iso = \<lambda>i. [], locale_compare = \<lambda>a b. 0,
      number_text = \<lambda>n d. [], problem_text = \<lambda>f. [], fix_text = \<lambda>f. []\<rparr>"

lemmas box_defs = box_host_def box_gate_def box_deny_def box_sandbox_def box_envelope_def box_declaration_def box_session_def

lemmas path_defs = path_resolve_def resolve_one_def push_segment_def path_text_def

section \<open>The result\<close>

lemma box_reply_fenced: "fenced_body [] (Some box_envelope) ''/w'' box_reply"
  by (simp add: fenced_body_def fenced_reply_def box_reply_def fenced_attachments_def box_envelope_def nullish_def
      member_at_def member_of_def members_of_def is_absolute_def under_work_def contained_def path_defs short_name_def
      duration_ok_def)

theorem parsed_result_is_fenced_witness:
  "fenced_body [] (Some box_envelope) ''/w'' box_reply
   \<and> list_all (\<lambda>r. \<forall>given \<in> set (case pr_attachments r of None \<Rightarrow> [] | Some xs \<Rightarrow> xs).
        \<exists>rest. path_resolve [] [given] = path_resolve [] [''/w''] @ rest) (pb_replies box_reply)"
  by (rule parsed_result_is_fenced [of _ "\<lambda>t. Some (result_document box_reply)" "[]"])
    (simp add: parse_program_result_def fenced_result_accepted box_reply_fenced)

theorem fenced_result_round_trip_witness:
  "parse_program_result [] (\<lambda>t. Some (result_document box_reply)) [] (Some box_envelope) ''/w'' = Inr box_reply"
  by (rule fenced_result_round_trip) (simp_all add: box_reply_fenced)

section \<open>The child\<close>

lemma box_entrypoint: "resolve_entrypoint box_platform box_host (Some (JStr ''/co'')) (Some (JStr ''run.ts'')) = Inr [''pin'', ''run.ts'']"
  by (simp add: resolve_entrypoint_def text_value_def is_absolute_def climbs_def entrypoint_pattern_def entry_part_def
      alnum_def ends_with_def string_of_def box_host_def box_kind_def path_defs contained_def)

theorem entrypoint_stays_in_checkout_witness:
  "\<exists>t pin real. Some (JStr ''run.ts'') = Some (JStr t) \<and> h_realpath box_host (string_of box_platform (Some (JStr ''/co''))) = Some pin
    \<and> [''pin'', ''run.ts''] = pin @ split_on (CHR ''/'') t \<and> list_all plain_segment (split_on (CHR ''/'') t)
    \<and> (\<forall>n < length (split_on (CHR ''/'') t).
         \<exists>kind. h_lstat box_host (path_text (pin @ take (Suc n) (split_on (CHR ''/'') t))) = Some kind \<and> kind \<noteq> Symbolic_Link)
    \<and> h_stat box_host (path_text [''pin'', ''run.ts'']) = Some Regular_File
    \<and> h_realpath box_host (path_text [''pin'', ''run.ts'']) = Some (pin @ real)"
  by (rule entrypoint_stays_in_checkout [OF box_entrypoint])

theorem checked_deny_file_is_read_witness:
  "deny_paths box_host box_gate = Inr [''/a/codex-home/auth.json'', ''/a/secrets'']"
proof -
  have "deny_paths box_host box_gate = Inr (map (\<lambda>d. dg_root box_gate @ d) (denied_under (dg_browser box_gate)))"
    by (rule checked_deny_file_is_read [of _ box_deny])
      (simp_all add: box_defs check_sandbox_deny_def deny_wrong_def is_absolute_def clean_char_def)
  then show ?thesis by (simp add: box_gate_def denied_under_def)
qed

lemma box_denied: "deny_paths box_host box_gate = Inr [''/a/codex-home/auth.json'', ''/a/secrets'']"
  using written_deny_file [of box_host box_gate]
  by (simp add: box_host_def box_gate_def is_absolute_def clean_char_def denied_under_def)

lemma box_builds: "build_sandbox box_host (Some box_gate) None ''/w'' ''/co'' = Inr box_sandbox"
  by (simp add: build_sandbox_def box_denied) (simp add: box_defs path_defs Let_def each_once_def contained_def launcher_argv_def)

lemma box_spawns:
  "sandboxed_spawn box_host box_sandbox ''node'' [''/pin/run.ts''] (Some box_envelope) [] =
     Inr (''bwrap'', [''--die-with-parent'', ''--unshare-pid'', ''--dev-bind'', ''/'', ''/'', ''--proc'', ''/proc'',
       ''--tmpfs'', ''/a/secrets'', ''--tmpfs'', ''/a/store'', ''--ro-bind'', ''/a/store/f'', ''/a/store/f'', ''node'', ''/pin/run.ts''])"
  by (simp add: sandboxed_spawn_def existing_masks_def attachment_args_def envelope_attachments_def box_defs box_kind_def
      or_else_def nullish_def member_at_def member_of_def members_of_def flat_items_def text_value_def is_absolute_def
      binds_back_def contained_def path_defs mask_args_def bind_args_def Let_def)


lemma upper_k: "char_of (75 :: nat) = CHR ''K''"
  by code_simp

lemma box_secrets: "load_secrets box_platform box_host box_declaration [''a'', ''secrets''] =
    Inr ([(''CARBON_SECRET_K'', ''sesame'')], [''sesame''])"
  by (simp add: load_secrets_def one_secret_def box_declaration_def member_at_def member_of_def members_of_def declared_list_def
      elements_of_def other_consumer_secret_names_def consumer_names_def held_paths_def defined_def has_name_def secret_path_def
      text_value_def secret_ref_pattern_def lower_letter_def is_absolute_def contained_def path_defs read_secret_file_def
      box_host_def box_kind_def strip_line_end_def ends_with_def secret_env_name_def secret_env_prefix_def path_base_def
      base_name_def backup_secret_files_def Let_def upper_k)

definition box_child :: child_spawn where
  "box_child = \<lparr>cs_command = ''bwrap'',
     cs_args = [''--die-with-parent'', ''--unshare-pid'', ''--dev-bind'', ''/'', ''/'', ''--proc'', ''/proc'',
       ''--tmpfs'', ''/a/secrets'', ''--tmpfs'', ''/a/store'', ''--ro-bind'', ''/a/store/f'', ''/a/store/f'', ''node'', ''/pin/run.ts''],
     cs_cwd = [''w''], cs_env = [(''PATH'', ''/bin''), (''CARBON_SECRET_K'', ''sesame'')]\<rparr>"

lemma box_session_simps [simp]:
  "pg_declaration box_session = box_declaration" "pg_sandbox box_session = box_sandbox" "pg_work box_session = [''w'']"
  "pg_entrypoint box_session = [''pin'', ''run.ts'']" "sb_secrets_dir box_sandbox = [''a'', ''secrets'']"
  by (simp_all add: box_session_def box_sandbox_def)

lemma box_handler: "handler_spawn box_platform box_host ''node'' (Some box_envelope) box_session = Inr (box_child, [''sesame''])"
proof -
  have "path_text [''pin'', ''run.ts''] = ''/pin/run.ts''" by (simp add: path_text_def)
  moreover have "program_env box_host [(''CARBON_SECRET_K'', ''sesame'')] = [(''PATH'', ''/bin''), (''CARBON_SECRET_K'', ''sesame'')]"
    by (simp add: program_env_def program_inherited_def box_host_def)
  ultimately show ?thesis by (simp add: handler_spawn_def box_secrets box_spawns box_child_def)
qed


section \<open>The run\<close>

lemma sesame_plain: "plain_secret ''sesame''"
  by (simp add: plain_secret_def unspelled_def redacted_word_def utf16_ascii)

text \<open>A handler that writes its secret on stderr and exits with 1.\<close>

lemma box_run:
  "run_handler box_platform box_host (\<lambda>t. None) ''node'' (Some box_envelope) (Some (JInt 5000))
     [Err_Data (map byte_of ''key sesame''), Child_Closed (Some 1), Time_Over] box_session
   = (Some (Reported (Fault ''PROGRAM_HANDLER_EXITED'' ''/pin/run.ts'') (map byte_of ''key [redacted]'')),
      box_session\<lparr>pg_last_spawn := Some (cs_command box_child, cs_args box_child)\<rparr>)"
proof -
  have "decoded (map byte_of ''key sesame'') = map byte_of ''key sesame''" by (rule decoded_ascii) simp
  then show ?thesis
    by (simp add: run_handler_def assert_timeout_def box_handler context_of_def new_run_def Let_def stderr_window_def last_of_def
        settle_run_def closed_end_def shown_stderr_def stderr_tail_def redact_secrets_def secret_forms_def utf16_ascii
        json_quote_def json_char_def each_once_def replace_value_Cons redacted_mark_def path_text_def)
qed

theorem no_secret_leaves_the_turn_witness:
  "\<not> js_includes (utf16 ''sesame'') (map byte_of ''key [redacted]'')"
  using no_secret_leaves_the_turn [OF box_handler _ sesame_plain box_run] by simp

theorem cut_window_shows_a_tail_witness:
  "hr_end (fold (run_step (context_of box_host (\<lambda>t. None) None [CHR ''x'' # replicate 1999 (CHR ''a'')] box_session))
      [Err_Data (map byte_of (concat (replicate 5 (CHR ''x'' # replicate 1999 (CHR ''a''))))), Child_Closed (Some 1)] new_run)
    = Some (Reported (Fault ''PROGRAM_HANDLER_EXITED'' ''/pin/run.ts'')
        (map byte_of (drop 1808 (CHR ''x'' # replicate 1999 (CHR ''a''))) @ redacted_mark @ redacted_mark @ redacted_mark))"
proof -
  define v where "v = CHR ''x'' # replicate 1999 (CHR ''a'')"
  have five: "concat (replicate 5 v) = v @ v @ v @ v @ v" by (simp add: eval_nat_numeral)
  have "hc_entry (context_of box_host (\<lambda>t. None) None [v] box_session) = ''/pin/run.ts''"
    by (simp add: context_of_def path_text_def)
  then show ?thesis
    using cut_window_shows_a_tail [of v "context_of box_host (\<lambda>t. None) None [v] box_session"]
    unfolding v_def [symmetric] five by (simp add: v_def context_of_def del: fold_simps run_step.simps)
qed

section \<open>The prepared artifacts\<close>

definition old_name :: string where
  "old_name = ''m.r1.'' @ replicate 64 (CHR ''a'') @ ''.json''"

definition old_entries :: "(string \<times> prepared_entry) list" where
  "old_entries =
     [(''notes'', \<lparr>pe_kind = Regular_File, pe_time = 0, pe_content = []\<rparr>),
      (old_name, \<lparr>pe_kind = Regular_File, pe_time = 0, pe_content = ''x''\<rparr>)]"

lemma old_name_parts: "split_on (CHR ''.'') old_name = [''m'', ''r1'', replicate 64 (CHR ''a''), ''json'']"
  by (simp add: old_name_def split_on_append_sep split_on_plain)

lemma old_name_ours: "prepared_pattern old_name"
  by (simp add: prepared_pattern_def old_name_parts name_char_def alnum_def digits_text_def digit_def sha256_pattern_def
      hex_lower_def list_all_iff)

theorem sweep_leaves_the_newest_witness:
  "our_rows (swept (prepare_keep_ms + 1) old_entries) = [] \<and> length (our_rows old_entries) = 1"
proof -
  have "distinct (keys old_entries)" by (simp add: old_entries_def old_name_def)
  note left = sweep_leaves_the_newest [OF this, of "prepare_keep_ms + 1"]
  have "\<not> prepared_pattern ''notes''" by (simp add: prepared_pattern_def)
  then have rows: "our_rows old_entries = [(old_name, \<lparr>pe_kind = Regular_File, pe_time = 0, pe_content = ''x''\<rparr>)]"
    using old_name_ours by (simp add: our_rows_def old_entries_def)
  with left have "set (our_rows (swept (prepare_keep_ms + 1) old_entries)) = {}"
    by (simp add: prepare_keep_files_def)
  with rows show ?thesis by simp
qed

definition box_messages :: "json list" where
  "box_messages = [JObj
     [(''source_message_id'', JStr ''m''), (''revision'', JInt 1),
      (''attachments'', JArr [JObj [(''path'', JStr ''/a/store/f''), (''sha256'', JStr (replicate 64 (CHR ''a'')))]])]]"

definition box_artifacts :: json where
  "box_artifacts = JObj
     [(''schema'', JStr ''carbon.program-prepare-result.v1''),
      (''artifacts'', JArr [JObj [(''source_message_id'', JStr ''m''), (''revision'', JInt 1),
         (''sha256'', JStr (replicate 64 (CHR ''a''))), (''body'', JStr ''text'')]])]"

lemma box_preparable: "preparable box_messages =
    [\<lparr>sm_source_id = ''m'', sm_revision = 1, sm_attachments =
       [\<lparr>sa_sha256 = replicate 64 (CHR ''a''), sa_path = ''/a/store/f'', sa_mime = JNull, sa_bytes = JNull, sa_filename = JNull\<rparr>]\<rparr>]"
  by (simp add: preparable_def box_messages_def declared_list_def elements_of_def preparable_attachment_def member_of_def
      members_of_def text_value_def sha256_pattern_def hex_lower_def list_all_iff or_else_def nullish_def)

lemma one_text: "show_int 1 = ''1''"
proof -
  have "char_of (49 :: nat) = CHR ''1''" by code_simp
  then show ?thesis by (simp add: show_int_def show_nat.simps digit_char_def)
qed

lemma box_name: "prepared_name ''m'' ''1'' (replicate 64 (CHR ''a'')) = old_name"
proof -
  have "char_of (109 :: nat) = CHR ''m''" by code_simp
  then show ?thesis by (simp add: prepared_name_def safe_name_def old_name_def utf16_ascii name_unit_def word_unit_def)
qed

lemma box_content:
  "length (artifact_content box_platform (JObj
     [(''source_message_id'', JStr ''m''), (''revision'', JInt 1), (''sha256'', JStr (replicate 64 (CHR ''a''))), (''body'', JStr ''text'')]))
   \<le> prepare_artifact_bytes"
proof -
  have "json_char (CHR ''a'') = ''a''" by (simp add: json_char_def)
  then have "concat (map json_char (replicate 64 (CHR ''a''))) = replicate 64 (CHR ''a'')"
    by (simp only: map_replicate concat_replicate_single)
  then show ?thesis
    by (simp add: artifact_content_def defined_members_def member_of_def members_of_def or_else_def nullish_def one_text
        json_quote_def json_char_def prepare_artifact_bytes_def)
qed

lemma box_bound: "\<exists>content. bind_artifacts box_platform (\<lambda>t. Some box_artifacts) out (preparable box_messages) = Inr [(old_name, content)]"
  using box_content
  by (simp add: bind_artifacts_def box_artifacts_def box_preparable member_of_def members_of_def prepare_max_artifacts_def
      allowed_keys_def string_of_def Let_def one_text box_name not_less)


theorem turn_ends_once_witness:
  "\<exists>e. fst (run_handler box_platform box_host (\<lambda>t. None) ''node'' (Some box_envelope) (Some (JInt 5000)) ([] @ Time_Over # [Child_Closed (Some 0)]) box_session) = Some e
    \<and> fst (run_handler box_platform box_host (\<lambda>t. None) ''node'' (Some box_envelope) (Some (JInt 5000)) ([] @ [Time_Over]) box_session) = Some e"
  by (rule turn_ends_once [OF box_handler]) (simp_all add: assert_timeout_def)

end
