(* ===== verification/Mime.thy ===== *)
theory Mime
  imports Utf8
begin

text \<open>
  Reading a mail (\<open>adapters/email/mime.ts\<close>): headers, encoded words, transfer encodings and parameters,
  on lines of code units (the wire is read as latin1, so a unit is a byte). \<open>toLowerCase\<close>, \<open>TextDecoder\<close> of
  a named encoding and the base64 decoding of \<open>Buffer\<close> are the record \<open>mail_lib\<close>.
\<close>

record mail_lib =
  ml_lower :: "nat list \<Rightarrow> nat list"
  ml_decode :: "nat list \<Rightarrow> nat list \<Rightarrow> nat list option"   \<comment> \<open>\<open>None\<close>: no such encoding\<close>
  ml_base64 :: "nat list \<Rightarrow> nat list"

abbreviation units :: "string \<Rightarrow> nat list" where
  "units t \<equiv> map byte_of t"

section \<open>Replacing\<close>

text \<open>\<open>text.replace(/pattern/g, f)\<close>: a matcher answers, for the text from a position on, how many units it
  matches there and what stands for them.\<close>

type_synonym matcher = "nat list \<Rightarrow> (nat \<times> nat list) option"

function replace_all :: "matcher \<Rightarrow> nat list \<Rightarrow> nat list" where
  "replace_all mt [] = []"
| "replace_all mt (x # xs) =
     (case mt (x # xs) of
        None \<Rightarrow> x # replace_all mt xs
      | Some (n, r) \<Rightarrow> if n = 0 then x # replace_all mt xs else r @ replace_all mt (drop n (x # xs)))"
  by pat_completeness auto
termination
  by (relation "measure (length \<circ> snd)") auto

declare replace_all.simps(2) [simp del]

section \<open>Headers\<close>

record mail_header =
  mh_name :: "nat list"
  mh_raw :: "nat list"
  mh_value :: "nat list"

fun split_headers :: "nat list list \<Rightarrow> nat list list \<times> nat list list" where
  "split_headers [] = ([], [])"
| "split_headers (l # ls) =
     (if l = [] \<or> l = [13] then ([], ls) else (l # fst (split_headers ls), snd (split_headers ls)))"

definition strip_cr :: "nat list \<Rightarrow> nat list" where
  "strip_cr l = (if l \<noteq> [] \<and> last l = 13 then butlast l else l)"

definition unfold_line :: "nat list list \<Rightarrow> nat list \<Rightarrow> nat list list" where
  "unfold_line acc line =
     (let t = strip_cr line in
      if t \<noteq> [] \<and> (hd t = 32 \<or> hd t = 9) \<and> acc \<noteq> [] then butlast acc @ [last acc @ 32 # trim_list t] else acc @ [t])"

definition unfold_lines :: "nat list list \<Rightarrow> nat list list" where
  "unfold_lines ls = foldl unfold_line [] ls"

section \<open>Encoded words\<close>

definition hex_unit :: "nat \<Rightarrow> nat option" where
  "hex_unit u =
     (if 48 \<le> u \<and> u \<le> 57 then Some (u - 48) else if 65 \<le> u \<and> u \<le> 70 then Some (u - 55)
      else if 97 \<le> u \<and> u \<le> 102 then Some (u - 87) else None)"

text \<open>The bytes of one unit; half of a pair alone has no encoding of its own.\<close>

definition bytes_of_unit :: "nat \<Rightarrow> nat list" where
  "bytes_of_unit u = encoded [u]"

fun quoted_bytes :: "nat list \<Rightarrow> nat list" where
  "quoted_bytes [] = []"
| "quoted_bytes (u # us) =
     (case us of
        a # b # vs \<Rightarrow>
          (case (hex_unit a, hex_unit b) of
             (Some h, Some l) \<Rightarrow> if u = 61 then (16 * h + l) # quoted_bytes vs else bytes_of_unit u @ quoted_bytes us
           | _ \<Rightarrow> bytes_of_unit u @ quoted_bytes us)
      | _ \<Rightarrow> bytes_of_unit u @ quoted_bytes us)"

text \<open>\<open>/=\r?\n/g\<close>.\<close>

definition soft_break :: matcher where
  "soft_break t = (if starts_with [61, 13, 10] t then Some (3, []) else if starts_with [61, 10] t then Some (2, []) else None)"

definition decode_quoted_printable :: "nat list \<Rightarrow> bool \<Rightarrow> nat list" where
  "decode_quoted_printable t single = quoted_bytes (if single then t else replace_all soft_break t)"

text \<open>\<open>.replace(/^"|"$/g, '')\<close>.\<close>

definition strip_quotes :: "nat list \<Rightarrow> nat list" where
  "strip_quotes t =
     (let u = (if t \<noteq> [] \<and> hd t = 34 then tl t else t) in if u \<noteq> [] \<and> last u = 34 then butlast u else u)"

definition decode_text :: "mail_lib \<Rightarrow> nat list \<Rightarrow> nat list option \<Rightarrow> nat list" where
  "decode_text lib bytes charset =
     (let name = strip_quotes (ml_lower lib (case charset of None \<Rightarrow> units ''utf-8'' | Some c \<Rightarrow> if c = [] then units ''utf-8'' else c)) in
      case ml_decode lib name bytes of Some t \<Rightarrow> t | None \<Rightarrow> decoded bytes)"

text \<open>\<open>/(\?=)\s+(=\?)/g\<close> and \<open>/=\?([^?]+)\?([bBqQ])\?([^?]*)\?=/g\<close>.\<close>

definition between_words :: matcher where
  "between_words t =
     (let spaces = takeWhile js_space (drop 2 t) in
      if starts_with [63, 61] t \<and> spaces \<noteq> [] \<and> starts_with [61, 63] (drop (2 + length spaces) t)
      then Some (4 + length spaces, [63, 61, 61, 63]) else None)"

definition encoded_word :: "mail_lib \<Rightarrow> matcher" where
  "encoded_word lib t =
     (let charset = takeWhile (\<lambda>u. u \<noteq> 63) (drop 2 t);
          kind = drop (2 + length charset) t;
          content = takeWhile (\<lambda>u. u \<noteq> 63) (drop 3 kind) in
      if starts_with [61, 63] t \<and> charset \<noteq> [] \<and> starts_with [63] kind \<and> starts_with [63] (drop 2 kind)
         \<and> kind ! 1 \<in> {66, 98, 81, 113} \<and> starts_with [63, 61] (drop (3 + length content) kind)
      then Some (2 + length charset + 3 + length content + 2,
        decode_text lib
          (if kind ! 1 \<in> {66, 98} then ml_base64 lib content
           else decode_quoted_printable (map (\<lambda>u. if u = 95 then 32 else u) content) True)
          (Some charset))
      else None)"

definition decode_words :: "mail_lib \<Rightarrow> nat list \<Rightarrow> nat list" where
  "decode_words lib t =
     (if \<not> js_includes [61, 63] t then t else replace_all (encoded_word lib) (replace_all between_words t))"

definition parse_header :: "mail_lib \<Rightarrow> nat list \<Rightarrow> mail_header list" where
  "parse_header lib line =
     (let name = takeWhile (\<lambda>u. u \<noteq> 58) line in
      if 58 \<notin> set line \<or> name = [] then []
      else (let content = trim_list (drop (Suc (length name)) line) in
            [\<lparr>mh_name = ml_lower lib (trim_list name), mh_raw = content, mh_value = decode_words lib content\<rparr>]))"

definition parse_headers :: "mail_lib \<Rightarrow> nat list list \<Rightarrow> mail_header list" where
  "parse_headers lib ls = concat (map (parse_header lib) (unfold_lines ls))"

definition header_found :: "mail_header list \<Rightarrow> string \<Rightarrow> mail_header option" where
  "header_found hs name = find (\<lambda>h. mh_name h = units name) hs"

definition header_value :: "mail_header list \<Rightarrow> string \<Rightarrow> nat list option" where
  "header_value hs name = map_option mh_value (header_found hs name)"

definition header_raw :: "mail_header list \<Rightarrow> string \<Rightarrow> nat list option" where
  "header_raw hs name = map_option mh_raw (header_found hs name)"

definition headers_all :: "mail_header list \<Rightarrow> string \<Rightarrow> nat list list" where
  "headers_all hs name = map mh_value (filter (\<lambda>h. mh_name h = units name) hs)"

section \<open>Bodies and parameters\<close>

text \<open>What reading throws: \<open>MimeUnreadable\<close> with its message, or the \<open>RangeError\<close> of a number that is no code point.\<close>

datatype mail_error = Mime_Unreadable "nat list" | Range_Error

definition known_encodings :: "string list" where
  "known_encodings = [''7bit'', ''8bit'', ''binary'', ''base64'', ''quoted-printable'', '''']"

definition to_bytes :: "nat list \<Rightarrow> nat list" where
  "to_bytes t = (if list_ex (\<lambda>u. 255 < u) t then encoded t else t)"

fun join_lines :: "nat list list \<Rightarrow> nat list" where
  "join_lines [] = []"
| "join_lines [l] = l"
| "join_lines (l # m # ls) = l @ 10 # join_lines (m # ls)"

definition undecodable :: "nat list \<Rightarrow> nat list option \<Rightarrow> nat list" where
  "undecodable name encoding =
     units ''the part '' @ name @ units '' declares the content transfer encoding \"'' @ (case encoding of None \<Rightarrow> [] | Some e \<Rightarrow> e)
     @ units ''\", which this reader does not decode''"

definition decode_body :: "mail_lib \<Rightarrow> nat list list \<Rightarrow> nat list option \<Rightarrow> nat list \<Rightarrow> mail_error + nat list" where
  "decode_body lib ls encoding name =
     (let kind = trim_list (ml_lower lib (case encoding of None \<Rightarrow> [] | Some e \<Rightarrow> e)); t = join_lines (map strip_cr ls) in
      if kind \<notin> set (map units known_encodings) then Inl (Mime_Unreadable (undecodable name encoding))
      else if kind = units ''base64'' then Inr (ml_base64 lib (filter (\<lambda>u. \<not> js_space u) t))
      else if kind = units ''quoted-printable'' then Inr (decode_quoted_printable t False)
      else Inr (to_bytes t))"

text \<open>The pieces between the semicolons that stand outside quotes.\<close>

fun semicolon_parts :: "bool \<Rightarrow> nat list \<Rightarrow> nat list \<Rightarrow> nat list list" where
  "semicolon_parts inside_quotes current [] = [current]"
| "semicolon_parts inside_quotes current (u # us) =
     (let q = (if u = 34 then \<not> inside_quotes else inside_quotes) in
      if u = 59 \<and> \<not> q then current # semicolon_parts q [] us else semicolon_parts q (current @ [u]) us)"

definition parameter_text :: "nat list \<Rightarrow> nat list" where
  "parameter_text t = (if t \<noteq> [] \<and> hd t = 34 then takeWhile (\<lambda>u. u \<noteq> 34) (tl t) else t)"

definition strip_star :: "nat list \<Rightarrow> nat list" where
  "strip_star t = (if t \<noteq> [] \<and> last t = 42 then butlast t else t)"

definition put_parameter :: "mail_lib \<Rightarrow> nat list \<Rightarrow> (nat list \<times> nat list) list \<Rightarrow> (nat list \<times> nat list) list" where
  "put_parameter lib piece ps =
     (let name = takeWhile (\<lambda>u. u \<noteq> 61) piece in
      if 61 \<notin> set piece then ps
      else AList.update (strip_star (ml_lower lib (trim_list name)))
             (decode_words lib (parameter_text (trim_list (drop (Suc (length name)) piece)))) ps)"

definition parse_parameters :: "mail_lib \<Rightarrow> nat list \<Rightarrow> nat list \<times> (nat list \<times> nat list) list" where
  "parse_parameters lib written =
     (let parts = semicolon_parts False [] written in
      (ml_lower lib (trim_list (hd parts)), fold (put_parameter lib) (tl parts) []))"

end
