(* ===== verification/Mime_Walk.thy ===== *)
theory Mime_Walk
  imports Mime
begin

text \<open>
  The parts of a mail (\<open>adapters/email/mime.ts\<close>): the tags of an HTML part stripped pass by pass until
  nothing changes, the walk over the parts with its limit of depth, and the reading of a whole message.
  A pass loop is a partial function: that it returns is a theorem.
\<close>

section \<open>Tags\<close>

definition ascii_lower :: "nat \<Rightarrow> nat" where
  "ascii_lower u = (if 65 \<le> u \<and> u \<le> 90 then u + 32 else u)"

definition starts_any_case :: "string \<Rightarrow> nat list \<Rightarrow> bool" where
  "starts_any_case w t = starts_with (units w) (map ascii_lower t)"

definition ascii_word :: "nat \<Rightarrow> bool" where
  "ascii_word u \<longleftrightarrow> (48 \<le> u \<and> u \<le> 57) \<or> (65 \<le> u \<and> u \<le> 90) \<or> u = 95 \<or> (97 \<le> u \<and> u \<le> 122)"

text \<open>The first place of a text after which it starts with another, counted from the front.\<close>

fun place_of :: "string \<Rightarrow> nat list \<Rightarrow> nat option" where
  "place_of w [] = (if w = [] then Some 0 else None)"
| "place_of w (u # us) = (if starts_any_case w (u # us) then Some 0 else map_option Suc (place_of w us))"

text \<open>\<open>/<(script|style)\b[^>]*>[\s\S]*?<\/\1>/gi\<close>.\<close>

definition block_of :: "string \<Rightarrow> nat list \<Rightarrow> nat option" where
  "block_of name t =
     (let start = Suc (length name); behind = drop start t; head = takeWhile (\<lambda>u. u \<noteq> 62) behind;
          inner = drop (Suc (length head)) behind in
      if starts_any_case (CHR ''<'' # name) t \<and> (behind = [] \<or> \<not> ascii_word (hd behind)) \<and> 62 \<in> set behind
      then map_option (\<lambda>n. start + Suc (length head) + n + length name + 3) (place_of (''</'' @ name @ ''>'') inner)
      else None)"

definition script_block :: matcher where
  "script_block t =
     map_option (\<lambda>n. (n, [])) (case block_of ''script'' t of Some n \<Rightarrow> Some n | None \<Rightarrow> block_of ''style'' t)"

text \<open>\<open>/<!--[\s\S]*?-->/g\<close>.\<close>

definition comment_block :: matcher where
  "comment_block t =
     (if starts_any_case ''<!--'' t then map_option (\<lambda>n. (4 + n + 3, [])) (place_of ''-->'' (drop 4 t)) else None)"

definition closing_names :: "string list" where
  "closing_names = [''p'', ''div'', ''tr'', ''h1'', ''h2'', ''h3'', ''h4'', ''h5'', ''h6'', ''li'']"

text \<open>\<open>/<\/(p|div|tr|h[1-6]|li)\s*>/gi\<close>.\<close>

definition closing_length :: "nat list \<Rightarrow> string \<Rightarrow> nat option" where
  "closing_length t name =
     (let spaces = takeWhile js_space (drop (2 + length name) t); n = 2 + length name + length spaces in
      if starts_any_case (''</'' @ name) t \<and> starts_with [62] (drop n t) then Some (Suc n) else None)"

definition closing_tag :: matcher where
  "closing_tag t = (case List.map_filter (closing_length t) closing_names of [] \<Rightarrow> None | n # _ \<Rightarrow> Some (n, [10]))"

text \<open>\<open>/<br\s*\/?>/gi\<close> and \<open>/<[^>]+>/g\<close>.\<close>

definition break_tag :: matcher where
  "break_tag t =
     (let n = 3 + length (takeWhile js_space (drop 3 t)); m = (if starts_with [47] (drop n t) then Suc n else n) in
      if starts_any_case ''<br'' t \<and> starts_with [62] (drop m t) then Some (Suc m, [10]) else None)"

definition any_tag :: matcher where
  "any_tag t =
     (let inner = takeWhile (\<lambda>u. u \<noteq> 62) (tl t) in
      if starts_with [60] t \<and> inner \<noteq> [] \<and> 62 \<in> set (tl t) then Some (length inner + 2, []) else None)"

partial_function (option) until_stable :: "matcher \<Rightarrow> nat list \<Rightarrow> nat list option" where
  "until_stable mt t = (let t1 = replace_all mt t in if t1 = t then Some t1 else until_stable mt t1)"

section \<open>Entities\<close>

definition entities :: "(string \<times> nat list) list" where
  "entities =
     [(''amp'', [38]), (''lt'', [60]), (''gt'', [62]), (''quot'', [34]), (''apos'', [39]), (''nbsp'', [32]),
      (''#39'', [39]), (''#160'', [32])]"

text \<open>What reading a member of the table finds that the table does not name: of the names of
  \<open>Object.prototype\<close> only one has small letters alone, and a function becomes its text.\<close>

definition inherited_entity :: "(nat list \<times> nat list) list" where
  "inherited_entity = [(units ''constructor'', units ''function Object() { [native code] }'')]"

definition entity_table :: "(nat list \<times> nat list) list" where
  "entity_table = map (\<lambda>(k, v). (units k, v)) entities @ inherited_entity"

fun number_of :: "nat list \<Rightarrow> nat \<Rightarrow> nat" where
  "number_of [] acc = acc"
| "number_of (u # us) acc = number_of us (10 * acc + (u - 48))"

definition digit_unit :: "nat \<Rightarrow> bool" where
  "digit_unit u \<longleftrightarrow> 48 \<le> u \<and> u \<le> 57"

definition entity_at :: "nat list \<Rightarrow> (nat \<times> nat list) option" where
  "entity_at t =
     (let sharp = (if starts_with [35] (drop 1 t) then [35] else []);
          run = takeWhile (\<lambda>u. ascii_word u \<and> u \<noteq> 95) (drop (1 + length sharp) t) in
      if starts_with [38] t \<and> run \<noteq> [] \<and> starts_with [59] (drop (1 + length sharp + length run) t)
      then Some (2 + length sharp + length run, sharp @ run) else None)"

text \<open>\<open>String.fromCodePoint\<close> throws for a number that is no code point.\<close>

definition entity_text :: "nat list \<Rightarrow> mail_error + nat list option" where
  "entity_text name =
     (let key' = map ascii_lower name in
      case map_of entity_table key' of
        Some t \<Rightarrow> Inr (Some t)
      | None \<Rightarrow>
          if starts_with [35] key' \<and> tl key' \<noteq> [] \<and> list_all digit_unit (tl key') then
            (if 1114111 < number_of (tl key') 0 then Inl Range_Error else Inr (Some (units_of_point (number_of (tl key') 0))))
          else Inr None)"

function decode_entities :: "nat list \<Rightarrow> mail_error + nat list" where
  "decode_entities [] = Inr []"
| "decode_entities (x # xs) =
     (case entity_at (x # xs) of
        None \<Rightarrow> bind_res (decode_entities xs) (\<lambda>t. Inr (x # t))
      | Some (n, name) \<Rightarrow>
          bind_res (entity_text name) (\<lambda>found.
            bind_res (decode_entities (drop (max n 1) (x # xs))) (\<lambda>t.
              Inr ((case found of Some r \<Rightarrow> r | None \<Rightarrow> take (max n 1) (x # xs)) @ t))))"
  by pat_completeness auto
termination
  by (relation "measure length") (auto simp: max_def)

declare decode_entities.simps(2) [simp del]

text \<open>\<open>/[ \t]+\n/g\<close> and \<open>/\n{3,}/g\<close>.\<close>

definition line_tail :: matcher where
  "line_tail t =
     (let n = length (takeWhile (\<lambda>u. u = 32 \<or> u = 9) t) in
      if 0 < n \<and> starts_with [10] (drop n t) then Some (Suc n, [10]) else None)"

definition line_run :: matcher where
  "line_run t = (let n = length (takeWhile (\<lambda>u. u = 10) t) in if 3 \<le> n then Some (n, [10, 10]) else None)"

text \<open>The passes; what they leave is decoded and tidied. \<open>None\<close> would be a pass that never ends.\<close>

definition tag_passes :: "nat list \<Rightarrow> nat list option" where
  "tag_passes html =
     Option.bind (until_stable script_block html) (\<lambda>a.
     Option.bind (until_stable comment_block a) (\<lambda>b.
     Option.bind (until_stable closing_tag b) (\<lambda>c.
     Option.bind (until_stable break_tag c) (until_stable any_tag))))"

definition strip_html :: "nat list \<Rightarrow> (mail_error + nat list) option" where
  "strip_html html = map_option (\<lambda>t.
     bind_res (decode_entities t) (\<lambda>u. Inr (trim_list (replace_all line_run (replace_all line_tail u))))) (tag_passes html)"

section \<open>The parts\<close>

text \<open>\<open>current\<close> is whether a part is open; the parts are built newest first.\<close>

fun split_multipart :: "nat list \<Rightarrow> bool \<Rightarrow> nat list list list \<Rightarrow> nat list list \<Rightarrow> nat list list list" where
  "split_multipart bound current parts [] = map rev (rev parts)"
| "split_multipart bound current parts (l # ls) =
     (let t = strip_cr l in
      if t = [45, 45] @ bound then split_multipart bound True ([] # parts) ls
      else if t = [45, 45] @ bound @ [45, 45] then split_multipart bound False parts ls
      else if current then split_multipart bound current ((l # hd parts) # tl parts) ls
      else split_multipart bound current parts ls)"

record mail_attachment =
  ma_bytes :: "nat list option"          \<comment> \<open>\<open>None\<close>: over the cap, carried as \<open>download_failed\<close>\<close>
  ma_mime :: "nat list"
  ma_size :: nat
  ma_sha256 :: string
  ma_filename :: "nat list option"

record mail_parts =
  mp_text :: "nat list list"
  mp_html :: "nat list list"
  mp_attachments :: "mail_attachment list"

definition is_attachment :: "nat list \<times> (nat list \<times> nat list) list \<Rightarrow> nat list \<times> (nat list \<times> nat list) list \<Rightarrow> bool" where
  "is_attachment dispo content \<longleftrightarrow>
     fst dispo = units ''attachment'' \<or> has (snd dispo) (units ''filename'') \<or> has (snd content) (units ''name'')
     \<or> \<not> starts_with (units ''text/'') (fst content) \<and> \<not> starts_with (units ''multipart/'') (fst content)"

definition attachment_part :: "platform \<Rightarrow> nat \<Rightarrow> nat list \<Rightarrow> nat list option \<Rightarrow> nat list \<Rightarrow> mail_attachment" where
  "attachment_part p cap mime name bytes =
     \<lparr>ma_bytes = (if cap < length bytes then None else Some bytes),
      ma_mime = (if mime = [] then units ''application/octet-stream'' else mime), ma_size = length bytes,
      ma_sha256 = sha256_hex p (map char_of bytes), ma_filename = name\<rparr>"

text \<open>One part that is not a container of others.\<close>

definition leaf_part ::
  "platform \<Rightarrow> mail_lib \<Rightarrow> nat \<Rightarrow> mail_header list \<Rightarrow> nat list list \<Rightarrow> nat list \<times> (nat list \<times> nat list) list \<Rightarrow> mail_parts
     \<Rightarrow> mail_error + mail_parts" where
  "leaf_part p lib cap hs lines_of content got =
     (let dispo = parse_parameters lib (case header_raw hs ''content-disposition'' of None \<Rightarrow> [] | Some t \<Rightarrow> t);
          encoding = header_raw hs ''content-transfer-encoding'';
          name = (case map_of (snd dispo) (units ''filename'') of Some n \<Rightarrow> Some n | None \<Rightarrow> map_of (snd content) (units ''name'')) in
      bind_res (decode_body lib lines_of encoding (case name of Some n \<Rightarrow> n | None \<Rightarrow> fst content)) (\<lambda>bytes.
        if is_attachment dispo content
        then Inr (got\<lparr>mp_attachments := mp_attachments got @ [attachment_part p cap (fst content) name bytes]\<rparr>)
        else (let t = decode_text lib bytes (map_of (snd content) (units ''charset'')) in
              Inr (if fst content = units ''text/html'' then got\<lparr>mp_html := mp_html got @ [t]\<rparr>
                   else got\<lparr>mp_text := mp_text got @ [t]\<rparr>))))"

text \<open>The depth left, from the 13 levels 0 to 12, decreases with every level; a level past the last is refused.\<close>

fun fold_parts :: "('a \<Rightarrow> 's \<Rightarrow> 'e + 's) \<Rightarrow> 'a list \<Rightarrow> 's \<Rightarrow> 'e + 's" where
  "fold_parts f [] s = Inr s"
| "fold_parts f (x # xs) s = bind_res (f x s) (fold_parts f xs)"

fun walk_part :: "nat \<Rightarrow> platform \<Rightarrow> mail_lib \<Rightarrow> nat \<Rightarrow> nat list list \<Rightarrow> mail_parts \<Rightarrow> mail_error + mail_parts" where
  "walk_part 0 p lib cap ls got = Inl (Mime_Unreadable (units ''the message nests parts deeper than this reader walks''))"
| "walk_part (Suc n) p lib cap ls got =
     (let (head, lines_of) = split_headers ls; hs = parse_headers lib head;
          content = parse_parameters lib (case header_raw hs ''content-type'' of None \<Rightarrow> units ''text/plain'' | Some t \<Rightarrow> t) in
      if starts_with (units ''multipart/'') (fst content) then
        (case map_of (snd content) (units ''boundary'') of
           None \<Rightarrow> Inl (Mime_Unreadable (units ''a multipart part names no boundary''))
         | Some bound \<Rightarrow> fold_parts (walk_part n p lib cap) (split_multipart bound False [] lines_of) got)
      else leaf_part p lib cap hs lines_of content got)"

definition walk_depth :: nat where
  "walk_depth = 13"

section \<open>A message\<close>

record mail_message =
  mm_headers :: "mail_header list"
  mm_body :: "nat list"
  mm_attachments :: "mail_attachment list"

definition mail_body :: "mail_parts \<Rightarrow> (mail_error + nat list) option" where
  "mail_body got =
     (case (mp_text got, mp_html got) of
        (t # _, _) \<Rightarrow> Some (Inr (trim_list t))
      | ([], h # _) \<Rightarrow> strip_html h
      | ([], []) \<Rightarrow> Some (Inr []))"

definition read_mail :: "platform \<Rightarrow> mail_lib \<Rightarrow> nat \<Rightarrow> nat list list \<Rightarrow> (mail_error + mail_message) option" where
  "read_mail p lib cap ls =
     (case walk_part walk_depth p lib cap ls \<lparr>mp_text = [], mp_html = [], mp_attachments = []\<rparr> of
        Inl e \<Rightarrow> Some (Inl e)
      | Inr got \<Rightarrow> map_option (\<lambda>r. bind_res r (\<lambda>b.
          Inr \<lparr>mm_headers = parse_headers lib (fst (split_headers ls)), mm_body = b, mm_attachments = mp_attachments got\<rparr>))
          (mail_body got))"

end
