(* ===== verification/Email.thy ===== *)
theory Email
  imports Mime_Walk Telegram
begin

text \<open>
  The rules of the mail adapter for what comes in (\<open>adapters/email/index.ts\<close>): identity by threading, what
  is pending past the cursors, the records a batch becomes, what moves the two cursors. Headers and bodies
  are code units until they become a member of a record; a header is taken as the wire carried it or
  decoded, as the code does. The numbers of the declaration are whole, \<open>addresses\<close> is a list or nothing.
\<close>

section \<open>The declaration\<close>

record email =
  em_agent :: string
  em_account :: string
  em_channel :: members
  em_now :: int
  em_recipients :: "string list option"
  em_dry_run :: bool

definition poll_interval_floor :: int where
  "poll_interval_floor = 30000"

definition email_defaults :: members where
  "email_defaults =
     [(''mailbox'', JStr ''INBOX''), (''imap_port'', JInt 993), (''smtp_port'', JInt 465), (''smtp_security'', JStr ''implicit''),
      (''poll_interval_ms'', JInt poll_interval_floor), (''max_attachment_bytes'', JInt 25000000),
      (''max_part_bytes'', JInt 65536), (''release'', JStr ''quiet''), (''quiet_ms'', JInt 0),
      (''hold'', JObj [(''release_after_ms'', JInt 3600000)]), (''addresses'', JArr [])]"

definition email_channel :: "members \<Rightarrow> members" where
  "email_channel declared =
     spread (spread email_defaults declared)
       [(''hold'', JObj (spread [(''release_after_ms'', JInt 3600000)] (members_of (map_of declared ''hold''))))]"

definition poll_interval_ms :: "platform \<Rightarrow> members \<Rightarrow> exn + json" where
  "poll_interval_ms p ch =
     (case map_of ch ''poll_interval_ms'' of
        Some (JInt i) \<Rightarrow>
          if i < poll_interval_floor then Inl (Stream_Fault [Fault ''POLL_INTERVAL_BELOW_FLOOR'' (show_int i)]) else Inr (JInt i)
      | Some (JFloat n d) \<Rightarrow>
          if n < poll_interval_floor * int d then Inl (Stream_Fault [Fault ''POLL_INTERVAL_BELOW_FLOOR'' (number_text p n d)])
          else Inr (JFloat n d)
      | _ \<Rightarrow> Inl (Stream_Fault [Fault ''POLL_INTERVAL_MISSING'' ''poll_interval_ms'']))"

definition lowered :: "mail_lib \<Rightarrow> json \<Rightarrow> exn + nat list" where
  "lowered lib v = (case v of JStr t \<Rightarrow> Inr (ml_lower lib (utf16 t)) | _ \<Rightarrow> Inl Type_Error)"

definition declared_addresses :: "mail_lib \<Rightarrow> email \<Rightarrow> exn + nat list list" where
  "declared_addresses lib c =
     map_res (lowered lib) (filter (truthy \<circ> Some)
       (JStr (em_account c) # (case map_of (em_channel c) ''addresses'' of Some (JArr xs) \<Rightarrow> xs | _ \<Rightarrow> [])))"

section \<open>Identifiers\<close>

definition pad :: "nat \<Rightarrow> string" where
  "pad n = pad_start 10 (show_nat n)"

definition mail_position_of :: "nat \<Rightarrow> nat \<Rightarrow> string" where
  "mail_position_of validity uid = pad validity @ '':'' @ pad uid"

definition watermark_conversation :: "string \<Rightarrow> string \<Rightarrow> string" where
  "watermark_conversation acct mailbox = acct @ '':mailbox:'' @ mailbox"

definition poll_watermark_conversation :: "email \<Rightarrow> string \<Rightarrow> string" where
  "poll_watermark_conversation c mailbox =
     (let base = watermark_conversation (em_account c) mailbox in
      if map_of (em_channel c) ''inbound'' = Some (JStr ''agentmail-api'') then base @ '':agentmail-api'' else base)"

text \<open>\<open>/<([^<>]*)>/g\<close>, trimmed, the empty ones left out.\<close>

function ids_in :: "nat list \<Rightarrow> nat list list" where
  "ids_in [] = []"
| "ids_in (u # us) =
     (let inner = takeWhile (\<lambda>x. x \<noteq> 60 \<and> x \<noteq> 62) us; rest = drop (length inner) us in
      if u = 60 \<and> starts_with [62] rest
      then (if trim_list inner = [] then [] else [trim_list inner]) @ ids_in (tl rest)
      else ids_in us)"
  by pat_completeness auto
termination
  by (relation "measure length") auto

declare ids_in.simps(2) [simp del]

fun split_units_at :: "nat \<Rightarrow> nat list \<Rightarrow> nat list list" where
  "split_units_at d [] = [[]]"
| "split_units_at d (u # us) =
     (if u = d then [] # split_units_at d us
      else (case split_units_at d us of [] \<Rightarrow> [[u]] | w # ws \<Rightarrow> (u # w) # ws))"

text \<open>\<open>/<([^<>]+)>/\<close>: the first that is not empty.\<close>

fun angled_in :: "nat list \<Rightarrow> nat list option" where
  "angled_in [] = None"
| "angled_in (u # us) =
     (let inner = takeWhile (\<lambda>x. x \<noteq> 60 \<and> x \<noteq> 62) us in
      if u = 60 \<and> inner \<noteq> [] \<and> starts_with [62] (drop (length inner) us) then Some inner else angled_in us)"

definition address_in :: "mail_lib \<Rightarrow> nat list \<Rightarrow> nat list option" where
  "address_in lib piece =
     (let address = trim_list (case angled_in piece of Some t \<Rightarrow> t | None \<Rightarrow> piece) in
      if 64 \<in> set address then Some (ml_lower lib address) else None)"

definition addresses_in :: "mail_lib \<Rightarrow> nat list \<Rightarrow> nat list list" where
  "addresses_in lib t = List.map_filter (address_in lib) (split_units_at 44 t)"

definition display_name :: "mail_lib \<Rightarrow> nat list \<Rightarrow> nat list option" where
  "display_name lib t =
     (let lead = takeWhile (\<lambda>u. u \<noteq> 60) t; name = trim_list (decode_words lib (strip_quotes (trim_list lead))) in
      if 60 \<notin> set t \<or> lead = [] \<or> name = [] then None else Some name)"

definition first_of :: "'a list \<Rightarrow> 'a option" where
  "first_of xs = (case xs of [] \<Rightarrow> None | x # _ \<Rightarrow> Some x)"

definition raw_or_empty :: "mail_header list \<Rightarrow> string \<Rightarrow> nat list" where
  "raw_or_empty hs name = (case header_raw hs name of None \<Rightarrow> [] | Some t \<Rightarrow> t)"

definition thread_root :: "mail_header list \<Rightarrow> nat list \<Rightarrow> nat list" where
  "thread_root hs own =
     (case ids_in (raw_or_empty hs ''references'') of
        r # _ \<Rightarrow> r
      | [] \<Rightarrow> (case ids_in (raw_or_empty hs ''in-reply-to'') of r # _ \<Rightarrow> r | [] \<Rightarrow> own))"

section \<open>Reading one item\<close>

record email_item =
  ei_mailbox :: "string option"
  ei_mailbox_position :: "string option"
  ei_uidvalidity :: "nat option"
  ei_uid :: "nat option"
  ei_position :: string
  ei_lines :: "nat list list"
  ei_fetched :: "carried list option"
  ei_conversation :: "string option"
  ei_wrong_type :: "members option"

record parked_mail =
  pm_reason :: string
  pm_conversation :: string
  pm_message_id :: string
  pm_platform_id :: string
  pm_headers :: "mail_header list"

record readable_mail =
  rm_headers :: "mail_header list"
  rm_body :: "nat list"
  rm_attachments :: "carried list"
  rm_conversation :: string
  rm_message_id :: string
  rm_platform_id :: string
  rm_root :: "nat list"
  rm_revision :: int
  rm_kind :: string

datatype email_read = Unread_Mail parked_mail | Read_Mail readable_mail

definition er_conversation :: "email_read \<Rightarrow> string" where
  "er_conversation r = (case r of Unread_Mail pm \<Rightarrow> pm_conversation pm | Read_Mail rm \<Rightarrow> rm_conversation rm)"

definition er_kind :: "email_read \<Rightarrow> string" where
  "er_kind r = (case r of Unread_Mail _ \<Rightarrow> ''message'' | Read_Mail rm \<Rightarrow> rm_kind rm)"

definition er_platform_id :: "email_read \<Rightarrow> string" where
  "er_platform_id r = (case r of Unread_Mail pm \<Rightarrow> pm_platform_id pm | Read_Mail rm \<Rightarrow> rm_platform_id rm)"

definition number_or_undefined :: "nat option \<Rightarrow> string" where
  "number_or_undefined n = (case n of None \<Rightarrow> ''undefined'' | Some i \<Rightarrow> show_nat i)"

definition own_id_of :: "mail_header list \<Rightarrow> nat list option" where
  "own_id_of hs = first_of (ids_in (raw_or_empty hs ''message-id''))"

definition unreadable_mail :: "email \<Rightarrow> email_item \<Rightarrow> string \<Rightarrow> mail_header list \<Rightarrow> parked_mail" where
  "unreadable_mail c it reason hs =
     (let own = own_id_of hs; uid = ''uid-'' @ number_or_undefined (ei_uidvalidity it) @ ''-'' @ number_or_undefined (ei_uid it);
          root = (if hs = [] then None else map_option (thread_root hs) own);
          cid = em_account c @ '':'' @ (case root of None \<Rightarrow> ''unreadable'' | Some r \<Rightarrow> text_of r) in
      \<lparr>pm_reason = reason, pm_conversation = cid,
       pm_message_id = cid @ '':'' @ (case root of None \<Rightarrow> uid | Some _ \<Rightarrow> text_of (the own)),
       pm_platform_id = (case own of None \<Rightarrow> uid | Some i \<Rightarrow> text_of i), pm_headers = hs\<rparr>)"

definition existing_revisions :: "platform \<Rightarrow> store \<Rightarrow> string \<Rightarrow> string \<Rightarrow> int list" where
  "existing_revisions p s cid mid =
     (case store_records_in p cid s of
        Inl e \<Rightarrow> [] | Inr ms \<Rightarrow> map revision (filter (\<lambda>m. message_id m = mid) ms))"

definition mail_cap :: "email \<Rightarrow> nat" where
  "mail_cap c = nat (whole_number (em_channel c) ''max_attachment_bytes'' 25000000)"

definition mail_carried :: "mail_attachment \<Rightarrow> carried" where
  "mail_carried a =
     (let named = (case ma_filename a of None \<Rightarrow> [] | Some n \<Rightarrow> [(''filename'', JStr (text_of n))]);
          mime = (''mime'', JStr (text_of (ma_mime a))); digest = (''sha256'', JStr (ma_sha256 a)) in
      case ma_bytes a of
        Some bytes \<Rightarrow> Fetched (map char_of bytes) ([mime, digest] @ named)
      | None \<Rightarrow> Described ([(''file'', JStr (''unwritten/'' @ ma_sha256 a)), mime, (''bytes'', JInt (int (ma_size a))), digest,
                          (''download_failed'', JBool True)] @ named))"

text \<open>A correction of a message this store holds is a revision of it; of one it never saw, an ordinary message.\<close>

definition readable_of :: "platform \<Rightarrow> email \<Rightarrow> store \<Rightarrow> email_item \<Rightarrow> mail_message \<Rightarrow> nat list \<Rightarrow> readable_mail" where
  "readable_of p c s it m own =
     (let hs = mm_headers m; root = thread_root hs own; cid = em_account c @ '':'' @ text_of root;
          existing = (case first_of (ids_in (raw_or_empty hs ''supersedes'')) of
            None \<Rightarrow> None
          | Some old \<Rightarrow>
              (case existing_revisions p s cid (cid @ '':'' @ text_of old) of [] \<Rightarrow> None | n # ns \<Rightarrow> Some (old, Max (set (n # ns))))) in
      \<lparr>rm_headers = hs, rm_body = mm_body m,
       rm_attachments = (case ei_fetched it of Some got \<Rightarrow> got | None \<Rightarrow> map mail_carried (mm_attachments m)),
       rm_conversation = cid,
       rm_message_id = cid @ '':'' @ text_of (case existing of None \<Rightarrow> own | Some (old, _) \<Rightarrow> old),
       rm_platform_id = text_of own, rm_root = root,
       rm_revision = (case existing of None \<Rightarrow> 0 | Some (_, latest) \<Rightarrow> latest + 1),
       rm_kind = (case existing of None \<Rightarrow> ''message'' | Some _ \<Rightarrow> ''revision'')\<rparr>)"

text \<open>Reading always returns, so the second clause is never taken (\<open>read_mail_returns\<close> in \<open>Mime_Props\<close>).\<close>

definition mail_read :: "platform \<Rightarrow> mail_lib \<Rightarrow> email \<Rightarrow> email_item \<Rightarrow> mail_error + mail_message" where
  "mail_read p lib c it =
     (case read_mail p lib (mail_cap c) (ei_lines it) of Some r \<Rightarrow> r | None \<Rightarrow> Inl Range_Error)"

definition read_item :: "platform \<Rightarrow> mail_lib \<Rightarrow> email \<Rightarrow> store \<Rightarrow> email_item \<Rightarrow> exn + email_read" where
  "read_item p lib c s it =
     (case mail_read p lib c it of
        Inl (Mime_Unreadable reason) \<Rightarrow> Inr (Unread_Mail (unreadable_mail c it (text_of reason) []))
      | Inl Range_Error \<Rightarrow> Inl (Error ''Invalid code point'')
      | Inr m \<Rightarrow>
          (case own_id_of (mm_headers m) of
             None \<Rightarrow> Inr (Unread_Mail (unreadable_mail c it
               ''the message carries no Message-ID, so it has no identity to key a record on'' (mm_headers m)))
           | Some own \<Rightarrow> Inr (Read_Mail (readable_of p c s it m own))))"

section \<open>What is pending\<close>

definition mail_past_cursors :: "platform \<Rightarrow> mail_lib \<Rightarrow> email \<Rightarrow> store \<Rightarrow> email_item \<Rightarrow> exn + bool" where
  "mail_past_cursors p lib c s it =
     bind_res (read_item p lib c s it) (\<lambda>r.
       Inr (case store_cursors p (er_conversation r) s of
              Inl e \<Rightarrow> True
            | Inr cursors \<Rightarrow> (case cursor_at (er_kind r) cursors of None \<Rightarrow> True | Some at' \<Rightarrow> \<not> js_le (ei_position it) at')))"

definition mail_list_pending :: "platform \<Rightarrow> mail_lib \<Rightarrow> email \<Rightarrow> store \<Rightarrow> email_item list \<Rightarrow> exn + email_item list" where
  "mail_list_pending p lib c s its = filter_res (mail_past_cursors p lib c s) its"

section \<open>Consuming one item\<close>

definition mailbox_of :: "email \<Rightarrow> string" where
  "mailbox_of c = (case map_of (em_channel c) ''mailbox'' of Some (JStr t) \<Rightarrow> t | _ \<Rightarrow> ''INBOX'')"

definition mail_consume :: "platform \<Rightarrow> mail_lib \<Rightarrow> email \<Rightarrow> email_item \<Rightarrow> unit store_op" where
  "mail_consume p lib c it =
     bind_op (read_op (\<lambda>s. read_item p lib c s it)) (\<lambda>r.
     bind_op (store_advance_cursor p (er_conversation r) (er_kind r) (ei_position it)) (\<lambda>_.
     bind_op (store_advance_cursor p
         (poll_watermark_conversation c (case ei_mailbox it of Some m \<Rightarrow> m | None \<Rightarrow> mailbox_of c)) ''message''
         (case ei_mailbox_position it of Some t \<Rightarrow> t | None \<Rightarrow> ei_position it)) (\<lambda>_.
       ret_op ())))"

section \<open>The records of a batch\<close>

definition own_sent_ids :: "platform \<Rightarrow> store \<Rightarrow> string \<Rightarrow> string list" where
  "own_sent_ids p s cid =
     (case store_records_in p cid s of
        Inl e \<Rightarrow> []
      | Inr ms \<Rightarrow> concat (map (\<lambda>m. case delivery m of None \<Rightarrow> [] | Some d \<Rightarrow> (case dl_chunk_ids d of None \<Rightarrow> [] | Some ids \<Rightarrow> ids)) ms))"

definition sender_in :: "mail_lib \<Rightarrow> mail_header list \<Rightarrow> nat list" where
  "sender_in lib hs = (case addresses_in lib (raw_or_empty hs ''from'') of [] \<Rightarrow> units ''unknown'' | a # _ \<Rightarrow> a)"

definition recipients_in :: "mail_lib \<Rightarrow> mail_header list \<Rightarrow> nat list list" where
  "recipients_in lib hs =
     addresses_in lib (raw_or_empty hs ''to'') @ addresses_in lib (raw_or_empty hs ''cc'')
     @ concat (map (\<lambda>n. concat (map (addresses_in lib) (headers_all hs n)))
         [''delivered-to'', ''x-delivered-to'', ''envelope-to'', ''x-original-to''])"

definition mail_answerable :: "mail_lib \<Rightarrow> nat list list \<Rightarrow> mail_header list \<Rightarrow> bool" where
  "mail_answerable lib declared hs \<longleftrightarrow> list_ex (\<lambda>a. a \<in> set (recipients_in lib hs)) declared"

definition mail_stamped :: "mail_lib \<Rightarrow> mail_header list \<Rightarrow> bool" where
  "mail_stamped lib hs \<longleftrightarrow>
     ml_lower lib (case header_value hs ''x-carbon-origin'' of None \<Rightarrow> [] | Some t \<Rightarrow> t) = units ''agent''"

definition mail_our_own :: "platform \<Rightarrow> mail_lib \<Rightarrow> store \<Rightarrow> nat list list \<Rightarrow> readable_mail \<Rightarrow> bool" where
  "mail_our_own p lib s declared r \<longleftrightarrow>
     sender_in lib (rm_headers r) \<in> set declared
     \<and> (mail_stamped lib (rm_headers r) \<or> rm_platform_id r \<in> set (own_sent_ids p s (rm_conversation r)))"

text \<open>The channel's own headers, one name with one value or with a list.\<close>

definition put_field :: "mail_header \<Rightarrow> members \<Rightarrow> members" where
  "put_field h got =
     (let name = text_of (mh_name h); v = JStr (text_of (mh_value h)) in
      if \<not> starts_with (units ''x-'') (mh_name h) \<or> starts_with (units ''x-carbon-'') (mh_name h) then got
      else AList.update name (case map_of got name of
             None \<Rightarrow> v | Some (JArr xs) \<Rightarrow> JArr (xs @ [v]) | Some w \<Rightarrow> JArr [w, v]) got)"

definition mail_fields :: "mail_header list \<Rightarrow> members" where
  "mail_fields hs = fold put_field hs []"

definition mail_sent_at :: "platform \<Rightarrow> mail_header list \<Rightarrow> string option" where
  "mail_sent_at p hs =
     map_option (\<lambda>d. case date_parse p (text_of d) of None \<Rightarrow> text_of d | Some t \<Rightarrow> to_iso p t) (header_value hs ''date'')"

definition mail_hold :: "email \<Rightarrow> string \<Rightarrow> json" where
  "mail_hold c set_at = JObj
     ([(''reason'', JStr ''a person wrote from the agent's own mailbox''), (''set_at'', JStr set_at)]
      @ (case member_at (map_of (em_channel c) ''hold'') ''release_after_ms'' of None \<Rightarrow> [] | Some v \<Rightarrow> [(''release_after_ms'', v)]))"

definition mail_record ::
  "platform \<Rightarrow> mail_lib \<Rightarrow> email \<Rightarrow> store \<Rightarrow> nat list list \<Rightarrow> email_item \<Rightarrow> readable_mail \<Rightarrow> string \<Rightarrow> members" where
  "mail_record p lib c s declared it r got_at =
     (let hs = rm_headers r; from_us = sender_in lib hs \<in> set declared; own = mail_our_own p lib s declared r;
          sent = mail_sent_at p hs; extra = mail_fields hs;
          record0 =
            [(''schema'', JStr ''carbon.message.v1''), (''agent'', JStr (em_agent c)), (''source'', JStr ''email''),
             (''account'', JStr (em_account c)), (''conversation_id'', JStr (rm_conversation r)),
             (''conversation_kind'', JStr ''thread''), (''message_id'', JStr (rm_message_id r)),
             (''platform_message_id'', JStr (rm_platform_id r)), (''revision'', JInt (rm_revision r)),
             (''direction'', JStr (if own then ''outbound'' else ''inbound'')),
             (''role'', JStr (if own then ''agent'' else if from_us then ''operator'' else ''contact'')),
             (''sender_id'', JStr (text_of (sender_in lib hs))), (''received_at'', JStr got_at),
             (''body'', JStr (text_of (rm_body r))), (''attachments'', JArr []), (''historical'', JBool False),
             (''disposition'', JStr (if mail_answerable lib declared hs then ''captured'' else ''policy-drop''))]
            @ (case display_name lib (raw_or_empty hs ''from'') of None \<Rightarrow> [] | Some n \<Rightarrow> [(''sender_name'', JStr (text_of n))])
            @ (case sent of None \<Rightarrow> [] | Some t \<Rightarrow> [(''sent_at'', JStr t)])
            @ (case ids_in (raw_or_empty hs ''in-reply-to'') of [] \<Rightarrow> [] | i # _ \<Rightarrow> [(''reply_to'', JStr (text_of i))])
            @ (if from_us \<and> \<not> own then [(''hold'', mail_hold c (case sent of None \<Rightarrow> got_at | Some t \<Rightarrow> t))] else [])
            @ (if extra = [] then [] else [(''adapter_fields'', JObj extra)])
      in case ei_wrong_type it of None \<Rightarrow> record0 | Some wt \<Rightarrow> spread record0 wt)"

text \<open>The smallest record that still names the conversation and the message.\<close>

definition mail_smallest :: "mail_lib \<Rightarrow> email \<Rightarrow> parked_mail \<Rightarrow> string \<Rightarrow> members" where
  "mail_smallest lib c pm got_at =
     [(''schema'', JStr ''carbon.message.v1''), (''agent'', JStr (em_agent c)), (''source'', JStr ''email''),
      (''account'', JStr (em_account c)), (''conversation_id'', JStr (pm_conversation pm)),
      (''conversation_kind'', JStr ''thread''), (''message_id'', JStr (pm_message_id pm)),
      (''platform_message_id'', JStr (pm_platform_id pm)), (''revision'', JInt 0), (''direction'', JStr ''inbound''),
      (''role'', JStr ''contact''), (''sender_id'', JStr (text_of (sender_in lib (pm_headers pm)))),
      (''received_at'', JStr got_at), (''body'', JStr []), (''attachments'', JArr []), (''historical'', JBool False),
      (''disposition'', JStr ''parked'')]"

definition mail_raw_of :: "email_item \<Rightarrow> string" where
  "mail_raw_of it = text_of (join_lines (ei_lines it))"

definition mail_payload_one ::
  "platform \<Rightarrow> mail_lib \<Rightarrow> email \<Rightarrow> store \<Rightarrow> nat list list \<Rightarrow> email_item \<Rightarrow> exn + outcome_of_item" where
  "mail_payload_one p lib c s declared it =
     bind_res (read_item p lib c s it) (\<lambda>r.
     bind_res (iso_time p (em_now c)) (\<lambda>got_at.
       (let cursor = (er_kind r, Some (ei_position it)) in
        Inr (case r of
          Unread_Mail pm \<Rightarrow>
            Set_Aside \<lparr>en_record = mail_smallest lib c pm got_at, en_raw = mail_raw_of it, en_cursor = cursor, en_attachments = []\<rparr>
              (pm_reason pm)
        | Read_Mail rm \<Rightarrow>
            Taken \<lparr>en_record = mail_record p lib c s declared it rm got_at, en_raw = mail_raw_of it, en_cursor = cursor,
                   en_attachments = rm_attachments rm\<rparr>))))"

definition mail_payload ::
  "platform \<Rightarrow> mail_lib \<Rightarrow> email \<Rightarrow> store \<Rightarrow> email_item list \<Rightarrow> exn + (entry list \<times> (entry \<times> string) list)" where
  "mail_payload p lib c s its =
     bind_res (declared_addresses lib c) (\<lambda>declared.
     bind_res (map_res (mail_payload_one p lib c s declared) its) (\<lambda>xs.
       Inr (List.map_filter taken xs, List.map_filter set_aside xs)))"

definition mail_matches_delivery :: "platform \<Rightarrow> mail_lib \<Rightarrow> email \<Rightarrow> store \<Rightarrow> email_item \<Rightarrow> delivery_info \<Rightarrow> exn + bool" where
  "mail_matches_delivery p lib c s it d =
     bind_res (read_item p lib c s it) (\<lambda>r.
       Inr (er_platform_id r \<in> set (case dl_chunk_ids d of None \<Rightarrow> [] | Some ids \<Rightarrow> ids)))"

end
