(* ===== verification/Email_Send.thy ===== *)
theory Email_Send
  imports Email
begin

text \<open>
  A mail going out (\<open>adapters/email/index.ts\<close>, and the sending of \<open>curl.ts\<close>): what is answered and to whom,
  the body cut into parts, the message each part becomes, and what curl's exit says of it. Texts are their
  UTF-8 bytes. The record \<open>mail_env\<close> holds what the host answers: curl by the calls made before, the random
  end of a message id, the file a part is written to, and the text of a date
  (\<open>toUTCString\<close> with \<open>GMT\<close> written as \<open>+0000\<close>).
\<close>

section \<open>What is answered\<close>

definition mail_reply_target :: "platform \<Rightarrow> store \<Rightarrow> message \<Rightarrow> exn + message" where
  "mail_reply_target p s m =
     bind_res (store_records_in p (conversation_id m) s) (\<lambda>ms.
       (let inbound = filter (\<lambda>h. direction h = Inbound) ms;
            named = (case reply_to m of None \<Rightarrow> None | Some r \<Rightarrow> find (\<lambda>h. platform_message_id h = r) inbound);
            time = (\<lambda>h. case sent_at h of Some t \<Rightarrow> t | None \<Rightarrow> received_at h) in
        if inbound = [] then Inl (Stream_Fault [Fault ''REPLY_TARGET_MISSING'' (conversation_id m)])
        else case named of
          Some h \<Rightarrow> Inr h
        | None \<Rightarrow> Inr (last (sort_cmp (\<lambda>a b. locale_compare p (time a) (time b)) inbound))))"

text \<open>The raw file is read back byte by byte; one that is missing or cannot be read has no headers.\<close>

definition raw_file_at :: "store \<Rightarrow> string \<Rightarrow> string option" where
  "raw_file_at s path = map_option snd (find (\<lambda>kt. relative_path (fst kt) = path) (raw_files s))"

definition inbound_headers :: "platform \<Rightarrow> mail_lib \<Rightarrow> store \<Rightarrow> message \<Rightarrow> mail_header list" where
  "inbound_headers p lib s target =
     (case Option.bind (raw target) (raw_file_at s) of
        None \<Rightarrow> []
      | Some bytes \<Rightarrow>
          (case read_mail p lib 0 (split_units_at 10 (map byte_of bytes)) of Some (Inr m) \<Rightarrow> mm_headers m | _ \<Rightarrow> []))"

definition reply_recipients :: "mail_lib \<Rightarrow> message \<Rightarrow> mail_header list \<Rightarrow> string list" where
  "reply_recipients lib target hs =
     (let reply_to' = addresses_in lib (raw_or_empty hs ''reply-to'') in
      if reply_to' \<noteq> [] then map text_of reply_to'
      else if sender_id target = ''unknown'' then [] else [sender_id target])"

definition subject_of :: "mail_header list \<Rightarrow> nat list" where
  "subject_of hs = (case header_value hs ''subject'' of None \<Rightarrow> units ''Re:'' | Some t \<Rightarrow> t)"

definition part_subject :: "nat list \<Rightarrow> nat \<Rightarrow> nat \<Rightarrow> nat list" where
  "part_subject subj i whole =
     (let base = (if starts_any_case ''re:'' subj then subj else units ''Re: '' @ subj) in
      if whole = 1 then base
      else base @ units ('' (part '' @ show_nat (i + 1) @ '' of '' @ show_nat whole @ '')''))"

definition references_for :: "message \<Rightarrow> string list" where
  "references_for target =
     (let root = drop_units (js_length (account target) + 1) (conversation_id target) in
      root # (if platform_message_id target \<noteq> root then [platform_message_id target] else []))"

section \<open>The parts of a body\<close>

text \<open>Bytes cut out of a text and read again.\<close>

definition reread :: "string \<Rightarrow> string" where
  "reread bytes = text_of (decoded (map byte_of bytes))"

partial_function (option) cut_bytes :: "nat \<Rightarrow> string \<Rightarrow> (string list \<times> string) option" where
  "cut_bytes limit bytes =
     (if length bytes \<le> limit then Some ([], bytes)
      else Option.bind (cut_bytes limit (drop limit bytes)) (\<lambda>(ps, r). Some (take limit bytes # ps, r)))"

definition joined_line :: "string \<Rightarrow> string \<Rightarrow> string" where
  "joined_line current l = (if current = [] then l else current @ CHR 0x0A # l)"

primrec body_parts :: "nat \<Rightarrow> string list \<Rightarrow> string \<Rightarrow> string list option" where
  "body_parts limit [] current = Some (if current \<noteq> [] then [current] else [])"
| "body_parts limit (l # ls) current =
     (if limit < length (joined_line current l) \<and> current \<noteq> [] then map_option (Cons current) (body_parts limit ls l)
      else if limit < length (joined_line current l) then
        Option.bind (cut_bytes limit (joined_line current l)) (\<lambda>(ps, r).
          map_option (\<lambda>qs. map reread ps @ qs) (body_parts limit ls (reread r)))
      else body_parts limit ls (joined_line current l))"

definition mail_split_body :: "nat \<Rightarrow> string \<Rightarrow> string list option" where
  "mail_split_body limit t = (if length t \<le> limit then Some [t] else body_parts limit (split_on (CHR 0x0A) t) [])"

section \<open>The message of a part\<close>

definition base64_char :: "nat \<Rightarrow> char" where
  "base64_char n =
     (if n < 26 then char_of (65 + n) else if n < 52 then char_of (71 + n) else if n < 62 then char_of (n - 4)
      else if n = 62 then CHR ''+'' else CHR ''/'')"

fun base64_of :: "nat list \<Rightarrow> string" where
  "base64_of [] = []"
| "base64_of [a] = [base64_char (a div 4), base64_char (a mod 4 * 16), CHR ''='', CHR ''='']"
| "base64_of [a, b] =
     [base64_char (a div 4), base64_char (a mod 4 * 16 + b div 16), base64_char (b mod 16 * 4), CHR ''='']"
| "base64_of (a # b # c # r) =
     [base64_char (a div 4), base64_char (a mod 4 * 16 + b div 16), base64_char (b mod 16 * 4 + c div 64), base64_char (c mod 64)]
     @ base64_of r"

definition encode_header_word :: "nat list \<Rightarrow> string" where
  "encode_header_word t =
     (if list_all (\<lambda>u. 32 \<le> u \<and> u \<le> 126) t then map char_of t else ''=?utf-8?B?'' @ base64_of (encoded t) @ ''?='')"

function rows_of :: "string \<Rightarrow> string list" where
  "rows_of t = (if length t \<le> 76 then [t] else take 76 t # rows_of (drop 76 t))"
  by pat_completeness auto
termination
  by (relation "measure length") auto

declare rows_of.simps [simp del]

record built_mail =
  bm_from :: string
  bm_to :: "string list"
  bm_subject :: "nat list"
  bm_message_id :: string
  bm_in_reply_to :: string
  bm_references :: "string list"
  bm_date :: string
  bm_body :: string
  bm_origin :: string

definition mail_lines :: "built_mail \<Rightarrow> string list" where
  "mail_lines b =
     [''From: '' @ bm_from b, ''To: '' @ join '', '' (bm_to b), ''Subject: '' @ encode_header_word (bm_subject b),
      ''Date: '' @ bm_date b, ''Message-ID: <'' @ bm_message_id b @ ''>'', ''MIME-Version: 1.0'',
      ''Content-Type: text/plain; charset=utf-8'', ''Content-Transfer-Encoding: base64'',
      ''X-Carbon-Origin: '' @ bm_origin b, ''In-Reply-To: <'' @ bm_in_reply_to b @ ''>'']
     @ (if bm_references b = [] then [] else [''References: '' @ join '' '' (map (\<lambda>i. ''<'' @ i @ ''>'') (bm_references b))])
     @ [[]] @ rows_of (base64_of (map byte_of (bm_body b))) @ [[]]"

definition build_message :: "built_mail \<Rightarrow> exn + string" where
  "build_message b =
     (if bm_origin b = [] then Inl (Stream_Fault [Fault ''SEND_ORIGIN_MISSING'' (bm_message_id b)])
      else Inr (join [CHR 0x0D, CHR 0x0A] (mail_lines b)))"

section \<open>curl\<close>

record curl_result =
  cr_code :: int
  cr_timed_out :: bool
  cr_stdout :: "nat list"

text \<open>A call is its arguments and, for an upload, the file's text; \<open>None\<close> is a binary that is not there.\<close>

type_synonym curl_call = "string list \<times> string"

type_synonym curl = "curl_call list \<Rightarrow> curl_call \<Rightarrow> curl_result option"

record mail_env =
  me_curl :: curl
  me_random :: "nat \<Rightarrow> string"
  me_utc :: "int \<Rightarrow> string"
  me_binary :: string
  me_temp :: "nat \<Rightarrow> string"

type_synonym 'a curl_op = "curl_call list \<Rightarrow> (exn, 'a, curl_call list) outcome"

definition run_curl :: "mail_env \<Rightarrow> string list \<Rightarrow> string \<Rightarrow> curl_result curl_op" where
  "run_curl env args upload made =
     (case me_curl env made (args, upload) of
        None \<Rightarrow> (Inl (Stream_Fault [Fault ''CURL_MISSING'' (me_binary env)]), made @ [(args, upload)])
      | Some r \<Rightarrow> (Inr r, made @ [(args, upload)]))"

definition never_arrived :: "int list" where
  "never_arrived = [6, 7, 51, 60, 67]"

definition smtp_security :: "string list" where
  "smtp_security = [''implicit'', ''starttls'']"

definition smtp_args :: "platform \<Rightarrow> email \<Rightarrow> string list \<Rightarrow> string \<Rightarrow> string list" where
  "smtp_args p c recipients file =
     (let at = (\<lambda>k. string_of p (map_of (em_channel c) k)) in
      [''--silent'', ''--show-error'', ''--netrc-file'', at ''netrc'', ''--url'',
       (if at ''smtp_security'' = ''implicit'' then ''smtps://'' else ''smtp://'') @ at ''smtp_host'' @ '':'' @ at ''smtp_port'']
      @ (if at ''smtp_security'' = ''starttls'' then [''--ssl-reqd''] else [])
      @ [''--mail-from'', em_account c] @ concat (map (\<lambda>r. [''--mail-rcpt'', r]) recipients)
      @ [''--upload-file'', file])"

definition send_message :: "platform \<Rightarrow> mail_env \<Rightarrow> email \<Rightarrow> string list \<Rightarrow> string \<Rightarrow> string \<Rightarrow> string curl_op" where
  "send_message p env c recipients file mime made =
     (let security = string_of p (map_of (em_channel c) ''smtp_security'') in
      if security \<notin> set smtp_security then (Inl (Stream_Fault [Fault ''SMTP_SECURITY_UNKNOWN'' security]), made)
      else bind_op (run_curl env (smtp_args p c recipients file) mime) (\<lambda>r.
             ret_op (if cr_code r = 0 then ''sent'' else if cr_code r \<in> set never_arrived then ''failed'' else ''unknown'')) made)"

section \<open>The send\<close>

definition domain_of :: "email \<Rightarrow> string" where
  "domain_of c = (case split_on (CHR ''@'') (em_account c) of _ # d # _ \<Rightarrow> d | _ \<Rightarrow> ''localhost'')"

definition part_message_id :: "mail_env \<Rightarrow> email \<Rightarrow> string \<Rightarrow> nat \<Rightarrow> string" where
  "part_message_id env c rid i =
     ''carbon.'' @ rid @ ''.'' @ show_nat (i + 1) @ ''.'' @ me_random env i @ ''@'' @ domain_of c"

definition part_mail :: "mail_env \<Rightarrow> email \<Rightarrow> message \<Rightarrow> mail_header list \<Rightarrow> string list \<Rightarrow> string \<Rightarrow> nat \<Rightarrow> nat \<Rightarrow> string \<Rightarrow> built_mail" where
  "part_mail env c target hs recipients rid whole i part =
     \<lparr>bm_from = em_account c, bm_to = recipients, bm_subject = part_subject (subject_of hs) i whole,
      bm_message_id = part_message_id env c rid i, bm_in_reply_to = platform_message_id target,
      bm_references = references_for target, bm_date = me_utc env (em_now c), bm_body = part, bm_origin = ''agent''\<rparr>"

text \<open>The parts one after the other, from the number of the next one and the ids of those that went.\<close>

fun send_parts ::
  "platform \<Rightarrow> mail_env \<Rightarrow> email \<Rightarrow> (nat \<Rightarrow> string \<Rightarrow> built_mail) \<Rightarrow> string list \<Rightarrow> nat \<Rightarrow> string list \<Rightarrow> string list
     \<Rightarrow> (string \<times> string list) curl_op" where
  "send_parts p env c mail_of recipients i [] ids = ret_op (''sent'', ids)"
| "send_parts p env c mail_of recipients i (b # bs) ids =
     bind_op (read_op (\<lambda>_. build_message (mail_of i b))) (\<lambda>mime.
       (let mid = bm_message_id (mail_of i b) in
        if em_dry_run c then send_parts p env c mail_of recipients (Suc i) bs (ids @ [mid])
        else bind_op (send_message p env c recipients (me_temp env i) mime) (\<lambda>st.
          if st = ''sent'' then send_parts p env c mail_of recipients (Suc i) bs (ids @ [mid])
          else ret_op (if ids \<noteq> [] then ''unknown'' else st, ids))))"

definition max_part_bytes :: "email \<Rightarrow> nat" where
  "max_part_bytes c = nat (whole_number (em_channel c) ''max_part_bytes'' 65536)"

text \<open>An outbound record has a delivery.\<close>

definition delivery_request :: "message \<Rightarrow> string" where
  "delivery_request m = (case delivery m of None \<Rightarrow> [] | Some d \<Rightarrow> dl_request_id d)"

text \<open>\<open>None\<close>: cutting the body does not return.\<close>

definition mail_send :: "platform \<Rightarrow> mail_lib \<Rightarrow> mail_env \<Rightarrow> email \<Rightarrow> store \<Rightarrow> message
    \<Rightarrow> ((exn + string \<times> string list) \<times> curl_call list) option" where
  "mail_send p lib env c s m =
     (case mail_reply_target p s m of
        Inl e \<Rightarrow> Some (Inl e, [])
      | Inr target \<Rightarrow>
          if disposition target = Policy_Drop
          then Some (Inl (Stream_Fault [Fault ''INBOUND_TO_UNDECLARED_ADDRESS'' (message_id target)]), [])
          else
            (let hs = inbound_headers p lib s target;
                 recipients = (case em_recipients c of Some rs \<Rightarrow> rs | None \<Rightarrow> reply_recipients lib target hs) in
             if recipients = [] then Some (Inl (Stream_Fault [Fault ''REPLY_HAS_NO_RECIPIENT'' (message_id target)]), [])
             else map_option (\<lambda>parts.
                    send_parts p env c (part_mail env c target hs recipients (delivery_request m) (length parts)) recipients 0 parts [] [])
                  (mail_split_body (max_part_bytes c) (body m))))"

end
