(* ===== verification/Email_Poll.thy ===== *)
theory Email_Poll
  imports Email_Send
begin

text \<open>
  The poll of a mailbox (\<open>poll\<close> of \<open>adapters/email/index.ts\<close> and the reading of \<open>curl.ts\<close>): the status with its
  three attempts, the search from the watermark up, the fetches and the flag put back. curl is that of
  \<open>Email_Send\<close>; its output is one unit for a byte.
\<close>

section \<open>Requests\<close>

definition uri_plain :: "char \<Rightarrow> bool" where
  "uri_plain c \<longleftrightarrow> digit c \<or> (65 \<le> byte_of c \<and> byte_of c \<le> 90) \<or> (97 \<le> byte_of c \<and> byte_of c \<le> 122)
     \<or> c \<in> set ''-_.!~*'' \<or> byte_of c \<in> {39, 40, 41}"

definition upper_hex :: "nat \<Rightarrow> char" where
  "upper_hex d = char_of (if d < 10 then 48 + d else 55 + d)"

definition uri_component :: "string \<Rightarrow> string" where
  "uri_component t =
     concat (map (\<lambda>c. if uri_plain c then [c] else [CHR ''%'', upper_hex (byte_of c div 16), upper_hex (byte_of c mod 16)]) t)"

definition imap_args :: "platform \<Rightarrow> email \<Rightarrow> string \<Rightarrow> string option \<Rightarrow> nat option \<Rightarrow> nat option \<Rightarrow> string list" where
  "imap_args p c mailbox request uid seconds =
     (let at = (\<lambda>k. string_of p (map_of (em_channel c) k)) in
      [''--silent'', ''--show-error'']
      @ (case seconds of None \<Rightarrow> [] | Some n \<Rightarrow> [''--connect-timeout'', show_nat n, ''--max-time'', show_nat n])
      @ [''--netrc-file'', at ''netrc'', ''--url'',
         ''imaps://'' @ at ''imap_host'' @ '':'' @ at ''imap_port'' @ ''/'' @ uri_component mailbox
           @ (case uid of None \<Rightarrow> [] | Some n \<Rightarrow> '';UID='' @ show_nat n)]
      @ (case request of None \<Rightarrow> [] | Some r \<Rightarrow> [''--request'', r]))"

text \<open>\<open>TransportFault\<close> with what is known of the transport.\<close>

record transport_fault =
  tf_thrown :: exn
  tf_operation :: "string option"
  tf_exit :: int
  tf_timed_out :: bool

definition thrown_plain :: "exn \<Rightarrow> transport_fault" where
  "thrown_plain e = \<lparr>tf_thrown = e, tf_operation = None, tf_exit = 0, tf_timed_out = False\<rparr>"

type_synonym 'a imap_op = "curl_call list \<Rightarrow> (transport_fault, 'a, curl_call list) outcome"

definition on_curl :: "(exn, 'a, 's) outcome \<Rightarrow> (transport_fault, 'a, 's) outcome" where
  "on_curl r = (case r of (Inl e, made) \<Rightarrow> (Inl (thrown_plain e), made) | (Inr x, made) \<Rightarrow> (Inr x, made))"

definition read_or_throw :: "mail_env \<Rightarrow> string list \<Rightarrow> string \<Rightarrow> string option \<Rightarrow> nat list imap_op" where
  "read_or_throw env args subj operation =
     bind_op (\<lambda>made. on_curl (run_curl env args [] made)) (\<lambda>r.
       if cr_code r \<noteq> 0
       then throw_op \<lparr>tf_thrown = Stream_Fault [Fault ''IMAP_READ_FAILED'' subj], tf_operation = operation,
                      tf_exit = cr_code r, tf_timed_out = cr_timed_out r\<rparr>
       else ret_op (cr_stdout r))"

section \<open>Answers\<close>

text \<open>\<open>/WORD (\d+)/\<close>.\<close>

fun number_after :: "string \<Rightarrow> nat list \<Rightarrow> nat option" where
  "number_after w [] = None"
| "number_after w (u # us) =
     (let ds = takeWhile digit_unit (drop (length w) (u # us)) in
      if starts_with (units w) (u # us) \<and> ds \<noteq> [] then Some (number_of ds 0) else number_after w us)"

definition wire_lines :: "nat list \<Rightarrow> nat list list" where
  "wire_lines out = (let ls = split_units_at 10 out in map strip_cr (butlast ls) @ [last ls])"

fun space_words :: "nat list \<Rightarrow> nat list \<Rightarrow> nat list list" where
  "space_words current [] = [current]"
| "space_words current (u # us) = (if js_space u then current # space_words [] us else space_words (current @ [u]) us)"

text \<open>\<open>/^\*\s+SEARCH\b(.*)$/i\<close>; the dot takes no line terminator.\<close>

definition search_rest :: "nat list \<Rightarrow> nat list option" where
  "search_rest line =
     (let spaces = takeWhile js_space (tl line); after = drop (length spaces) (tl line); rest = drop 6 after in
      if starts_with [42] line \<and> spaces \<noteq> [] \<and> starts_any_case ''search'' after \<and> (rest = [] \<or> \<not> ascii_word (hd rest))
         \<and> list_all (\<lambda>u. u \<notin> {10, 13, 8232, 8233}) rest
      then Some rest else None)"

definition numbers_in :: "nat list \<Rightarrow> nat list" where
  "numbers_in line =
     (case search_rest line of
        None \<Rightarrow> []
      | Some rest \<Rightarrow> map (\<lambda>w. number_of w 0) (filter (\<lambda>w. w \<noteq> [] \<and> list_all digit_unit w) (space_words [] (trim_list rest))))"

definition search_numbers :: "nat list \<Rightarrow> nat list" where
  "search_numbers out = concat (map numbers_in (wire_lines out))"

section \<open>The operations\<close>

record mailbox_status =
  mb_uidvalidity :: nat
  mb_uidnext :: "nat option"
  mb_messages :: "nat option"

definition mailbox_subject :: "platform \<Rightarrow> email \<Rightarrow> string \<Rightarrow> string" where
  "mailbox_subject p c mailbox = string_of p (map_of (em_channel c) ''imap_host'') @ '' '' @ mailbox"

definition mail_status :: "platform \<Rightarrow> mail_env \<Rightarrow> email \<Rightarrow> string \<Rightarrow> mailbox_status imap_op" where
  "mail_status p env c mailbox =
     bind_op (read_or_throw env
         (imap_args p c mailbox (Some (''STATUS '' @ mailbox @ '' (UIDVALIDITY UIDNEXT MESSAGES)'')) None (Some 15))
         (mailbox_subject p c mailbox) (Some ''status'')) (\<lambda>out.
       case number_after ''UIDVALIDITY '' out of
         None \<Rightarrow> throw_op (thrown_plain (Stream_Fault [Fault ''IMAP_STATUS_UNREADABLE'' (mailbox_subject p c mailbox)]))
       | Some n \<Rightarrow> ret_op \<lparr>mb_uidvalidity = n, mb_uidnext = number_after ''UIDNEXT '' out,
                          mb_messages = number_after ''MESSAGES '' out\<rparr>)"

text \<open>The watermark's uid plus one; \<open>None\<close> is NaN, above which no uid is.\<close>

definition search_uids :: "platform \<Rightarrow> mail_env \<Rightarrow> email \<Rightarrow> string \<Rightarrow> int option \<Rightarrow> nat list imap_op" where
  "search_uids p env c mailbox from_uid =
     bind_op (read_or_throw env
         (imap_args p c mailbox (Some (''UID SEARCH UID '' @ (case from_uid of None \<Rightarrow> ''NaN'' | Some i \<Rightarrow> show_int i) @ '':*'')) None None)
         (mailbox_subject p c mailbox) None) (\<lambda>out.
       ret_op (sort (filter (\<lambda>u. case from_uid of None \<Rightarrow> False | Some i \<Rightarrow> i \<le> int u) (search_numbers out))))"

definition unseen_uids :: "platform \<Rightarrow> mail_env \<Rightarrow> email \<Rightarrow> string \<Rightarrow> nat list imap_op" where
  "unseen_uids p env c mailbox =
     bind_op (read_or_throw env (imap_args p c mailbox (Some ''UID SEARCH UNSEEN'') None None) (mailbox_subject p c mailbox) None)
       (\<lambda>out. ret_op (search_numbers out))"

definition fetch_message :: "platform \<Rightarrow> mail_env \<Rightarrow> email \<Rightarrow> string \<Rightarrow> nat \<Rightarrow> nat list list imap_op" where
  "fetch_message p env c mailbox uid =
     bind_op (read_or_throw env (imap_args p c mailbox None (Some uid) None)
         (mailbox_subject p c mailbox @ '' uid '' @ show_nat uid) None)
       (\<lambda>out. ret_op (map strip_cr (split_units_at 10 out)))"

definition restore_unseen :: "platform \<Rightarrow> mail_env \<Rightarrow> email \<Rightarrow> string \<Rightarrow> nat list \<Rightarrow> fault list imap_op" where
  "restore_unseen p env c mailbox uids =
     (if uids = [] then ret_op []
      else (let listed = join '','' (map show_nat uids) in
            bind_op (\<lambda>made. on_curl (run_curl env
                (imap_args p c mailbox (Some (''UID STORE '' @ listed @ '' -FLAGS ('' @ CHR 0x5C # ''Seen)'')) None None) [] made)) (\<lambda>r.
              ret_op (if cr_code r = 0 then [] else [Fault ''UNREAD_FLAG_NOT_RESTORED'' (mailbox @ '' '' @ listed)]))))"

section \<open>The poll\<close>

definition status_attempts :: nat where
  "status_attempts = 3"

definition status_timed_out :: "transport_fault \<Rightarrow> bool" where
  "status_timed_out f \<longleftrightarrow> tf_operation f = Some ''status'' \<and> (tf_exit f = 28 \<or> tf_timed_out f)"

primrec initial_status :: "nat \<Rightarrow> platform \<Rightarrow> mail_env \<Rightarrow> email \<Rightarrow> string \<Rightarrow> mailbox_status imap_op" where
  "initial_status 0 p env c mailbox = mail_status p env c mailbox"
| "initial_status (Suc n) p env c mailbox = (\<lambda>made.
     case mail_status p env c mailbox made of
       (Inl f, made') \<Rightarrow> if status_timed_out f then initial_status n p env c mailbox made' else (Inl f, made')
     | ok \<Rightarrow> ok)"

text \<open>Where the watermark stands against the mailbox: the first uid to read and whether everything is read again.\<close>

definition poll_from :: "(string \<Rightarrow> int option) \<Rightarrow> string \<Rightarrow> string option \<Rightarrow> nat \<Rightarrow> exn + int option \<times> bool" where
  "poll_from num mailbox held live =
     (case held of
        None \<Rightarrow> Inr (Some 1, False)
      | Some h \<Rightarrow>
          (let pieces = split_on (CHR '':'') h; validity = js_number num (hd pieces);
               uid = (case tl pieces of [] \<Rightarrow> None | w # _ \<Rightarrow> js_number num w) in
           if validity = Some (int live) then Inr (map_option (\<lambda>u. u + 1) uid, False)
           else if (case validity of None \<Rightarrow> False | Some v \<Rightarrow> int live < v)
           then Inl (Stream_Fault [Fault ''UIDVALIDITY_WENT_BACKWARDS'' (mailbox @ '' '' @ show_nat live)])
           else Inr (Some 1, True)))"

definition fetched_item :: "platform \<Rightarrow> mail_env \<Rightarrow> email \<Rightarrow> string \<Rightarrow> nat \<Rightarrow> nat \<Rightarrow> email_item imap_op" where
  "fetched_item p env c mailbox validity uid =
     bind_op (fetch_message p env c mailbox uid) (\<lambda>ls.
       ret_op \<lparr>ei_mailbox = Some mailbox, ei_mailbox_position = None, ei_uidvalidity = Some validity, ei_uid = Some uid,
               ei_position = mail_position_of validity uid, ei_lines = ls, ei_fetched = None, ei_conversation = None,
               ei_wrong_type = None\<rparr>)"

definition placed_item :: "platform \<Rightarrow> mail_lib \<Rightarrow> email \<Rightarrow> store \<Rightarrow> email_item \<Rightarrow> exn + email_item" where
  "placed_item p lib c s it =
     bind_res (read_item p lib c s it) (\<lambda>r.
       Inr (it\<lparr>ei_conversation := (case r of Unread_Mail _ \<Rightarrow> None | Read_Mail rm \<Rightarrow> Some (text_of (rm_root rm)))\<rparr>))"

record mail_polled =
  mp_items :: "email_item list"
  mp_uidvalidity :: nat
  mp_rescanned :: bool
  mp_from_uid :: "int option"
  mp_faults :: "fault list"

definition lift_res :: "exn + 'a \<Rightarrow> 'a imap_op" where
  "lift_res r made = (case r of Inl e \<Rightarrow> (Inl (thrown_plain e), made) | Inr x \<Rightarrow> (Inr x, made))"

definition mail_poll ::
  "platform \<Rightarrow> (string \<Rightarrow> int option) \<Rightarrow> mail_lib \<Rightarrow> mail_env \<Rightarrow> email \<Rightarrow> store \<Rightarrow> mail_polled imap_op" where
  "mail_poll p num lib env c s =
     (let mailbox = mailbox_of c in
      bind_op (lift_res (store_cursors p (poll_watermark_conversation c mailbox) s)) (\<lambda>cursors.
      bind_op (initial_status (status_attempts - 1) p env c mailbox) (\<lambda>live.
      bind_op (lift_res (poll_from num mailbox (cur_message cursors) (mb_uidvalidity live))) (\<lambda>(from_uid, rescanned).
      bind_op (search_uids p env c mailbox from_uid) (\<lambda>uids.
      bind_op (if uids = [] then ret_op [] else unseen_uids p env c mailbox) (\<lambda>unseen.
      bind_op (collect_op (fetched_item p env c mailbox (mb_uidvalidity live)) uids) (\<lambda>fetched.
      bind_op (lift_res (map_res (placed_item p lib c s) fetched)) (\<lambda>items.
      bind_op (restore_unseen p env c mailbox (filter (\<lambda>u. u \<in> set unseen) uids)) (\<lambda>faults.
        ret_op \<lparr>mp_items = items, mp_uidvalidity = mb_uidvalidity live, mp_rescanned = rescanned,
                mp_from_uid = from_uid, mp_faults = faults\<rparr>)))))))))"

end
