(* ===== verification/Mime_Props.thy ===== *)
theory Mime_Props
  imports Email
begin

text \<open>
  The passes over an HTML part end: every match of a pass is replaced by something shorter, which is the
  contract \<open>shortening\<close>, met by each of the five patterns. So reading a mail returns, and what is left of an
  HTML part holds no tag. Beside it, what the reader does with a number that is no character.
\<close>

section \<open>Passes that shorten\<close>

locale shortening =
  fixes mt :: matcher
  assumes shortens: "mt t = Some (n, r) \<Longrightarrow> length r < n \<and> n \<le> length t"
begin

lemma replace_cases:
  obtains (none) "mt (x # xs) = None" "replace_all mt (x # xs) = x # replace_all mt xs"
  | (some) n r where "mt (x # xs) = Some (n, r)" "length r < n" "n \<le> Suc (length xs)"
      "replace_all mt (x # xs) = r @ replace_all mt (drop n (x # xs))"
proof (cases "mt (x # xs)")
  case None
  then show thesis by (intro none) (simp_all add: replace_all.simps)
next
  case (Some nr)
  then obtain n r where nr: "mt (x # xs) = Some (n, r)" by (cases nr) auto
  with shortens [OF nr] show thesis by (intro some) (auto simp: replace_all.simps(2))
qed

lemma pass_shortens: "replace_all mt t = t \<or> length (replace_all mt t) < length t"
proof (induction t rule: length_induct)
  case (1 t)
  show ?case
  proof (cases t)
    case (Cons x xs)
    show ?thesis
    proof (cases rule: replace_cases [of x xs])
      case none
      moreover have "replace_all mt xs = xs \<or> length (replace_all mt xs) < length xs"
        using "1.IH" Cons by simp
      ultimately show ?thesis using Cons by auto
    next
      case (some n r)
      have "length (replace_all mt (drop n t)) \<le> length (drop n t)"
        using "1.IH" [rule_format, of "drop n t"] some Cons by (auto simp: less_imp_le)
      with some have "length (replace_all mt t) < Suc (length xs)" unfolding Cons by simp
      then show ?thesis using Cons by simp
    qed
  qed simp
qed

lemma stable_has_no_match: "replace_all mt t = t \<Longrightarrow> mt (drop i t) = None"
proof (induction t arbitrary: i)
  case Nil
  show ?case
  proof (cases "mt []")
    case (Some nr)
    then show ?thesis using shortens [of "[]" "fst nr" "snd nr"] by auto
  qed simp
next
  case (Cons x xs)
  have none: "mt (x # xs) = None \<and> replace_all mt xs = xs"
  proof (cases rule: replace_cases [of x xs])
    case (some n r)
    have "length (replace_all mt (drop n (x # xs))) \<le> Suc (length xs) - n"
      using pass_shortens [of "drop n (x # xs)"] by auto
    with some have "length (replace_all mt (x # xs)) < Suc (length xs)" by simp
    with Cons.prems show ?thesis by simp
  qed (use Cons.prems in simp)
  then show ?case using Cons.IH by (cases i) simp_all
qed

lemma passes_end: "\<exists>u. until_stable mt t = Some u \<and> replace_all mt u = u"
proof (induction t rule: length_induct)
  case (1 t)
  show ?case
  proof (cases "replace_all mt t = t")
    case True
    then show ?thesis by (subst until_stable.simps) simp
  next
    case False
    with pass_shortens [of t] have "length (replace_all mt t) < length t" by blast
    with "1.IH" False show ?thesis by (subst until_stable.simps) simp
  qed
qed

end

section \<open>The five patterns\<close>

lemma place_of_le: "place_of w t = Some n \<Longrightarrow> n + length w \<le> length t"
proof (induction t arbitrary: n)
  case (Cons u us)
  then show ?case
    by (auto simp: starts_any_case_def starts_with_iff split: if_splits)
       (metis length_Cons length_append length_map le_add1)
qed (auto split: if_splits)

lemma takeWhile_less: "d \<in> set t \<Longrightarrow> length (takeWhile (\<lambda>u. u \<noteq> d) t) < length t"
  by (induction t) auto

lemma starts_with_drop: "starts_with [d] (drop n t) \<Longrightarrow> n < length t"
  by (rule ccontr) simp

lemma block_of_le:
  assumes "block_of name t = Some n" shows "0 < n \<and> n \<le> length t"
proof -
  define behind where "behind = drop (Suc (length name)) t"
  define lead where "lead = takeWhile (\<lambda>u. u \<noteq> 62) behind"
  from assms obtain k where in_t: "62 \<in> set behind"
    and k: "place_of (''</'' @ name @ ''>'') (drop (Suc (length lead)) behind) = Some k"
    and n: "n = Suc (length name) + Suc (length lead) + k + length name + 3"
    by (auto simp: block_of_def Let_def behind_def lead_def split: if_splits)
  from in_t have "length lead < length behind" unfolding lead_def by (rule takeWhile_less)
  moreover from place_of_le [OF k] have "k + length name + 3 \<le> length behind - Suc (length lead)" by simp
  ultimately show ?thesis using n by (simp add: behind_def)
qed

interpretation scripts: shortening script_block
  by unfold_locales (auto simp: script_block_def dest: block_of_le split: option.splits)

interpretation comments: shortening comment_block
proof unfold_locales
  fix t n r assume "comment_block t = Some (n, r)"
  then obtain k where "starts_any_case ''<!--'' t" "place_of ''-->'' (drop 4 t) = Some k" "n = 4 + k + 3" "r = []"
    by (auto simp: comment_block_def split: if_splits)
  with place_of_le [of "''-->''" "drop 4 t" k] show "length r < n \<and> n \<le> length t" by simp
qed

interpretation closings: shortening closing_tag
proof unfold_locales
  fix t n r assume "closing_tag t = Some (n, r)"
  then obtain ns where "List.map_filter (closing_length t) closing_names = n # ns" "r = [10]"
    by (auto simp: closing_tag_def split: list.splits)
  moreover from calculation have "n \<in> set (List.map_filter (closing_length t) closing_names)" by simp
  then obtain name where "closing_length t name = Some n" by (auto simp: List.map_filter_def)
  ultimately show "length r < n \<and> n \<le> length t"
    by (auto simp: closing_length_def Let_def dest!: starts_with_drop split: if_splits)
qed

interpretation breaks: shortening break_tag
  by unfold_locales (auto simp: break_tag_def Let_def dest!: starts_with_drop split: if_splits)

interpretation tags: shortening any_tag
proof unfold_locales
  fix t n r assume "any_tag t = Some (n, r)"
  then have "62 \<in> set (tl t)" "n = length (takeWhile (\<lambda>u. u \<noteq> 62) (tl t)) + 2" "r = []"
    by (auto simp: any_tag_def Let_def split: if_splits)
  with takeWhile_less [of 62 "tl t"] show "length r < n \<and> n \<le> length t" by simp
qed

section \<open>Reading a mail\<close>

lemma tag_passes_end: "\<exists>t. tag_passes html = Some t \<and> (\<forall>i. any_tag (drop i t) = None)"
proof -
  obtain a b c d e where "until_stable script_block html = Some a" "until_stable comment_block a = Some b"
    "until_stable closing_tag b = Some c" "until_stable break_tag c = Some d" "until_stable any_tag d = Some e"
    "replace_all any_tag e = e"
    by (meson scripts.passes_end comments.passes_end closings.passes_end breaks.passes_end tags.passes_end)
  then show ?thesis by (simp add: tag_passes_def tags.stable_has_no_match)
qed

lemma strip_html_returns: "\<exists>r. strip_html html = Some r"
  using tag_passes_end [of html] by (auto simp: strip_html_def)

lemma read_mail_returns: "\<exists>r. read_mail p lib cap ls = Some r"
  using strip_html_returns
  by (auto simp: read_mail_def mail_body_def split: sum.split list.split)

text \<open>C40. Reading a mail returns, whatever a stranger composed: every pass over an HTML part ends, and what the
  passes leave holds no tag anywhere; what is then read off it is decoded and tidied text.\<close>

theorem html_is_stripped:
  "\<exists>t. tag_passes html = Some t \<and> (\<forall>i. any_tag (drop i t) = None)
     \<and> strip_html html = Some (bind_res (decode_entities t) (\<lambda>u.
         Inr (trim_list (replace_all line_run (replace_all line_tail u)))))
     \<and> (\<exists>r. read_mail p lib cap ls = Some r)"
  using tag_passes_end [of html] read_mail_returns by (auto simp: strip_html_def)

end
