(* ===== verification/Email_Props.thy ===== *)
theory Email_Props
  imports Email_Poll Mime_Props Positions
begin

text \<open>
  The guarantees of the mail adapter: what reading one mail does to a batch, corrections and their
  revisions, who is answered, what a send reports, the parts of a body, and the poll against its watermark.
\<close>

section \<open>One mail that cannot be read\<close>

lemma filter_res_fails: "x \<in> set xs \<Longrightarrow> \<not> is_ok (f x) \<Longrightarrow> \<not> is_ok (filter_res f xs)"
  by (induction xs) (auto simp: is_ok_def bind_res_def split: sum.splits)

lemma map_res_fails: "x \<in> set xs \<Longrightarrow> \<not> is_ok (f x) \<Longrightarrow> \<not> is_ok (map_res f xs)"
  by (induction xs) (auto simp: is_ok_def split: sum.splits)

lemma bind_res_fails: "\<not> is_ok r \<Longrightarrow> \<not> is_ok (bind_res r f)"
  by (cases r) simp_all

text \<open>C34. A mail in which a number names no character throws out of \<open>readItem\<close>, which is said never to throw:
  while it is among the items, nothing of the mailbox is pending, nothing is recorded, no item gets its
  place, and it is never consumed, so the next poll finds it again.\<close>

theorem one_mail_stops_the_mailbox:
  assumes "mail_read p lib c it = Inl Range_Error" "it \<in> set its"
  shows "\<not> is_ok (mail_list_pending p lib c s its) \<and> \<not> is_ok (mail_payload p lib c s its)
     \<and> \<not> is_ok (map_res (placed_item p lib c s) its)
     \<and> mail_consume p lib c it s = (Inl (Error ''Invalid code point''), s)"
proof -
  have read: "read_item p lib c s it = Inl (Error ''Invalid code point'')"
    using assms(1) by (simp add: read_item_def)
  have one: "\<not> is_ok (mail_past_cursors p lib c s it)" "\<not> is_ok (placed_item p lib c s it)"
    "\<not> is_ok (mail_payload_one p lib c s declared it)" for declared
    by (simp_all add: mail_past_cursors_def placed_item_def mail_payload_one_def read)
  note all = filter_res_fails [where f = "mail_past_cursors p lib c s", OF assms(2) one(1)]
    map_res_fails [where f = "placed_item p lib c s", OF assms(2) one(2)]
    map_res_fails [where f = "mail_payload_one p lib c s declared" for declared, OF assms(2) one(3)]
  have "\<not> is_ok (mail_payload p lib c s its)"
    by (cases "declared_addresses lib c") (simp_all add: mail_payload_def bind_res_fails all(3))
  moreover note all(1,2)
  moreover have "mail_consume p lib c it s = (Inl (Error ''Invalid code point''), s)"
    by (simp add: mail_consume_def bind_op_def read_op_def read)
  ultimately show ?thesis by (simp add: mail_list_pending_def)
qed

section \<open>Corrections\<close>

lemma read_mail_itemD:
  assumes "read_item p lib c s it = Inr (Read_Mail r)"
  obtains m own where "mail_read p lib c it = Inr m" "own_id_of (mm_headers m) = Some own" "r = readable_of p c s it m own"
  using assms by (auto simp: read_item_def split: sum.splits mail_error.splits option.splits)

lemma read_item_readable:
  "mail_read p lib c it = Inr m \<Longrightarrow> own_id_of (mm_headers m) = Some own \<Longrightarrow>
     read_item p lib c s it = Inr (Read_Mail (readable_of p c s it m own))"
  by (simp add: read_item_def)

text \<open>A correction takes the number above every revision there is of what it corrects.\<close>

lemma correction_of:
  assumes "rm_kind (readable_of p c s it m own) = ''revision''"
  obtains old where "first_of (ids_in (raw_or_empty (mm_headers m) ''supersedes'')) = Some old"
    "rm_message_id (readable_of p c s it m own) = rm_conversation (readable_of p c s it m own) @ '':'' @ text_of old"
    "existing_revisions p s (rm_conversation (readable_of p c s it m own)) (rm_message_id (readable_of p c s it m own)) \<noteq> []"
  using assms by (auto simp: readable_of_def Let_def split: option.splits list.splits)

lemma correction_number:
  assumes "first_of (ids_in (raw_or_empty (mm_headers m) ''supersedes'')) = Some old"
    "existing_revisions p s cid (cid @ '':'' @ text_of old) = n # ns"
    "cid = em_account c @ '':'' @ text_of (thread_root (mm_headers m) own)"
  shows "rm_kind (readable_of p c s it m own) = ''revision''"
    "rm_conversation (readable_of p c s it m own) = cid"
    "rm_message_id (readable_of p c s it m own) = cid @ '':'' @ text_of old"
    "rm_revision (readable_of p c s it m own) = Max (set (n # ns)) + 1"
  using assms by (simp_all add: readable_of_def Let_def)

lemma conversation_of_readable:
  "rm_conversation (readable_of p c s it m own) = em_account c @ '':'' @ text_of (thread_root (mm_headers m) own)"
  by (simp add: readable_of_def Let_def)

text \<open>C33. Reading a correction again, after its record was written and before its cursor moved, or after the
  mailbox was numbered anew, gives it the next number: it is written as another revision and no merge
  absorbs the second reading.\<close>

theorem correction_is_written_again:
  assumes first: "read_item p lib c s it = Inr (Read_Mail r)" "rm_kind r = ''revision''"
    and written: "store_records_in p (rm_conversation r) s' = Inr ms" "w \<in> set ms"
      "message_id w = rm_message_id r" "revision w = rm_revision r"
  shows "\<exists>r'. read_item p lib c s' it = Inr (Read_Mail r') \<and> rm_conversation r' = rm_conversation r
     \<and> rm_message_id r' = rm_message_id r \<and> rm_kind r' = ''revision'' \<and> rm_revision r < rm_revision r'"
proof -
  from first(1) obtain m own where m: "mail_read p lib c it = Inr m" "own_id_of (mm_headers m) = Some own"
    and r: "r = readable_of p c s it m own" by (rule read_mail_itemD)
  from first(2) r obtain old where old: "first_of (ids_in (raw_or_empty (mm_headers m) ''supersedes'')) = Some old"
    and mid: "rm_message_id r = rm_conversation r @ '':'' @ text_of old"
    by (auto elim: correction_of)
  have "rm_revision r \<in> set (existing_revisions p s' (rm_conversation r) (rm_conversation r @ '':'' @ text_of old))"
    using written mid by (auto simp: existing_revisions_def image_iff)
  then obtain n ns where ns: "existing_revisions p s' (rm_conversation r) (rm_conversation r @ '':'' @ text_of old) = n # ns"
    and in_ns: "rm_revision r \<in> set (n # ns)" by (metis list.set_cases)
  note again = correction_number [OF old ns, of c own it]
  have cid: "rm_conversation r = em_account c @ '':'' @ text_of (thread_root (mm_headers m) own)"
    by (simp add: r conversation_of_readable)
  have "rm_revision r \<le> Max (set (n # ns))" using in_ns by (intro Max_ge) auto
  with again [OF cid] mid read_item_readable [OF m] show ?thesis by auto
qed

text \<open>Two corrections of one message in one batch get one number, whatever they say: the second is merged
  into the first.\<close>

lemma corrections_share_a_revision:
  assumes "rm_kind (readable_of p c s it1 m1 own1) = ''revision''" "rm_kind (readable_of p c s it2 m2 own2) = ''revision''"
    "rm_conversation (readable_of p c s it1 m1 own1) = rm_conversation (readable_of p c s it2 m2 own2)"
    "rm_message_id (readable_of p c s it1 m1 own1) = rm_message_id (readable_of p c s it2 m2 own2)"
  shows "rm_revision (readable_of p c s it1 m1 own1) = rm_revision (readable_of p c s it2 m2 own2)"
  using assms by (auto simp: readable_of_def Let_def split: option.splits list.splits)

section \<open>Who is answered\<close>

lemma disposition_of_record:
  "ei_wrong_type it = None \<Longrightarrow>
     map_of (mail_record p lib c s declared it r got_at) ''disposition''
       = Some (JStr (if mail_answerable lib declared (rm_headers r) then ''captured'' else ''policy-drop''))"
  by (simp add: mail_record_def Let_def)

lemma headers_of_readable: "rm_headers (readable_of p c s it m own) = mm_headers m"
  by (simp add: readable_of_def Let_def)

lemma in_map_filter: "y \<in> set (List.map_filter f xs) \<Longrightarrow> \<exists>x\<in>set xs. f x = Some y"
  by (auto simp: List.map_filter_def)


end
