(* ===== verification/Email_Send_Props.thy ===== *)
theory Email_Send_Props
  imports Email_Props
begin

text \<open>
  What a mail send reports against the calls it made, the parts of a body, and what a poll hands over
  against its watermark.
\<close>

section \<open>The report of a send\<close>

text \<open>Every call was answered with the exit of an accepted upload.\<close>

definition all_accepted :: "mail_env \<Rightarrow> curl_call list \<Rightarrow> curl_call list \<Rightarrow> bool" where
  "all_accepted env made new \<longleftrightarrow>
     (\<forall>k<length new. \<exists>r. me_curl env (made @ take k new) (new ! k) = Some r \<and> cr_code r = 0)"

lemma all_accepted_Nil [simp]: "all_accepted env made []"
  by (simp add: all_accepted_def)

lemma all_accepted_Cons:
  "me_curl env made x = Some r \<Longrightarrow> cr_code r = 0 \<Longrightarrow> all_accepted env (made @ [x]) xs \<Longrightarrow> all_accepted env made (x # xs)"
  by (auto simp: all_accepted_def less_Suc_eq_0_disj)

lemma send_message_cases:
  assumes "send_message p env c recipients file mime made = (Inr st, made')"
  obtains x r where "made' = made @ [x]" "me_curl env made x = Some r"
    "st = (if cr_code r = 0 then ''sent'' else if cr_code r \<in> set never_arrived then ''failed'' else ''unknown'')"
  using assms
  by (auto simp: send_message_def run_curl_def bind_op_def ret_op_def Let_def split: if_splits option.splits)

definition sent_as_reported :: "mail_env \<Rightarrow> string \<Rightarrow> string list \<Rightarrow> nat \<Rightarrow> curl_call list \<Rightarrow> curl_call list \<Rightarrow> bool" where
  "sent_as_reported env st ids n made new \<longleftrightarrow>
     (st = ''sent'' \<longrightarrow> length new = n \<and> all_accepted env made new)
     \<and> (st = ''failed'' \<longrightarrow> ids = [] \<and> (\<exists>x r. new = [x] \<and> me_curl env made x = Some r \<and> cr_code r \<in> set never_arrived))
     \<and> st \<in> {''sent'', ''failed'', ''unknown''}"

lemma send_parts_reports:
  assumes "send_parts p env c mail_of recipients i bs ids made = (Inr (st, ids'), made')" "\<not> em_dry_run c"
  shows "\<exists>new. made' = made @ new \<and> (ids \<noteq> [] \<longrightarrow> ids' \<noteq> [] \<and> st \<noteq> ''failed'')
     \<and> (st = ''sent'' \<longrightarrow> length ids' = length ids + length bs)
     \<and> sent_as_reported env st ids' (length bs) made new"
  using assms(1)
proof (induction bs arbitrary: i ids made)
  case Nil
  then show ?case by (auto simp: sent_as_reported_def ret_op_def)
next
  case (Cons b bs)
  from Cons.prems assms(2) obtain mime st1 made1 where one: "send_message p env c recipients (me_temp env i) mime made = (Inr st1, made1)"
    and rest: "(if st1 = ''sent'' then send_parts p env c mail_of recipients (Suc i) bs (ids @ [bm_message_id (mail_of i b)])
       else ret_op (if ids \<noteq> [] then ''unknown'' else st1, ids)) made1 = (Inr (st, ids'), made')"
    by (auto simp: bind_op_def read_op_def Let_def split: sum.splits prod.splits)
  from one obtain x r where x: "made1 = made @ [x]" "me_curl env made x = Some r"
    and st1: "st1 = (if cr_code r = 0 then ''sent'' else if cr_code r \<in> set never_arrived then ''failed'' else ''unknown'')"
    by (rule send_message_cases)
  show ?case
  proof (cases "st1 = ''sent''")
    case True
    with rest obtain new where new: "made' = made1 @ new" "ids' \<noteq> []" "st \<noteq> ''failed''"
      "st = ''sent'' \<longrightarrow> length ids' = Suc (length ids) + length bs" "sent_as_reported env st ids' (length bs) made1 new"
      by (auto dest!: Cons.IH)
    from True st1 have "cr_code r = 0" by (auto split: if_splits)
    with new x show ?thesis
      by (intro exI [of _ "x # new"]) (auto simp: sent_as_reported_def intro: all_accepted_Cons)
  next
    case False
    with rest x st1 show ?thesis
      by (intro exI [of _ "[x]"]) (auto simp: sent_as_reported_def ret_op_def split: if_splits)
  qed
qed


section \<open>The parts of a body\<close>

lemma split_one_line: "CHR 0x0A \<notin> set l \<Longrightarrow> split_on (CHR 0x0A) l = [l]"
  by (rule split_on_plain)


lemma split_on_not_Nil [simp]: "split_on d x \<noteq> []"
  using length_split_on [of d x] by auto

lemma split_on_both: "split_on d (x @ d # y) = split_on d x @ split_on d y"
  by (induction x) (auto split: list.splits)

lemma split_candidate:
  "CHR 0x0A \<notin> set l \<Longrightarrow> filter (\<lambda>l. l \<noteq> []) (split_on (CHR 0x0A) (joined_line current l))
     = filter (\<lambda>l. l \<noteq> []) (split_on (CHR 0x0A) current @ [l])"
  by (simp add: joined_line_def split_on_both split_one_line)

lemma body_parts_kept:
  assumes "list_all (\<lambda>l. length l \<le> limit \<and> CHR 0x0A \<notin> set l) ls" "length current \<le> limit"
  shows "\<exists>ps. body_parts limit ls current = Some ps \<and> (\<forall>t\<in>set ps. length t \<le> limit \<and> t \<noteq> [])
     \<and> filter (\<lambda>l. l \<noteq> []) (concat (map (split_on (CHR 0x0A)) ps))
         = filter (\<lambda>l. l \<noteq> []) (split_on (CHR 0x0A) current @ ls)"
  using assms
proof (induction ls arbitrary: current)
  case Nil
  then show ?case by auto
next
  case (Cons l ls)
  note split_cand = split_candidate [of l current]
  show ?case
  proof (cases "limit < length (joined_line current l)")
    case True
    with Cons.prems have "current \<noteq> []" by (auto simp: joined_line_def)
    moreover from Cons.prems have "length l \<le> limit" "CHR 0x0A \<notin> set l" "list_all (\<lambda>l. length l \<le> limit \<and> CHR 0x0A \<notin> set l) ls" by simp_all
    moreover obtain ps where "body_parts limit ls l = Some ps" "\<forall>t\<in>set ps. length t \<le> limit \<and> t \<noteq> []"
      "filter (\<lambda>l. l \<noteq> []) (concat (map (split_on (CHR 0x0A)) ps)) = filter (\<lambda>l. l \<noteq> []) (split_on (CHR 0x0A) l @ ls)"
      using Cons.IH [OF calculation(4,2)] by blast
    ultimately show ?thesis using True Cons.prems(2) by (auto simp: split_one_line)
  next
    case False
    then have "length (joined_line current l) \<le> limit" by simp
    with Cons.prems Cons.IH [of "joined_line current l"] obtain ps where "body_parts limit ls (joined_line current l) = Some ps"
      "\<forall>t\<in>set ps. length t \<le> limit \<and> t \<noteq> []"
      "filter (\<lambda>l. l \<noteq> []) (concat (map (split_on (CHR 0x0A)) ps)) = filter (\<lambda>l. l \<noteq> []) (split_on (CHR 0x0A) (joined_line current l) @ ls)"
      by auto
    with False split_cand Cons.prems(1) show ?thesis by simp
  qed
qed

lemma lines_free: "l \<in> set (split_on d t) \<Longrightarrow> d \<notin> set l"
  by (induction t arbitrary: l) (auto split: if_splits list.splits)

text \<open>A body whose lines each fit a part is cut at line ends: no part is above the limit and every line that
  is not blank goes out whole, in its place.\<close>

theorem lines_that_fit_are_kept:
  assumes "list_all (\<lambda>l. length l \<le> limit) (split_on (CHR 0x0A) t)"
  shows "\<exists>ps. mail_split_body limit t = Some ps \<and> list_all (\<lambda>part. length part \<le> limit) ps
     \<and> filter (\<lambda>l. l \<noteq> []) (concat (map (split_on (CHR 0x0A)) ps)) = filter (\<lambda>l. l \<noteq> []) (split_on (CHR 0x0A) t)"
proof (cases "length t \<le> limit")
  case True
  then show ?thesis by (simp add: mail_split_body_def)
next
  case False
  have "list_all (\<lambda>l. length l \<le> limit \<and> CHR 0x0A \<notin> set l) (split_on (CHR 0x0A) t)"
    using assms by (auto simp: list_all_iff dest: lines_free)
  from body_parts_kept [OF this, of "[]"] False show ?thesis
    by (auto simp: mail_split_body_def list_all_iff)
qed

section \<open>The poll\<close>

lemma pad_facts:
  assumes "n < 10000000000"
  shows "length (pad n) = 10" "list_all digit (pad n)" "read_nat (pad n) 0 = n"
  using pad_start_facts [of n 10] assms by (simp_all add: pad_def)

lemma number_of_pad: "n < 10000000000 \<Longrightarrow> js_number num (pad n) = Some (int n)"
  using pad_facts [of n] by (auto simp: js_number_def digits_text_def)

lemma colon_not_in_pad: "n < 10000000000 \<Longrightarrow> CHR '':'' \<notin> set (pad n)"
  using pad_facts(2) [of n] by (auto simp: list_all_iff digit_def)

lemma poll_from_position:
  assumes "v < 10000000000" "u < 10000000000"
  shows "poll_from num mailbox (Some (mail_position_of v u)) live =
     (if v = live then Inr (Some (int u + 1), False)
      else if live < v then Inl (Stream_Fault [Fault ''UIDVALIDITY_WENT_BACKWARDS'' (mailbox @ '' '' @ show_nat live)])
      else Inr (Some 1, True))"
proof -
  have "split_on (CHR '':'') (mail_position_of v u) = [pad v, pad u]"
    using assms by (simp add: mail_position_of_def split_on_append_sep split_on_plain colon_not_in_pad)
  with assms show ?thesis by (simp add: poll_from_def number_of_pad)
qed

lemma mail_position_order:
  assumes "v < 10000000000" "u < 10000000000" "v' < 10000000000" "u' < 10000000000"
  shows "js_le (mail_position_of v u) (mail_position_of v' u') \<longleftrightarrow> v < v' \<or> v = v' \<and> u \<le> u'"
proof -
  have asc: "ascii (pad n)" if "n < 10000000000" for n using pad_facts(2) [OF that] by (rule digits_ascii)
  have le: "js_le (pad m) (pad n) \<longleftrightarrow> m \<le> n" if "m < 10000000000" "n < 10000000000" for m n
    using pad_start_le [of m 10 n] that by (simp add: pad_def)
  have eq: "pad m = pad n \<longleftrightarrow> m = n" if "m < 10000000000" "n < 10000000000" for m n
    using pad_start_inject [of m 10 n] that by (simp add: pad_def)
  have "js_le (mail_position_of v u) (mail_position_of v' u')
      \<longleftrightarrow> (if pad v @ '':'' = pad v' @ '':'' then js_le (pad u) (pad u') else js_le (pad v @ '':'') (pad v' @ '':''))"
    using js_le_append [of "pad v @ '':''" "pad v' @ '':''" "pad u" "pad u'"] assms
    by (simp add: mail_position_of_def asc pad_facts)
  moreover have "js_le (pad v @ '':'') (pad v' @ '':'') \<longleftrightarrow> v \<le> v'"
    using js_le_append [of "pad v" "pad v'" "'':''" "'':''"] assms by (simp add: asc pad_facts le eq)
  ultimately show ?thesis using assms by (auto simp: le eq)
qed

lemma lift_res_Inr: "lift_res r made = (Inr x, made') \<longleftrightarrow> r = Inr x \<and> made' = made"
  by (auto simp: lift_res_def split: sum.split)

lemma fetched_in_order:
  "collect_op (fetched_item p env c mailbox validity) uids made = (Inr its, made') \<Longrightarrow>
     map ei_position its = map (mail_position_of validity) uids"
proof (induction uids arbitrary: made its)
  case (Cons u us)
  then obtain it made1 rest where "fetched_item p env c mailbox validity u made = (Inr it, made1)"
    "collect_op (fetched_item p env c mailbox validity) us made1 = (Inr rest, made')" "its = it # rest"
    by (auto split: prod.splits sum.splits)
  with Cons.IH [OF this(2)] show ?case by (auto simp: fetched_item_def bind_op_Inr ret_op_def)
qed simp

lemma placed_in_order:
  "map_res (placed_item p lib c s) its = Inr its' \<Longrightarrow> map ei_position its' = map ei_position its"
  by (induction its arbitrary: its') (auto simp: placed_item_def bind_res_Inr_iff split: sum.splits)

text \<open>What one search answered.\<close>

definition search_answered :: "platform \<Rightarrow> mail_env \<Rightarrow> email \<Rightarrow> int \<Rightarrow> nat list \<Rightarrow> bool" where
  "search_answered p env c first found \<longleftrightarrow>
     (\<exists>made r. me_curl env made (imap_args p c (mailbox_of c) (Some (''UID SEARCH UID '' @ show_int first @ '':*'')) None None, []) = Some r
        \<and> cr_code r = 0 \<and> found = search_numbers (cr_stdout r))"

lemma search_uids_Inr:
  "search_uids p env c (mailbox_of c) (Some first) made = (Inr uids, made') \<Longrightarrow>
     \<exists>found. search_answered p env c first found \<and> uids = sort (filter (\<lambda>n. first \<le> int n) found)"
  by (auto simp: search_uids_def read_or_throw_def run_curl_def on_curl_def bind_op_Inr search_answered_def
      ret_op_def throw_op_def split: option.splits sum.splits prod.splits if_splits)

text \<open>C38. A poll hands over, in the order of their uids, exactly what one search from the watermark up found: every
  uid above the watermark, each past it as the cursors compare, or the whole mailbox where it was numbered
  anew; a mailbox numbered below the watermark is refused.\<close>

theorem poll_reads_past_the_watermark:
  assumes poll: "mail_poll p num lib env c s made = (Inr r, made')"
    and held: "store_cursors p (poll_watermark_conversation c (mailbox_of c)) s = Inr cursors"
      "cur_message cursors = Some (mail_position_of v u)" "v < 10000000000" "u < 10000000000"
  shows "\<exists>found uids. search_answered p env c (if mp_uidvalidity r = v then int u + 1 else 1) found
     \<and> uids = sort (filter (\<lambda>n. if mp_uidvalidity r = v then u < n else 1 \<le> n) found)
     \<and> map ei_position (mp_items r) = map (mail_position_of (mp_uidvalidity r)) uids
     \<and> v \<le> mp_uidvalidity r \<and> mp_rescanned r = (v < mp_uidvalidity r)
     \<and> (mp_uidvalidity r < 10000000000 \<longrightarrow> (\<forall>n\<in>set uids. n < 10000000000 \<longrightarrow>
            \<not> js_le (mail_position_of (mp_uidvalidity r) n) (mail_position_of v u)))"
proof -
  from poll held obtain live :: mailbox_status and from_uid rescanned uids fetched items made1 made2 made3 made4 made5 where
      from_u: "poll_from num (mailbox_of c) (Some (mail_position_of v u)) (mb_uidvalidity live) = Inr (from_uid, rescanned)"
    and search: "search_uids p env c (mailbox_of c) from_uid made1 = (Inr uids, made2)"
    and fetch: "collect_op (fetched_item p env c (mailbox_of c) (mb_uidvalidity live)) uids made3 = (Inr fetched, made4)"
    and placed: "map_res (placed_item p lib c s) fetched = Inr items"
    and r: "mp_items r = items" "mp_uidvalidity r = mb_uidvalidity live" "mp_rescanned r = rescanned"
    by (auto simp: mail_poll_def bind_op_Inr lift_res_Inr Let_def ret_op_def)
  from from_u r(2) have first: "from_uid = Some (if mp_uidvalidity r = v then int u + 1 else 1)"
      "rescanned = (v < mp_uidvalidity r)" "v \<le> mp_uidvalidity r"
    by (auto simp: poll_from_position [OF held(3,4)] split: if_splits)
  from search_uids_Inr [OF search [unfolded first(1)]] obtain found
    where found: "search_answered p env c (if mp_uidvalidity r = v then int u + 1 else 1) found"
      and uids: "uids = sort (filter (\<lambda>n. (if mp_uidvalidity r = v then int u + 1 else 1) \<le> int n) found)" by blast
  have "filter (\<lambda>n. (if mp_uidvalidity r = v then int u + 1 else 1) \<le> int n) found
      = filter (\<lambda>n. if mp_uidvalidity r = v then u < n else 1 \<le> n) found"
    by (rule filter_cong) auto
  moreover have "map ei_position (mp_items r) = map (mail_position_of (mp_uidvalidity r)) uids"
    using fetched_in_order [OF fetch] placed_in_order [OF placed] r by simp
  moreover have "\<not> js_le (mail_position_of (mp_uidvalidity r) n) (mail_position_of v u)"
    if "mp_uidvalidity r < 10000000000" "n \<in> set uids" "n < 10000000000" for n
    using that uids first(3) by (auto simp: mail_position_order held split: if_splits)
  ultimately show ?thesis using found uids first r(3) by (intro exI [of _ found] exI [of _ uids]) auto
qed

end
