(* ===== verification/Email_Round_Trip.thy ===== *)
theory Email_Round_Trip
  imports Email_Send_Props
begin

text \<open>
  A mail the agent sent, read again: the message \<open>build_message\<close> writes goes through the reader of \<open>Mime\<close> as
  any mail does and gives back its identity, its thread, the stamp and the text. What is used of the library
  is \<open>mail_lib_ok\<close>: \<open>toLowerCase\<close> on ASCII, \<open>TextDecoder('utf-8')\<close>, and that \<open>Buffer\<close> decodes the base64 it encoded.
\<close>

section \<open>The library\<close>

definition mail_lib_ok :: "mail_lib \<Rightarrow> bool" where
  "mail_lib_ok lib \<longleftrightarrow>
     (\<forall>t. list_all (\<lambda>u. u < 128) t \<longrightarrow> ml_lower lib t = map ascii_lower t)
     \<and> (\<forall>bs. list_all (\<lambda>b. b < 256) bs \<longrightarrow> ml_base64 lib (units (base64_of bs)) = bs)
     \<and> (\<forall>bs. ml_decode lib (units ''utf-8'') bs = Some (decoded (if starts_with [239, 187, 191] bs then drop 3 bs else bs)))"

lemma lower_ascii: "mail_lib_ok lib \<Longrightarrow> list_all (\<lambda>u. u < 128) t \<Longrightarrow> ml_lower lib t = map ascii_lower t"
  by (simp add: mail_lib_ok_def)

lemma base64_read: "mail_lib_ok lib \<Longrightarrow> ml_base64 lib (units (base64_of (map byte_of t))) = map byte_of t"
proof -
  assume "mail_lib_ok lib"
  moreover have "list_all (\<lambda>b. b < 256) (map byte_of t)" by (simp add: list_all_iff nat_of_char_less_256)
  ultimately show ?thesis unfolding mail_lib_ok_def by blast
qed

section \<open>Lines on the wire\<close>

definition printable :: "string \<Rightarrow> bool" where
  "printable t \<longleftrightarrow> list_all (\<lambda>c. 32 \<le> byte_of c \<and> byte_of c \<le> 126) t"

lemma printable_append [simp]: "printable (a @ b) \<longleftrightarrow> printable a \<and> printable b"
  by (simp add: printable_def)

lemma printable_Cons [simp]: "printable (c # b) \<longleftrightarrow> 32 \<le> byte_of c \<and> byte_of c \<le> 126 \<and> printable b"
  by (simp add: printable_def)

lemma printable_Nil [simp]: "printable []"
  by (simp add: printable_def)

lemma printable_units: "printable t \<Longrightarrow> u \<in> set (units t) \<Longrightarrow> 32 \<le> u \<and> u \<le> 126"
  by (auto simp: printable_def list_all_iff)

lemma printable_join: "printable sep \<Longrightarrow> list_all printable xs \<Longrightarrow> printable (join sep xs)"
  by (induction sep xs rule: join.induct) auto

lemma split_units_sep: "d \<notin> set x \<Longrightarrow> split_units_at d (x @ d # y) = x # split_units_at d y"
  by (induction x) auto

lemma split_units_plain: "d \<notin> set x \<Longrightarrow> split_units_at d x = [x]"
  by (induction x) auto

lemma strip_cr_printable: "printable t \<Longrightarrow> strip_cr (units t) = units t"
proof -
  assume t: "printable t"
  have "last (units t) \<noteq> 13" if "t \<noteq> []"
  proof -
    from that have "last (units t) \<in> set (units t)" by (intro last_in_set) simp
    from printable_units [OF t this] show ?thesis by simp
  qed
  then show ?thesis by (auto simp: strip_cr_def)
qed

lemma wire_lines_back:
  "list_all printable ls \<Longrightarrow> ls \<noteq> [] \<Longrightarrow>
     map strip_cr (split_units_at 10 (units (join [CHR 0x0D, CHR 0x0A] ls))) = map units ls"
proof (induction ls rule: induct_list012)
  case (2 x)
  then have "10 \<notin> set (units x)" using printable_units [of x 10] by auto
  with 2 show ?case by (simp add: split_units_plain strip_cr_printable)
next
  case (3 x y zs)
  then have "10 \<notin> set (units x @ [13])" using printable_units [of x 10] by auto
  from split_units_sep [OF this] 3 show ?case by (simp add: strip_cr_def)
qed simp

section \<open>The headers\<close>

lemma split_headers_at:
  "list_all (\<lambda>l. l \<noteq> [] \<and> l \<noteq> [13]) hs \<Longrightarrow> split_headers (hs @ [] # rest) = (hs, rest)"
  by (induction hs) auto

text \<open>A line a header starts on.\<close>

definition header_line :: "string \<Rightarrow> bool" where
  "header_line t \<longleftrightarrow> printable t \<and> t \<noteq> [] \<and> byte_of (hd t) \<noteq> 32"

lemma unfold_header_lines:
  "list_all header_line ls \<Longrightarrow> foldl unfold_line acc (map units ls) = acc @ map units ls"
proof (induction ls arbitrary: acc)
  case (Cons l ls)
  then have l: "printable l" "l \<noteq> []" "byte_of (hd l) \<noteq> 32" by (simp_all add: header_line_def)
  then have "byte_of (hd l) \<noteq> 9" using printable_units [of l "byte_of (hd l)"] by auto
  with l have "unfold_line acc (units l) = acc @ [units l]"
    by (simp add: unfold_line_def strip_cr_printable Let_def hd_map)
  with Cons show ?case by simp
qed simp

lemma trim_list_id: "t = [] \<or> \<not> js_space (hd t) \<and> \<not> js_space (last t) \<Longrightarrow> trim_list t = t"
  by (cases t) (auto simp: trim_list_def hd_rev [symmetric] dropWhile_eq_self_iff)

lemma visible_not_space: "33 \<le> u \<Longrightarrow> u \<le> 126 \<Longrightarrow> \<not> js_space u"
  by (simp add: js_space_def)

lemma space_32 [simp]: "js_space 32"
  by (simp add: js_space_def)

lemma trim_visible: "list_all (\<lambda>u. 33 \<le> u \<and> u \<le> 126) t \<Longrightarrow> trim_list t = t"
proof (rule trim_list_id, cases "t = []")
  case False
  assume "list_all (\<lambda>u. 33 \<le> u \<and> u \<le> 126) t"
  with False have "33 \<le> hd t \<and> hd t \<le> 126" "33 \<le> last t \<and> last t \<le> 126"
    by (metis list_all_iff hd_in_set) (metis \<open>list_all _ t\<close> False list_all_iff last_in_set)
  then show "t = [] \<or> \<not> js_space (hd t) \<and> \<not> js_space (last t)" by (simp add: visible_not_space)
qed simp

lemma parse_header_line:
  assumes lib: "mail_lib_ok lib" and name: "name \<noteq> []" "\<forall>u\<in>set (units name). 45 \<le> u \<and> u \<le> 122 \<and> u \<noteq> 58"
  shows "parse_header lib (units (name @ '': '' @ t)) =
    [\<lparr>mh_name = map ascii_lower (units name), mh_raw = trim_list (units t), mh_value = decode_words lib (trim_list (units t))\<rparr>]"
proof -
  have name_of: "takeWhile (\<lambda>u. u \<noteq> 58) (units (name @ '': '' @ t)) = units name"
  proof -
    have "takeWhile (\<lambda>u. u \<noteq> 58) (units name @ 58 # 32 # units t) = units name"
      using name(2) by (subst takeWhile_append2) auto
    then show ?thesis by simp
  qed
  have "list_all (\<lambda>u. u < 128) (units name)" unfolding list_all_iff using name(2) by fastforce
  moreover have "trim_list (units name) = units name"
    using name(2) by (intro trim_visible) (fastforce simp only: list_all_iff)
  moreover have "trim_list (32 # units t) = trim_list (units t)"
    by (simp add: trim_list_def space_32)
  moreover have "drop (Suc (length (units name))) (units (name @ '': '' @ t)) = 32 # units t" by simp
  moreover have "58 \<in> set (units (name @ '': '' @ t))" by simp
  ultimately show ?thesis using name_of name(1) lower_ascii [OF lib]
    by (simp add: parse_header_def Let_def del: map_append)
qed

section \<open>A mail that was built\<close>

text \<open>A word without a space, a comma or an angle bracket: an address or a message id.\<close>

definition plain_word :: "string \<Rightarrow> bool" where
  "plain_word t \<longleftrightarrow> t \<noteq> [] \<and> (\<forall>u\<in>set (units t). 33 \<le> u \<and> u \<le> 126 \<and> u \<noteq> 44 \<and> u \<noteq> 60 \<and> u \<noteq> 62)"

definition mail_ok :: "built_mail \<Rightarrow> bool" where
  "mail_ok b \<longleftrightarrow> plain_word (bm_from b) \<and> 64 \<in> set (units (bm_from b)) \<and> list_all printable (bm_to b) \<and> printable (bm_date b)
     \<and> plain_word (bm_message_id b) \<and> plain_word (bm_in_reply_to b) \<and> bm_references b \<noteq> [] \<and> list_all plain_word (bm_references b)
     \<and> bm_origin b = ''agent''"

lemma plain_word_printable: "plain_word t \<Longrightarrow> printable t"
  by (fastforce simp: plain_word_def printable_def list_all_iff)

definition bracketed_id :: "string \<Rightarrow> string" where
  "bracketed_id i = ''<'' @ i @ ''>''"

definition header_pairs :: "built_mail \<Rightarrow> (string \<times> string) list" where
  "header_pairs b =
     [(''From'', bm_from b), (''To'', join '', '' (bm_to b)), (''Subject'', encode_header_word (bm_subject b)), (''Date'', bm_date b),
      (''Message-ID'', bracketed_id (bm_message_id b)), (''MIME-Version'', ''1.0''), (''Content-Type'', ''text/plain; charset=utf-8''),
      (''Content-Transfer-Encoding'', ''base64''), (''X-Carbon-Origin'', bm_origin b),
      (''In-Reply-To'', bracketed_id (bm_in_reply_to b)), (''References'', join '' '' (map bracketed_id (bm_references b)))]"

definition pair_line :: "string \<times> string \<Rightarrow> string" where
  "pair_line nt = fst nt @ '': '' @ snd nt"

definition pair_header :: "mail_lib \<Rightarrow> string \<times> string \<Rightarrow> mail_header" where
  "pair_header lib nt = \<lparr>mh_name = map ascii_lower (units (fst nt)), mh_raw = trim_list (units (snd nt)),
     mh_value = decode_words lib (trim_list (units (snd nt)))\<rparr>"

lemma mail_lines_pairs:
  "bm_references b \<noteq> [] \<Longrightarrow>
     mail_lines b = map pair_line (header_pairs b) @ [] # rows_of (base64_of (map byte_of (bm_body b))) @ [[]]"
  by (simp add: mail_lines_def header_pairs_def pair_line_def bracketed_id_def [abs_def])

lemma base64_printable: "printable (base64_of bs)"
proof -
  have "32 \<le> byte_of (base64_char n) \<and> byte_of (base64_char n) \<le> 126" for n
    by (auto simp: base64_char_def)
  then show ?thesis by (induction bs rule: base64_of.induct) auto
qed

lemma header_word_printable: "printable (encode_header_word t)"
proof (cases "list_all (\<lambda>u. 32 \<le> u \<and> u \<le> 126) t")
  case True
  then show ?thesis by (auto simp: encode_header_word_def printable_def list_all_iff)
next
  case False
  then show ?thesis by (auto simp: encode_header_word_def base64_printable)
qed

lemma rows_printable: "printable t \<Longrightarrow> list_all printable (rows_of t)"
proof (induction t rule: rows_of.induct)
  case (1 t)
  have "printable (take 76 t)" "printable (drop 76 t)"
    using 1(2) by (auto simp: printable_def list_all_iff dest: in_set_takeD in_set_dropD)
  with 1 show ?case by (subst rows_of.simps) auto
qed

lemma concat_rows: "concat (rows_of t) = t"
proof (induction t rule: rows_of.induct)
  case (1 t)
  then show ?case by (subst rows_of.simps) auto
qed

lemma pairs_printable:
  assumes "mail_ok b" shows "list_all printable (map pair_line (header_pairs b))"
proof -
  have "printable (bracketed_id i)" if "plain_word i" for i
    using plain_word_printable [OF that] by (simp add: bracketed_id_def)
  with assms show ?thesis
    by (auto simp: mail_ok_def header_pairs_def pair_line_def plain_word_printable header_word_printable list_all_iff
        intro!: printable_join)
qed

text \<open>The name of a header, as the lines of a mail carry it.\<close>

definition header_name :: "string \<Rightarrow> bool" where
  "header_name t \<longleftrightarrow> t \<noteq> [] \<and> (\<forall>u\<in>set (units t). 45 \<le> u \<and> u \<le> 122 \<and> u \<noteq> 58)"

lemma parse_pairs:
  assumes lib: "mail_lib_ok lib" and nts: "list_all (\<lambda>nt. header_name (fst nt) \<and> printable (pair_line nt)) nts"
  shows "parse_headers lib (map units (map pair_line nts)) = map (pair_header lib) nts"
    "split_headers (map units (map pair_line nts) @ [] # rest) = (map units (map pair_line nts), rest)"
proof -
  have start: "header_line (pair_line nt)" if "header_name (fst nt)" "printable (pair_line nt)" for nt
  proof -
    from that(1) have "fst nt \<noteq> []" "45 \<le> byte_of (hd (fst nt))"
      by (auto simp: header_name_def)
    with that(2) show ?thesis by (auto simp: header_line_def pair_line_def)
  qed
  with nts have lines: "list_all header_line (map pair_line nts)" by (auto simp: list_all_iff)
  from unfold_header_lines [OF lines, of "[]"]
  have unfolded: "unfold_lines (map units (map pair_line nts)) = map units (map pair_line nts)"
    by (simp add: unfold_lines_def)
  have "concat (map (\<lambda>nt. parse_header lib (units (pair_line nt))) nts) = map (pair_header lib) nts"
    using nts
  proof (induction nts)
    case (Cons nt nts)
    then have "parse_header lib (units (pair_line nt)) = [pair_header lib nt]"
      using parse_header_line [OF lib, of "fst nt" "snd nt"] by (simp add: pair_line_def pair_header_def header_name_def)
    with Cons show ?case by simp
  qed simp
  then show "parse_headers lib (map units (map pair_line nts)) = map (pair_header lib) nts"
    unfolding parse_headers_def unfolded by (simp add: comp_def)
  have "list_all (\<lambda>l. l \<noteq> [] \<and> l \<noteq> [13]) (map units (map pair_line nts))"
    using lines by (fastforce simp: list_all_iff header_line_def printable_def)
  then show "split_headers (map units (map pair_line nts) @ [] # rest) = (map units (map pair_line nts), rest)"
    by (rule split_headers_at)
qed

lemma pairs_ok:
  assumes "mail_ok b" shows "list_all (\<lambda>nt. header_name (fst nt) \<and> printable (pair_line nt)) (header_pairs b)"
proof -
  have "list_all (\<lambda>nt. header_name (fst nt)) (header_pairs b)" by (simp add: header_pairs_def header_name_def)
  with pairs_printable [OF assms] show ?thesis by (auto simp: list_all_iff)
qed

lemmas built_headers = parse_pairs(1) [OF _ pairs_ok]

section \<open>What is read off it\<close>

lemma plain_trim: "plain_word t \<Longrightarrow> trim_list (units t) = units t"
  by (intro trim_visible) (fastforce simp: plain_word_def list_all_iff)

lemma ids_in_bracketed:
  assumes "plain_word i" shows "ids_in (units (bracketed_id i) @ rest) = units i # ids_in rest"
proof -
  have "\<forall>u\<in>set (units i). u \<noteq> 60 \<and> u \<noteq> 62" "units i \<noteq> []" using assms by (auto simp: plain_word_def)
  moreover from this(1) have "takeWhile (\<lambda>x. x \<noteq> 60 \<and> x \<noteq> 62) (units i @ 62 # rest) = units i"
    by (subst takeWhile_append2) auto
  ultimately show ?thesis
    using plain_trim [OF assms] by (simp add: bracketed_id_def ids_in.simps(2) Let_def)
qed

lemma trim_bracketed: "trim_list (60 # us @ [62]) = 60 # us @ [62]"
  by (rule trim_list_id) (simp add: js_space_def)

lemma trim_references:
  assumes "refs \<noteq> []" shows "trim_list (units (join '' '' (map bracketed_id refs))) = units (join '' '' (map bracketed_id refs))"
proof -
  have "\<exists>us. units (join '' '' (map bracketed_id refs)) = 60 # us @ [62]"
    using assms
  proof (induction refs rule: induct_list012)
    case (2 x)
    then show ?case by (simp add: bracketed_id_def)
  next
    case (3 x y zs)
    then obtain us where us: "units (join '' '' (map bracketed_id (y # zs))) = 60 # us @ [62]" by auto
    have "units (join '' '' (map bracketed_id (x # y # zs)))
        = units (bracketed_id x) @ 32 # units (join '' '' (map bracketed_id (y # zs)))" by simp
    also have "\<dots> = 60 # (units x @ 62 # 32 # 60 # us) @ [62]" unfolding us by (simp add: bracketed_id_def)
    finally show ?case by (rule exI [where x = "units x @ 62 # 32 # 60 # us"])
  qed simp
  then show ?thesis by (auto simp: trim_bracketed)
qed

lemma units_inject [simp]: "units a = units b \<longleftrightarrow> a = b"
  by (rule inj_map_eq_map) (auto intro: injI)

lemma lowered_names:
  "map ascii_lower (units ''From'') = units ''from''" "map ascii_lower (units ''To'') = units ''to''"
  "map ascii_lower (units ''Subject'') = units ''subject''" "map ascii_lower (units ''Date'') = units ''date''"
  "map ascii_lower (units ''Message-ID'') = units ''message-id''" "map ascii_lower (units ''MIME-Version'') = units ''mime-version''"
  "map ascii_lower (units ''Content-Type'') = units ''content-type''"
  "map ascii_lower (units ''Content-Transfer-Encoding'') = units ''content-transfer-encoding''"
  "map ascii_lower (units ''X-Carbon-Origin'') = units ''x-carbon-origin''"
  "map ascii_lower (units ''In-Reply-To'') = units ''in-reply-to''" "map ascii_lower (units ''References'') = units ''references''"
  by code_simp+

text \<open>A header by its name among those of a mail that was built.\<close>

fun pair_named :: "string \<Rightarrow> (string \<times> string) list \<Rightarrow> string option" where
  "pair_named name [] = None"
| "pair_named name (nt # nts) = (if map ascii_lower (units (fst nt)) = units name then Some (snd nt) else pair_named name nts)"

lemma header_found_pair:
  "header_raw (map (pair_header lib) nts) name = map_option (\<lambda>t. trim_list (units t)) (pair_named name nts)"
  "header_value (map (pair_header lib) nts) name = map_option (\<lambda>t. decode_words lib (trim_list (units t))) (pair_named name nts)"
  by (induction nts) (auto simp: header_raw_def header_value_def header_found_def pair_header_def)

lemma pairs_named:
  "pair_named ''from'' (header_pairs b) = Some (bm_from b)"
  "pair_named ''message-id'' (header_pairs b) = Some (bracketed_id (bm_message_id b))"
  "pair_named ''references'' (header_pairs b) = Some (join '' '' (map bracketed_id (bm_references b)))"
  "pair_named ''x-carbon-origin'' (header_pairs b) = Some (bm_origin b)"
  "pair_named ''content-type'' (header_pairs b) = Some ''text/plain; charset=utf-8''"
  "pair_named ''content-transfer-encoding'' (header_pairs b) = Some ''base64''"
  "pair_named ''content-disposition'' (header_pairs b) = None"
  "pair_named ''supersedes'' (header_pairs b) = None"
  by (simp_all only: header_pairs_def pair_named.simps fst_conv snd_conv lowered_names units_inject) simp_all

abbreviation built_headers_of :: "mail_lib \<Rightarrow> built_mail \<Rightarrow> mail_header list" where
  "built_headers_of lib b \<equiv> map (pair_header lib) (header_pairs b)"

lemma read_off_headers:
  assumes lib: "mail_lib_ok lib" and b: "mail_ok b"
  shows "own_id_of (built_headers_of lib b) = Some (units (bm_message_id b))"
    "thread_root (built_headers_of lib b) own = units (hd (bm_references b))"
    "mail_stamped lib (built_headers_of lib b)"
    "sender_in lib (built_headers_of lib b) = map ascii_lower (units (bm_from b))"
    "raw_or_empty (built_headers_of lib b) ''supersedes'' = []"
proof -
  from b have words: "plain_word (bm_from b)" "64 \<in> set (units (bm_from b))" "plain_word (bm_message_id b)" "bm_references b \<noteq> []"
    "list_all plain_word (bm_references b)" "bm_origin b = ''agent''" by (simp_all add: mail_ok_def)
  show "own_id_of (built_headers_of lib b) = Some (units (bm_message_id b))"
    using ids_in_bracketed [OF words(3), of "[]"]
    by (simp add: own_id_of_def raw_or_empty_def header_found_pair pairs_named first_of_def bracketed_id_def trim_bracketed)
  from words(4,5) obtain i rest where refs: "bm_references b = i # rest" "plain_word i" by (cases "bm_references b") auto
  have "\<exists>more. units (join '' '' (map bracketed_id (i # rest))) = units (bracketed_id i) @ more"
    by (cases rest) auto
  with refs(1) ids_in_bracketed [OF refs(2)] obtain more
    where ids: "ids_in (units (join '' '' (map bracketed_id (bm_references b)))) = units i # more" by metis
  have "hd (bm_references b) = i" by (simp add: refs(1))
  then show "thread_root (built_headers_of lib b) own = units (hd (bm_references b))"
    by (simp add: thread_root_def raw_or_empty_def header_found_pair pairs_named trim_references [OF words(4)] ids)
  have "plain_word ''agent''" "map ascii_lower (units ''agent'') = units ''agent''" "list_all (\<lambda>u. u < 128) (units ''agent'')"
    "\<not> js_includes [61, 63] (units ''agent'')" by code_simp+
  then show "mail_stamped lib (built_headers_of lib b)"
    using plain_trim [of "''agent''"] lower_ascii [OF lib, of "units ''agent''"]
    by (simp only: mail_stamped_def header_found_pair pairs_named words(6) option.map option.case decode_words_def if_True simp_thms)
  have from_b: "list_all (\<lambda>u. u < 128) (units (bm_from b))" "44 \<notin> set (units (bm_from b))" "60 \<notin> set (units (bm_from b))"
    using words(1) by (fastforce simp: plain_word_def list_all_iff)+
  have no_angle: "angled_in t = None" if "60 \<notin> set t" for t using that by (induction t) auto
  show "sender_in lib (built_headers_of lib b) = map ascii_lower (units (bm_from b))"
    using from_b words(2) plain_trim [OF words(1)] lower_ascii [OF lib from_b(1)] no_angle [OF from_b(3)]
    by (simp add: sender_in_def raw_or_empty_def header_found_pair pairs_named addresses_in_def split_units_plain
        List.map_filter_def address_in_def)
  show "raw_or_empty (built_headers_of lib b) ''supersedes'' = []"
    by (simp add: raw_or_empty_def header_found_pair pairs_named)
qed

section \<open>Its body\<close>

lemma mail_lines_printable: "mail_ok b \<Longrightarrow> list_all printable (mail_lines b)"
  using pairs_printable [of b] rows_printable [OF base64_printable]
  by (auto simp: mail_lines_pairs mail_ok_def)

lemma filter_join_lines: "filter (\<lambda>u. \<not> js_space u) (join_lines ls) = concat (map (filter (\<lambda>u. \<not> js_space u)) ls)"
proof -
  have "js_space 10" by (simp add: js_space_def)
  then show ?thesis by (induction ls rule: join_lines.induct) auto
qed

lemma base64_not_space: "filter (\<lambda>u. \<not> js_space u) (units (base64_of bs)) = units (base64_of bs)"
proof -
  have "\<not> js_space (byte_of (base64_char n))" for n
    by (rule visible_not_space) (auto simp: base64_char_def)
  moreover have "\<not> js_space 61" by (simp add: js_space_def)
  ultimately show ?thesis by (induction bs rule: base64_of.induct) auto
qed

lemma trim_space: "trim_list (32 # t) = trim_list t"
  by (simp add: trim_list_def)

lemma literal_trims:
  "trim_list (units ''base64'') = units ''base64''" "trim_list (units ''text/plain'') = units ''text/plain''"
  "trim_list (units '' charset'') = units ''charset''" "trim_list (32 # units ''charset=utf-8'') = units ''charset=utf-8''"
  "trim_list (units ''utf-8'') = units ''utf-8''"
  "trim_list (units ''text/plain; charset=utf-8'') = units ''text/plain; charset=utf-8''"
proof -
  have "plain_word ''base64''" "plain_word ''text/plain''" "plain_word ''charset''" "plain_word ''charset=utf-8''" "plain_word ''utf-8''"
    by (simp_all add: plain_word_def)
  note words = this [THEN plain_trim]
  show "trim_list (units ''base64'') = units ''base64''" "trim_list (units ''text/plain'') = units ''text/plain''"
    "trim_list (units ''utf-8'') = units ''utf-8''" "trim_list (32 # units ''charset=utf-8'') = units ''charset=utf-8''"
    by (simp_all only: words trim_space)
  have "units '' charset'' = 32 # units ''charset''" by simp
  then show "trim_list (units '' charset'') = units ''charset''" by (simp only: words trim_space)
  show "trim_list (units ''text/plain; charset=utf-8'') = units ''text/plain; charset=utf-8''"
    by (rule trim_list_id) (simp add: js_space_def)
qed

lemma literal_lowers:
  assumes "mail_lib_ok lib"
  shows "ml_lower lib (units ''base64'') = units ''base64''" "ml_lower lib (units ''text/plain'') = units ''text/plain''"
    "ml_lower lib (units ''charset'') = units ''charset''" "ml_lower lib (units ''utf-8'') = units ''utf-8''" "ml_lower lib [] = []"
  using assms by (simp_all add: lower_ascii ascii_lower_def)

lemma base64_kind:
  assumes "mail_lib_ok lib" shows "trim_list (ml_lower lib (units ''base64'')) = units ''base64''"
  by (simp only: literal_lowers [OF assms] literal_trims)

lemma base64_body:
  assumes lib: "mail_lib_ok lib"
  shows "decode_body lib (map units (rows_of (base64_of (map byte_of t)) @ [[]])) (Some (units ''base64'')) name = Inr (map byte_of t)"
proof -
  let ?rows = "rows_of (base64_of (map byte_of t)) @ [[]]"
  have "list_all printable ?rows" using rows_printable [OF base64_printable] by simp
  then have strips: "map strip_cr (map units ?rows) = map units ?rows"
    by (auto simp: list_all_iff strip_cr_printable) (simp add: strip_cr_def)
  have content: "filter (\<lambda>u. \<not> js_space u) (join_lines (map units ?rows)) = units (base64_of (map byte_of t))"
  proof -
    have "concat (map (filter (\<lambda>u. \<not> js_space u)) (map units ?rows)) = filter (\<lambda>u. \<not> js_space u) (units (concat ?rows))"
      by (simp add: filter_concat map_concat comp_def)
    then show ?thesis by (simp add: filter_join_lines concat_rows base64_not_space)
  qed
  have known: "units ''base64'' \<in> set (map units known_encodings)" by code_simp
  show ?thesis
    by (simp only: decode_body_def Let_def option.case base64_kind [OF lib] strips content base64_read [OF lib] known
        if_True if_False simp_thms)
qed

lemma content_type_read:
  assumes lib: "mail_lib_ok lib"
  shows "parse_parameters lib (units ''text/plain; charset=utf-8'') = (units ''text/plain'', [(units ''charset'', units ''utf-8'')])"
proof -
  have parts: "semicolon_parts False [] (units ''text/plain; charset=utf-8'') = [units ''text/plain'', units '' charset=utf-8'']"
    by simp
  have piece: "takeWhile (\<lambda>u. u \<noteq> 61) (units '' charset=utf-8'') = units '' charset''" "61 \<in> set (units '' charset=utf-8'')"
    "drop (Suc (length (units '' charset''))) (units '' charset=utf-8'') = units ''utf-8''"
    "strip_star (units ''charset'') = units ''charset''" "parameter_text (units ''utf-8'') = units ''utf-8''"
    "\<not> js_includes [61, 63] (units ''utf-8'')"
    by (simp_all add: strip_star_def parameter_text_def)
  have "put_parameter lib (units '' charset=utf-8'') [] = [(units ''charset'', units ''utf-8'')]"
    using piece(2) by (simp only: put_parameter_def Let_def piece literal_trims literal_lowers [OF lib] decode_words_def if_True
        simp_thms if_False) simp
  then show ?thesis
    by (simp only: parse_parameters_def parts Let_def list.sel literal_trims literal_lowers [OF lib] fold.simps comp_apply id_apply)
qed

lemma utf8_text:
  assumes "mail_lib_ok lib"
  shows "decode_text lib bs (Some (units ''utf-8'')) = decoded (if starts_with [239, 187, 191] bs then drop 3 bs else bs)"
    "decode_text lib bs None = decoded (if starts_with [239, 187, 191] bs then drop 3 bs else bs)"
proof -
  have "strip_quotes (units ''utf-8'') = units ''utf-8''" "units ''utf-8'' \<noteq> []" by (simp_all add: strip_quotes_def)
  moreover have "ml_decode lib (units ''utf-8'') bs = Some (decoded (if starts_with [239, 187, 191] bs then drop 3 bs else bs))"
    using assms unfolding mail_lib_ok_def by blast
  ultimately show "decode_text lib bs (Some (units ''utf-8'')) = decoded (if starts_with [239, 187, 191] bs then drop 3 bs else bs)"
      "decode_text lib bs None = decoded (if starts_with [239, 187, 191] bs then drop 3 bs else bs)"
    by (simp_all only: decode_text_def Let_def option.case literal_lowers [OF assms] if_False)
qed

text \<open>The text of the part: its bytes decoded, a byte order mark dropped, and trimmed.\<close>

definition text_back :: "string \<Rightarrow> nat list" where
  "text_back t = (let bs = map byte_of t in trim_list (decoded (if starts_with [239, 187, 191] bs then drop 3 bs else bs)))"

lemma built_mail_is_read:
  assumes lib: "mail_lib_ok lib" and b: "mail_ok b"
  shows "read_mail p lib cap (map units (mail_lines b))
    = Some (Inr \<lparr>mm_headers = built_headers_of lib b, mm_body = text_back (bm_body b), mm_attachments = []\<rparr>)"
proof -
  let ?hs = "map units (map pair_line (header_pairs b))" and ?rows = "rows_of (base64_of (map byte_of (bm_body b))) @ [[]]"
  have "bm_references b \<noteq> []" using b by (simp add: mail_ok_def)
  then have lines: "map units (mail_lines b) = ?hs @ [] # map units ?rows" by (simp add: mail_lines_pairs)
  have split: "split_headers (map units (mail_lines b)) = (?hs, map units ?rows)"
    unfolding lines by (rule parse_pairs(2) [OF lib pairs_ok [OF b]])
  have trims: "starts_with (units ''text/'') (units ''text/plain'')"
    "\<not> starts_with (units ''multipart/'') (units ''text/plain'')" "units ''text/plain'' \<noteq> units ''text/html''"
    "units ''charset'' \<noteq> units ''name''" by simp_all
  have dispo: "parse_parameters lib [] = ([], [])"
    using lower_ascii [OF lib, of "[]"] by (simp add: parse_parameters_def trim_list_def)
  have "units ''attachment'' \<noteq> []" by simp
  have leaf: "leaf_part p lib cap (built_headers_of lib b) (map units ?rows) (units ''text/plain'', [(units ''charset'', units ''utf-8'')])
      \<lparr>mp_text = [], mp_html = [], mp_attachments = []\<rparr>
    = Inr \<lparr>mp_text = [decoded (if starts_with [239, 187, 191] (map byte_of (bm_body b)) then drop 3 (map byte_of (bm_body b))
        else map byte_of (bm_body b))], mp_html = [], mp_attachments = []\<rparr>"
    using trims literal_trims dispo base64_body [OF lib] utf8_text [OF lib]
    by (simp add: leaf_part_def header_found_pair pairs_named is_attachment_def Let_def del: map_append list.map)
  have "walk_part walk_depth p lib cap (map units (mail_lines b)) \<lparr>mp_text = [], mp_html = [], mp_attachments = []\<rparr>
    = leaf_part p lib cap (built_headers_of lib b) (map units ?rows) (units ''text/plain'', [(units ''charset'', units ''utf-8'')])
      \<lparr>mp_text = [], mp_html = [], mp_attachments = []\<rparr>"
  proof -
    have depth: "walk_depth = Suc 12" by (simp add: walk_depth_def)
    show ?thesis
      by (simp only: depth walk_part.simps(2) split Let_def case_prod_conv built_headers [OF lib b] header_found_pair pairs_named
          option.map option.case literal_trims content_type_read [OF lib] fst_conv trims(2) if_False)
  qed
  then show ?thesis
    by (simp only: leaf split built_headers [OF lib b] read_mail_def mail_body_def text_back_def Let_def sum.case list.case
        mail_parts.simps prod.case fst_conv option.map bind_res_simps)
qed

section \<open>The agent's own mail\<close>

lemma text_of_plain: "plain_word t \<Longrightarrow> text_of (units t) = t"
  by (rule text_of_ascii) (fastforce simp: plain_word_def ascii_def list_all_iff)

lemma built_item_is_read:
  assumes lib: "mail_lib_ok lib" and b: "mail_ok b" and built: "build_message b = Inr text'"
    and it: "ei_lines it = map strip_cr (split_units_at 10 (units text'))" "ei_fetched it = None"
  shows "\<exists>r. read_item p lib c s it = Inr (Read_Mail r) \<and> rm_headers r = built_headers_of lib b
     \<and> rm_conversation r = em_account c @ '':'' @ hd (bm_references b)
     \<and> rm_message_id r = em_account c @ '':'' @ hd (bm_references b) @ '':'' @ bm_message_id b
     \<and> rm_platform_id r = bm_message_id b \<and> rm_kind r = ''message'' \<and> rm_revision r = 0
     \<and> rm_body r = text_back (bm_body b) \<and> rm_attachments r = []"
proof -
  have words: "plain_word (bm_message_id b)" "plain_word (hd (bm_references b))"
    using b by (auto simp: mail_ok_def list_all_iff)
  from built have "text' = join [CHR 0x0D, CHR 0x0A] (mail_lines b)"
    by (simp add: build_message_def split: if_splits)
  moreover have "mail_lines b \<noteq> []" by (simp add: mail_lines_def)
  ultimately have "ei_lines it = map units (mail_lines b)"
    using it(1) wire_lines_back [OF mail_lines_printable [OF b]] by simp
  then have "mail_read p lib c it
      = Inr \<lparr>mm_headers = built_headers_of lib b, mm_body = text_back (bm_body b), mm_attachments = []\<rparr>"
    by (simp only: mail_read_def built_mail_is_read [OF lib b] option.case)
  then have "read_item p lib c s it = Inr (Read_Mail (readable_of p c s it
      \<lparr>mm_headers = built_headers_of lib b, mm_body = text_back (bm_body b), mm_attachments = []\<rparr> (units (bm_message_id b))))"
    using read_off_headers(1) [OF lib b] by (simp add: read_item_readable)
  then show ?thesis
    using read_off_headers [OF lib b] words it(2)
    by (simp add: readable_of_def Let_def text_of_plain ids_in.simps(1) first_of_def)
qed

lemma take_units_prefix: "ascii a \<Longrightarrow> take_units (length a) (a @ t) = a"
proof (induction a)
  case Nil
  then show ?case by (cases t) (auto simp: Let_def)
qed (simp add: char_bytes_def Let_def)

lemma root_of_conversation:
  "ascii acct \<Longrightarrow> drop_units (js_length acct + 1) (acct @ '':'' @ root) = root"
  using take_units_prefix [of "acct @ '':''" root] by (simp add: drop_units_def)

text \<open>C39. A part the agent sent, when it comes back: it is read as the agent's own, under the id the send reported,
  in the conversation of the message it answered, as a message of its own with the text of the part and
  nothing attached.\<close>

theorem sent_mail_comes_back:
  assumes lib: "mail_lib_ok lib" and mail: "b = part_mail env c target hs recipients rid whole i part" "mail_ok b"
    and sent: "build_message b = Inr text'" "ei_lines it = map strip_cr (split_units_at 10 (units text'))" "ei_fetched it = None"
    and target: "account target = em_account c" "conversation_id target = em_account c @ '':'' @ root"
    and declared: "declared_addresses lib c = Inr declared"
  shows "\<exists>r. read_item p lib c s it = Inr (Read_Mail r) \<and> mail_our_own p lib s declared r
     \<and> rm_conversation r = conversation_id target \<and> rm_platform_id r = part_message_id env c rid i
     \<and> rm_kind r = ''message'' \<and> rm_body r = text_back part \<and> rm_attachments r = []"
proof -
  have own: "bm_from b = em_account c" "bm_message_id b = part_message_id env c rid i" "bm_body b = part"
    by (simp_all add: mail(1) part_mail_def)
  have from_b: "plain_word (em_account c)" using mail(2) own(1) by (simp add: mail_ok_def)
  then have asc: "ascii (em_account c)" "em_account c \<noteq> []"
    by (fastforce simp: plain_word_def ascii_def list_all_iff)+
  have "hd (bm_references b) = root"
    using root_of_conversation [OF asc(1), of root] target by (simp add: mail(1) part_mail_def references_for_def)
  moreover obtain r where r: "read_item p lib c s it = Inr (Read_Mail r)" "rm_headers r = built_headers_of lib b"
    "rm_conversation r = em_account c @ '':'' @ hd (bm_references b)" "rm_platform_id r = bm_message_id b"
    "rm_kind r = ''message''" "rm_body r = text_back (bm_body b)" "rm_attachments r = []"
    using built_item_is_read [OF lib mail(2) sent, of p c s] by blast
  moreover have "map ascii_lower (units (em_account c)) \<in> set declared"
  proof -
    have "utf16 (em_account c) = units (em_account c)" using asc(1) by (rule utf16_ascii)
    moreover have "list_all (\<lambda>u. u < 128) (units (em_account c))" using asc(1) by (simp add: ascii_def list_all_iff)
    ultimately have "lowered lib (JStr (em_account c)) = Inr (map ascii_lower (units (em_account c)))"
      by (simp add: lowered_def lower_ascii [OF lib])
    with declared asc(2) show ?thesis by (auto simp: declared_addresses_def split: sum.splits)
  qed
  ultimately show ?thesis
    using read_off_headers(3,4) [OF lib mail(2)] own target(2) by (auto simp: mail_our_own_def)
qed

end
