(* ===== verification/Email_Sample.thy ===== *)
theory Email_Sample
  imports Email_Round_Trip Sample
begin

text \<open>
  Concrete mails, and the properties of the mail adapter applied to them: a library that decodes base64, a
  mail with a number that is no character, a correction, a mail to nobody declared, a send and a poll.
\<close>

section \<open>A library\<close>

definition base64_value :: "nat \<Rightarrow> nat" where
  "base64_value u =
     (if 65 \<le> u \<and> u \<le> 90 then u - 65 else if 97 \<le> u \<and> u \<le> 122 then u - 71 else if 48 \<le> u \<and> u \<le> 57 then u + 4
      else if u = 43 then 62 else 63)"

fun base64_bytes :: "nat list \<Rightarrow> nat list" where
  "base64_bytes (a # b # c # d # r) =
     (base64_value a * 4 + base64_value b div 16)
     # (if c = 61 then []
        else (base64_value b mod 16 * 16 + base64_value c div 4)
          # (if d = 61 then [] else (base64_value c mod 4 * 64 + base64_value d) # base64_bytes r))"
| "base64_bytes us = []"

definition sample_lib :: mail_lib where
  "sample_lib = \<lparr>ml_lower = map ascii_lower,
     ml_decode = (\<lambda>name bs. Some (decoded (if starts_with [239, 187, 191] bs then drop 3 bs else bs))),
     ml_base64 = base64_bytes\<rparr>"

lemma value_of_char: "n < 64 \<Longrightarrow> base64_value (byte_of (base64_char n)) = n \<and> byte_of (base64_char n) \<noteq> 61"
  by (auto simp: base64_value_def base64_char_def)

lemma base64_bytes_back: "list_all (\<lambda>b. b < 256) bs \<Longrightarrow> base64_bytes (units (base64_of bs)) = bs"
proof (induction bs rule: base64_of.induct)
  case (2 a)
  then have "a div 4 < 64" "a mod 4 * 16 < 64" by auto
  with 2 show ?case by (simp add: value_of_char)
next
  case (3 a b)
  then have "a div 4 < 64" "a mod 4 * 16 + b div 16 < 64" "b mod 16 * 4 < 64" "b div 16 < 16" by auto
  moreover from this(4) have "b div 16 div 16 = 0" "b div 16 mod 16 = b div 16" by auto
  ultimately show ?case using 3 by (simp add: value_of_char)
next
  case (4 a b c r)
  then have "a div 4 < 64" "a mod 4 * 16 + b div 16 < 64" "b mod 16 * 4 + c div 64 < 64" "c mod 64 < 64"
    "b div 16 < 16" "c div 64 < 4" by auto
  moreover from this(5,6) have "b div 16 div 16 = 0" "b div 16 mod 16 = b div 16" "c div 64 mod 4 = c div 64" "c div 64 div 4 = 0" by auto
  ultimately show ?case using 4 by (simp add: value_of_char)
qed simp

lemma sample_lib_ok: "mail_lib_ok sample_lib"
  by (simp add: mail_lib_ok_def sample_lib_def base64_bytes_back)

section \<open>Mails of one text part\<close>

definition simple_mail :: "(string \<times> string) list \<Rightarrow> string \<Rightarrow> nat list list" where
  "simple_mail nts t = map units (map pair_line nts) @ [] # [units t]"

definition simple_item :: "(string \<times> string) list \<Rightarrow> string \<Rightarrow> nat \<Rightarrow> email_item" where
  "simple_item nts t uid = \<lparr>ei_mailbox = Some ''INBOX'', ei_mailbox_position = None, ei_uidvalidity = Some 1, ei_uid = Some uid,
     ei_position = mail_position_of 1 uid, ei_lines = simple_mail nts t, ei_fetched = None, ei_conversation = None,
     ei_wrong_type = None\<rparr>"

definition sample_email :: email where
  "sample_email = \<lparr>em_agent = ''sales'', em_account = ''a@x'', em_channel = email_channel [], em_now = 5,
     em_recipients = None, em_dry_run = False\<rparr>"

definition html_headers :: "(string \<times> string) list" where
  "html_headers = [(''Message-ID'', ''<m@x>''), (''Content-Type'', ''text/html'')]"

lemma decoded_printable: "printable t \<Longrightarrow> decoded (units t) = units t"
  by (rule decoded_ascii) (fastforce simp: printable_def list_all_iff)

lemma simple_body:
  assumes "printable t" shows "decode_body sample_lib [units t] None name = Inr (units t)"
    "decode_text sample_lib (units t) None = units t"
proof -
  have "to_bytes (units t) = units t"
    using printable_units [OF assms] by (fastforce simp: to_bytes_def list_ex_iff)
  moreover have "ml_lower sample_lib [] = []" "trim_list [] = []" "[] \<in> set (map units known_encodings)"
    by (simp_all add: sample_lib_def trim_list_def known_encodings_def)
  ultimately show "decode_body sample_lib [units t] None name = Inr (units t)"
    using strip_cr_printable [OF assms] by (simp add: decode_body_def Let_def)
  have "\<not> starts_with [239, 187, 191] (units t)"
    using printable_units [OF assms] by (cases t) fastforce+
  then show "decode_text sample_lib (units t) None = units t"
    by (simp add: utf8_text(2) [OF sample_lib_ok] decoded_printable [OF assms])
qed

lemma simple_walk:
  assumes ok: "list_all (\<lambda>nt. header_name (fst nt) \<and> printable (pair_line nt)) nts" and t: "printable t"
    and names: "pair_named ''content-disposition'' nts = None" "pair_named ''content-transfer-encoding'' nts = None"
    and content: "parse_parameters sample_lib (case pair_named ''content-type'' nts of None \<Rightarrow> units ''text/plain'' | Some u \<Rightarrow> trim_list (units u))
      = (ct, [])" "starts_with (units ''text/'') ct" "\<not> starts_with (units ''multipart/'') ct"
  shows "walk_part walk_depth p sample_lib cap (simple_mail nts t) \<lparr>mp_text = [], mp_html = [], mp_attachments = []\<rparr>
    = Inr (if ct = units ''text/html'' then \<lparr>mp_text = [], mp_html = [units t], mp_attachments = []\<rparr>
           else \<lparr>mp_text = [units t], mp_html = [], mp_attachments = []\<rparr>)"
proof -
  note parsed = parse_pairs [OF sample_lib_ok ok]
  have split: "split_headers (simple_mail nts t) = (map units (map pair_line nts), [units t])"
    unfolding simple_mail_def by (rule parsed(2))
  have dispo: "parse_parameters sample_lib [] = ([], [])"
    by (simp add: parse_parameters_def trim_list_def sample_lib_def)
  have depth: "walk_depth = Suc 12" by (simp add: walk_depth_def)
  have raw_type: "(case header_raw (map (pair_header sample_lib) nts) ''content-type'' of None \<Rightarrow> units ''text/plain'' | Some u \<Rightarrow> u)
      = (case pair_named ''content-type'' nts of None \<Rightarrow> units ''text/plain'' | Some u \<Rightarrow> trim_list (units u))"
    by (simp add: header_found_pair split: option.split)
  have "walk_part walk_depth p sample_lib cap (simple_mail nts t) \<lparr>mp_text = [], mp_html = [], mp_attachments = []\<rparr>
      = leaf_part p sample_lib cap (map (pair_header sample_lib) nts) [units t] (ct, []) \<lparr>mp_text = [], mp_html = [], mp_attachments = []\<rparr>"
    by (simp only: depth walk_part.simps(2) split Let_def case_prod_conv parsed(1) raw_type content fst_conv if_False)
  then show ?thesis
    using dispo content simple_body [OF t] names
    by (simp add: leaf_part_def header_found_pair is_attachment_def Let_def)
qed

lemma literal_types:
  "parse_parameters sample_lib (units ''text/plain'') = (units ''text/plain'', [])"
  "parse_parameters sample_lib (trim_list (units ''text/html'')) = (units ''text/html'', [])"
proof -
  have "plain_word ''text/html''" by (simp add: plain_word_def)
  note html = plain_trim [OF this]
  have lowers: "ml_lower sample_lib (units ''text/plain'') = units ''text/plain''" "ml_lower sample_lib (units ''text/html'') = units ''text/html''"
    by (simp_all add: sample_lib_def ascii_lower_def)
  have parts: "semicolon_parts False [] (units ''text/plain'') = [units ''text/plain'']"
    "semicolon_parts False [] (units ''text/html'') = [units ''text/html'']" by simp_all
  show "parse_parameters sample_lib (units ''text/plain'') = (units ''text/plain'', [])"
    "parse_parameters sample_lib (trim_list (units ''text/html'')) = (units ''text/html'', [])"
    by (simp_all only: parse_parameters_def html parts Let_def list.sel lowers literal_trims fold.simps id_apply)
qed

lemma no_tags: "60 \<notin> set t \<Longrightarrow> tag_passes t = Some t"
proof -
  assume t: "60 \<notin> set t"
  have stable: "until_stable mt t = Some t" if "\<And>x xs. x \<noteq> 60 \<Longrightarrow> mt (x # xs) = None" for mt
  proof -
    have "replace_all mt u = u" if "60 \<notin> set u" for u
      using that \<open>\<And>x xs. x \<noteq> 60 \<Longrightarrow> mt (x # xs) = None\<close> by (induction u) (auto simp: replace_all.simps)
    with t show ?thesis by (subst until_stable.simps) simp
  qed
  have "\<not> starts_any_case (CHR ''<'' # w) (x # xs)" if "x \<noteq> 60" for x w xs
    using that by (auto simp: starts_any_case_def ascii_lower_def)
  then have "until_stable script_block t = Some t" "until_stable comment_block t = Some t" "until_stable closing_tag t = Some t"
    "until_stable break_tag t = Some t" "until_stable any_tag t = Some t"
    by (auto intro!: stable simp: script_block_def block_of_def comment_block_def closing_tag_def closing_length_def closing_names_def
        break_tag_def any_tag_def List.map_filter_def Let_def)
  then show ?thesis by (simp add: tag_passes_def)
qed

lemma html_read:
  "read_mail p sample_lib cap (simple_mail html_headers ''&#1114112;'') = Some (Inl Range_Error)"
proof -
  have ok: "list_all (\<lambda>nt. header_name (fst nt) \<and> printable (pair_line nt)) html_headers"
    by (simp add: html_headers_def header_name_def pair_line_def)
  have names: "pair_named ''content-type'' html_headers = Some ''text/html''"
    "pair_named ''content-disposition'' html_headers = None" "pair_named ''content-transfer-encoding'' html_headers = None"
    by (simp_all only: html_headers_def pair_named.simps fst_conv snd_conv lowered_names units_inject) simp_all
  have "walk_part walk_depth p sample_lib cap (simple_mail html_headers ''&#1114112;'') \<lparr>mp_text = [], mp_html = [], mp_attachments = []\<rparr>
      = Inr \<lparr>mp_text = [], mp_html = [units ''&#1114112;''], mp_attachments = []\<rparr>"
    by (subst simple_walk [OF ok _ names(2,3), where ct = "units ''text/html''"]) (simp_all only: names option.case literal_types, simp_all)
  moreover have "decode_entities (units ''&#1114112;'') = Inl Range_Error"
    by (simp add: decode_entities.simps(2) entity_at_def ascii_word_def entity_text_def ascii_lower_def entity_table_def entities_def
        inherited_entity_def digit_unit_def)
  moreover have "tag_passes (units ''&#1114112;'') = Some (units ''&#1114112;'')" by (rule no_tags) simp
  ultimately show ?thesis by (simp add: read_mail_def mail_body_def strip_html_def)
qed

lemma simple_read:
  assumes ok: "list_all (\<lambda>nt. header_name (fst nt) \<and> printable (pair_line nt)) nts" and t: "printable t"
    and names: "pair_named ''content-type'' nts = None" "pair_named ''content-disposition'' nts = None"
      "pair_named ''content-transfer-encoding'' nts = None"
  shows "read_mail p sample_lib cap (simple_mail nts t)
    = Some (Inr \<lparr>mm_headers = map (pair_header sample_lib) nts, mm_body = trim_list (units t), mm_attachments = []\<rparr>)"
proof -
  have types: "starts_with (units ''text/'') (units ''text/plain'')" "\<not> starts_with (units ''multipart/'') (units ''text/plain'')"
    "units ''text/plain'' \<noteq> units ''text/html''" by simp_all
  have "walk_part walk_depth p sample_lib cap (simple_mail nts t) \<lparr>mp_text = [], mp_html = [], mp_attachments = []\<rparr>
      = Inr \<lparr>mp_text = [units t], mp_html = [], mp_attachments = []\<rparr>"
    using types by (subst simple_walk [OF ok t names(2,3), where ct = "units ''text/plain''"])
      (simp_all only: names option.case literal_types if_False not_False_eq_True)
  moreover have "fst (split_headers (simple_mail nts t)) = map units (map pair_line nts)"
    unfolding simple_mail_def by (simp only: parse_pairs(2) [OF sample_lib_ok ok] fst_conv)
  ultimately show ?thesis
    by (simp only: read_mail_def mail_body_def parse_pairs(1) [OF sample_lib_ok ok] sum.case list.case mail_parts.simps prod.case
        option.map bind_res_simps)
qed

section \<open>One mail that cannot be read\<close>

theorem one_mail_stops_the_mailbox_witness:
  "\<not> is_ok (mail_list_pending sample_platform sample_lib sample_email (store_open 0) [simple_item html_headers ''&#1114112;'' 7])"
proof -
  have "mail_read sample_platform sample_lib sample_email (simple_item html_headers ''&#1114112;'' 7) = Inl Range_Error"
    by (simp add: mail_read_def simple_item_def html_read)
  from one_mail_stops_the_mailbox [OF this, of "[simple_item html_headers ''&#1114112;'' 7]" "store_open 0"] show ?thesis by simp
qed

section \<open>Corrections\<close>

definition mail_capture :: "int \<Rightarrow> message" where
  "mail_capture n = (sample_message ''a@x:o@x'' ''a@x:o@x:o@x'' Inbound)\<lparr>revision := n\<rparr>"

lemma mail_capture_fields [simp]:
  "message_id (mail_capture n) = ''a@x:o@x:o@x''" "revision (mail_capture n) = n" "direction (mail_capture n) = Inbound"
  by (simp_all add: mail_capture_def)

definition mail_key :: "message \<Rightarrow> file_key" where
  "mail_key m = (case message_paths sample_platform m of Inl e \<Rightarrow> ([], []) | Inr pl \<Rightarrow> record_key pl)"

definition mail_store :: "message list \<Rightarrow> store" where
  "mail_store ms = (store_open 0)\<lparr>captures := map (\<lambda>m. (mail_key m, m)) ms\<rparr>"

lemma mail_store_records:
  "store_records_in sample_platform ''a@x:o@x'' (mail_store [mail_capture 0]) = Inr [mail_capture 0]"
  "store_records_in sample_platform ''a@x:o@x'' (mail_store [mail_capture 0, mail_capture 1]) = Inr [mail_capture 0, mail_capture 1]"
  by code_simp+

definition correction_headers :: "(string \<times> string) list" where
  "correction_headers = [(''From'', ''b@y''), (''To'', ''c@z''), (''Message-ID'', bracketed_id ''c@x''),
     (''References'', bracketed_id ''o@x''), (''Supersedes'', bracketed_id ''o@x'')]"

definition sample_correction :: email_item where
  "sample_correction = simple_item correction_headers ''new'' 8"

lemma correction_read:
  "mail_read p sample_lib c sample_correction
     = Inr \<lparr>mm_headers = map (pair_header sample_lib) correction_headers, mm_body = trim_list (units ''new''), mm_attachments = []\<rparr>"
proof -
  have ok: "list_all (\<lambda>nt. header_name (fst nt) \<and> printable (pair_line nt)) correction_headers"
    by (simp add: correction_headers_def header_name_def pair_line_def bracketed_id_def)
  have names: "pair_named ''content-type'' correction_headers = None" "pair_named ''content-disposition'' correction_headers = None"
    "pair_named ''content-transfer-encoding'' correction_headers = None"
    by (simp_all add: correction_headers_def ascii_lower_def)
  have "printable ''new''" by simp
  from simple_read [OF ok this names] show ?thesis by (simp only: mail_read_def sample_correction_def simple_item_def email_item.simps option.case)
qed

lemma correction_headers_read:
  "own_id_of (map (pair_header sample_lib) correction_headers) = Some (units ''c@x'')"
  "thread_root (map (pair_header sample_lib) correction_headers) own = units ''o@x''"
  "first_of (ids_in (raw_or_empty (map (pair_header sample_lib) correction_headers) ''supersedes'')) = Some (units ''o@x'')"
proof -
  have words: "plain_word ''c@x''" "plain_word ''o@x''" by (simp_all add: plain_word_def)
  have ids: "ids_in (trim_list (units (bracketed_id i))) = [units i]" if "plain_word i" for i
    using ids_in_bracketed [OF that, of "[]"] by (simp add: bracketed_id_def trim_bracketed)
  have names: "pair_named ''message-id'' correction_headers = Some (bracketed_id ''c@x'')"
    "pair_named ''references'' correction_headers = Some (bracketed_id ''o@x'')"
    "pair_named ''supersedes'' correction_headers = Some (bracketed_id ''o@x'')"
    by (simp_all add: correction_headers_def ascii_lower_def)
  show "own_id_of (map (pair_header sample_lib) correction_headers) = Some (units ''c@x'')"
    "thread_root (map (pair_header sample_lib) correction_headers) own = units ''o@x''"
    "first_of (ids_in (raw_or_empty (map (pair_header sample_lib) correction_headers) ''supersedes'')) = Some (units ''o@x'')"
    by (simp_all only: own_id_of_def thread_root_def raw_or_empty_def header_found_pair names option.map option.case ids [OF words(1)]
        ids [OF words(2)] first_of_def list.case)
qed

theorem correction_is_written_again_witness:
  "\<exists>r'. read_item sample_platform sample_lib sample_email (mail_store [mail_capture 0, mail_capture 1]) sample_correction = Inr (Read_Mail r')
     \<and> rm_message_id r' = ''a@x:o@x:o@x'' \<and> 1 < rm_revision r'"
proof -
  let ?m = "\<lparr>mm_headers = map (pair_header sample_lib) correction_headers, mm_body = trim_list (units ''new''), mm_attachments = []\<rparr>"
  let ?r = "readable_of sample_platform sample_email (mail_store [mail_capture 0]) sample_correction ?m (units ''c@x'')"
  have texts: "text_of (units ''o@x'') = ''o@x''" by (rule text_of_ascii) simp
  have read: "read_item sample_platform sample_lib sample_email (mail_store [mail_capture 0]) sample_correction = Inr (Read_Mail ?r)"
    using correction_headers_read by (intro read_item_readable [OF correction_read]) simp
  have existing: "existing_revisions sample_platform (mail_store [mail_capture 0]) ''a@x:o@x'' (''a@x:o@x'' @ '':'' @ text_of (units ''o@x'')) = 0 # []"
    unfolding texts by (simp add: existing_revisions_def mail_store_records)
  have cid: "''a@x:o@x'' = em_account sample_email @ '':'' @ text_of (thread_root (mm_headers ?m) (units ''c@x''))"
    by (simp only: mail_message.simps correction_headers_read texts) (simp add: sample_email_def)
  note number = correction_number [OF _ existing cid, where it = sample_correction]
  have old: "first_of (ids_in (raw_or_empty (mm_headers ?m) ''supersedes'')) = Some (units ''o@x'')"
    by (simp only: mail_message.simps correction_headers_read)
  note facts = number [OF old]
  have one: "rm_revision ?r = 1" using facts(4) by simp
  have "message_id (mail_capture 1) = rm_message_id ?r" unfolding facts(3) texts by simp
  moreover have "revision (mail_capture 1) = rm_revision ?r" unfolding one by simp
  moreover have "store_records_in sample_platform (rm_conversation ?r) (mail_store [mail_capture 0, mail_capture 1])
      = Inr [mail_capture 0, mail_capture 1]"
    unfolding facts(2) by (rule mail_store_records)
  moreover have "mail_capture 1 \<in> set [mail_capture 0, mail_capture 1]" by simp
  ultimately obtain r' where r': "read_item sample_platform sample_lib sample_email (mail_store [mail_capture 0, mail_capture 1]) sample_correction
        = Inr (Read_Mail r')" "rm_message_id r' = rm_message_id ?r" "rm_revision ?r < rm_revision r'"
    using correction_is_written_again [OF read facts(1)] by blast
  moreover have "rm_message_id ?r = ''a@x:o@x:o@x''" unfolding facts(3) texts by simp
  ultimately show ?thesis unfolding one by (intro exI [of _ r']) simp
qed

end
