(* ===== verification/Email_Send_Sample.thy ===== *)
theory Email_Send_Sample
  imports Email_Sample
begin

text \<open>
  Concrete sends and polls of a mailbox: a reply that is accepted, one to a mail that named nobody declared,
  bodies cut into parts, the mail that comes back, and a poll that finds one new mail.
\<close>

section \<open>Sending\<close>

definition accepting_env :: mail_env where
  "accepting_env = \<lparr>me_curl = (\<lambda>made x. Some \<lparr>cr_code = 0, cr_timed_out = False, cr_stdout = []\<rparr>), me_random = (\<lambda>i. ''r''),
     me_utc = (\<lambda>t. ''date''), me_binary = ''curl'', me_temp = (\<lambda>i. ''part.eml'')\<rparr>"

definition mail_reply :: message where
  "mail_reply = (sample_message ''a@x:o@x'' ''r'' Outbound)\<lparr>delivery := Some (sample_delivery ''q'')\<rparr>"

lemma mail_reply_fields [simp]:
  "conversation_id mail_reply = ''a@x:o@x''" "reply_to mail_reply = None" "body mail_reply = ''hello''"
  by (simp_all add: mail_reply_def sample_message_def)

lemma mail_capture_more [simp]:
  "raw (mail_capture n) = None" "sender_id (mail_capture n) = ''alice''" "disposition (mail_capture n) = Captured"
  by (simp_all add: mail_capture_def sample_message_def)

lemma sample_target: "mail_reply_target sample_platform (mail_store [mail_capture 0]) mail_reply = Inr (mail_capture 0)"
  by (simp add: mail_reply_target_def mail_store_records)

lemma sample_split: "mail_split_body (max_part_bytes sample_email) (body mail_reply) = Some [''hello'']"
  by (simp add: mail_split_body_def max_part_bytes_def whole_number_def sample_email_def email_channel_def email_defaults_def
      members_of_def)

lemma sample_sent:
  "\<exists>ids made. mail_send sample_platform sample_lib accepting_env sample_email (mail_store [mail_capture 0]) mail_reply
     = Some (Inr (''sent'', ids), made)"
proof -
  have security: "string_of sample_platform (map_of (em_channel sample_email) ''smtp_security'') = ''implicit''"
    by (simp add: string_of_def sample_email_def email_channel_def email_defaults_def members_of_def)
  have headers: "inbound_headers sample_platform sample_lib (mail_store [mail_capture 0]) (mail_capture 0) = []"
    by (simp add: inbound_headers_def)
  have one: "\<exists>st made'. send_message sample_platform accepting_env sample_email rs path mime made = (Inr ''sent'', made')" for rs path mime made
    by (simp add: send_message_def security smtp_security_def run_curl_def accepting_env_def bind_op_def ret_op_def)
  have parts: "\<exists>ids made'. send_parts sample_platform accepting_env sample_email f rs i [b] ids0 made = (Inr (''sent'', ids), made')"
    if "\<And>i b. bm_origin (f i b) \<noteq> []" for f rs i b ids0 made
    using one [of rs "me_temp accepting_env i" "join [CHR 0x0D, CHR 0x0A] (mail_lines (f i b))" made] that
    by (auto simp: bind_op_def read_op_def build_message_def Let_def ret_op_def sample_email_def)
  have recipients: "em_recipients sample_email = None" "reply_recipients sample_lib (mail_capture 0) [] = [''alice'']"
    by (simp_all add: sample_email_def reply_recipients_def raw_or_empty_def header_raw_def header_found_def addresses_in_def
        List.map_filter_def address_in_def trim_list_def)
  show ?thesis
    using parts [of "part_mail accepting_env sample_email (mail_capture 0) [] [''alice''] (delivery_request mail_reply) (length [''hello''])"
        "[''alice'']" 0 "''hello''" "[]" "[]"]
    by (simp add: mail_send_def sample_target headers recipients sample_split [unfolded mail_reply_fields] part_mail_def Let_def)
qed



theorem lines_that_fit_are_kept_witness:
  "\<exists>ps. mail_split_body 3 (''ab'' @ CHR 0x0A # ''cd'') = Some ps \<and> list_all (\<lambda>part. length part \<le> 3) ps"
  using lines_that_fit_are_kept [of 3 "''ab'' @ CHR 0x0A # ''cd''"] by auto

section \<open>A mail to nobody declared\<close>

definition dropped_capture :: message where
  "dropped_capture = (mail_capture 0)\<lparr>disposition := Policy_Drop\<rparr>"

lemma dropped_records: "store_records_in sample_platform ''a@x:o@x'' (mail_store [dropped_capture]) = Inr [dropped_capture]"
  by code_simp

lemma dropped_target: "mail_reply_target sample_platform (mail_store [dropped_capture]) mail_reply = Inr dropped_capture"
  by (simp add: mail_reply_target_def dropped_records) (simp add: dropped_capture_def)

lemma sample_declared: "declared_addresses sample_lib sample_email = Inr [units ''a@x'']"
  by (simp add: declared_addresses_def lowered_def sample_email_def sample_lib_def email_channel_def email_defaults_def
      members_of_def utf16_ascii ascii_lower_def)


section \<open>The mail that comes back\<close>

definition answered_mail :: message where
  "answered_mail = (mail_capture 0)\<lparr>account := ''a@x'', platform_message_id := ''o@x''\<rparr>"

definition sample_part :: built_mail where
  "sample_part = part_mail accepting_env sample_email answered_mail [] [''b@y''] ''q'' 1 0 ''hello''"

lemma sample_part_ok: "mail_ok sample_part"
proof -
  have "references_for answered_mail = [''o@x'']"
    using root_of_conversation [of "''a@x''" "''o@x''"] by (simp add: references_for_def answered_mail_def mail_capture_def sample_message_def)
  moreover have "char_of (49 :: nat) = CHR ''1''" by code_simp
  then have "part_message_id accepting_env sample_email ''q'' 0 = ''carbon.q.1.r@x''"
    by (simp add: part_message_id_def accepting_env_def domain_of_def sample_email_def show_nat.simps digit_char_def)
  ultimately show ?thesis
    by (simp add: sample_part_def part_mail_def mail_ok_def plain_word_def answered_mail_def)
      (simp add: sample_email_def accepting_env_def)
qed

theorem sent_mail_comes_back_witness:
  "\<exists>it r. read_item sample_platform sample_lib sample_email (store_open 0) it = Inr (Read_Mail r)
     \<and> mail_our_own sample_platform sample_lib (store_open 0) [units ''a@x''] r \<and> rm_conversation r = ''a@x:o@x''"
proof -
  define text' where "text' = join [CHR 0x0D, CHR 0x0A] (mail_lines sample_part)"
  define it where "it = sample_correction\<lparr>ei_lines := map strip_cr (split_units_at 10 (units text'))\<rparr>"
  have "build_message sample_part = Inr text'"
    by (simp add: build_message_def text'_def) (simp add: sample_part_def part_mail_def)
  moreover have "ei_lines it = map strip_cr (split_units_at 10 (units text'))" "ei_fetched it = None"
    by (simp_all add: it_def sample_correction_def simple_item_def)
  moreover have "account answered_mail = em_account sample_email" "conversation_id answered_mail = em_account sample_email @ '':'' @ ''o@x''"
    by (simp_all add: answered_mail_def sample_email_def mail_capture_def)
  ultimately have "\<exists>r. read_item sample_platform sample_lib sample_email (store_open 0) it = Inr (Read_Mail r)
      \<and> mail_our_own sample_platform sample_lib (store_open 0) [units ''a@x''] r \<and> rm_conversation r = conversation_id answered_mail"
    using sent_mail_comes_back [OF sample_lib_ok sample_part_def sample_part_ok _ _ _ _ _ sample_declared] by blast
  then show ?thesis by (auto simp: answered_mail_def mail_capture_def)
qed

section \<open>A poll\<close>

text \<open>curl answers by the number of calls made: the status, the search, the unread ones, the mail, the flag.\<close>

definition polled_output :: "nat \<Rightarrow> nat list" where
  "polled_output n = (if n = 0 then units ''UIDVALIDITY 1'' else if n = 1 then units ''* SEARCH 7'' else if n = 3 then [10] else [])"

definition polling_env :: mail_env where
  "polling_env = accepting_env\<lparr>me_curl := (\<lambda>made x. Some \<lparr>cr_code = 0, cr_timed_out = False, cr_stdout = polled_output (length made)\<rparr>)\<rparr>"

definition polled_store :: store where
  "polled_store = snd (store_advance_cursor sample_platform (poll_watermark_conversation sample_email (mailbox_of sample_email)) ''message''
     (mail_position_of 1 5) (store_open 0))"

lemma polled_cursors:
  "store_cursors sample_platform (poll_watermark_conversation sample_email (mailbox_of sample_email)) polled_store
     = Inr \<lparr>cur_message = Some (mail_position_of 1 5), cur_revision = None\<rparr>"
  by code_simp

lemma polling_curl: "me_curl polling_env made x = Some \<lparr>cr_code = 0, cr_timed_out = False, cr_stdout = polled_output (length made)\<rparr>"
  by (simp add: polling_env_def)

lemma polling_reads: "read_or_throw polling_env args subj op0 made = (Inr (polled_output (length made)), made @ [(args, [])])"
  by (simp add: read_or_throw_def bind_op_def on_curl_def run_curl_def polling_curl ret_op_def)

theorem poll_reads_past_the_watermark_witness:
  "\<exists>r made' found. mail_poll sample_platform (\<lambda>t. None) sample_lib polling_env sample_email polled_store [] = (Inr r, made')
     \<and> search_answered sample_platform polling_env sample_email 6 found
     \<and> map ei_position (mp_items r) = map (mail_position_of 1) (sort (filter (\<lambda>n. 5 < n) found))"
proof -
  have outputs: "number_after ''UIDVALIDITY '' (polled_output 0) = Some 1" "search_numbers (polled_output 1) = [7]"
    "search_numbers (polled_output 2) = []" "map strip_cr (split_units_at 10 (polled_output 3)) = simple_mail [] []"
    by (simp_all add: polled_output_def digit_unit_def search_numbers_def wire_lines_def numbers_in_def search_rest_def starts_any_case_def
        ascii_lower_def js_space_def ascii_word_def trim_list_def strip_cr_def simple_mail_def)
  let ?it = "\<lparr>ei_mailbox = Some (mailbox_of sample_email), ei_mailbox_position = None, ei_uidvalidity = Some 1, ei_uid = Some 7,
     ei_position = mail_position_of 1 7, ei_lines = simple_mail [] [], ei_fetched = None, ei_conversation = None, ei_wrong_type = None\<rparr>"
  have "mail_read sample_platform sample_lib sample_email ?it = Inr \<lparr>mm_headers = [], mm_body = trim_list [], mm_attachments = []\<rparr>"
    using simple_read [of "[]" "[]" sample_platform "mail_cap sample_email"] by (simp add: mail_read_def)
  then obtain it where it: "placed_item sample_platform sample_lib sample_email polled_store ?it = Inr it" "ei_position it = mail_position_of 1 7"
    by (auto simp: placed_item_def read_item_def own_id_of_def raw_or_empty_def header_raw_def header_found_def first_of_def)
  have from_u: "poll_from (\<lambda>t. None) (mailbox_of sample_email) (Some (mail_position_of 1 5)) 1 = Inr (Some 6, False)"
    by (simp add: poll_from_position)
  let ?mb = "mailbox_of sample_email"
  have "\<exists>live m1. initial_status (status_attempts - 1) sample_platform polling_env sample_email ?mb [] = (Inr live, m1)
      \<and> mb_uidvalidity live = 1 \<and> length m1 = 1"
    using outputs(1) by (simp add: status_attempts_def numeral_2_eq_2 mail_status_def bind_op_def polling_reads ret_op_def)
  then obtain live m1 where m1: "initial_status (status_attempts - 1) sample_platform polling_env sample_email ?mb [] = (Inr live, m1)"
    "mb_uidvalidity live = 1" "length m1 = 1" by blast
  have "\<exists>m2. search_uids sample_platform polling_env sample_email ?mb (Some 6) m1 = (Inr [7], m2) \<and> length m2 = 2"
    using outputs(2) m1(3) by (simp add: search_uids_def bind_op_def polling_reads ret_op_def)
  then obtain m2 where m2: "search_uids sample_platform polling_env sample_email ?mb (Some 6) m1 = (Inr [7], m2)" "length m2 = 2" by blast
  have "\<exists>m3. unseen_uids sample_platform polling_env sample_email ?mb m2 = (Inr [], m3) \<and> length m3 = 3"
    using outputs(3) m2(2) by (simp add: unseen_uids_def bind_op_def polling_reads ret_op_def)
  then obtain m3 where m3: "unseen_uids sample_platform polling_env sample_email ?mb m2 = (Inr [], m3)" "length m3 = 3" by blast
  have "\<exists>m4. collect_op (fetched_item sample_platform polling_env sample_email ?mb 1) [7] m3 = (Inr [?it], m4)"
    using outputs(4) m3(2) by (simp add: fetched_item_def fetch_message_def bind_op_def polling_reads ret_op_def)
  then obtain m4 where m4: "collect_op (fetched_item sample_platform polling_env sample_email ?mb 1) [7] m3 = (Inr [?it], m4)" by blast
  have placed: "map_res (placed_item sample_platform sample_lib sample_email polled_store) [?it] = Inr [it]"
    by (simp only: map_res.simps it sum.case)
  define r where "r = \<lparr>mp_items = [it], mp_uidvalidity = 1, mp_rescanned = False, mp_from_uid = Some 6, mp_faults = []\<rparr>"
  have poll: "mail_poll sample_platform (\<lambda>t. None) sample_lib polling_env sample_email polled_store [] = (Inr r, m4)"
    unfolding mail_poll_def Let_def bind_op_def lift_res_def polled_cursors sum.case case_prod_conv m1 option.sel cursor_state.simps from_u m2
    by (simp only: list.distinct if_False m3 sum.case case_prod_conv m4 placed) (simp add: restore_unseen_def ret_op_def r_def)
  have "mp_uidvalidity r = 1" by (simp add: r_def)
  with poll_reads_past_the_watermark [OF poll polled_cursors, of 1 5] obtain found
    where "search_answered sample_platform polling_env sample_email 6 found"
      "map ei_position (mp_items r) = map (mail_position_of 1) (sort (filter (\<lambda>n. 5 < n) found))" by auto
  with poll show ?thesis by (intro exI [of _ r] exI [of _ m4] exI [of _ found] conjI)
qed

end
